(* ===== verification/Prelude.thy ===== *)
theory Prelude
  imports Main "HOL-Library.Word"
begin

text \<open>
  Shared vocabulary of the development.

  \<^item> The machine integers of the runtime: \<open>u128\<close> balances, \<open>u32\<close> asset identifiers and block
    numbers and so on are \<open>w word\<close> values; the plain operators wrap (the release build of the
    runtime), and Rust's \<open>checked_*\<close> and \<open>saturating_*\<close> methods are defined here.
  \<^item> Dispatchables and internal functions that touch storage: a \<open>call\<close> takes the storage and
    returns a result and the storage afterwards. The storage is returned on an error too,
    because a failing call keeps the writes it made unless it is \<open>#[transactional]\<close>.
  \<^item> \<open>preserves\<close> and \<open>atomic\<close>: the two judgements that most storage properties are stated
    with, each with one rule per combinator.
  \<^item> Sums over all accounts, used for conservation of assets.
\<close>

named_theorems arith_defs \<open>definitions of the checked and saturating operations\<close>
named_theorems call_defs \<open>definitions of the call combinators\<close>
named_theorems call_eqs \<open>inversion of a call that returned a given result\<close>
named_theorems preserves_rules \<open>invariant preservation, one rule per combinator\<close>
named_theorems atomic_rules \<open>no write before an error, one rule per combinator\<close>

section \<open>Machine integers\<close>

type_synonym u8 = "8 word"
type_synonym u32 = "32 word"
type_synonym u64 = "64 word"
type_synonym u128 = "128 word"
type_synonym u256 = "256 word"

type_synonym balance = u128
type_synonym asset_id = u32
type_synonym block_number = u32
type_synonym account_id = "256 word"
type_synonym bytes = "u8 list"

definition checked_add :: "'a::len word \<Rightarrow> 'a word \<Rightarrow> 'a word option" where
  [arith_defs]: "checked_add a b = (if unat a + unat b < 2 ^ LENGTH('a) then Some (a + b) else None)"

definition checked_sub :: "'a::len word \<Rightarrow> 'a word \<Rightarrow> 'a word option" where
  [arith_defs]: "checked_sub a b = (if b \<le> a then Some (a - b) else None)"

definition checked_mul :: "'a::len word \<Rightarrow> 'a word \<Rightarrow> 'a word option" where
  [arith_defs]: "checked_mul a b = (if unat a * unat b < 2 ^ LENGTH('a) then Some (a * b) else None)"

definition checked_div :: "'a::len word \<Rightarrow> 'a word \<Rightarrow> 'a word option" where
  [arith_defs]: "checked_div a b = (if b = 0 then None else Some (a div b))"

definition checked_pow :: "'a::len word \<Rightarrow> nat \<Rightarrow> 'a word option" where
  [arith_defs]: "checked_pow a n = (if unat a ^ n < 2 ^ LENGTH('a) then Some (a ^ n) else None)"

definition saturating_add :: "'a::len word \<Rightarrow> 'a word \<Rightarrow> 'a word" where
  [arith_defs]: "saturating_add a b = (if unat a + unat b < 2 ^ LENGTH('a) then a + b else - 1)"

definition saturating_sub :: "'a::len word \<Rightarrow> 'a word \<Rightarrow> 'a word" where
  [arith_defs]: "saturating_sub a b = (if b \<le> a then a - b else 0)"

definition saturating_mul :: "'a::len word \<Rightarrow> 'a word \<Rightarrow> 'a word" where
  [arith_defs]: "saturating_mul a b = (if unat a * unat b < 2 ^ LENGTH('a) then a * b else - 1)"

lemma unat_add_fits:
  fixes a b :: "'a::len word"
  shows "unat a + unat b < 2 ^ LENGTH('a) \<Longrightarrow> unat (a + b) = unat a + unat b"
  by (simp add: unat_word_ariths)

lemma unat_mult_fits:
  fixes a b :: "'a::len word"
  shows "unat a * unat b < 2 ^ LENGTH('a) \<Longrightarrow> unat (a * b) = unat a * unat b"
  by (simp add: unat_word_ariths)

lemma unat_sub_fits:
  fixes a b :: "'a::len word"
  shows "b \<le> a \<Longrightarrow> unat (a - b) = unat a - unat b"
  by (rule unat_sub)

lemma uint_sub_fits:
  fixes a b :: "'a::len word"
  shows "b \<le> a \<Longrightarrow> uint (a - b) = uint a - uint b"
  by (metis uint_sub_lem word_le_def)

lemma unat_word_of_nat_less: "n < 2 ^ LENGTH('a) \<Longrightarrow> unat (word_of_nat n :: 'a::len word) = n"
  by (simp add: unsigned_of_nat take_bit_nat_eq_self)

lemma unat_less_pow: "unat (a :: 'a::len word) < 2 ^ LENGTH('a)"
  by (rule unsigned_less)

lemma unat_max: "unat (- 1 :: 'a::len word) = 2 ^ LENGTH('a) - 1"
  by (simp add: unsigned_minus_1_eq_mask mask_eq_exp_minus_1)

lemma unat_next:
  fixes n :: "'a::len word"
  assumes "n \<noteq> - 1"
  shows "unat (n + 1) = Suc (unat n)"
proof -
  have "1 + n \<noteq> 0"
    using assms by (metis add.commute add_eq_0_iff minus_equation_iff)
  then show ?thesis
    using unatSuc [of n] by (simp add: add.commute)
qed

lemma less_next:
  fixes i :: "'a::len word"
  assumes "n \<noteq> - 1"
  shows "n < n + 1" and "i < n \<Longrightarrow> i < n + 1"
  using unat_next [OF assms] by (simp_all add: word_less_nat_alt)

lemma checked_add_Some_iff:
  "checked_add a b = Some (c :: 'a::len word) \<longleftrightarrow> unat c = unat a + unat b"
proof
  assume "checked_add a b = Some c"
  then show "unat c = unat a + unat b"
    by (auto simp: checked_add_def unat_add_fits split: if_splits)
next
  assume eq: "unat c = unat a + unat b"
  then have "unat a + unat b < 2 ^ LENGTH('a)"
    by (metis unat_less_pow)
  moreover from this eq have "c = a + b"
    by (simp add: word_unat_eq_iff unat_add_fits)
  ultimately show "checked_add a b = Some c"
    by (simp add: checked_add_def)
qed

lemma checked_add_None_iff:
  "checked_add a b = None \<longleftrightarrow> 2 ^ LENGTH('a) \<le> unat (a :: 'a::len word) + unat b"
  by (auto simp: checked_add_def)

lemma checked_sub_Some_iff:
  "checked_sub a b = Some (c :: 'a::len word) \<longleftrightarrow> unat a = unat b + unat c"
proof
  assume "checked_sub a b = Some c"
  then show "unat a = unat b + unat c"
    by (auto simp: checked_sub_def unat_sub_fits word_le_nat_alt split: if_splits)
next
  assume eq: "unat a = unat b + unat c"
  then have "b \<le> a" by (simp add: word_le_nat_alt)
  moreover from this eq have "c = a - b"
    by (simp add: word_unat_eq_iff unat_sub_fits)
  ultimately show "checked_sub a b = Some c"
    by (simp add: checked_sub_def)
qed

lemma checked_sub_None_iff: "checked_sub a b = None \<longleftrightarrow> unat a < unat b"
  by (auto simp: checked_sub_def word_le_nat_alt)

lemma checked_succ_less:
  assumes "checked_add a 1 = Some (b :: 'a::len word)"
  shows "a < b" and "b = a + 1"
proof -
  from assms show "b = a + 1" by (simp add: checked_add_def split: if_splits)
  from assms have "unat b = unat a + 1" by (simp add: checked_add_Some_iff)
  then show "a < b" by (simp add: word_less_nat_alt)
qed

lemma checked_mul_Some_iff:
  "checked_mul a b = Some (c :: 'a::len word) \<longleftrightarrow> unat c = unat a * unat b"
proof
  assume "checked_mul a b = Some c"
  then show "unat c = unat a * unat b"
    by (auto simp: checked_mul_def unat_mult_fits split: if_splits)
next
  assume eq: "unat c = unat a * unat b"
  then have "unat a * unat b < 2 ^ LENGTH('a)"
    by (metis unat_less_pow)
  moreover from this eq have "c = a * b"
    by (simp add: word_unat_eq_iff unat_mult_fits)
  ultimately show "checked_mul a b = Some c"
    by (simp add: checked_mul_def)
qed

lemma unat_saturating_add:
  fixes a b :: "'a::len word"
  shows "unat (saturating_add a b) = min (unat a + unat b) (2 ^ LENGTH('a) - 1)"
  by (auto simp: saturating_add_def unat_add_fits unat_max min_def)

lemma unat_saturating_sub:
  fixes a b :: "'a::len word"
  shows "unat (saturating_sub a b) = unat a - unat b"
  by (auto simp: saturating_sub_def unat_sub_fits word_le_nat_alt)

lemma unat_saturating_mul:
  fixes a b :: "'a::len word"
  shows "unat (saturating_mul a b) = min (unat a * unat b) (2 ^ LENGTH('a) - 1)"
proof (cases "unat a * unat b < 2 ^ LENGTH('a)")
  case True
  then have "unat a * unat b \<le> 2 ^ LENGTH('a) - 1" by linarith
  with True show ?thesis by (simp add: saturating_mul_def unat_mult_fits min_absorb1)
next
  case False
  then have "2 ^ LENGTH('a) - 1 \<le> unat a * unat b" by linarith
  with False show ?thesis by (simp add: saturating_mul_def unat_max min_absorb2)
qed

lemma unat_min: "unat (min a b) = min (unat a) (unat (b :: 'a::len word))"
  by (auto simp: min_def word_le_nat_alt)

lemmas checked_iffs =
  checked_add_Some_iff checked_add_None_iff checked_sub_Some_iff checked_sub_None_iff
  checked_mul_Some_iff

lemmas unat_arith_simps =
  unat_saturating_add unat_saturating_sub unat_saturating_mul unat_min

section \<open>Storage maps\<close>

text \<open>
  A storage map with a default value (\<open>ValueQuery\<close>): \<open>get\<close> reads the default where there is no
  entry, \<open>mutate\<close> reads, changes and writes back, so that the key is present afterwards.
\<close>

definition storage_get :: "'v \<Rightarrow> ('k \<rightharpoonup> 'v) \<Rightarrow> 'k \<Rightarrow> 'v" where
  "storage_get d m k = (case m k of None \<Rightarrow> d | Some v \<Rightarrow> v)"

definition storage_mutate :: "'v \<Rightarrow> ('v \<Rightarrow> 'v) \<Rightarrow> 'k \<Rightarrow> ('k \<rightharpoonup> 'v) \<Rightarrow> ('k \<rightharpoonup> 'v)" where
  "storage_mutate d f k m = m(k \<mapsto> f (storage_get d m k))"

lemma storage_get_upd [simp]:
  "storage_get d (m(k \<mapsto> v)) k' = (if k' = k then v else storage_get d m k')"
  by (simp add: storage_get_def)

lemma storage_get_del [simp]:
  "storage_get d (m(k := None)) k' = (if k' = k then d else storage_get d m k')"
  by (simp add: storage_get_def)

lemma storage_get_empty [simp]: "storage_get d Map.empty k = d"
  by (simp add: storage_get_def)

lemma storage_get_mutate [simp]:
  "storage_get d (storage_mutate d f k m) k' =
     (if k' = k then f (storage_get d m k) else storage_get d m k')"
  by (simp add: storage_mutate_def)

section \<open>Calls\<close>

type_synonym ('s, 'e, 'a) call = "'s \<Rightarrow> ('e + 'a) \<times> 's"

definition ret :: "'a \<Rightarrow> ('s, 'e, 'a) call" where
  [call_defs]: "ret x = (\<lambda>s. (Inr x, s))"

definition throw :: "'e \<Rightarrow> ('s, 'e, 'a) call" where
  [call_defs]: "throw e = (\<lambda>s. (Inl e, s))"

definition bind :: "('s, 'e, 'a) call \<Rightarrow> ('a \<Rightarrow> ('s, 'e, 'b) call) \<Rightarrow> ('s, 'e, 'b) call" where
  [call_defs]: "bind m f = (\<lambda>s. case m s of (r, s') \<Rightarrow>
     (case r of Inl e \<Rightarrow> (Inl e, s') | Inr x \<Rightarrow> f x s'))"

definition gets :: "('s \<Rightarrow> 'a) \<Rightarrow> ('s, 'e, 'a) call" where
  [call_defs]: "gets f = (\<lambda>s. (Inr (f s), s))"

definition modify :: "('s \<Rightarrow> 's) \<Rightarrow> ('s, 'e, unit) call" where
  [call_defs]: "modify f = (\<lambda>s. (Inr (), f s))"

text \<open>\<open>ensure!(c, e)\<close>, \<open>v.ok_or(e)?\<close> and \<open>r?\<close> for a result that does not touch storage.\<close>

definition ensure :: "bool \<Rightarrow> 'e \<Rightarrow> ('s, 'e, unit) call" where
  [call_defs]: "ensure c e = (if c then ret () else throw e)"

definition ok_or :: "'a option \<Rightarrow> 'e \<Rightarrow> ('s, 'e, 'a) call" where
  [call_defs]: "ok_or v e = (case v of Some x \<Rightarrow> ret x | None \<Rightarrow> throw e)"

definition try_result :: "('s \<Rightarrow> 'e + 'a) \<Rightarrow> ('s, 'e, 'a) call" where
  [call_defs]: "try_result f = (\<lambda>s. (f s, s))"

text \<open>A function of the storage that returns a value and new storage and cannot fail.\<close>

definition run :: "('s \<Rightarrow> 'a \<times> 's) \<Rightarrow> ('s, 'e, 'a) call" where
  [call_defs]: "run f = (\<lambda>s. case f s of (x, s') \<Rightarrow> (Inr x, s'))"

text \<open>\<open>#[transactional]\<close>: the writes of a failing call are rolled back.\<close>

definition transactional :: "('s, 'e, 'a) call \<Rightarrow> ('s, 'e, 'a) call" where
  [call_defs]: "transactional m = (\<lambda>s. case m s of (r, s') \<Rightarrow>
     (case r of Inl e \<Rightarrow> (Inl e, s) | Inr x \<Rightarrow> (Inr x, s')))"

text \<open>Pure results (\<open>Result<T, E>\<close> without storage writes): the \<open>?\<close> operator.\<close>

definition result_bind :: "'e + 'a \<Rightarrow> ('a \<Rightarrow> 'e + 'b) \<Rightarrow> 'e + 'b" where
  "result_bind r f = (case r of Inl e \<Rightarrow> Inl e | Inr x \<Rightarrow> f x)"

definition result_ok_or :: "'a option \<Rightarrow> 'e \<Rightarrow> 'e + 'a" where
  "result_ok_or v e = (case v of Some x \<Rightarrow> Inr x | None \<Rightarrow> Inl e)"

definition result_ensure :: "bool \<Rightarrow> 'e \<Rightarrow> 'e + unit" where
  "result_ensure c e = (if c then Inr () else Inl e)"

definition is_ok :: "'e + 'a \<Rightarrow> bool" where
  "is_ok r = (case r of Inl _ \<Rightarrow> False | Inr _ \<Rightarrow> True)"

lemmas result_defs = result_bind_def result_ok_or_def result_ensure_def

subsection \<open>Inversion\<close>

lemma bind_Inr_iff [call_eqs]:
  "bind m f s = (Inr y, s'') \<longleftrightarrow> (\<exists>x s'. m s = (Inr x, s') \<and> f x s' = (Inr y, s''))"
  by (auto simp: bind_def split: prod.splits sum.splits)

lemma bind_Inl_iff [call_eqs]:
  "bind m f s = (Inl e, s'') \<longleftrightarrow>
     m s = (Inl e, s'') \<or> (\<exists>x s'. m s = (Inr x, s') \<and> f x s' = (Inl e, s''))"
  by (auto simp: bind_def split: prod.splits sum.splits)

lemma ret_iff [call_eqs]: "ret x s = (r, s') \<longleftrightarrow> r = Inr x \<and> s' = s"
  by (auto simp: ret_def)

lemma throw_iff [call_eqs]: "throw e s = (r, s') \<longleftrightarrow> r = Inl e \<and> s' = s"
  by (auto simp: throw_def)

lemma gets_iff [call_eqs]: "gets f s = (r, s') \<longleftrightarrow> r = Inr (f s) \<and> s' = s"
  by (auto simp: gets_def)

lemma modify_iff [call_eqs]: "modify f s = (r, s') \<longleftrightarrow> r = Inr () \<and> s' = f s"
  by (auto simp: modify_def)

lemma ensure_iff [call_eqs]:
  "ensure c e s = (r, s') \<longleftrightarrow> s' = s \<and> r = (if c then Inr () else Inl e)"
  by (auto simp: ensure_def ret_def throw_def)

lemma ok_or_Inr_iff [call_eqs]: "ok_or v e s = (Inr x, s') \<longleftrightarrow> v = Some x \<and> s' = s"
  by (auto simp: ok_or_def ret_def throw_def split: option.splits)

lemma ok_or_Inl_iff [call_eqs]: "ok_or v e s = (Inl e', s') \<longleftrightarrow> v = None \<and> e' = e \<and> s' = s"
  by (auto simp: ok_or_def ret_def throw_def split: option.splits)

lemma try_result_iff [call_eqs]: "try_result f s = (r, s') \<longleftrightarrow> r = f s \<and> s' = s"
  by (auto simp: try_result_def)

lemma run_iff [call_eqs]: "run f s = (r, s') \<longleftrightarrow> r = Inr (fst (f s)) \<and> s' = snd (f s)"
  by (auto simp: run_def split: prod.splits)

lemma transactional_Inr_iff [call_eqs]:
  "transactional m s = (Inr x, s') \<longleftrightarrow> m s = (Inr x, s')"
  by (auto simp: transactional_def split: prod.splits sum.splits)

lemma transactional_Inl_iff [call_eqs]:
  "transactional m s = (Inl e, s') \<longleftrightarrow> s' = s \<and> (\<exists>t. m s = (Inl e, t))"
  by (auto simp: transactional_def split: prod.splits sum.splits)

lemma result_bind_Inr_iff [call_eqs]:
  "result_bind r f = Inr y \<longleftrightarrow> (\<exists>x. r = Inr x \<and> f x = Inr y)"
  by (auto simp: result_bind_def split: sum.splits)

lemma result_bind_Inl_iff [call_eqs]:
  "result_bind r f = Inl e \<longleftrightarrow> r = Inl e \<or> (\<exists>x. r = Inr x \<and> f x = Inl e)"
  by (auto simp: result_bind_def split: sum.splits)

lemma result_ok_or_Inr_iff [call_eqs]: "result_ok_or v e = Inr x \<longleftrightarrow> v = Some x"
  by (auto simp: result_ok_or_def split: option.splits)

lemma result_ok_or_Inl_iff [call_eqs]: "result_ok_or v e = Inl e' \<longleftrightarrow> v = None \<and> e' = e"
  by (auto simp: result_ok_or_def split: option.splits)

lemma result_ensure_Inr_iff [call_eqs]: "result_ensure c e = Inr x \<longleftrightarrow> c"
  by (auto simp: result_ensure_def)

lemma result_ensure_Inl_iff [call_eqs]: "result_ensure c e = Inl e' \<longleftrightarrow> \<not> c \<and> e' = e"
  by (auto simp: result_ensure_def)

subsection \<open>Invariants\<close>

text \<open>\<open>preserves P m\<close>: whatever the call returns, it keeps \<open>P\<close> of the storage.\<close>

definition preserves :: "('s \<Rightarrow> bool) \<Rightarrow> ('s, 'e, 'a) call \<Rightarrow> bool" where
  "preserves P m \<longleftrightarrow> (\<forall>s. P s \<longrightarrow> P (snd (m s)))"

lemma preservesI: "(\<And>s r s'. P s \<Longrightarrow> m s = (r, s') \<Longrightarrow> P s') \<Longrightarrow> preserves P m"
  unfolding preserves_def by (metis prod.collapse)

lemma preservesD: "preserves P m \<Longrightarrow> P s \<Longrightarrow> m s = (r, s') \<Longrightarrow> P s'"
  by (metis preserves_def snd_conv)

lemma preserves_ret [preserves_rules]: "preserves P (ret x)"
  by (simp add: preserves_def ret_def)

lemma preserves_throw [preserves_rules]: "preserves P (throw e)"
  by (simp add: preserves_def throw_def)

lemma preserves_gets [preserves_rules]: "preserves P (gets f)"
  by (simp add: preserves_def gets_def)

lemma preserves_ensure [preserves_rules]: "preserves P (ensure c e)"
  by (simp add: preserves_def ensure_def ret_def throw_def)

lemma preserves_ok_or [preserves_rules]: "preserves P (ok_or v e)"
  by (auto simp: preserves_def ok_or_def ret_def throw_def split: option.splits)

lemma preserves_try_result [preserves_rules]: "preserves P (try_result f)"
  by (simp add: preserves_def try_result_def)

lemma preserves_modify [preserves_rules]: "(\<And>s. P s \<Longrightarrow> P (f s)) \<Longrightarrow> preserves P (modify f)"
  by (simp add: preserves_def modify_def)

lemma preserves_run [preserves_rules]: "(\<And>s. P s \<Longrightarrow> P (snd (f s))) \<Longrightarrow> preserves P (run f)"
  by (simp add: preserves_def run_def split_beta)

lemma preserves_bind [preserves_rules]:
  "preserves P m \<Longrightarrow> (\<And>x. preserves P (f x)) \<Longrightarrow> preserves P (bind m f)"
  by (rule preservesI) (auto simp: bind_def split: prod.splits sum.splits dest: preservesD)

lemma preserves_transactional [preserves_rules]:
  "preserves P m \<Longrightarrow> preserves P (transactional m)"
  by (rule preservesI) (auto simp: transactional_def split: prod.splits sum.splits dest: preservesD)

lemma preserves_if [preserves_rules]:
  "(c \<Longrightarrow> preserves P m) \<Longrightarrow> (\<not> c \<Longrightarrow> preserves P m') \<Longrightarrow> preserves P (if c then m else m')"
  by simp

lemma preserves_gets_bind:
  assumes "\<And>s. P s \<Longrightarrow> Q (g s)" and "\<And>x. Q x \<Longrightarrow> preserves P (f x)"
  shows "preserves P (bind (gets g) f)"
  using assms by (auto simp: preserves_def bind_def gets_def)

lemma preserves_ensure_bind: "(c \<Longrightarrow> preserves P (f ())) \<Longrightarrow> preserves P (bind (ensure c e) f)"
  by (auto simp: preserves_def bind_def ensure_def ret_def throw_def)

lemma preserves_option_case:
  "(v = None \<Longrightarrow> preserves P m) \<Longrightarrow> (\<And>x. v = Some x \<Longrightarrow> preserves P (f x)) \<Longrightarrow>
     preserves P (case v of None \<Rightarrow> m | Some x \<Rightarrow> f x)"
  by (cases v) auto

lemma preserves_list_case:
  "(xs = [] \<Longrightarrow> preserves P m) \<Longrightarrow> (\<And>y ys. xs = y # ys \<Longrightarrow> preserves P (f y ys)) \<Longrightarrow>
     preserves P (case xs of [] \<Rightarrow> m | y # ys \<Rightarrow> f y ys)"
  by (cases xs) auto

lemma preserves_prod_case:
  "(\<And>x y. v = (x, y) \<Longrightarrow> preserves P (f x y)) \<Longrightarrow> preserves P (case v of (x, y) \<Rightarrow> f x y)"
  by (cases v) auto

subsection \<open>Errors leave the storage as it was\<close>

definition readonly :: "('s, 'e, 'a) call \<Rightarrow> bool" where
  "readonly m \<longleftrightarrow> (\<forall>s. snd (m s) = s)"

definition infallible :: "('s, 'e, 'a) call \<Rightarrow> bool" where
  "infallible m \<longleftrightarrow> (\<forall>s. is_ok (fst (m s)))"

definition atomic :: "('s, 'e, 'a) call \<Rightarrow> bool" where
  "atomic m \<longleftrightarrow> (\<forall>s e s'. m s = (Inl e, s') \<longrightarrow> s' = s)"

lemma atomicD: "atomic m \<Longrightarrow> m s = (Inl e, s') \<Longrightarrow> s' = s"
  by (simp add: atomic_def)

lemma readonlyD: "readonly m \<Longrightarrow> m s = (r, s') \<Longrightarrow> s' = s"
  by (metis readonly_def snd_conv)

lemma readonlyI: "(\<And>s r s'. m s = (r, s') \<Longrightarrow> s' = s) \<Longrightarrow> readonly m"
  unfolding readonly_def by (metis prod.collapse)

lemma infallibleI: "(\<And>s e s'. m s \<noteq> (Inl e, s')) \<Longrightarrow> infallible m"
  unfolding infallible_def is_ok_def by (metis prod.collapse old.sum.exhaust old.sum.simps(6))

lemma infallibleD: "infallible m \<Longrightarrow> m s \<noteq> (Inl e, s')"
  by (auto simp: infallible_def is_ok_def dest!: spec [of _ s])

lemma readonly_basic [atomic_rules]:
  "readonly (ret x)" "readonly (throw e)" "readonly (gets f)" "readonly (ensure c e)"
  "readonly (ok_or v e)" "readonly (try_result g)"
  by (auto simp: readonly_def call_defs split: option.splits)

lemma readonly_bind [atomic_rules]:
  "readonly m \<Longrightarrow> (\<And>x. readonly (f x)) \<Longrightarrow> readonly (bind m f)"
  by (rule readonlyI) (auto simp: bind_def split: prod.splits sum.splits dest: readonlyD)

lemma infallible_basic [atomic_rules]:
  "infallible (ret x)" "infallible (gets f)" "infallible (modify u)" "infallible (run g)"
  by (auto simp: infallible_def is_ok_def call_defs split: prod.splits)

lemma infallible_bind [atomic_rules]:
  "infallible m \<Longrightarrow> (\<And>x. infallible (f x)) \<Longrightarrow> infallible (bind m f)"
  by (rule infallibleI) (auto simp: bind_Inl_iff dest: infallibleD)

lemma infallible_if [atomic_rules]:
  "infallible m \<Longrightarrow> infallible m' \<Longrightarrow> infallible (if c then m else m')"
  by simp

lemma atomic_readonly: "readonly m \<Longrightarrow> atomic m"
  by (auto simp: atomic_def dest: readonlyD)

lemma atomic_infallible: "infallible m \<Longrightarrow> atomic m"
  by (auto simp: atomic_def dest: infallibleD)

lemma atomic_transactional: "atomic (transactional m)"
  by (auto simp: atomic_def call_eqs)

lemma atomic_check_then:
  "readonly m \<Longrightarrow> (\<And>x. atomic (f x)) \<Longrightarrow> atomic (bind m f)"
  by (auto simp: atomic_def bind_Inl_iff dest: readonlyD)

lemma atomic_then_infallible:
  "atomic m \<Longrightarrow> (\<And>x. infallible (f x)) \<Longrightarrow> atomic (bind m f)"
  unfolding atomic_def bind_Inl_iff by (meson infallibleD)

lemma atomic_if: "atomic m \<Longrightarrow> atomic m' \<Longrightarrow> atomic (if c then m else m')"
  by simp

section \<open>Origins\<close>

datatype origin = Root | Signed account_id | Unsigned

definition ensure_signed :: "'e \<Rightarrow> origin \<Rightarrow> 'e + account_id" where
  "ensure_signed bad o' = (case o' of Signed who \<Rightarrow> Inr who | _ \<Rightarrow> Inl bad)"

definition ensure_root :: "'e \<Rightarrow> origin \<Rightarrow> 'e + unit" where
  "ensure_root bad o' = (case o' of Root \<Rightarrow> Inr () | _ \<Rightarrow> Inl bad)"

lemma ensure_signed_Inr_iff [call_eqs]: "ensure_signed bad o' = Inr who \<longleftrightarrow> o' = Signed who"
  by (auto simp: ensure_signed_def split: origin.splits)

lemma ensure_root_Inr_iff [call_eqs]: "ensure_root bad o' = Inr u \<longleftrightarrow> o' = Root"
  by (auto simp: ensure_root_def split: origin.splits)

section \<open>Sums over a finite key type\<close>

text \<open>The accounts are a finite type, so the assets they hold add up to a number.\<close>

lemma sum_upd_point:
  fixes f :: "'k::finite \<Rightarrow> nat"
  shows "(\<Sum>k\<in>UNIV. (f(x := v)) k) + f x = (\<Sum>k\<in>UNIV. f k) + v"
proof -
  have "(\<Sum>k\<in>UNIV. (f(x := v)) k) = v + (\<Sum>k\<in>UNIV - {x}. f k)"
    by (subst sum.remove [of UNIV x]) (auto intro: sum.cong)
  moreover have "(\<Sum>k\<in>UNIV. f k) = f x + (\<Sum>k\<in>UNIV - {x}. f k)"
    by (subst sum.remove [of UNIV x]) auto
  ultimately show ?thesis by simp
qed

lemma sum_ge_point: "f x \<le> (\<Sum>k\<in>UNIV. f k)" for f :: "'k::finite \<Rightarrow> nat"
  by (rule member_le_sum) auto

lemma sum_ge_two_points:
  fixes f :: "'k::finite \<Rightarrow> nat"
  assumes "x \<noteq> y"
  shows "f x + f y \<le> (\<Sum>k\<in>UNIV. f k)"
proof -
  have "f x + f y = (\<Sum>k\<in>{x, y}. f k)" using assms by simp
  also have "\<dots> \<le> (\<Sum>k\<in>UNIV. f k)" by (rule sum_mono2) auto
  finally show ?thesis .
qed

end
