(* ===== verification/Errors.thy ===== *)
theory Errors
  imports Prelude
begin

text \<open>
  The errors of the modelled pallets, one datatype per \<open>decl_error!\<close> block, and the runtime-wide
  \<open>DispatchError\<close> that every dispatchable returns. The order of the constructors is the order of
  the source, which is also the module error index.
\<close>

datatype ga_error =
    AssetIdExhausted
  | ZeroAmount
  | NoUpdatePermission
  | NoMintPermission
  | NoBurnPermission
  | TotalMintingOverflow
  | FreeMintingOverflow
  | TotalBurningUnderflow
  | FreeBurningUnderflow
  | AssetIdExists
  | AssetIdNotExist
  | InsufficientBalance
  | TransferOverflow
  | LiquidityRestrictions
  | ZeroExistentialDeposit
  | AccountIdNotExist
  | DecimalTooLarge
  | InitialIssuanceTooLarge

datatype cx_error =
    EmptyExchangePool
  | InsufficientExchangePoolReserve
  | InsufficientTraderBalance
  | InsufficientLiquidity
  | InsufficientTradeAssetBalance
  | InsufficientCoreAssetBalance
  | CannotTradeZero
  | CannotAddLiquidityWithZero
  | MinimumBuyRequirementNotMet
  | MaximumSellRequirementNotMet
  | MinimumTradeAssetRequirementNotMet
  | MinimumCoreAssetRequirementNotMet
  | MinimumLiquidityRequirementNotMet
  | MaximumTradeAssetRequirementNotMet
  | AssetCannotSwapForItself
  | InvalidAssetId
  | Overflow
  | DivideByZero

datatype gov_error =
    NotCouncilor
  | NotSponsor
  | MaxCouncilReached
  | MinCouncilReached
  | ProposalMissing
  | DoubleVote
  | NoReferendumThreshold
  | NotEnoughStaked
  | ReferendumNotStarted
  | ReferendumNotDeliberating
  | NotEnoughRegistrations

datatype nft_error =
    CollectionIdExists
  | CollectionNameInvalid
  | NoAvailableIds
  | SchemaMaxAttributes
  | MaxAttributeLength
  | NoPermission
  | NoCollection
  | NoToken
  | NotForFixedPriceSale
  | NotForAuction
  | TokenListingProtection
  | InternalPayment
  | RoyaltiesInvalid
  | BidTooLow
  | MixedBundleSale
  | RoyaltiesProtection
  | MarketplaceNotRegistered
  | NoSeries
  | NameAlreadySet
  | InvalidMetadataPath
  | InvalidOffer
  | NotBuyer
  | IsTokenOwner
  | ZeroOffer
  | TokenOnAuction

datatype approvals_error =
    NotTokenOwner
  | CallerNotOperator

datatype eth_bridge_error =
    NoLocalSigningAccount
  | OffchainUnsignedTxSignedPayload
  | InvalidNotarization
  | HttpFetch
  | InvalidClaim
  | OcwConfig
  | AlreadyNotarized
  | DuplicateClaim
  | BridgeIsPaused

datatype erc20_peg_error =
    CreateAssetFailed
  | InvalidAddress
  | InvalidAmount
  | DepositsPaused
  | WithdrawalsPaused
  | UnsupportedAsset
  | EvmWithdrawalFailed

datatype staking_error =
    NotController
  | NotStash
  | AlreadyBonded
  | AlreadyPaired
  | EmptyTargets
  | InvalidSlashIndex
  | InsufficientBond
  | InsufficientFreeBalance
  | NoMoreChunks
  | NoUnlockChunk
  | FundedTarget
  | NotSortedAndUnique
  | DuplicateNominee
  | OffchainElectionEarlySubmission
  | OffchainElectionWeakSubmission
  | SnapshotUnavailable
  | OffchainElectionBogusWinnerCount
  | OffchainElectionBogusWinner
  | OffchainElectionBogusCompact
  | OffchainElectionBogusNominator
  | OffchainElectionBogusNomination
  | OffchainElectionSlashedNomination
  | OffchainElectionBogusSelfVote
  | OffchainElectionBogusEdge
  | OffchainElectionBogusScore
  | OffchainElectionBogusElectionSize
  | CallNotAllowed
  | IncorrectHistoryDepth
  | IncorrectSlashingSpans

datatype state_oracle_error =
    ResponseExists
  | NoRequest
  | NoResponse
  | InsufficientFundsGas
  | InsufficientFundsBounty
  | InvalidResponseTimestamp
  | DuplicateChallenge
  | ReturnDataExceedsLength
  | RequestExpired
  | FeeExchangeFailed
  | AlreadyBonded
  | NotEnoughBonded
  | CantUnbond
  | MaxRelayersReached
  | NoAvailableResponses
  | ActiveChallenger
  | NoChallengers

text \<open>
  \<open>Panic\<close> stands for a panic of the runtime (\<open>unwrap\<close> of nothing, an index out of range); the host then
  discards everything the extrinsic did.
\<close>

datatype dispatch_error =
    BadOrigin
  | Panic
  | GenericAsset_Error ga_error
  | Cennzx_Error cx_error
  | Governance_Error gov_error
  | Nft_Error nft_error
  | TokenApprovals_Error approvals_error
  | EthBridge_Error eth_bridge_error
  | Erc20Peg_Error erc20_peg_error
  | EthStateOracle_Error state_oracle_error
  | Staking_Error staking_error
  | Other_Error string

text \<open>A call of the runtime on the storage \<open>'s\<close>.\<close>

type_synonym ('s, 'a) dispatch = "('s, dispatch_error, 'a) call"

definition signed :: "origin \<Rightarrow> ('s, account_id) dispatch" where
  [call_defs]: "signed orig = try_result (\<lambda>_. ensure_signed BadOrigin orig)"

definition rooted :: "origin \<Rightarrow> ('s, unit) dispatch" where
  [call_defs]: "rooted orig = try_result (\<lambda>_. ensure_root BadOrigin orig)"

lemma signed_iff [call_eqs]:
  "signed orig s = (r, s') \<longleftrightarrow> s' = s \<and> r = ensure_signed BadOrigin orig"
  by (auto simp: signed_def call_eqs)

lemma rooted_iff [call_eqs]:
  "rooted orig s = (r, s') \<longleftrightarrow> s' = s \<and> r = ensure_root BadOrigin orig"
  by (auto simp: rooted_def call_eqs)

lemma readonly_origins [atomic_rules]: "readonly (signed orig)" "readonly (rooted orig)"
  by (simp_all add: signed_def rooted_def atomic_rules)

lemma preserves_origins [preserves_rules]: "preserves P (signed orig)" "preserves P (rooted orig)"
  by (simp_all add: signed_def rooted_def preserves_rules)

end
