(* ===== verification/GA_Types.thy ===== *)
theory GA_Types
  imports Errors
begin

text \<open>
  The data of the generic-asset pallet: \<open>crml/generic-asset/src/types.rs\<close>, the imbalances of
  \<open>imbalances.rs\<close>, and the storage and events that \<open>lib.rs\<close> declares. The storage is a record
  with one field per storage item; a \<open>double_map\<close> is a map on pairs.
\<close>

section \<open>Types of types.rs\<close>

text \<open>The reasons of a withdrawal, a set of the flags that \<open>WithdrawReasons\<close> has.\<close>

datatype withdraw_reason = TRANSACTION_PAYMENT | TRANSFER | RESERVE | FEE | TIP

type_synonym withdraw_reasons = "withdraw_reason set"
type_synonym lock_identifier = u64

datatype existence_requirement = KeepAlive | AllowDeath

datatype reasons = ReasonsFee | ReasonsMisc | ReasonsAll

definition reasons_from :: "withdraw_reasons \<Rightarrow> reasons" where
  "reasons_from r =
     (if r = {TRANSACTION_PAYMENT} then ReasonsFee
      else if TRANSACTION_PAYMENT \<in> r then ReasonsAll
      else ReasonsMisc)"

definition reasons_bitor :: "reasons \<Rightarrow> reasons \<Rightarrow> reasons" where
  "reasons_bitor a b = (if a = b then a else ReasonsAll)"

record balance_lock =
  lock_id :: lock_identifier
  lock_amount :: balance
  lock_reasons :: reasons

record balance_lock_old =
  old_lock_id :: lock_identifier
  old_lock_amount :: balance
  old_lock_reasons :: withdraw_reasons

definition upgrade :: "balance_lock_old \<Rightarrow> balance_lock" where
  "upgrade l =
     \<lparr>lock_id = old_lock_id l, lock_amount = old_lock_amount l,
      lock_reasons = reasons_from (old_lock_reasons l)\<rparr>"

record asset_info =
  symbol :: bytes
  decimal_places :: u8
  existential_deposit :: u64

definition default_asset_info :: asset_info where
  "default_asset_info = \<lparr>symbol = [], decimal_places = 4, existential_deposit = 1\<rparr>"

datatype owner = NoOwner | Address account_id

record permissions_v1 =
  perm_update :: owner
  perm_mint :: owner
  perm_burn :: owner

definition permissions_new :: "account_id \<Rightarrow> permissions_v1" where
  "permissions_new who =
     \<lparr>perm_update = Address who, perm_mint = Address who, perm_burn = Address who\<rparr>"

definition default_permissions :: permissions_v1 where
  "default_permissions = \<lparr>perm_update = NoOwner, perm_mint = NoOwner, perm_burn = NoOwner\<rparr>"

datatype permission_versions = V1 permissions_v1

fun permission_latest :: "permission_versions \<Rightarrow> permissions_v1" where
  "permission_latest (V1 p) = p"

datatype permission_type = Burn | Mint | Update

record asset_options =
  initial_issuance :: balance
  permissions :: permissions_v1

record all_balances =
  all_reserved :: balance
  all_staked :: balance
  all_available :: balance

section \<open>Storage and events of lib.rs\<close>

datatype ga_event =
    Created asset_id account_id asset_options
  | Transferred asset_id account_id account_id balance
  | PermissionUpdated asset_id permissions_v1
  | AssetInfoUpdated asset_id asset_info
  | Minted asset_id account_id balance
  | Burned asset_id account_id balance
  | DustReclaimed asset_id account_id balance

record ga_state =
  TotalIssuance :: "asset_id \<rightharpoonup> balance"
  FreeBalance :: "asset_id \<times> account_id \<rightharpoonup> balance"
  ReservedBalance :: "asset_id \<times> account_id \<rightharpoonup> balance"
  NextAssetId :: asset_id
  Permissions :: "asset_id \<rightharpoonup> permission_versions"
  Locks :: "asset_id \<times> account_id \<rightharpoonup> balance_lock list"
  StakingAssetId :: asset_id
  SpendingAssetId :: asset_id
  AssetMeta :: "asset_id \<rightharpoonup> asset_info"
  StorageVersion :: u32
  Providers :: "account_id \<Rightarrow> u32"
  ga_events :: "ga_event list"

text \<open>
  The configuration of the pallet in the runtime. The dust handler of the runtime is
  \<open>TransferDustImbalance<TreasuryPalletId>\<close>, whose beneficiary is the account of the pallet
  identifier; \<open>inc_providers\<close> of the system pallet acts on the provider counters only.
\<close>

record ga_config =
  dust_beneficiary :: account_id
  inc_providers :: "account_id \<Rightarrow> (account_id \<Rightarrow> u32) \<Rightarrow> (account_id \<Rightarrow> u32)"

definition deposit_event :: "ga_event \<Rightarrow> ga_state \<Rightarrow> ga_state" where
  "deposit_event e s = s\<lparr>ga_events := ga_events s @ [e]\<rparr>"

section \<open>Imbalances\<close>

text \<open>
  An imbalance is a token for funds that were created or destroyed on one side of the books.
  The tokens are linear in the source; \<open>drop_positive\<close> and \<open>drop_negative\<close> are the \<open>Drop\<close>
  implementations, which square up the total issuance, and \<open>mem::forget\<close> is dropping the token
  from the model without calling them.
\<close>

datatype positive_imbalance = PositiveImbalance (pos_amount: balance) (pos_asset: asset_id)
datatype negative_imbalance = NegativeImbalance (neg_amount: balance) (neg_asset: asset_id)

datatype signed_imbalance = SignedPositive positive_imbalance | SignedNegative negative_imbalance

datatype ('a, 'b) same_or_other = Same 'a | Other 'b

definition positive_zero :: positive_imbalance where
  "positive_zero = PositiveImbalance 0 0"

definition negative_zero :: negative_imbalance where
  "negative_zero = NegativeImbalance 0 0"

definition positive_drop_zero :: "positive_imbalance \<Rightarrow> positive_imbalance + unit" where
  "positive_drop_zero i = (if pos_amount i = 0 \<or> pos_asset i = 0 then Inr () else Inl i)"

definition negative_drop_zero :: "negative_imbalance \<Rightarrow> negative_imbalance + unit" where
  "negative_drop_zero i = (if neg_amount i = 0 \<or> neg_asset i = 0 then Inr () else Inl i)"

definition positive_split ::
  "positive_imbalance \<Rightarrow> balance \<Rightarrow> positive_imbalance \<times> positive_imbalance" where
  "positive_split i amount =
     (let first = min (pos_amount i) amount; second = pos_amount i - first
      in (PositiveImbalance first (pos_asset i), PositiveImbalance second (pos_asset i)))"

definition negative_split ::
  "negative_imbalance \<Rightarrow> balance \<Rightarrow> negative_imbalance \<times> negative_imbalance" where
  "negative_split i amount =
     (let first = min (neg_amount i) amount; second = neg_amount i - first
      in (NegativeImbalance first (neg_asset i), NegativeImbalance second (neg_asset i)))"

definition positive_merge :: "positive_imbalance \<Rightarrow> positive_imbalance \<Rightarrow> positive_imbalance" where
  "positive_merge i j = PositiveImbalance (saturating_add (pos_amount i) (pos_amount j)) (pos_asset i)"

definition negative_merge :: "negative_imbalance \<Rightarrow> negative_imbalance \<Rightarrow> negative_imbalance" where
  "negative_merge i j = NegativeImbalance (saturating_add (neg_amount i) (neg_amount j)) (neg_asset i)"

definition positive_offset ::
  "positive_imbalance \<Rightarrow> negative_imbalance \<Rightarrow> (positive_imbalance, negative_imbalance) same_or_other" where
  "positive_offset i j =
     (let a = pos_amount i; b = neg_amount j
      in if b \<le> a then Same (PositiveImbalance (a - b) (pos_asset i))
         else Other (NegativeImbalance (b - a) (pos_asset i)))"

definition negative_offset ::
  "negative_imbalance \<Rightarrow> positive_imbalance \<Rightarrow> (negative_imbalance, positive_imbalance) same_or_other" where
  "negative_offset i j =
     (let a = neg_amount i; b = pos_amount j
      in if b \<le> a then Same (NegativeImbalance (a - b) (neg_asset i))
         else Other (PositiveImbalance (b - a) (neg_asset i)))"

definition drop_positive :: "positive_imbalance \<Rightarrow> ga_state \<Rightarrow> ga_state" where
  "drop_positive i s =
     s\<lparr>TotalIssuance :=
         storage_mutate 0 (\<lambda>v. saturating_add v (pos_amount i)) (pos_asset i) (TotalIssuance s)\<rparr>"

definition drop_negative :: "negative_imbalance \<Rightarrow> ga_state \<Rightarrow> ga_state" where
  "drop_negative i s =
     s\<lparr>TotalIssuance :=
         storage_mutate 0 (\<lambda>v. saturating_sub v (neg_amount i)) (neg_asset i) (TotalIssuance s)\<rparr>"

fun drop_signed :: "signed_imbalance \<Rightarrow> ga_state \<Rightarrow> ga_state" where
  "drop_signed (SignedPositive i) = drop_positive i"
| "drop_signed (SignedNegative i) = drop_negative i"

section \<open>Laws of imbalances\<close>

text \<open>The signed value of an imbalance; splitting, merging and offsetting keep it.\<close>

definition pos_value :: "positive_imbalance \<Rightarrow> int" where
  "pos_value i = uint (pos_amount i)"

definition neg_value :: "negative_imbalance \<Rightarrow> int" where
  "neg_value i = - uint (neg_amount i)"

fun offset_value :: "(positive_imbalance, negative_imbalance) same_or_other \<Rightarrow> int" where
  "offset_value (Same i) = pos_value i"
| "offset_value (Other j) = neg_value j"

lemma positive_split_value:
  "positive_split i v = (j, k) \<Longrightarrow> pos_value j + pos_value k = pos_value i"
  by (auto simp: positive_split_def pos_value_def Let_def uint_sub_fits min_def)

lemma negative_split_value:
  "negative_split i v = (j, k) \<Longrightarrow> neg_value j + neg_value k = neg_value i"
  by (auto simp: negative_split_def neg_value_def Let_def uint_sub_fits min_def)

lemma positive_offset_value: "offset_value (positive_offset i j) = pos_value i + neg_value j"
  by (auto simp: positive_offset_def pos_value_def neg_value_def Let_def uint_sub_fits)

end
