(* ===== verification/Currency_Spec.thy ===== *)
theory Currency_Spec
  imports GA_Types
begin

text \<open>
  The interface between the asset ledger and the pallets that use it: the \<open>MultiCurrency\<close> trait of
  \<open>crml/support/src/lib.rs\<close>. A pallet that is generic in \<open>T::MultiCurrency\<close> takes the operations
  as a record (\<open>'s multi_currency\<close>, on the ledger's storage \<open>'s\<close>), and the locale
  \<open>multi_currency\<close> holds what it may rely on. The generic-asset pallet is the provider.
\<close>

section \<open>The operations\<close>

record 's multi_currency =
  mc_minimum_balance :: "asset_id \<Rightarrow> 's \<Rightarrow> balance"
  mc_fee_currency :: "'s \<Rightarrow> asset_id"
  mc_staking_currency :: "'s \<Rightarrow> asset_id"
  mc_total_balance :: "account_id \<Rightarrow> asset_id \<Rightarrow> 's \<Rightarrow> balance"
  mc_free_balance :: "account_id \<Rightarrow> asset_id \<Rightarrow> 's \<Rightarrow> balance"
  mc_ensure_can_withdraw ::
    "account_id \<Rightarrow> asset_id \<Rightarrow> balance \<Rightarrow> withdraw_reasons \<Rightarrow> balance \<Rightarrow> 's \<Rightarrow> dispatch_error + unit"
  mc_deposit_creating :: "account_id \<Rightarrow> asset_id \<Rightarrow> balance \<Rightarrow> 's \<Rightarrow> positive_imbalance \<times> 's"
  mc_deposit_into_existing :: "account_id \<Rightarrow> asset_id \<Rightarrow> balance \<Rightarrow> ('s, positive_imbalance) dispatch"
  mc_make_free_balance_be :: "account_id \<Rightarrow> asset_id \<Rightarrow> balance \<Rightarrow> 's \<Rightarrow> signed_imbalance \<times> 's"
  mc_transfer ::
    "account_id \<Rightarrow> account_id \<Rightarrow> asset_id \<Rightarrow> balance \<Rightarrow> existence_requirement \<Rightarrow> ('s, unit) dispatch"
  mc_withdraw ::
    "account_id \<Rightarrow> asset_id \<Rightarrow> balance \<Rightarrow> withdraw_reasons \<Rightarrow> existence_requirement \<Rightarrow>
      ('s, negative_imbalance) dispatch"
  mc_reserve :: "account_id \<Rightarrow> asset_id \<Rightarrow> balance \<Rightarrow> ('s, unit) dispatch"
  mc_repatriate_reserved :: "account_id \<Rightarrow> asset_id \<Rightarrow> account_id \<Rightarrow> balance \<Rightarrow> ('s, balance) dispatch"
  mc_unreserve :: "account_id \<Rightarrow> asset_id \<Rightarrow> balance \<Rightarrow> 's \<Rightarrow> balance \<times> 's"
  mc_create :: "account_id \<Rightarrow> balance \<Rightarrow> u8 \<Rightarrow> u64 \<Rightarrow> bytes \<Rightarrow> ('s, asset_id) dispatch"
  mc_drop_positive :: "positive_imbalance \<Rightarrow> 's \<Rightarrow> 's"
  mc_drop_negative :: "negative_imbalance \<Rightarrow> 's \<Rightarrow> 's"

section \<open>The abstract transfer\<close>

text \<open>
  What a transfer does to the free balances of its asset. An account left with less than the
  minimum balance is reaped: the remainder goes to the dust beneficiary.
\<close>

definition transfer_spec ::
  "account_id \<Rightarrow> balance \<Rightarrow> account_id \<Rightarrow> account_id \<Rightarrow> balance \<Rightarrow>
    (account_id \<Rightarrow> balance) \<Rightarrow> (account_id \<Rightarrow> balance)" where
  "transfer_spec dust minimum from to v f =
     (if v = 0 \<or> from = to then f
      else
        let g = f(to := f to + v, from := f from - v);
            reaped = g(from := 0)
        in if f from - v < minimum then reaped(dust := reaped dust + g from) else g)"

lemma transfer_spec_exact:
  "minimum \<le> f from - v \<Longrightarrow> from \<noteq> to \<Longrightarrow> v \<noteq> 0 \<Longrightarrow>
     transfer_spec dust minimum from to v f = f(to := f to + v, from := f from - v)"
  by (auto simp: transfer_spec_def Let_def)

lemma transfer_spec_to:
  "from \<noteq> to \<Longrightarrow> to \<noteq> dust \<Longrightarrow> transfer_spec dust minimum from to v f to = f to + v"
  by (simp add: transfer_spec_def Let_def)

lemma transfer_spec_frame:
  "w \<noteq> from \<Longrightarrow> w \<noteq> to \<Longrightarrow> w \<noteq> dust \<Longrightarrow> transfer_spec dust minimum from to v f w = f w"
  by (simp add: transfer_spec_def Let_def)

lemma transfer_spec_from:
  "from \<noteq> to \<Longrightarrow> from \<noteq> dust \<Longrightarrow> v \<noteq> 0 \<Longrightarrow>
     transfer_spec dust minimum from to v f from = (if f from - v < minimum then 0 else f from - v)"
  by (simp add: transfer_spec_def Let_def)

section \<open>The laws\<close>

locale multi_currency =
  fixes C :: "'s multi_currency"
    and inv :: "'s \<Rightarrow> bool"
    and circ :: "asset_id \<Rightarrow> 's \<Rightarrow> nat"
    and dust :: account_id
  assumes transfer_inv:
      "inv s \<Longrightarrow> mc_transfer C from to a v req s = (r, s') \<Longrightarrow> inv s'"
    and transfer_circ:
      "inv s \<Longrightarrow> mc_transfer C from to a v req s = (r, s') \<Longrightarrow> circ b s' = circ b s"
    and transfer_error: "mc_transfer C from to a v req s = (Inl e, s') \<Longrightarrow> s' = s"
    and transfer_refines:
      "inv s \<Longrightarrow> mc_transfer C from to a v req s = (Inr u, s') \<Longrightarrow>
        mc_free_balance C w a s' =
          transfer_spec dust (mc_minimum_balance C a s) from to v (\<lambda>w. mc_free_balance C w a s) w"
    and transfer_guard:
      "mc_transfer C from to a v req s = (Inr u, s') \<Longrightarrow> v \<noteq> 0 \<Longrightarrow>
        v \<le> mc_free_balance C from a s \<and>
        unat (mc_free_balance C to a s) + unat v < 2 ^ 128"
    and transfer_other_asset:
      "mc_transfer C from to a v req s = (r, s') \<Longrightarrow> b \<noteq> a \<Longrightarrow>
        mc_free_balance C w b s' = mc_free_balance C w b s"
    and transfer_minimum:
      "mc_transfer C from to a v req s = (r, s') \<Longrightarrow>
        mc_minimum_balance C b s' = mc_minimum_balance C b s"
    and free_le_circ: "unat (mc_free_balance C w a s) \<le> circ a s"
    and circ_bound: "inv s \<Longrightarrow> circ a s < 2 ^ 128"
begin

lemma transfer_exact:
  assumes "inv s" and "mc_transfer C from to a v req s = (Inr u, s')"
    and "from \<noteq> to" and "v \<noteq> 0"
    and "mc_minimum_balance C a s \<le> mc_free_balance C from a s - v"
  shows "mc_free_balance C from a s' = mc_free_balance C from a s - v"
    and "mc_free_balance C to a s' = mc_free_balance C to a s + v"
    and "w \<noteq> from \<Longrightarrow> w \<noteq> to \<Longrightarrow> mc_free_balance C w a s' = mc_free_balance C w a s"
  using transfer_refines [OF assms(1,2)] assms(3-5) by (simp_all add: transfer_spec_exact)

text \<open>A recipient other than the dust beneficiary receives exactly the amount.\<close>

lemma transfer_received:
  assumes "inv s" and "mc_transfer C from to a v req s = (Inr u, s')"
    and "from \<noteq> to" and "to \<noteq> dust"
  shows "unat (mc_free_balance C to a s') = unat (mc_free_balance C to a s) + unat v"
proof (cases "v = 0")
  case True
  then show ?thesis
    using transfer_refines [OF assms(1,2), of to] by (simp add: transfer_spec_def)
next
  case False
  then have "unat (mc_free_balance C to a s) + unat v < 2 ^ 128"
    using transfer_guard [OF assms(2)] by blast
  then show ?thesis
    using transfer_refines [OF assms(1,2), of to] assms(3,4)
    by (simp add: transfer_spec_to unat_add_fits)
qed

text \<open>A payer that keeps the minimum balance pays exactly the amount.\<close>

lemma transfer_paid:
  assumes "inv s" and "mc_transfer C from to a v req s = (Inr u, s')"
    and "from \<noteq> to"
    and "mc_minimum_balance C a s \<le> mc_free_balance C from a s - v"
  shows "unat (mc_free_balance C from a s') = unat (mc_free_balance C from a s) - unat v"
proof (cases "v = 0")
  case True
  then show ?thesis
    using transfer_refines [OF assms(1,2), of "from"] by (simp add: transfer_spec_def)
next
  case False
  then show ?thesis
    using transfer_guard [OF assms(2)] transfer_exact(1) [OF assms(1-3) _ assms(4)]
    by (simp add: unat_sub_fits)
qed

end

end
