(* ===== verification/Bytes.thy ===== *)
theory Bytes
  imports Prelude
begin

text \<open>
  Integers as byte lists (\<open>to_le_bytes\<close>, \<open>to_be_bytes\<close> of Rust's integers and of \<open>U256\<close>), with the
  value of a byte list as a number.
\<close>

fun to_le_bytes :: "nat \<Rightarrow> 'a::len word \<Rightarrow> bytes" where
  "to_le_bytes 0 w = []"
| "to_le_bytes (Suc n) w = ucast w # to_le_bytes n (drop_bit 8 w)"

definition to_be_bytes :: "nat \<Rightarrow> 'a::len word \<Rightarrow> bytes" where
  "to_be_bytes n w = rev (to_le_bytes n w)"

fun le_value :: "bytes \<Rightarrow> nat" where
  "le_value [] = 0"
| "le_value (b # bs) = unat b + 256 * le_value bs"

definition from_be_bytes :: "bytes \<Rightarrow> 'a::len word" where
  "from_be_bytes bs = word_of_nat (le_value (rev bs))"

lemma length_to_le_bytes [simp]: "length (to_le_bytes n w) = n"
  by (induction n arbitrary: w) simp_all

lemma length_to_be_bytes [simp]: "length (to_be_bytes n w) = n"
  by (simp add: to_be_bytes_def)

lemma le_value_to_le_bytes:
  fixes w :: "'a::len word"
  shows "le_value (to_le_bytes n w) = unat w mod 256 ^ n"
proof (induction n arbitrary: w)
  case (Suc n)
  have low: "unat (ucast w :: u8) = unat w mod 256"
    by (simp add: unsigned_ucast_eq take_bit_eq_mod)
  have high: "unat (drop_bit 8 w) = unat w div 256"
    unfolding unat_drop_bit_eq by (simp add: drop_bit_eq_div)
  show ?case
    by (simp add: low high Suc mod_mult2_eq)
qed simp

lemma le_value_less: "le_value bs < 256 ^ length bs"
proof (induction bs)
  case (Cons b bs)
  have "unat b < 256" using unat_less_pow [of b] by simp
  with Cons show ?case by simp
qed simp

lemma pow256: "(256::nat) ^ n = 2 ^ (8 * n)"
  by (simp add: power_mult)

lemma from_be_bytes_to_be_bytes:
  fixes w :: "'a::len word"
  assumes "LENGTH('a) \<le> 8 * n"
  shows "from_be_bytes (to_be_bytes n w) = w"
proof -
  have "unat w < 256 ^ n"
    unfolding pow256 by (rule order.strict_trans2 [OF unat_less_pow]) (simp add: assms)
  then show ?thesis
    by (simp add: from_be_bytes_def to_be_bytes_def le_value_to_le_bytes)
qed

lemma to_le_bytes_inject:
  fixes v w :: "'a::len word"
  assumes "LENGTH('a) \<le> 8 * n" and "to_le_bytes n v = to_le_bytes n w"
  shows "v = w"
  using assms from_be_bytes_to_be_bytes [of n v] from_be_bytes_to_be_bytes [of n w]
  by (simp add: to_be_bytes_def)

lemma le_value_append: "le_value (xs @ ys) = le_value xs + 256 ^ length xs * le_value ys"
  by (induction xs) (simp_all add: algebra_simps)

lemma le_bytes_inject: "length xs = length ys \<Longrightarrow> le_value xs = le_value ys \<Longrightarrow> xs = ys"
proof (induction xs ys rule: list_induct2)
  case (Cons x xs y ys)
  have less: "unat x < 256" "unat y < 256" using unat_less_pow [of x] unat_less_pow [of y] by simp_all
  have eq: "unat x + 256 * le_value xs = unat y + 256 * le_value ys" using Cons.prems by simp
  then have "(unat x + 256 * le_value xs) mod 256 = (unat y + 256 * le_value ys) mod 256" by simp
  then have "unat x = unat y" using less by simp
  moreover from this eq have "le_value xs = le_value ys" by simp
  ultimately show ?case using Cons.IH by (simp add: word_unat_eq_iff)
qed simp

lemma to_be_bytes_from_be_bytes:
  assumes "length bs = n" and "LENGTH('a) = 8 * n"
  shows "to_be_bytes n (from_be_bytes bs :: 'a::len word) = bs"
proof -
  have small: "le_value (rev bs) < 2 ^ LENGTH('a)"
    using le_value_less [of "rev bs"] assms by (simp add: pow256)
  have "le_value (to_le_bytes n (from_be_bytes bs :: 'a word)) = le_value (rev bs)"
    using small assms
    by (simp add: le_value_to_le_bytes from_be_bytes_def unat_word_of_nat_less pow256 del: le_value.simps)
  then have "to_le_bytes n (from_be_bytes bs :: 'a word) = rev bs"
    using assms(1) by (intro le_bytes_inject) simp_all
  then show ?thesis by (simp add: to_be_bytes_def)
qed

end
