(* ===== verification/Cennzx.thy ===== *)
theory Cennzx
  imports Currency_Spec Bytes
begin

text \<open>
  The exchange pallet: \<open>crml/cennzx/src/types.rs\<close> (fee rates), \<open>impls.rs\<close> (pool addresses, buying the
  fee asset) and \<open>lib.rs\<close> (liquidity, prices, trades). The pallet is generic in the currency it
  trades: \<open>'s\<close> is the ledger's storage and the operations on it come with the configuration.
\<close>

section \<open>Fee rates (types.rs)\<close>

text \<open>
  \<open>HighPrecisionUnsigned\<close> is \<open>U256\<close> and \<open>LowPrecisionUnsigned\<close> is \<open>u128\<close>; the scale, a phantom type in
  the code, is an argument here.
\<close>

datatype scaled = PerMillion | PerThousand

fun SCALE :: "scaled \<Rightarrow> u128" where
  "SCALE PerMillion = 1000000"
| "SCALE PerThousand = 1000"

datatype fee_rate = FeeRate (rate: u128)

definition fee_rate_default :: fee_rate where
  "fee_rate_default = FeeRate 0"

definition low_try_from :: "u256 \<Rightarrow> u128 option" where
  "low_try_from h = (if h < 2 ^ 128 then Some (ucast h) else None)"

definition fee_rate_try_from :: "u256 \<Rightarrow> fee_rate option" where
  "fee_rate_try_from h = map_option FeeRate (low_try_from h)"

definition per_million_try_from :: "fee_rate \<Rightarrow> fee_rate option" where
  "per_million_try_from f =
     (let r = SCALE PerMillion div SCALE PerThousand
      in map_option FeeRate (checked_mul (rate f) r))"

definition fee_checked_div :: "scaled \<Rightarrow> fee_rate \<Rightarrow> fee_rate \<Rightarrow> fee_rate option" where
  "fee_checked_div S f d =
     (case checked_div (saturating_mul (ucast (rate f) :: u256) (ucast (SCALE S))) (ucast (rate d)) of
        Some h \<Rightarrow> fee_rate_try_from h
      | None \<Rightarrow> None)"

definition fee_checked_mul :: "scaled \<Rightarrow> fee_rate \<Rightarrow> fee_rate \<Rightarrow> fee_rate option" where
  "fee_checked_mul S f m =
     (case checked_div (saturating_mul (ucast (rate f) :: u256) (ucast (rate m))) (ucast (SCALE S)) of
        Some h \<Rightarrow> fee_rate_try_from h
      | None \<Rightarrow> None)"

definition fee_checked_add :: "fee_rate \<Rightarrow> fee_rate \<Rightarrow> fee_rate option" where
  "fee_checked_add f a = map_option FeeRate (checked_add (rate f) (rate a))"

definition fee_one :: "scaled \<Rightarrow> fee_rate" where
  "fee_one S = FeeRate (SCALE S)"

section \<open>Configuration and storage (lib.rs)\<close>

type_synonym exchange_key = "asset_id \<times> asset_id"

datatype cx_event =
    AddLiquidity account_id balance asset_id balance
  | RemoveLiquidity account_id balance asset_id balance
  | AssetBought asset_id asset_id account_id balance balance
  | AssetSold asset_id asset_id account_id balance balance

record liquidity_value_t =
  value_liquidity :: balance
  value_core :: balance
  value_asset :: balance

record liquidity_price_t =
  price_core :: balance
  price_asset :: balance

text \<open>The hash of the runtime (\<open>T::Hashing\<close>) is not part of the pallet.\<close>

record 's cx_config =
  cx_currency :: "'s multi_currency"
  cx_hash :: "bytes \<Rightarrow> account_id"

record 's cx_state =
  Ledger :: 's
  CoreAssetId :: asset_id
  DefaultFeeRate :: fee_rate
  TotalLiquidity :: "exchange_key \<rightharpoonup> balance"
  LiquidityBalance :: "exchange_key \<times> account_id \<rightharpoonup> balance"
  CxEvents :: "cx_event list"

definition cx_deposit_event :: "cx_event \<Rightarrow> 's cx_state \<Rightarrow> 's cx_state" where
  "cx_deposit_event e s = s\<lparr>CxEvents := CxEvents s @ [e]\<rparr>"

definition total_liquidity :: "exchange_key \<Rightarrow> 's cx_state \<Rightarrow> balance" where
  "total_liquidity k s = storage_get 0 (TotalLiquidity s) k"

definition liquidity_balance :: "exchange_key \<Rightarrow> account_id \<Rightarrow> 's cx_state \<Rightarrow> balance" where
  "liquidity_balance k who s = storage_get 0 (LiquidityBalance s) (k, who)"

text \<open>\<open>ExchangeAddressGenerator\<close> hashes a prefix and the two asset identifiers, as \<open>u64\<close>.\<close>

definition exchange_preimage :: "asset_id \<Rightarrow> asset_id \<Rightarrow> bytes" where
  "exchange_preimage core asset =
     [99, 101, 110, 110, 122, 45, 120, 45, 115, 112, 111, 116, 58] @
     to_le_bytes 8 (ucast core :: u64) @ to_le_bytes 8 (ucast asset :: u64)"

definition exchange_address_for :: "'s cx_config \<Rightarrow> asset_id \<Rightarrow> 's cx_state \<Rightarrow> account_id" where
  "exchange_address_for T asset s = cx_hash T (exchange_preimage (CoreAssetId s) asset)"

text \<open>The ledger's operations on the state of the pallet.\<close>

definition cx_free_balance :: "'s cx_config \<Rightarrow> account_id \<Rightarrow> asset_id \<Rightarrow> 's cx_state \<Rightarrow> balance" where
  "cx_free_balance T who a s = mc_free_balance (cx_currency T) who a (Ledger s)"

definition on_ledger :: "('s, 'a) dispatch \<Rightarrow> ('s cx_state, 'a) dispatch" where
  "on_ledger m = (\<lambda>s. case m (Ledger s) of (r, l) \<Rightarrow> (r, s\<lparr>Ledger := l\<rparr>))"

definition cx_transfer ::
  "'s cx_config \<Rightarrow> account_id \<Rightarrow> account_id \<Rightarrow> asset_id \<Rightarrow> balance \<Rightarrow> ('s cx_state, unit) dispatch" where
  "cx_transfer T from to a v = on_ledger (mc_transfer (cx_currency T) from to a v KeepAlive)"

section \<open>Liquidity\<close>

definition mint_liquidity :: "exchange_key \<Rightarrow> account_id \<Rightarrow> balance \<Rightarrow> 's cx_state \<Rightarrow> 's cx_state" where
  "mint_liquidity k who increase s =
     (let new_balance = saturating_add (liquidity_balance k who s) increase
      in s\<lparr>LiquidityBalance := (LiquidityBalance s)((k, who) \<mapsto> new_balance),
           TotalLiquidity := storage_mutate 0 (\<lambda>b. saturating_add b increase) k (TotalLiquidity s)\<rparr>)"

definition burn_liquidity :: "exchange_key \<Rightarrow> account_id \<Rightarrow> balance \<Rightarrow> 's cx_state \<Rightarrow> 's cx_state" where
  "burn_liquidity k who decrease s =
     (let balance = liquidity_balance k who s;
          decrease = min decrease balance;
          new_balance = balance - decrease
      in s\<lparr>LiquidityBalance := (LiquidityBalance s)((k, who) \<mapsto> new_balance),
           TotalLiquidity := storage_mutate 0 (\<lambda>b. saturating_sub b decrease) k (TotalLiquidity s)\<rparr>)"

definition liquidity_price :: "'s cx_config \<Rightarrow> asset_id \<Rightarrow> balance \<Rightarrow> 's cx_state \<Rightarrow> liquidity_price_t" where
  "liquidity_price T asset liquidity_to_buy s =
     (let core_asset_id = CoreAssetId s;
          liquidity_total = total_liquidity (core_asset_id, asset) s;
          exchange_address = exchange_address_for T asset s;
          core_reserve = cx_free_balance T exchange_address core_asset_id s
      in if liquidity_total = 0 \<or> core_reserve = 0 then \<lparr>price_core = liquidity_to_buy, price_asset = 1\<rparr>
         else
           let core_amount = liquidity_to_buy * core_reserve div liquidity_total;
               asset_reserve = cx_free_balance T exchange_address asset s
           in \<lparr>price_core = core_amount, price_asset = core_amount * asset_reserve div core_reserve + 1\<rparr>)"

definition calculate_liquidity_value ::
  "balance \<Rightarrow> balance \<Rightarrow> balance \<Rightarrow> balance \<Rightarrow> liquidity_value_t" where
  "calculate_liquidity_value asset_reserve core_reserve liquidity_to_withdraw liquidity_total =
     (if liquidity_total = 0 then \<lparr>value_liquidity = 0, value_core = 0, value_asset = 0\<rparr>
      else
        let liquidity_amount = min liquidity_to_withdraw liquidity_total
        in \<lparr>value_liquidity = liquidity_amount,
            value_core = liquidity_amount * core_reserve div liquidity_total,
            value_asset = liquidity_amount * asset_reserve div liquidity_total\<rparr>)"

definition liquidity_value :: "'s cx_config \<Rightarrow> asset_id \<Rightarrow> balance \<Rightarrow> 's cx_state \<Rightarrow> liquidity_value_t" where
  "liquidity_value T asset liquidity_to_withdraw s =
     (let core_asset_id = CoreAssetId s;
          liquidity_total = total_liquidity (core_asset_id, asset) s;
          exchange_address = exchange_address_for T asset s;
          asset_reserve = cx_free_balance T exchange_address asset s;
          core_reserve = cx_free_balance T exchange_address core_asset_id s
      in calculate_liquidity_value asset_reserve core_reserve liquidity_to_withdraw liquidity_total)"

definition account_liquidity_value ::
  "'s cx_config \<Rightarrow> account_id \<Rightarrow> asset_id \<Rightarrow> 's cx_state \<Rightarrow> liquidity_value_t" where
  "account_liquidity_value T who asset s =
     liquidity_value T asset (liquidity_balance (CoreAssetId s, asset) who s) s"

section \<open>Prices\<close>

text \<open>The computations take the fee rate that the code reads from storage.\<close>

definition calculate_buy_price ::
  "fee_rate \<Rightarrow> balance \<Rightarrow> balance \<Rightarrow> balance \<Rightarrow> dispatch_error + balance" where
  "calculate_buy_price fee buy_amount sell_reserve buy_reserve =
     result_bind (result_ensure (sell_reserve \<noteq> 0 \<and> buy_reserve \<noteq> 0) (Cennzx_Error EmptyExchangePool)) (\<lambda>_.
     result_bind (result_ensure (buy_amount < buy_reserve)
       (Cennzx_Error InsufficientExchangePoolReserve)) (\<lambda>_.
     let buy_amount_hp = ucast buy_amount :: u256;
         buy_reserve_hp = ucast buy_reserve;
         sell_reserve_hp = ucast sell_reserve;
         denominator_hp = buy_reserve_hp - buy_amount_hp
     in
     result_bind (result_ok_or (checked_div (saturating_mul sell_reserve_hp buy_amount_hp) denominator_hp)
       (Cennzx_Error DivideByZero)) (\<lambda>price_hp.
     result_bind (result_ok_or (low_try_from price_hp) (Cennzx_Error Overflow)) (\<lambda>price_lp.
     result_bind (result_ok_or (checked_add price_lp 1) (Cennzx_Error Overflow)) (\<lambda>price_plus_one.
     result_bind (result_ok_or (fee_checked_add fee (fee_one PerMillion)) (Cennzx_Error Overflow))
       (\<lambda>fee_rate_plus_one.
     result_bind (result_ok_or (fee_checked_mul PerMillion fee_rate_plus_one (FeeRate price_plus_one))
       (Cennzx_Error Overflow)) (\<lambda>output.
     Inr (rate output))))))))"

definition calculate_sell_price ::
  "fee_rate \<Rightarrow> balance \<Rightarrow> balance \<Rightarrow> balance \<Rightarrow> dispatch_error + balance" where
  "calculate_sell_price fee sell_amount sell_reserve buy_reserve =
     result_bind (result_ensure (sell_reserve \<noteq> 0 \<and> buy_reserve \<noteq> 0) (Cennzx_Error EmptyExchangePool)) (\<lambda>_.
     result_bind (result_ok_or (fee_checked_add fee (fee_one PerMillion)) (Cennzx_Error Overflow)) (\<lambda>div_rate.
     result_bind (result_ok_or (fee_checked_div PerMillion (FeeRate sell_amount) div_rate)
       (Cennzx_Error DivideByZero)) (\<lambda>sell_amount_scaled.
     let sell_reserve_hp = ucast sell_reserve :: u256;
         buy_reserve_hp = ucast buy_reserve;
         sell_amount_scaled_hp = ucast (rate sell_amount_scaled);
         denominator_hp = sell_amount_scaled_hp + sell_reserve_hp
     in
     result_bind (result_ok_or (checked_div (saturating_mul buy_reserve_hp sell_amount_scaled_hp) denominator_hp)
       (Cennzx_Error DivideByZero)) (\<lambda>price_hp.
     result_bind (result_ok_or (low_try_from price_hp) (Cennzx_Error Overflow)) (\<lambda>price.
     result_bind (result_ensure (price < buy_reserve)
       (Cennzx_Error InsufficientExchangePoolReserve)) (\<lambda>_.
     Inr price))))))"

definition get_exchange_reserves :: "'s cx_config \<Rightarrow> asset_id \<Rightarrow> 's cx_state \<Rightarrow> balance \<times> balance" where
  "get_exchange_reserves T asset s =
     (let exchange_address = exchange_address_for T asset s
      in (cx_free_balance T exchange_address (CoreAssetId s) s, cx_free_balance T exchange_address asset s))"

definition get_asset_to_core_buy_price ::
  "'s cx_config \<Rightarrow> asset_id \<Rightarrow> balance \<Rightarrow> 's cx_state \<Rightarrow> dispatch_error + balance" where
  "get_asset_to_core_buy_price T asset buy_amount s =
     result_bind (result_ensure (0 < buy_amount) (Cennzx_Error CannotTradeZero)) (\<lambda>_.
     let (core_reserve, asset_reserve) = get_exchange_reserves T asset s
     in calculate_buy_price (DefaultFeeRate s) buy_amount asset_reserve core_reserve)"

definition get_core_to_asset_buy_price ::
  "'s cx_config \<Rightarrow> asset_id \<Rightarrow> balance \<Rightarrow> 's cx_state \<Rightarrow> dispatch_error + balance" where
  "get_core_to_asset_buy_price T asset buy_amount s =
     result_bind (result_ensure (0 < buy_amount) (Cennzx_Error CannotTradeZero)) (\<lambda>_.
     let (core_reserve, asset_reserve) = get_exchange_reserves T asset s
     in calculate_buy_price (DefaultFeeRate s) buy_amount core_reserve asset_reserve)"

definition get_buy_price ::
  "'s cx_config \<Rightarrow> asset_id \<Rightarrow> balance \<Rightarrow> asset_id \<Rightarrow> 's cx_state \<Rightarrow> dispatch_error + balance" where
  "get_buy_price T asset_to_buy amount_to_buy asset_to_pay s =
     result_bind (result_ensure (asset_to_buy \<noteq> asset_to_pay) (Cennzx_Error AssetCannotSwapForItself)) (\<lambda>_.
     result_bind
       (if asset_to_buy = CoreAssetId s then Inr amount_to_buy
        else get_core_to_asset_buy_price T asset_to_buy amount_to_buy s) (\<lambda>core_asset_amount.
     if asset_to_pay = CoreAssetId s then Inr core_asset_amount
     else get_asset_to_core_buy_price T asset_to_pay core_asset_amount s))"

definition get_asset_to_core_sell_price ::
  "'s cx_config \<Rightarrow> asset_id \<Rightarrow> balance \<Rightarrow> 's cx_state \<Rightarrow> dispatch_error + balance" where
  "get_asset_to_core_sell_price T asset sell_amount s =
     result_bind (result_ensure (0 < sell_amount) (Cennzx_Error CannotTradeZero)) (\<lambda>_.
     let (core_reserve, asset_reserve) = get_exchange_reserves T asset s
     in calculate_sell_price (DefaultFeeRate s) sell_amount asset_reserve core_reserve)"

definition get_core_to_asset_sell_price ::
  "'s cx_config \<Rightarrow> asset_id \<Rightarrow> balance \<Rightarrow> 's cx_state \<Rightarrow> dispatch_error + balance" where
  "get_core_to_asset_sell_price T asset sell_amount s =
     result_bind (result_ensure (0 < sell_amount) (Cennzx_Error CannotTradeZero)) (\<lambda>_.
     let (core_reserve, asset_reserve) = get_exchange_reserves T asset s
     in calculate_sell_price (DefaultFeeRate s) sell_amount core_reserve asset_reserve)"

definition get_sell_price ::
  "'s cx_config \<Rightarrow> asset_id \<Rightarrow> balance \<Rightarrow> asset_id \<Rightarrow> 's cx_state \<Rightarrow> dispatch_error + balance" where
  "get_sell_price T asset_to_sell amount_to_sell asset_to_payout s =
     result_bind (result_ensure (asset_to_sell \<noteq> asset_to_payout) (Cennzx_Error AssetCannotSwapForItself)) (\<lambda>_.
     result_bind
       (if asset_to_sell = CoreAssetId s then Inr amount_to_sell
        else get_asset_to_core_sell_price T asset_to_sell amount_to_sell s) (\<lambda>core_asset_amount.
     if asset_to_payout = CoreAssetId s then Inr core_asset_amount
     else get_core_to_asset_sell_price T asset_to_payout core_asset_amount s))"

section \<open>Trades\<close>

text \<open>
  \<open>Result::and\<close> takes a value: in \<open>a.and(b)\<close> both transfers are carried out, and the result is the
  first error. The surrounding transaction then undoes whatever they wrote.
\<close>

definition and_result :: "('s, 'e, 'a) call \<Rightarrow> ('s, 'e, 'b) call \<Rightarrow> ('s, 'e, 'b) call" where
  "and_result m n = (\<lambda>s. case m s of (r1, s1) \<Rightarrow> case n s1 of (r2, s2) \<Rightarrow>
     ((case r1 of Inl e \<Rightarrow> Inl e | Inr _ \<Rightarrow> r2), s2))"

definition execute_trade ::
  "'s cx_config \<Rightarrow> account_id \<Rightarrow> account_id \<Rightarrow> asset_id \<Rightarrow> asset_id \<Rightarrow> balance \<Rightarrow> balance \<Rightarrow>
    ('s cx_state, unit) dispatch" where
  "execute_trade T trader recipient asset_to_sell asset_to_buy amount_to_sell amount_to_buy =
     transactional
       (bind (gets CoreAssetId) (\<lambda>core_asset_id.
        if asset_to_sell = core_asset_id \<or> asset_to_buy = core_asset_id then
          bind (gets (exchange_address_for T
             (if asset_to_buy = core_asset_id then asset_to_sell else asset_to_buy))) (\<lambda>exchange_address.
          and_result (cx_transfer T trader exchange_address asset_to_sell amount_to_sell)
            (cx_transfer T exchange_address recipient asset_to_buy amount_to_buy))
        else
          bind (gets (exchange_address_for T asset_to_sell)) (\<lambda>exchange_address_a.
          bind (gets (exchange_address_for T asset_to_buy)) (\<lambda>exchange_address_b.
          bind (try_result (get_asset_to_core_sell_price T asset_to_sell amount_to_sell)) (\<lambda>core_amount.
          and_result
            (and_result (cx_transfer T trader exchange_address_a asset_to_sell amount_to_sell)
              (cx_transfer T exchange_address_a exchange_address_b core_asset_id core_amount))
            (cx_transfer T exchange_address_b recipient asset_to_buy amount_to_buy))))))"

definition execute_buy ::
  "'s cx_config \<Rightarrow> account_id \<Rightarrow> account_id \<Rightarrow> asset_id \<Rightarrow> asset_id \<Rightarrow> balance \<Rightarrow> balance \<Rightarrow>
    ('s cx_state, balance) dispatch" where
  "execute_buy T trader recipient asset_to_sell asset_to_buy amount_to_buy maximum_sell =
     bind (try_result (get_buy_price T asset_to_buy amount_to_buy asset_to_sell)) (\<lambda>amount_to_sell.
     bind (ensure (amount_to_sell \<le> maximum_sell) (Cennzx_Error MaximumSellRequirementNotMet)) (\<lambda>_.
     bind (gets (cx_free_balance T trader asset_to_sell)) (\<lambda>balance.
     bind (ensure (amount_to_sell \<le> balance) (Cennzx_Error InsufficientTraderBalance)) (\<lambda>_.
     bind (execute_trade T trader recipient asset_to_sell asset_to_buy amount_to_sell amount_to_buy) (\<lambda>_.
     bind (modify (cx_deposit_event
       (AssetBought asset_to_sell asset_to_buy trader amount_to_sell amount_to_buy))) (\<lambda>_.
     ret amount_to_sell))))))"

definition execute_sell ::
  "'s cx_config \<Rightarrow> account_id \<Rightarrow> account_id \<Rightarrow> asset_id \<Rightarrow> asset_id \<Rightarrow> balance \<Rightarrow> balance \<Rightarrow>
    ('s cx_state, balance) dispatch" where
  "execute_sell T trader recipient asset_to_sell asset_to_buy amount_to_sell minimum_buy =
     bind (gets (cx_free_balance T trader asset_to_sell)) (\<lambda>balance.
     bind (ensure (amount_to_sell \<le> balance) (Cennzx_Error InsufficientTraderBalance)) (\<lambda>_.
     bind (try_result (get_sell_price T asset_to_sell amount_to_sell asset_to_buy)) (\<lambda>amount_to_buy.
     bind (ensure (minimum_buy \<le> amount_to_buy) (Cennzx_Error MinimumBuyRequirementNotMet)) (\<lambda>_.
     bind (execute_trade T trader recipient asset_to_sell asset_to_buy amount_to_sell amount_to_buy) (\<lambda>_.
     bind (modify (cx_deposit_event
       (AssetSold asset_to_sell asset_to_buy trader amount_to_sell amount_to_buy))) (\<lambda>_.
     ret amount_to_buy))))))"

text \<open>\<open>BuyFeeAsset\<close> (impls.rs): the fee asset is the fee currency of the ledger.\<close>

record fee_exchange =
  fe_asset_id :: asset_id
  fe_max_payment :: balance

definition buy_fee_asset ::
  "'s cx_config \<Rightarrow> account_id \<Rightarrow> balance \<Rightarrow> fee_exchange \<Rightarrow> ('s cx_state, balance) dispatch" where
  "buy_fee_asset T who amount exchange_op =
     bind (gets (\<lambda>s. mc_fee_currency (cx_currency T) (Ledger s))) (\<lambda>fee_asset_id.
     execute_buy T who who (fe_asset_id exchange_op) fee_asset_id amount (fe_max_payment exchange_op))"

section \<open>Dispatchables\<close>

definition buy_asset ::
  "'s cx_config \<Rightarrow> origin \<Rightarrow> account_id option \<Rightarrow> asset_id \<Rightarrow> asset_id \<Rightarrow> balance \<Rightarrow> balance \<Rightarrow>
    ('s cx_state, unit) dispatch" where
  "buy_asset T orig recipient asset_to_sell asset_to_buy buy_amount maximum_sell =
     bind (signed orig) (\<lambda>trader.
     bind (execute_buy T trader (case recipient of Some r \<Rightarrow> r | None \<Rightarrow> trader)
       asset_to_sell asset_to_buy buy_amount maximum_sell) (\<lambda>_.
     ret ()))"

definition sell_asset ::
  "'s cx_config \<Rightarrow> origin \<Rightarrow> account_id option \<Rightarrow> asset_id \<Rightarrow> asset_id \<Rightarrow> balance \<Rightarrow> balance \<Rightarrow>
    ('s cx_state, unit) dispatch" where
  "sell_asset T orig recipient asset_to_sell asset_to_buy sell_amount minimum_buy =
     bind (signed orig) (\<lambda>trader.
     bind (execute_sell T trader (case recipient of Some r \<Rightarrow> r | None \<Rightarrow> trader)
       asset_to_sell asset_to_buy sell_amount minimum_buy) (\<lambda>_.
     ret ()))"

text \<open>What \<open>add_liquidity\<close> takes of the trade asset and how much liquidity it mints.\<close>

definition liquidity_to_mint ::
  "'s cx_config \<Rightarrow> asset_id \<Rightarrow> balance \<Rightarrow> balance \<Rightarrow> 's cx_state \<Rightarrow> balance \<times> balance" where
  "liquidity_to_mint T asset max_asset_amount core_amount s =
     (let core_asset_id = CoreAssetId s;
          liquidity_total = total_liquidity (core_asset_id, asset) s;
          exchange_address = exchange_address_for T asset s;
          core_asset_reserve = cx_free_balance T exchange_address core_asset_id s
      in if liquidity_total = 0 \<or> core_asset_reserve = 0 then (max_asset_amount, core_amount)
         else
           let trade_asset_reserve = cx_free_balance T exchange_address asset s
           in (core_amount * trade_asset_reserve div core_asset_reserve + 1,
               core_amount * liquidity_total div core_asset_reserve))"

definition add_liquidity ::
  "'s cx_config \<Rightarrow> origin \<Rightarrow> asset_id \<Rightarrow> balance \<Rightarrow> balance \<Rightarrow> balance \<Rightarrow> ('s cx_state, unit) dispatch" where
  "add_liquidity T orig asset min_liquidity max_asset_amount core_amount =
     transactional
       (bind (signed orig) (\<lambda>from_account.
        bind (gets CoreAssetId) (\<lambda>core_asset_id.
        bind (ensure (max_asset_amount \<noteq> 0 \<and> core_amount \<noteq> 0)
          (Cennzx_Error CannotAddLiquidityWithZero)) (\<lambda>_.
        bind (gets (cx_free_balance T from_account core_asset_id)) (\<lambda>core_balance.
        bind (ensure (core_amount \<le> core_balance) (Cennzx_Error InsufficientCoreAssetBalance)) (\<lambda>_.
        bind (gets (cx_free_balance T from_account asset)) (\<lambda>asset_balance.
        bind (ensure (max_asset_amount \<le> asset_balance) (Cennzx_Error InsufficientTradeAssetBalance)) (\<lambda>_.
        bind (gets (exchange_address_for T asset)) (\<lambda>exchange_address.
        bind (gets (liquidity_to_mint T asset max_asset_amount core_amount)) (\<lambda>p.
        let trade_asset_amount = fst p; liquidity_minted = snd p in
        bind (ensure (min_liquidity \<le> liquidity_minted)
          (Cennzx_Error MinimumLiquidityRequirementNotMet)) (\<lambda>_.
        bind (ensure (trade_asset_amount \<le> max_asset_amount)
          (Cennzx_Error MaximumTradeAssetRequirementNotMet)) (\<lambda>_.
        bind (cx_transfer T from_account exchange_address core_asset_id core_amount) (\<lambda>_.
        bind (cx_transfer T from_account exchange_address asset trade_asset_amount) (\<lambda>_.
        bind (modify (mint_liquidity (core_asset_id, asset) from_account liquidity_minted)) (\<lambda>_.
        modify (cx_deposit_event
          (AddLiquidity from_account core_amount asset trade_asset_amount)))))))))))))))))"

definition remove_liquidity ::
  "'s cx_config \<Rightarrow> origin \<Rightarrow> asset_id \<Rightarrow> balance \<Rightarrow> balance \<Rightarrow> balance \<Rightarrow> ('s cx_state, unit) dispatch" where
  "remove_liquidity T orig asset liquidity_to_withdraw min_asset_withdraw min_core_withdraw =
     transactional
       (bind (signed orig) (\<lambda>from_account.
        bind (gets CoreAssetId) (\<lambda>core_asset_id.
        bind (gets (liquidity_balance (core_asset_id, asset) from_account)) (\<lambda>account_liquidity.
        bind (ensure (liquidity_to_withdraw \<le> account_liquidity) (Cennzx_Error InsufficientLiquidity)) (\<lambda>_.
        bind (gets (liquidity_value T asset liquidity_to_withdraw)) (\<lambda>withdraw_value.
        bind (gets (total_liquidity (core_asset_id, asset))) (\<lambda>liquidity_total.
        bind (ensure (0 < liquidity_total) (Cennzx_Error EmptyExchangePool)) (\<lambda>_.
        bind (ensure (min_core_withdraw \<le> value_core withdraw_value)
          (Cennzx_Error MinimumCoreAssetRequirementNotMet)) (\<lambda>_.
        bind (ensure (min_asset_withdraw \<le> value_asset withdraw_value)
          (Cennzx_Error MinimumTradeAssetRequirementNotMet)) (\<lambda>_.
        bind (gets (exchange_address_for T asset)) (\<lambda>exchange_address.
        bind (cx_transfer T exchange_address from_account core_asset_id (value_core withdraw_value)) (\<lambda>_.
        bind (cx_transfer T exchange_address from_account asset (value_asset withdraw_value)) (\<lambda>_.
        bind (modify (burn_liquidity (core_asset_id, asset) from_account liquidity_to_withdraw)) (\<lambda>_.
        modify (cx_deposit_event (RemoveLiquidity from_account (value_core withdraw_value) asset
          (value_asset withdraw_value)))))))))))))))))"

definition set_fee_rate :: "origin \<Rightarrow> fee_rate \<Rightarrow> ('s cx_state, unit) dispatch" where
  "set_fee_rate orig new_fee_rate =
     bind (rooted orig) (\<lambda>_. modify (\<lambda>s. s\<lparr>DefaultFeeRate := new_fee_rate\<rparr>))"

end
