(* ===== verification/Cennzx_Price.thy ===== *)
theory Cennzx_Price
  imports Cennzx
begin

text \<open>
  The prices of the exchange against their reference definitions on natural numbers, and the
  constant-product rule: what a trade leaves in a pool has at least the product it had before.
\<close>

section \<open>High precision\<close>

lemma unat_hp [simp]: "unat (ucast (x :: u128) :: u256) = unat x"
  using unat_less_pow [of x] by (simp add: unsigned_ucast_eq take_bit_nat_eq_self)

lemma unat_mult_less_hp: "unat (x :: u128) * unat (y :: u128) < 2 ^ 256"
proof -
  have "unat x * unat y < 2 ^ 128 * 2 ^ 128"
    using unat_less_pow [of x] unat_less_pow [of y] by (intro mult_strict_mono) auto
  then show ?thesis by simp
qed

lemma unat_saturating_mul_hp [simp]:
  "unat (saturating_mul (ucast (x :: u128)) (ucast (y :: u128)) :: u256) = unat x * unat y"
  using unat_mult_less_hp [of x y] by (simp add: unat_saturating_mul min_absorb1)

lemma checked_div_Some_iff:
  "checked_div a b = Some c \<longleftrightarrow> unat b \<noteq> 0 \<and> unat c = unat a div unat (b :: 'a::len word)"
  by (auto simp: checked_div_def unat_div word_unat_eq_iff)

lemma low_try_from_Some_iff: "low_try_from h = Some l \<longleftrightarrow> unat l = unat h"
proof
  assume "low_try_from h = Some l"
  then have h: "h < 2 ^ 128" and l: "l = ucast h" by (auto simp: low_try_from_def split: if_splits)
  then have "unat h < 2 ^ 128" by (simp add: word_less_nat_alt)
  then show "unat l = unat h" using l by (simp add: unsigned_ucast_eq take_bit_nat_eq_self)
next
  assume eq: "unat l = unat h"
  then have "unat h < 2 ^ 128" using unat_less_pow [of l] by simp
  then have "h < 2 ^ 128" by (simp add: word_less_nat_alt)
  moreover have "unat (ucast h :: u128) = unat h"
    using \<open>unat h < 2 ^ 128\<close> by (simp add: unsigned_ucast_eq take_bit_nat_eq_self)
  then have "l = ucast h" using eq by (simp add: word_unat_eq_iff)
  ultimately show "low_try_from h = Some l" by (simp add: low_try_from_def)
qed

lemma fee_plus_one:
  "fee_checked_add fee (fee_one PerMillion) = Some r \<longleftrightarrow> unat (rate r) = unat (rate fee) + 1000000"
  by (cases r) (simp add: fee_checked_add_def fee_one_def checked_add_Some_iff)

lemma fee_rate_try_from_Some_iff: "fee_rate_try_from h = Some r \<longleftrightarrow> unat (rate r) = unat h"
  by (cases r) (simp add: fee_rate_try_from_def low_try_from_Some_iff)

lemma unat_scale: "unat (SCALE PerMillion) = 1000000"
  by simp

lemma fee_checked_mul_Some_iff:
  "fee_checked_mul PerMillion f m = Some r \<longleftrightarrow> unat (rate r) = unat (rate f) * unat (rate m) div 1000000"
proof -
  have "ucast (SCALE PerMillion) \<noteq> (0 :: u256)" by (metis unat_0 unat_hp unat_scale zero_neq_numeral)
  then show ?thesis
    by (simp add: fee_checked_mul_def checked_div_def fee_rate_try_from_Some_iff unat_div unat_scale
        del: SCALE.simps)
qed

lemma fee_checked_div_Some_iff:
  "fee_checked_div PerMillion f d = Some r \<longleftrightarrow>
     rate d \<noteq> 0 \<and> unat (rate r) = unat (rate f) * 1000000 div unat (rate d)"
proof -
  have "ucast (rate d) = (0 :: u256) \<longleftrightarrow> rate d = 0"
    by (simp add: word_unat_eq_iff)
  then show ?thesis
    by (simp add: fee_checked_div_def checked_div_def fee_rate_try_from_Some_iff unat_div unat_scale
        del: SCALE.simps)
qed

lemma ex_low: "n < 2 ^ 128 \<Longrightarrow> \<exists>w :: u128. unat w = n"
  by (rule exI [of _ "word_of_nat n"]) (simp add: unat_word_of_nat_less)

lemma ex_rate: "n < 2 ^ 128 \<Longrightarrow> \<exists>r. unat (rate r) = n"
  by (metis ex_low fee_rate.sel)

lemma unat_add_hp: "unat (ucast (x :: u128) + ucast (y :: u128) :: u256) = unat x + unat y"
  using unat_less_pow [of x] unat_less_pow [of y] by (simp add: unat_add_fits)

section \<open>Reference prices\<close>

text \<open>
  Buying \<open>b\<close> from a pool with reserves \<open>S\<close> (sold) and \<open>B\<close> (bought) costs the constant-product price
  rounded up past the next unit, and the fee per million on top. Selling \<open>a\<close> takes the fee off
  first and rounds down.
\<close>

definition buy_price_spec :: "nat \<Rightarrow> nat \<Rightarrow> nat \<Rightarrow> nat \<Rightarrow> nat" where
  "buy_price_spec fee b S B = (1000000 + fee) * (S * b div (B - b) + 1) div 1000000"

definition sell_price_spec :: "nat \<Rightarrow> nat \<Rightarrow> nat \<Rightarrow> nat \<Rightarrow> nat" where
  "sell_price_spec fee a S B = (let x = a * 1000000 div (1000000 + fee) in B * x div (x + S))"

lemma buy_price_spec_ge: "S * b div (B - b) + 1 \<le> buy_price_spec fee b S B"
proof -
  have "1000000 * (S * b div (B - b) + 1) \<le> (1000000 + fee) * (S * b div (B - b) + 1)"
    by (rule mult_right_mono) auto
  then show ?thesis unfolding buy_price_spec_def
    by (metis div_le_mono nonzero_mult_div_cancel_left zero_neq_numeral)
qed

lemma buy_price_constant_product:
  assumes "b < B"
  shows "S * B < (S + buy_price_spec fee b S B) * (B - b)"
proof -
  have "S * b < (S * b div (B - b) + 1) * (B - b)"
    using assms by (metis add.commute dividend_less_div_times plus_1_eq_Suc mult_Suc zero_less_diff)
  also have "\<dots> \<le> buy_price_spec fee b S B * (B - b)"
    by (rule mult_right_mono [OF buy_price_spec_ge]) simp
  finally have "S * b + S * (B - b) < (S + buy_price_spec fee b S B) * (B - b)"
    by (simp add: algebra_simps)
  then show ?thesis using assms by (simp add: add_mult_distrib2 [symmetric])
qed

lemma sell_price_less:
  assumes "0 < S" and "0 < B"
  shows "sell_price_spec fee a S B < B"
  using assms by (simp add: sell_price_spec_def Let_def less_mult_imp_div_less)

lemma sell_price_constant_product:
  assumes "0 < S" and "0 < B"
  shows "S * B \<le> (S + a) * (B - sell_price_spec fee a S B)"
proof -
  let ?x = "a * 1000000 div (1000000 + fee)"
  let ?v = "sell_price_spec fee a S B"
  have x: "?x \<le> a"
    using div_le_mono2 [of 1000000 "1000000 + fee" "a * 1000000"] by simp
  have "?v * (?x + S) \<le> B * ?x"
    by (simp add: sell_price_spec_def Let_def)
  then have "S * B + ?v * (?x + S) \<le> (?x + S) * B"
    by (simp add: algebra_simps)
  then have "S * B \<le> (?x + S) * (B - ?v)"
    by (simp add: diff_mult_distrib2 algebra_simps)
  also have "\<dots> \<le> (S + a) * (B - ?v)" using x by (intro mult_right_mono) auto
  finally show ?thesis .
qed

section \<open>The code computes the reference prices\<close>

lemma calculate_buy_price_Inr_iff:
  "calculate_buy_price fee b S B = Inr v \<longleftrightarrow>
     S \<noteq> 0 \<and> b < B \<and> unat (rate fee) + 1000000 < 2 ^ 128 \<and>
     unat v = buy_price_spec (unat (rate fee)) (unat b) (unat S) (unat B)"
  (is "?L \<longleftrightarrow> ?R")
proof
  have B: "unat (ucast B - ucast b :: u256) = unat B - unat b" if "b < B"
    using that by (simp add: unat_sub_fits word_le_nat_alt word_less_nat_alt)
  let ?p = "unat S * unat b div (unat B - unat b)"
  assume ?L
  then obtain f1 p where "S \<noteq> 0" "b < B"
    and f1: "unat (rate f1) = unat (rate fee) + 1000000" and p: "unat (p :: u128) = ?p + 1"
    and v: "unat v = unat (rate f1) * unat p div 1000000"
    by (auto simp: calculate_buy_price_def Let_def call_eqs checked_div_Some_iff low_try_from_Some_iff
        checked_add_Some_iff fee_plus_one fee_checked_mul_Some_iff B)
  moreover have "unat (rate fee) + 1000000 < 2 ^ 128"
    using f1 unat_less_pow [of "rate f1"] by simp
  ultimately show ?R by (simp add: buy_price_spec_def add.commute)
next
  let ?p = "unat S * unat b div (unat B - unat b)"
  assume R: ?R
  have B: "unat (ucast B - ucast b :: u256) = unat B - unat b"
    using R by (simp add: unat_sub_fits word_le_nat_alt word_less_nat_alt)
  have "?p + 1 < 2 ^ 128"
    using R buy_price_spec_ge [of "unat S" "unat b" "unat B" "unat (rate fee)"] unat_less_pow [of v] by simp
  then obtain l p1 :: u128 where l: "unat l = ?p" and p1: "unat p1 = ?p + 1"
    using ex_low [of ?p] ex_low [of "?p + 1"] by auto
  obtain f1 where f1: "unat (rate f1) = unat (rate fee) + 1000000"
    using R ex_rate by blast
  define h where "h = saturating_mul (ucast S) (ucast b) div (ucast B - ucast b :: u256)"
  have "unat h = ?p" by (simp add: h_def unat_div B)
  moreover have "checked_div (saturating_mul (ucast S) (ucast b)) (ucast B - ucast b) = Some h"
    using R B by (simp add: checked_div_Some_iff h_def unat_div word_less_nat_alt)
  moreover have "fee_checked_mul PerMillion f1 (FeeRate p1) = Some (FeeRate v)"
    using R by (simp add: fee_checked_mul_Some_iff f1 p1 buy_price_spec_def add.commute)
  moreover have "B \<noteq> 0" using R by auto
  ultimately show ?L
    using R l p1 f1
    by (simp add: calculate_buy_price_def result_defs low_try_from_Some_iff [THEN iffD2, of l]
        checked_add_Some_iff [THEN iffD2, of p1] fee_plus_one [THEN iffD2])
qed

lemma calculate_sell_price_Inr_iff:
  "calculate_sell_price fee a S B = Inr v \<longleftrightarrow>
     S \<noteq> 0 \<and> B \<noteq> 0 \<and> unat (rate fee) + 1000000 < 2 ^ 128 \<and>
     unat v = sell_price_spec (unat (rate fee)) (unat a) (unat S) (unat B)"
  (is "?L \<longleftrightarrow> ?R")
proof
  assume ?L
  then obtain f1 sc where "S \<noteq> 0" "B \<noteq> 0"
    and f1: "unat (rate f1) = unat (rate fee) + 1000000"
    and sc: "unat (rate sc) = unat a * 1000000 div unat (rate f1)"
    and v: "unat v = unat B * unat (rate sc) div unat (ucast (rate sc) + ucast S :: u256)"
    by (auto simp: calculate_sell_price_def Let_def call_eqs checked_div_Some_iff low_try_from_Some_iff
        fee_plus_one fee_checked_div_Some_iff)
  moreover have "unat (rate fee) + 1000000 < 2 ^ 128"
    using f1 unat_less_pow [of "rate f1"] by simp
  ultimately show ?R by (simp add: sell_price_spec_def unat_add_hp add.commute Let_def)
next
  let ?x = "unat a * 1000000 div (unat (rate fee) + 1000000)"
  assume R: ?R
  then have "0 < unat S" "0 < unat B" by (simp_all add: word_unat_eq_iff)
  then have less: "unat v < unat B" using R sell_price_less by simp
  obtain f1 where f1: "unat (rate f1) = unat (rate fee) + 1000000"
    using R ex_rate by blast
  have "?x \<le> unat a" using div_le_mono2 [of 1000000 "unat (rate fee) + 1000000" "unat a * 1000000"] by simp
  then have "?x < 2 ^ 128" using unat_less_pow [of a] by simp
  then obtain sc where sc: "unat (rate sc) = ?x" using ex_rate by blast
  define h where "h = saturating_mul (ucast B) (ucast (rate sc)) div (ucast (rate sc) + ucast S :: u256)"
  have h: "unat h = unat v"
    using R by (simp add: h_def unat_div unat_add_hp sc sell_price_spec_def Let_def add.commute)
  moreover have "checked_div (saturating_mul (ucast B) (ucast (rate sc))) (ucast (rate sc) + ucast S) = Some h"
    using \<open>0 < unat S\<close> by (simp add: checked_div_Some_iff h_def unat_div unat_add_hp)
  moreover have "fee_checked_div PerMillion (FeeRate a) f1 = Some sc"
    by (auto simp: fee_checked_div_Some_iff f1 sc word_unat_eq_iff)
  ultimately show ?L
    using R less f1
    by (simp add: calculate_sell_price_def result_defs low_try_from_Some_iff [THEN iffD2, of v]
        fee_plus_one [THEN iffD2] word_less_nat_alt)
qed

end
