(* ===== verification/GenericAsset.thy ===== *)
theory GenericAsset
  imports GA_Types
begin

text \<open>
  The generic-asset pallet, \<open>crml/generic-asset/src/lib.rs\<close>: the ledger of every asset of the
  chain. First the operations in the order of the source, then the accounting invariant and
  what each operation does to it.
\<close>

section \<open>Operations\<close>

subsection \<open>Balances\<close>

definition total_issuance :: "asset_id \<Rightarrow> ga_state \<Rightarrow> balance" where
  "total_issuance a s = storage_get 0 (TotalIssuance s) a"

definition free_balance :: "asset_id \<Rightarrow> account_id \<Rightarrow> ga_state \<Rightarrow> balance" where
  "free_balance a who s = storage_get 0 (FreeBalance s) (a, who)"

definition reserved_balance :: "asset_id \<Rightarrow> account_id \<Rightarrow> ga_state \<Rightarrow> balance" where
  "reserved_balance a who s = storage_get 0 (ReservedBalance s) (a, who)"

definition total_balance :: "asset_id \<Rightarrow> account_id \<Rightarrow> ga_state \<Rightarrow> balance" where
  "total_balance a who s = free_balance a who s + reserved_balance a who s"

definition locks :: "asset_id \<Rightarrow> account_id \<Rightarrow> ga_state \<Rightarrow> balance_lock list" where
  "locks a who s = storage_get [] (Locks s) (a, who)"

definition asset_meta :: "asset_id \<Rightarrow> ga_state \<Rightarrow> asset_info" where
  "asset_meta a s = storage_get default_asset_info (AssetMeta s) a"

definition minimum_balance :: "asset_id \<Rightarrow> ga_state \<Rightarrow> balance" where
  "minimum_balance a s = ucast (existential_deposit (asset_meta a s))"

definition set_reserved_balance :: "asset_id \<Rightarrow> account_id \<Rightarrow> balance \<Rightarrow> ga_state \<Rightarrow> ga_state" where
  "set_reserved_balance a who reserved s =
     (if reserved = 0 then s\<lparr>ReservedBalance := (ReservedBalance s)((a, who) := None)\<rparr>
      else s\<lparr>ReservedBalance := (ReservedBalance s)((a, who) \<mapsto> reserved)\<rparr>)"

definition set_free_balance ::
  "ga_config \<Rightarrow> asset_id \<Rightarrow> account_id \<Rightarrow> balance \<Rightarrow> ga_state \<Rightarrow> ga_state" where
  "set_free_balance T a who free s =
     s\<lparr>FreeBalance := (FreeBalance s)((a, who) \<mapsto> free),
       Providers := (if Providers s who = 0 then inc_providers T who (Providers s) else Providers s)\<rparr>"

text \<open>\<open>TransferDustImbalance::on_nonzero_unbalanced\<close> of \<open>impls.rs\<close>.\<close>

definition on_nonzero_unbalanced :: "ga_config \<Rightarrow> negative_imbalance \<Rightarrow> ga_state \<Rightarrow> ga_state" where
  "on_nonzero_unbalanced T imbalance s =
     (let beneficiary = dust_beneficiary T;
          beneficiary_balance = free_balance (neg_asset imbalance) beneficiary s
      in set_free_balance T (neg_asset imbalance) beneficiary
           (saturating_add beneficiary_balance (neg_amount imbalance)) s)"

definition reclaim_free_balance :: "ga_config \<Rightarrow> asset_id \<Rightarrow> account_id \<Rightarrow> ga_state \<Rightarrow> ga_state" where
  "reclaim_free_balance T a who s =
     (let amount = free_balance a who s;
          s1 = s\<lparr>FreeBalance := (FreeBalance s)((a, who) := None)\<rparr>;
          s2 = (if 0 < amount then on_nonzero_unbalanced T (NegativeImbalance amount a) s1 else s1)
      in deposit_event (DustReclaimed a who amount) s2)"

subsection \<open>Permissions and locks\<close>

definition get_permission :: "asset_id \<Rightarrow> ga_state \<Rightarrow> permission_versions" where
  "get_permission a s = storage_get (V1 default_permissions) (Permissions s) a"

definition check_permission :: "asset_id \<Rightarrow> account_id \<Rightarrow> permission_type \<Rightarrow> ga_state \<Rightarrow> bool" where
  "check_permission a who what s =
     (let permission = permission_latest (get_permission a s)
      in case what of
           Burn \<Rightarrow> perm_burn permission = Address who
         | Mint \<Rightarrow> perm_mint permission = Address who
         | Update \<Rightarrow> perm_update permission = Address who)"

definition ensure_can_withdraw ::
  "asset_id \<Rightarrow> account_id \<Rightarrow> balance \<Rightarrow> withdraw_reasons \<Rightarrow> balance \<Rightarrow> ga_state \<Rightarrow> dispatch_error + unit" where
  "ensure_can_withdraw a who amount reasons new_balance s =
     (if amount = 0 then Inr ()
      else if locks a who s = [] then Inr ()
      else if list_all (\<lambda>l. lock_amount l \<le> new_balance \<or>
                (reasons_from reasons \<noteq> ReasonsAll \<and> lock_reasons l \<noteq> ReasonsAll
                 \<and> lock_reasons l \<noteq> reasons_from reasons)) (locks a who s)
      then Inr ()
      else Inl (GenericAsset_Error LiquidityRestrictions))"

text \<open>
  \<open>filter_map\<close> with \<open>new_lock.take()\<close>: the first lock with the identifier is replaced, any
  further one is removed. \<open>replace_lock\<close> returns the locks and what is left of \<open>new_lock\<close>.
\<close>

fun replace_lock ::
  "lock_identifier \<Rightarrow> (balance_lock \<Rightarrow> balance_lock \<Rightarrow> balance_lock) \<Rightarrow> balance_lock option \<Rightarrow>
    balance_lock list \<Rightarrow> balance_lock list \<times> balance_lock option" where
  "replace_lock i merge nl [] = ([], nl)"
| "replace_lock i merge nl (l # ls) =
     (if lock_id l = i then
        (case nl of
           None \<Rightarrow> replace_lock i merge None ls
         | Some n \<Rightarrow> (let (rest, nl') = replace_lock i merge None ls in (merge l n # rest, nl')))
      else (let (rest, nl') = replace_lock i merge nl ls in (l # rest, nl')))"

definition push_lock :: "balance_lock list \<times> balance_lock option \<Rightarrow> balance_lock list" where
  "push_lock p = (case snd p of Some l \<Rightarrow> fst p @ [l] | None \<Rightarrow> fst p)"

definition set_lock ::
  "lock_identifier \<Rightarrow> asset_id \<Rightarrow> account_id \<Rightarrow> balance \<Rightarrow> withdraw_reasons \<Rightarrow> ga_state \<Rightarrow> ga_state" where
  "set_lock i a who amount reasons s =
     (let new_lock = \<lparr>lock_id = i, lock_amount = amount, lock_reasons = reasons_from reasons\<rparr>;
          ls = push_lock (replace_lock i (\<lambda>_ n. n) (Some new_lock) (locks a who s))
      in s\<lparr>Locks := (Locks s)((a, who) \<mapsto> ls)\<rparr>)"

definition extend_lock ::
  "lock_identifier \<Rightarrow> asset_id \<Rightarrow> account_id \<Rightarrow> balance \<Rightarrow> withdraw_reasons \<Rightarrow> ga_state \<Rightarrow> ga_state" where
  "extend_lock i a who amount reasons s =
     (let new_lock = \<lparr>lock_id = i, lock_amount = amount, lock_reasons = reasons_from reasons\<rparr>;
          merge = (\<lambda>l nl. \<lparr>lock_id = lock_id l, lock_amount = max (lock_amount l) (lock_amount nl),
                           lock_reasons = reasons_bitor (lock_reasons l) (lock_reasons nl)\<rparr>);
          ls = push_lock (replace_lock i merge (Some new_lock) (locks a who s))
      in s\<lparr>Locks := (Locks s)((a, who) \<mapsto> ls)\<rparr>)"

definition remove_lock :: "lock_identifier \<Rightarrow> asset_id \<Rightarrow> account_id \<Rightarrow> ga_state \<Rightarrow> ga_state" where
  "remove_lock i a who s =
     (let ls = filter (\<lambda>l. lock_id l \<noteq> i) (locks a who s)
      in if ls = [] then s\<lparr>Locks := (Locks s)((a, who) := None)\<rparr>
         else s\<lparr>Locks := (Locks s)((a, who) \<mapsto> ls)\<rparr>)"

definition get_all_balances :: "account_id \<Rightarrow> asset_id \<Rightarrow> ga_state \<Rightarrow> all_balances" where
  "get_all_balances who a s =
     (let reserved = reserved_balance a who s;
          staked = sum_list (map lock_amount (locks a who s));
          available = free_balance a who s - staked
      in \<lparr>all_reserved = reserved, all_staked = staked, all_available = available\<rparr>)"

subsection \<open>Minting, burning and creating assets\<close>

definition mint_free ::
  "ga_config \<Rightarrow> asset_id \<Rightarrow> account_id \<Rightarrow> account_id \<Rightarrow> balance \<Rightarrow> (ga_state, unit) dispatch" where
  "mint_free T a who to amount =
     bind (gets (check_permission a who Mint)) (\<lambda>permitted.
     if permitted then
       bind (gets (free_balance a to)) (\<lambda>original_free_balance.
       bind (gets (total_issuance a)) (\<lambda>current_total_issuance.
       bind (ok_or (checked_add current_total_issuance amount)
               (GenericAsset_Error TotalMintingOverflow)) (\<lambda>new_total_issuance.
       bind (ok_or (checked_add original_free_balance amount)
               (GenericAsset_Error FreeMintingOverflow)) (\<lambda>value.
       bind (modify (\<lambda>s. s\<lparr>TotalIssuance := (TotalIssuance s)(a \<mapsto> new_total_issuance)\<rparr>)) (\<lambda>_.
       modify (set_free_balance T a to value))))))
     else throw (GenericAsset_Error NoMintPermission))"

definition burn_free ::
  "ga_config \<Rightarrow> asset_id \<Rightarrow> account_id \<Rightarrow> account_id \<Rightarrow> balance \<Rightarrow> (ga_state, unit) dispatch" where
  "burn_free T a who to amount =
     bind (gets (check_permission a who Burn)) (\<lambda>permitted.
     if permitted then
       bind (gets (free_balance a to)) (\<lambda>original_free_balance.
       bind (gets (total_issuance a)) (\<lambda>current_total_issuance.
       bind (ok_or (checked_sub current_total_issuance amount)
               (GenericAsset_Error TotalBurningUnderflow)) (\<lambda>new_total_issuance.
       bind (ok_or (checked_sub original_free_balance amount)
               (GenericAsset_Error FreeBurningUnderflow)) (\<lambda>value.
       bind (modify (\<lambda>s. s\<lparr>TotalIssuance := (TotalIssuance s)(a \<mapsto> new_total_issuance)\<rparr>)) (\<lambda>_.
       modify (set_free_balance T a to value))))))
     else throw (GenericAsset_Error NoBurnPermission))"

text \<open>The identifier of the asset that \<open>create_asset\<close> creates.\<close>

definition create_asset_id :: "asset_id option \<Rightarrow> (ga_state, asset_id) dispatch" where
  "create_asset_id asset =
     (case asset of
        Some a \<Rightarrow>
          bind (ensure (a \<noteq> 0) (GenericAsset_Error AssetIdExists)) (\<lambda>_.
          bind (gets TotalIssuance) (\<lambda>issuance.
          bind (ensure (issuance a = None) (GenericAsset_Error AssetIdExists)) (\<lambda>_.
          bind (gets NextAssetId) (\<lambda>next.
          bind (ensure (a < next) (GenericAsset_Error AssetIdExists)) (\<lambda>_.
          ret a)))))
      | None \<Rightarrow>
          bind (gets NextAssetId) (\<lambda>a.
          bind (ok_or (checked_add a 1) (GenericAsset_Error AssetIdExhausted)) (\<lambda>next_id.
          bind (modify (\<lambda>s. s\<lparr>NextAssetId := next_id\<rparr>)) (\<lambda>_.
          ret a))))"

definition create_asset ::
  "ga_config \<Rightarrow> asset_id option \<Rightarrow> account_id option \<Rightarrow> asset_options \<Rightarrow> asset_info \<Rightarrow>
    (ga_state, unit) dispatch" where
  "create_asset T asset from_account options info =
     bind (ensure (existential_deposit info \<noteq> 0) (GenericAsset_Error ZeroExistentialDeposit)) (\<lambda>_.
     bind (ok_or (checked_pow (10 :: balance) (unat (decimal_places info)))
             (GenericAsset_Error DecimalTooLarge)) (\<lambda>decimal_factor.
     bind (ok_or (checked_mul decimal_factor (initial_issuance options))
             (GenericAsset_Error InitialIssuanceTooLarge)) (\<lambda>issuance.
     bind (create_asset_id asset) (\<lambda>a.
     let account = (case from_account of Some who \<Rightarrow> who | None \<Rightarrow> 0) in
     bind (modify (\<lambda>s. s\<lparr>TotalIssuance := (TotalIssuance s)(a \<mapsto> issuance)\<rparr>)) (\<lambda>_.
     bind (modify (set_free_balance T a account issuance)) (\<lambda>_.
     bind (modify (\<lambda>s. s\<lparr>Permissions := (Permissions s)(a \<mapsto> V1 (permissions options))\<rparr>)) (\<lambda>_.
     bind (modify (\<lambda>s. s\<lparr>AssetMeta := (AssetMeta s)(a \<mapsto> info)\<rparr>)) (\<lambda>_.
     modify (deposit_event (Created a account options))))))))))"

subsection \<open>Transfers\<close>

definition make_transfer ::
  "ga_config \<Rightarrow> asset_id \<Rightarrow> account_id \<Rightarrow> account_id \<Rightarrow> balance \<Rightarrow> existence_requirement \<Rightarrow>
    (ga_state, unit) dispatch" where
  "make_transfer T a from to amount req =
     bind (gets (free_balance a from)) (\<lambda>from_balance.
     bind (ok_or (checked_sub from_balance amount)
             (GenericAsset_Error ga_error.InsufficientBalance)) (\<lambda>new_from_balance.
     bind (gets (free_balance a to)) (\<lambda>to_balance.
     bind (ok_or (checked_add to_balance amount)
             (GenericAsset_Error TransferOverflow)) (\<lambda>new_to_balance.
     bind (try_result (ensure_can_withdraw a from amount {TRANSFER} new_from_balance)) (\<lambda>_.
     if from = to then ret ()
     else
       bind (modify (set_free_balance T a to new_to_balance)) (\<lambda>_.
       bind (modify (set_free_balance T a from new_from_balance)) (\<lambda>_.
       bind (gets (minimum_balance a)) (\<lambda>minimum.
       if new_from_balance < minimum then modify (reclaim_free_balance T a from)
       else ret ()))))))))"

definition make_transfer_with_event ::
  "ga_config \<Rightarrow> asset_id \<Rightarrow> account_id \<Rightarrow> account_id \<Rightarrow> balance \<Rightarrow> existence_requirement \<Rightarrow>
    (ga_state, unit) dispatch" where
  "make_transfer_with_event T a from to amount req =
     bind (make_transfer T a from to amount req) (\<lambda>_.
     if from \<noteq> to then modify (deposit_event (Transferred a from to amount)) else ret ())"

subsection \<open>Reserves and slashing\<close>

definition reserve :: "ga_config \<Rightarrow> asset_id \<Rightarrow> account_id \<Rightarrow> balance \<Rightarrow> (ga_state, unit) dispatch" where
  "reserve T a who amount =
     bind (gets (reserved_balance a who)) (\<lambda>original_reserve_balance.
     bind (gets (free_balance a who)) (\<lambda>original_free_balance.
     bind (ensure (\<not> original_free_balance < amount)
             (GenericAsset_Error ga_error.InsufficientBalance)) (\<lambda>_.
     let new_reserve_balance = original_reserve_balance + amount;
         new_free_balance = original_free_balance - amount in
     bind (gets (minimum_balance a)) (\<lambda>minimum.
     bind (if new_free_balance < minimum then modify (reclaim_free_balance T a who)
           else modify (\<lambda>s. s\<lparr>FreeBalance := (FreeBalance s)((a, who) \<mapsto> new_free_balance)\<rparr>)) (\<lambda>_.
     modify (\<lambda>s. s\<lparr>ReservedBalance := (ReservedBalance s)((a, who) \<mapsto> new_reserve_balance)\<rparr>))))))"

definition unreserve :: "asset_id \<Rightarrow> account_id \<Rightarrow> balance \<Rightarrow> ga_state \<Rightarrow> balance \<times> ga_state" where
  "unreserve a who amount s =
     (let b = reserved_balance a who s;
          actual = min b amount;
          original_free_balance = free_balance a who s;
          new_free_balance = original_free_balance + actual;
          new_reserved_balance = b - actual;
          s1 = set_reserved_balance a who new_reserved_balance s;
          s2 = s1\<lparr>FreeBalance := (FreeBalance s1)((a, who) \<mapsto> new_free_balance)\<rparr>
      in (amount - actual, s2))"

definition slash_reserved ::
  "asset_id \<Rightarrow> account_id \<Rightarrow> balance \<Rightarrow> ga_state \<Rightarrow> balance option \<times> ga_state" where
  "slash_reserved a who amount s =
     (let original_reserve_balance = reserved_balance a who s;
          slashed = min original_reserve_balance amount;
          new_reserve_balance = original_reserve_balance - slashed;
          s1 = set_reserved_balance a who new_reserve_balance s
      in (if amount = slashed then None else Some (amount - slashed), s1))"

definition slash ::
  "ga_config \<Rightarrow> asset_id \<Rightarrow> account_id \<Rightarrow> balance \<Rightarrow> ga_state \<Rightarrow> balance option \<times> ga_state" where
  "slash T a who amount s =
     (let free = free_balance a who s;
          free_slash = min free amount;
          new_free_balance = free - free_slash;
          s1 = set_free_balance T a who new_free_balance s
      in if free_slash < amount then slash_reserved a who (amount - free_slash) s1 else (None, s1))"

definition repatriate_reserved ::
  "asset_id \<Rightarrow> account_id \<Rightarrow> account_id \<Rightarrow> balance \<Rightarrow> ga_state \<Rightarrow> balance \<times> ga_state" where
  "repatriate_reserved a payee beneficiary amount s =
     (if amount = 0 then (0, s)
      else
        let payee_reserve_balance = reserved_balance a payee s;
            repatriated_amount = min payee_reserve_balance amount;
            beneficiary_free_balance = free_balance a beneficiary s;
            new_beneficiary_free_balance = beneficiary_free_balance + repatriated_amount;
            new_payee_reserve_balance = payee_reserve_balance - repatriated_amount;
            s1 = s\<lparr>FreeBalance := (FreeBalance s)((a, beneficiary) \<mapsto> new_beneficiary_free_balance)\<rparr>;
            s2 = set_reserved_balance a payee new_payee_reserve_balance s1
        in (amount - repatriated_amount, s2))"

subsection \<open>Dispatchables\<close>

definition create ::
  "ga_config \<Rightarrow> origin \<Rightarrow> account_id \<Rightarrow> asset_options \<Rightarrow> asset_info \<Rightarrow> (ga_state, unit) dispatch" where
  "create T orig owner options info =
     bind (case ensure_signed BadOrigin orig of Inl _ \<Rightarrow> rooted orig | Inr _ \<Rightarrow> ret ()) (\<lambda>_.
     create_asset T None (Some owner) options info)"

definition transfer ::
  "ga_config \<Rightarrow> origin \<Rightarrow> asset_id \<Rightarrow> account_id \<Rightarrow> balance \<Rightarrow> (ga_state, unit) dispatch" where
  "transfer T orig a to amount =
     bind (signed orig) (\<lambda>who.
     bind (ensure (amount \<noteq> 0) (GenericAsset_Error ZeroAmount)) (\<lambda>_.
     make_transfer_with_event T a who to amount AllowDeath))"

definition transfer_all ::
  "ga_config \<Rightarrow> origin \<Rightarrow> asset_id \<Rightarrow> account_id \<Rightarrow> (ga_state, unit) dispatch" where
  "transfer_all T orig a to =
     bind (signed orig) (\<lambda>who.
     bind (gets (free_balance a who)) (\<lambda>amount.
     make_transfer_with_event T a who to amount AllowDeath))"

definition update_permission :: "origin \<Rightarrow> asset_id \<Rightarrow> permissions_v1 \<Rightarrow> (ga_state, unit) dispatch" where
  "update_permission orig a new_permission =
     bind (signed orig) (\<lambda>who.
     bind (gets (check_permission a who Update)) (\<lambda>permitted.
     if permitted then
       bind (modify (\<lambda>s. s\<lparr>Permissions := (Permissions s)(a \<mapsto> V1 new_permission)\<rparr>)) (\<lambda>_.
       modify (deposit_event (PermissionUpdated a new_permission)))
     else throw (GenericAsset_Error NoUpdatePermission)))"

definition update_asset_info :: "origin \<Rightarrow> asset_id \<Rightarrow> asset_info \<Rightarrow> (ga_state, unit) dispatch" where
  "update_asset_info orig a info =
     bind (signed orig) (\<lambda>who.
     bind (gets TotalIssuance) (\<lambda>issuance.
     bind (ensure (issuance a \<noteq> None) (GenericAsset_Error AssetIdNotExist)) (\<lambda>_.
     bind (gets (check_permission a who Update)) (\<lambda>permitted.
     bind (ensure permitted (GenericAsset_Error NoUpdatePermission)) (\<lambda>_.
     bind (modify (\<lambda>s. s\<lparr>AssetMeta := (AssetMeta s)(a \<mapsto> info)\<rparr>)) (\<lambda>_.
     modify (deposit_event (AssetInfoUpdated a info))))))))"

definition mint ::
  "ga_config \<Rightarrow> origin \<Rightarrow> asset_id \<Rightarrow> account_id \<Rightarrow> balance \<Rightarrow> (ga_state, unit) dispatch" where
  "mint T orig a to amount =
     bind (signed orig) (\<lambda>who.
     bind (mint_free T a who to amount) (\<lambda>_.
     modify (deposit_event (Minted a to amount))))"

definition burn ::
  "ga_config \<Rightarrow> origin \<Rightarrow> asset_id \<Rightarrow> account_id \<Rightarrow> balance \<Rightarrow> (ga_state, unit) dispatch" where
  "burn T orig a target amount =
     bind (signed orig) (\<lambda>who.
     bind (burn_free T a who target amount) (\<lambda>_.
     modify (deposit_event (Burned a target amount))))"

definition create_reserved ::
  "ga_config \<Rightarrow> origin \<Rightarrow> asset_id \<Rightarrow> asset_options \<Rightarrow> asset_info \<Rightarrow> (ga_state, unit) dispatch" where
  "create_reserved T orig a options info =
     bind (rooted orig) (\<lambda>_.
     create_asset T (Some a) None options info)"

subsection \<open>Genesis and the storage migration\<close>

record ga_genesis =
  genesis_assets :: "asset_id list"
  genesis_initial_balance :: balance
  genesis_endowed_accounts :: "account_id list"
  genesis_permissions :: "(asset_id \<times> account_id) list"
  genesis_next_asset_id :: asset_id
  genesis_staking_asset_id :: asset_id
  genesis_spending_asset_id :: asset_id
  genesis_asset_meta :: "(asset_id \<times> asset_info) list"

definition genesis_state :: "ga_genesis \<Rightarrow> ga_state" where
  "genesis_state g =
     \<lparr>TotalIssuance = map_of (map (\<lambda>i. (i, genesis_initial_balance g *
         word_of_nat (length (genesis_endowed_accounts g)))) (genesis_assets g)),
      FreeBalance = Map.empty, ReservedBalance = Map.empty,
      NextAssetId = genesis_next_asset_id g,
      Permissions = map_of (rev (map (\<lambda>(a, w). (a, V1 (permissions_new w))) (genesis_permissions g))),
      Locks = Map.empty,
      StakingAssetId = genesis_staking_asset_id g, SpendingAssetId = genesis_spending_asset_id g,
      AssetMeta = Map.empty, StorageVersion = 1, Providers = (\<lambda>_. 0), ga_events = []\<rparr>"

definition insert_asset_meta :: "asset_id \<times> asset_info \<Rightarrow> ga_state \<Rightarrow> ga_state" where
  "insert_asset_meta p s = s\<lparr>AssetMeta := (AssetMeta s)(fst p \<mapsto> snd p)\<rparr>"

definition genesis_build :: "ga_config \<Rightarrow> ga_genesis \<Rightarrow> ga_state" where
  "genesis_build T g =
     fold insert_asset_meta (genesis_asset_meta g)
       (fold (\<lambda>a s. fold (\<lambda>w s. set_free_balance T a w (genesis_initial_balance g) s)
                      (genesis_endowed_accounts g) s)
          (genesis_assets g) (genesis_state g))"

text \<open>\<open>old\<close> is the content of the lock storage read with the old lock type.\<close>

definition on_runtime_upgrade ::
  "(asset_id \<times> account_id \<times> balance_lock_old list) list \<Rightarrow> ga_state \<Rightarrow> u64 \<times> ga_state" where
  "on_runtime_upgrade old s =
     (if StorageVersion s \<noteq> 1 then (0, s)
      else
        (word_of_nat (length old) * 100000,
         fold (\<lambda>(a, who, ls) s. s\<lparr>Locks := (Locks s)((a, who) \<mapsto> map upgrade ls)\<rparr>) old
           (s\<lparr>StorageVersion := 2\<rparr>)))"

end
