(* ===== verification/GA_Accounting.thy ===== *)
theory GA_Accounting
  imports GenericAsset
begin

text \<open>
  The accounting of the generic-asset pallet. \<open>circulating\<close> is what all accounts hold of an asset, free
  and reserved; \<open>backed\<close> says that it is the recorded total issuance, for every asset. The
  dispatchables keep \<open>backed\<close>, so it holds in every state they reach from genesis.
\<close>

named_theorems ga_simps \<open>reads of the ledger after its updates\<close>

section \<open>Reads after updates\<close>

lemma free_balance_set_free [ga_simps]:
  "free_balance b w (set_free_balance T a who v s) =
     (if b = a \<and> w = who then v else free_balance b w s)"
  by (simp add: free_balance_def set_free_balance_def)

lemma reserved_balance_set_free [ga_simps]:
  "reserved_balance b w (set_free_balance T a who v s) = reserved_balance b w s"
  by (simp add: reserved_balance_def set_free_balance_def)

lemma total_issuance_set_free [ga_simps]:
  "total_issuance b (set_free_balance T a who v s) = total_issuance b s"
  by (simp add: total_issuance_def set_free_balance_def)

lemma set_free_fields [ga_simps]:
  "TotalIssuance (set_free_balance T a who v s) = TotalIssuance s"
  "Permissions (set_free_balance T a who v s) = Permissions s"
  "NextAssetId (set_free_balance T a who v s) = NextAssetId s"
  "Locks (set_free_balance T a who v s) = Locks s"
  "AssetMeta (set_free_balance T a who v s) = AssetMeta s"
  by (simp_all add: set_free_balance_def)

lemma free_balance_set_reserved [ga_simps]:
  "free_balance b w (set_reserved_balance a who v s) = free_balance b w s"
  by (simp add: free_balance_def set_reserved_balance_def)

lemma reserved_balance_set_reserved [ga_simps]:
  "reserved_balance b w (set_reserved_balance a who v s) =
     (if b = a \<and> w = who then v else reserved_balance b w s)"
  by (simp add: reserved_balance_def set_reserved_balance_def)

lemma total_issuance_set_reserved [ga_simps]:
  "total_issuance b (set_reserved_balance a who v s) = total_issuance b s"
  by (simp add: total_issuance_def set_reserved_balance_def)

lemma minimum_balance_sets [ga_simps]:
  "minimum_balance b (set_free_balance T a who v s) = minimum_balance b s"
  "minimum_balance b (set_reserved_balance a who v s) = minimum_balance b s"
  by (simp_all add: minimum_balance_def asset_meta_def set_free_balance_def set_reserved_balance_def)

lemma ledger_event [ga_simps]:
  "free_balance b w (deposit_event e s) = free_balance b w s"
  "reserved_balance b w (deposit_event e s) = reserved_balance b w s"
  "total_issuance b (deposit_event e s) = total_issuance b s"
  by (simp_all add: free_balance_def reserved_balance_def total_issuance_def deposit_event_def)

lemma ledger_raw_update [ga_simps]:
  "free_balance b w (s\<lparr>FreeBalance := (FreeBalance s)((a, who) \<mapsto> v)\<rparr>) =
     (if b = a \<and> w = who then v else free_balance b w s)"
  "free_balance b w (s\<lparr>FreeBalance := (FreeBalance s)((a, who) := None)\<rparr>) =
     (if b = a \<and> w = who then 0 else free_balance b w s)"
  "free_balance b w (s\<lparr>ReservedBalance := R\<rparr>) = free_balance b w s"
  "free_balance b w (s\<lparr>TotalIssuance := I\<rparr>) = free_balance b w s"
  "free_balance b w (s\<lparr>Permissions := P\<rparr>) = free_balance b w s"
  "free_balance b w (s\<lparr>AssetMeta := M\<rparr>) = free_balance b w s"
  "free_balance b w (s\<lparr>NextAssetId := i\<rparr>) = free_balance b w s"
  "reserved_balance b w (s\<lparr>ReservedBalance := (ReservedBalance s)((a, who) \<mapsto> v)\<rparr>) =
     (if b = a \<and> w = who then v else reserved_balance b w s)"
  "reserved_balance b w (s\<lparr>FreeBalance := F\<rparr>) = reserved_balance b w s"
  "reserved_balance b w (s\<lparr>TotalIssuance := I\<rparr>) = reserved_balance b w s"
  "reserved_balance b w (s\<lparr>Permissions := P\<rparr>) = reserved_balance b w s"
  "reserved_balance b w (s\<lparr>AssetMeta := M\<rparr>) = reserved_balance b w s"
  "reserved_balance b w (s\<lparr>NextAssetId := i\<rparr>) = reserved_balance b w s"
  "total_issuance b (s\<lparr>TotalIssuance := (TotalIssuance s)(a \<mapsto> v)\<rparr>) =
     (if b = a then v else total_issuance b s)"
  "total_issuance b (s\<lparr>FreeBalance := F\<rparr>) = total_issuance b s"
  "total_issuance b (s\<lparr>ReservedBalance := R\<rparr>) = total_issuance b s"
  "total_issuance b (s\<lparr>Permissions := P\<rparr>) = total_issuance b s"
  "total_issuance b (s\<lparr>AssetMeta := M\<rparr>) = total_issuance b s"
  "total_issuance b (s\<lparr>NextAssetId := i\<rparr>) = total_issuance b s"
  by (simp_all add: free_balance_def reserved_balance_def total_issuance_def)

lemma total_issuance_drop [ga_simps]:
  "total_issuance b (drop_positive i s) =
     (if b = pos_asset i then saturating_add (total_issuance b s) (pos_amount i) else total_issuance b s)"
  "total_issuance b (drop_negative j s) =
     (if b = neg_asset j then saturating_sub (total_issuance b s) (neg_amount j) else total_issuance b s)"
  by (simp_all add: total_issuance_def drop_positive_def drop_negative_def)

lemma balances_drop [ga_simps]:
  "free_balance b w (drop_positive i s) = free_balance b w s"
  "free_balance b w (drop_negative j s) = free_balance b w s"
  "reserved_balance b w (drop_positive i s) = reserved_balance b w s"
  "reserved_balance b w (drop_negative j s) = reserved_balance b w s"
  by (simp_all add: free_balance_def reserved_balance_def drop_positive_def drop_negative_def)

section \<open>Circulating supply\<close>

definition held :: "asset_id \<Rightarrow> ga_state \<Rightarrow> account_id \<Rightarrow> nat" where
  "held a s w = unat (free_balance a w s) + unat (reserved_balance a w s)"

definition circulating :: "asset_id \<Rightarrow> ga_state \<Rightarrow> nat" where
  "circulating a s = (\<Sum>w\<in>UNIV. held a s w)"

definition backed :: "ga_state \<Rightarrow> bool" where
  "backed s \<longleftrightarrow> (\<forall>a. circulating a s = unat (total_issuance a s))"

lemma backed_bound: "backed s \<Longrightarrow> circulating a s < 2 ^ 128"
  using unat_less_pow [of "total_issuance a s"] by (simp add: backed_def)

lemma circulating_cong:
  assumes "\<And>w. free_balance a w s' = free_balance a w s"
    and "\<And>w. reserved_balance a w s' = reserved_balance a w s"
  shows "circulating a s' = circulating a s"
  using assms by (simp add: circulating_def held_def)

text \<open>Changing one account's holding moves the circulating by the difference.\<close>

lemma circulating_change:
  assumes "\<And>w. w \<noteq> who \<Longrightarrow> held a s' w = held a s w"
  shows "circulating a s' + held a s who = circulating a s + held a s' who"
proof -
  have "held a s' = (held a s)(who := held a s' who)"
    using assms by auto
  then have "circulating a s' = (\<Sum>w\<in>UNIV. ((held a s)(who := held a s' who)) w)"
    by (simp add: circulating_def)
  then show ?thesis
    using sum_upd_point [of "held a s" who "held a s' who"] by (simp add: circulating_def)
qed

lemma held_le_circulating: "held a s w \<le> circulating a s"
  unfolding circulating_def by (rule sum_ge_point)

lemma free_le_circulating: "unat (free_balance a w s) \<le> circulating a s"
  using held_le_circulating [of a s w] by (simp add: held_def)

lemma held_two_le_circulating: "w \<noteq> v \<Longrightarrow> held a s w + held a s v \<le> circulating a s"
  unfolding circulating_def by (rule sum_ge_two_points)

lemma circulating_set_free:
  "circulating a (set_free_balance T a who v s) + unat (free_balance a who s) = circulating a s + unat v"
proof -
  have "circulating a (set_free_balance T a who v s) + held a s who
      = circulating a s + held a (set_free_balance T a who v s) who"
    by (rule circulating_change) (simp add: held_def ga_simps)
  then show ?thesis by (simp add: held_def ga_simps)
qed

lemma circulating_set_free_other: "b \<noteq> a \<Longrightarrow> circulating b (set_free_balance T a who v s) = circulating b s"
  by (rule circulating_cong) (simp_all add: ga_simps)

lemma circulating_put_free:
  "circulating a (s\<lparr>FreeBalance := (FreeBalance s)((a, who) \<mapsto> v)\<rparr>) + unat (free_balance a who s)
     = circulating a s + unat v"
  using circulating_set_free [of a undefined who v s]
  by (simp add: circulating_def held_def ga_simps)

lemma circulating_take_free:
  "circulating a (s\<lparr>FreeBalance := (FreeBalance s)((a, who) := None)\<rparr>) + unat (free_balance a who s)
     = circulating a s"
  using circulating_set_free [of a undefined who 0 s]
  by (simp add: circulating_def held_def ga_simps)

lemma circulating_set_reserved:
  "circulating a (set_reserved_balance a who v s) + unat (reserved_balance a who s) = circulating a s + unat v"
proof -
  have "circulating a (set_reserved_balance a who v s) + held a s who
      = circulating a s + held a (set_reserved_balance a who v s) who"
    by (rule circulating_change) (simp add: held_def ga_simps)
  then show ?thesis by (simp add: held_def ga_simps)
qed

lemma circulating_put_reserved:
  "circulating a (s\<lparr>ReservedBalance := (ReservedBalance s)((a, who) \<mapsto> v)\<rparr>) + unat (reserved_balance a who s)
     = circulating a s + unat v"
  using circulating_set_reserved [of a who v s]
  by (simp add: circulating_def held_def ga_simps)

lemma circulating_frame [ga_simps]:
  "circulating b (deposit_event e s) = circulating b s"
  "circulating b (s\<lparr>TotalIssuance := I\<rparr>) = circulating b s"
  "circulating b (s\<lparr>Permissions := P\<rparr>) = circulating b s"
  "circulating b (s\<lparr>AssetMeta := M\<rparr>) = circulating b s"
  "circulating b (s\<lparr>NextAssetId := i\<rparr>) = circulating b s"
  "circulating b (drop_positive p s) = circulating b s"
  "circulating b (drop_negative n s) = circulating b s"
  by (rule circulating_cong; simp add: ga_simps)+

lemma circulating_raw_other [ga_simps]:
  "b \<noteq> a \<Longrightarrow> circulating b (s\<lparr>FreeBalance := (FreeBalance s)((a, who) \<mapsto> v)\<rparr>) = circulating b s"
  "b \<noteq> a \<Longrightarrow> circulating b (s\<lparr>FreeBalance := (FreeBalance s)((a, who) := None)\<rparr>) = circulating b s"
  "b \<noteq> a \<Longrightarrow> circulating b (s\<lparr>ReservedBalance := (ReservedBalance s)((a, who) \<mapsto> v)\<rparr>) = circulating b s"
  "b \<noteq> a \<Longrightarrow> circulating b (set_reserved_balance a who v s) = circulating b s"
  by (rule circulating_cong; simp add: ga_simps)+

lemmas circulating_other = circulating_set_free_other circulating_raw_other

section \<open>Dust\<close>

lemma on_nonzero_unbalanced_circulating:
  assumes "circulating (neg_asset i) s + unat (neg_amount i) < 2 ^ 128"
  shows "circulating (neg_asset i) (on_nonzero_unbalanced T i s) = circulating (neg_asset i) s + unat (neg_amount i)"
proof -
  let ?a = "neg_asset i" and ?w = "dust_beneficiary T"
  let ?v = "saturating_add (free_balance ?a ?w s) (neg_amount i)"
  have "unat (free_balance ?a ?w s) + unat (neg_amount i) < 2 ^ 128"
    using free_le_circulating [of ?a ?w s] assms by simp
  then have "unat ?v = unat (free_balance ?a ?w s) + unat (neg_amount i)"
    by (simp add: unat_saturating_add)
  then show ?thesis
    using circulating_set_free [of ?a T ?w ?v s] by (simp add: on_nonzero_unbalanced_def Let_def)
qed

lemma on_nonzero_unbalanced_other:
  "b \<noteq> neg_asset i \<Longrightarrow> circulating b (on_nonzero_unbalanced T i s) = circulating b s"
  by (simp add: on_nonzero_unbalanced_def Let_def circulating_other)

lemma total_issuance_dust [ga_simps]:
  "total_issuance b (on_nonzero_unbalanced T i s) = total_issuance b s"
  "total_issuance b (reclaim_free_balance T a who s) = total_issuance b s"
  by (simp_all add: on_nonzero_unbalanced_def reclaim_free_balance_def Let_def ga_simps)

text \<open>Reaping an account moves its free balance to the treasury: nothing is lost.\<close>

lemma reclaim_free_balance_circulating:
  assumes "circulating a s < 2 ^ 128"
  shows "circulating b (reclaim_free_balance T a who s) = circulating b s"
proof (cases "b = a")
  case False
  then show ?thesis
    by (simp add: reclaim_free_balance_def Let_def ga_simps on_nonzero_unbalanced_other)
next
  case True
  let ?s1 = "s\<lparr>FreeBalance := (FreeBalance s)((a, who) := None)\<rparr>"
  let ?i = "NegativeImbalance (free_balance a who s) a"
  have s1: "circulating a ?s1 + unat (free_balance a who s) = circulating a s"
    by (rule circulating_take_free)
  then have "circulating (neg_asset ?i) ?s1 + unat (neg_amount ?i) < 2 ^ 128"
    using assms by simp
  then have "circulating a (on_nonzero_unbalanced T ?i ?s1) = circulating a s"
    using on_nonzero_unbalanced_circulating [of ?i ?s1 T] s1 by simp
  then show ?thesis
    using s1 True
    by (auto simp: reclaim_free_balance_def Let_def ga_simps word_gt_0)
qed

section \<open>Transfers\<close>

lemma make_transfer_atomic: "atomic (make_transfer T a from to v req)"
  by (auto simp: atomic_def make_transfer_def call_eqs split: if_splits)

text \<open>The state a successful transfer between two accounts reaches before any reaping.\<close>

definition moved :: "ga_config \<Rightarrow> asset_id \<Rightarrow> account_id \<Rightarrow> account_id \<Rightarrow> balance \<Rightarrow> ga_state \<Rightarrow> ga_state" where
  "moved T a from to v s =
     set_free_balance T a from (free_balance a from s - v)
       (set_free_balance T a to (free_balance a to s + v) s)"

lemma make_transfer_Inr_iff:
  "make_transfer T a from to v req s = (Inr (), s') \<longleftrightarrow>
     v \<le> free_balance a from s \<and>
     unat (free_balance a to s) + unat v < 2 ^ 128 \<and>
     ensure_can_withdraw a from v {TRANSFER} (free_balance a from s - v) s = Inr () \<and>
     s' = (if from = to then s
           else if free_balance a from s - v < minimum_balance a s
           then reclaim_free_balance T a from (moved T a from to v s)
           else moved T a from to v s)"
  by (auto simp: make_transfer_def call_eqs checked_sub_def checked_add_def moved_def ga_simps
      split: if_splits)

lemma moved_circulating:
  assumes "v \<le> free_balance a from s" and "unat (free_balance a to s) + unat v < 2 ^ 128"
    and "from \<noteq> to"
  shows "circulating b (moved T a from to v s) = circulating b s"
proof (cases "b = a")
  case True
  let ?s1 = "set_free_balance T a to (free_balance a to s + v) s"
  have "circulating a ?s1 + unat (free_balance a to s) = circulating a s + unat (free_balance a to s + v)"
    by (rule circulating_set_free)
  moreover have "circulating a (moved T a from to v s) + unat (free_balance a from s)
      = circulating a ?s1 + unat (free_balance a from s - v)"
    using circulating_set_free [of a T "from" "free_balance a from s - v" ?s1] assms(3)
    by (simp add: moved_def ga_simps)
  ultimately show ?thesis
    using assms True by (simp add: unat_add_fits unat_sub_fits word_le_nat_alt)
qed (simp add: moved_def circulating_other)

lemma make_transfer_circulating:
  assumes "circulating a s < 2 ^ 128" and "make_transfer T a from to v req s = (r, s')"
  shows "circulating b s' = circulating b s"
proof (cases r)
  case (Inl e)
  then show ?thesis using assms atomicD [OF make_transfer_atomic] by blast
next
  case (Inr u)
  with assms(2) have ok: "make_transfer T a from to v req s = (Inr (), s')" by simp
  then show ?thesis
    using assms(1) moved_circulating [of v a "from" s to _ T] reclaim_free_balance_circulating
    by (auto simp: make_transfer_Inr_iff)
qed

lemma make_transfer_issuance:
  "make_transfer T a from to v req s = (r, s') \<Longrightarrow> total_issuance b s' = total_issuance b s"
  by (cases r) (auto dest: atomicD [OF make_transfer_atomic]
      simp: make_transfer_Inr_iff moved_def ga_simps)

lemma make_transfer_backed: "preserves backed (make_transfer T a from to v req)"
  by (rule preservesI)
    (metis backed_bound backed_def make_transfer_circulating make_transfer_issuance)

lemma make_transfer_with_event_backed:
  "preserves backed (make_transfer_with_event T a from to v req)"
  unfolding make_transfer_with_event_def
  by (intro preserves_rules make_transfer_backed) (simp add: backed_def ga_simps)

section \<open>Minting and burning\<close>

lemma mint_free_Inr_iff:
  "mint_free T a who to v s = (Inr (), s') \<longleftrightarrow>
     check_permission a who Mint s \<and>
     unat (total_issuance a s) + unat v < 2 ^ 128 \<and>
     unat (free_balance a to s) + unat v < 2 ^ 128 \<and>
     s' = set_free_balance T a to (free_balance a to s + v)
            (s\<lparr>TotalIssuance := (TotalIssuance s)(a \<mapsto> total_issuance a s + v)\<rparr>)"
  by (auto simp: mint_free_def call_eqs checked_add_def split: if_splits)

lemma mint_free_atomic: "atomic (mint_free T a who to v)"
  by (auto simp: atomic_def mint_free_def call_eqs split: if_splits)

lemma burn_free_Inr_iff:
  "burn_free T a who to v s = (Inr (), s') \<longleftrightarrow>
     check_permission a who Burn s \<and>
     v \<le> total_issuance a s \<and> v \<le> free_balance a to s \<and>
     s' = set_free_balance T a to (free_balance a to s - v)
            (s\<lparr>TotalIssuance := (TotalIssuance s)(a \<mapsto> total_issuance a s - v)\<rparr>)"
  by (auto simp: burn_free_def call_eqs checked_sub_def split: if_splits)

lemma burn_free_atomic: "atomic (burn_free T a who to v)"
  by (auto simp: atomic_def burn_free_def call_eqs split: if_splits)

lemma set_both_circulating:
  "circulating a (set_free_balance T a to v (s\<lparr>TotalIssuance := I\<rparr>)) + unat (free_balance a to s)
     = circulating a s + unat v"
  using circulating_set_free [of a T to v "s\<lparr>TotalIssuance := I\<rparr>"] by (simp add: ga_simps)

lemma mint_free_backed: "preserves backed (mint_free T a who to v)"
proof (rule preservesI)
  fix s r s' assume b: "backed s" and m: "mint_free T a who to v s = (r, s')"
  show "backed s'"
  proof (cases r)
    case (Inl e) then show ?thesis using m b atomicD [OF mint_free_atomic] by blast
  next
    case (Inr u)
    with m have ok: "mint_free T a who to v s = (Inr (), s')" by simp
    let ?I = "(TotalIssuance s)(a \<mapsto> total_issuance a s + v)"
    have "circulating a s' = circulating a s + unat v"
      using ok set_both_circulating [of a T to "free_balance a to s + v" ?I s]
      by (simp add: mint_free_Inr_iff unat_add_fits)
    with ok b show ?thesis
      by (auto simp: backed_def mint_free_Inr_iff ga_simps circulating_other unat_add_fits)
  qed
qed

lemma burn_free_backed: "preserves backed (burn_free T a who to v)"
proof (rule preservesI)
  fix s r s' assume b: "backed s" and m: "burn_free T a who to v s = (r, s')"
  show "backed s'"
  proof (cases r)
    case (Inl e) then show ?thesis using m b atomicD [OF burn_free_atomic] by blast
  next
    case (Inr u)
    with m have ok: "burn_free T a who to v s = (Inr (), s')" by simp
    let ?I = "(TotalIssuance s)(a \<mapsto> total_issuance a s - v)"
    have "circulating a s' + unat v = circulating a s"
      using ok set_both_circulating [of a T to "free_balance a to s - v" ?I s]
      by (auto simp: burn_free_Inr_iff unat_sub_fits word_le_nat_alt)
    with ok b show ?thesis
      by (auto simp: backed_def burn_free_Inr_iff ga_simps circulating_other unat_sub_fits
          dest: spec [of _ a])
  qed
qed

section \<open>Creating assets\<close>

text \<open>No identifier from \<open>NextAssetId\<close> on is in use.\<close>

definition fresh_ids :: "ga_state \<Rightarrow> bool" where
  "fresh_ids s \<longleftrightarrow>
     (\<forall>a. NextAssetId s \<le> a \<longrightarrow> TotalIssuance s a = None \<and> Permissions s a = None)"

definition ga_inv :: "ga_state \<Rightarrow> bool" where
  "ga_inv s \<longleftrightarrow> backed s \<and> fresh_ids s"

lemma create_asset_id_Inr:
  assumes "create_asset_id asset s = (Inr a, s1)"
  shows "(asset = None \<and> a = NextAssetId s \<and> a < a + 1 \<and> s1 = s\<lparr>NextAssetId := a + 1\<rparr>) \<or>
         (asset = Some a \<and> a \<noteq> 0 \<and> TotalIssuance s a = None \<and> a < NextAssetId s \<and> s1 = s)"
  using assms
  by (auto simp: create_asset_id_def call_eqs split: option.splits if_splits dest: checked_succ_less)

lemma unissued_empty:
  assumes "backed s" and "TotalIssuance s a = None"
  shows "circulating a s = 0"
  using assms by (simp add: backed_def total_issuance_def storage_get_def)

lemma unissued_free_zero:
  assumes "backed s" and "TotalIssuance s a = None"
  shows "free_balance a w s = 0"
  using free_le_circulating [of a w s] unissued_empty [OF assms] by (simp add: unat_eq_zero)

text \<open>The storage after creating asset \<open>a\<close> for \<open>who\<close>.\<close>

definition with_asset ::
  "ga_config \<Rightarrow> asset_id \<Rightarrow> account_id \<Rightarrow> balance \<Rightarrow> asset_options \<Rightarrow> asset_info \<Rightarrow> ga_state \<Rightarrow> ga_state" where
  "with_asset T a who issuance options info s =
     (let s1 = set_free_balance T a who issuance
                 (s\<lparr>TotalIssuance := (TotalIssuance s)(a \<mapsto> issuance)\<rparr>);
          s2 = s1\<lparr>Permissions := (Permissions s1)(a \<mapsto> V1 (permissions options))\<rparr>
      in deposit_event (Created a who options) (s2\<lparr>AssetMeta := (AssetMeta s2)(a \<mapsto> info)\<rparr>))"

lemma create_asset_Inr_iff:
  "create_asset T asset from_account options info s = (Inr (), s') \<longleftrightarrow>
     existential_deposit info \<noteq> 0 \<and>
     (\<exists>f issuance a s1. checked_pow (10 :: balance) (unat (decimal_places info)) = Some f \<and>
        checked_mul f (initial_issuance options) = Some issuance \<and>
        create_asset_id asset s = (Inr a, s1) \<and>
        s' = with_asset T a (case from_account of Some who \<Rightarrow> who | None \<Rightarrow> 0) issuance options info s1)"
  by (auto simp: create_asset_def call_eqs with_asset_def Let_def split: if_splits)

lemma create_asset_atomic: "atomic (create_asset T asset from_account options info)"
  by (auto simp: atomic_def create_asset_def create_asset_id_def call_eqs Let_def
      split: if_splits option.splits)

lemma ledger_next_id [ga_simps]:
  "backed (s\<lparr>NextAssetId := i\<rparr>) = backed s" "backed (deposit_event e s) = backed s"
  by (simp_all add: backed_def ga_simps)

lemma with_asset_backed:
  assumes "backed s" and "TotalIssuance s a = None"
  shows "backed (with_asset T a who issuance options info s)"
proof -
  let ?I = "(TotalIssuance s)(a \<mapsto> issuance)"
  have "circulating a (set_free_balance T a who issuance (s\<lparr>TotalIssuance := ?I\<rparr>)) = unat issuance"
    using set_both_circulating [of a T who issuance ?I s]
    by (simp add: unissued_empty [OF assms] unissued_free_zero [OF assms])
  with assms(1) show ?thesis
    by (auto simp: with_asset_def Let_def ga_simps backed_def circulating_other)
qed

lemma with_asset_fields [ga_simps]:
  "NextAssetId (with_asset T a who i options info s) = NextAssetId s"
  "TotalIssuance (with_asset T a who i options info s) = (TotalIssuance s)(a \<mapsto> i)"
  "Permissions (with_asset T a who i options info s) = (Permissions s)(a \<mapsto> V1 (permissions options))"
  "AssetMeta (with_asset T a who i options info s) = (AssetMeta s)(a \<mapsto> info)"
  by (simp_all add: with_asset_def Let_def deposit_event_def set_free_balance_def)

lemma create_asset_inv: "preserves ga_inv (create_asset T asset from_account options info)"
proof (rule preservesI)
  fix s r s'
  assume inv: "ga_inv s" and c: "create_asset T asset from_account options info s = (r, s')"
  show "ga_inv s'"
  proof (cases r)
    case (Inl e) then show ?thesis using c inv atomicD [OF create_asset_atomic] by blast
  next
    case (Inr u)
    with c obtain issuance a s1 where id: "create_asset_id asset s = (Inr a, s1)"
      and s': "s' = with_asset T a (case from_account of Some w \<Rightarrow> w | None \<Rightarrow> 0) issuance options info s1"
      by (auto simp: create_asset_Inr_iff)
    have "TotalIssuance s1 a = None" and "backed s1"
      using create_asset_id_Inr [OF id] inv by (auto simp: ga_inv_def fresh_ids_def ga_simps)
    then have "backed s'" unfolding s' by (intro with_asset_backed)
    moreover have "fresh_ids s'"
      using create_asset_id_Inr [OF id] inv
      by (auto simp: ga_inv_def fresh_ids_def s' ga_simps)
    ultimately show ?thesis by (simp add: ga_inv_def)
  qed
qed

end
