(* ===== verification/GA_Currency.thy ===== *)
theory GA_Currency
  imports GA_Accounting Currency_Spec
begin

text \<open>
  The currency traits that the generic-asset pallet implements: \<open>AssetCurrency\<close> (the end of
  \<open>lib.rs\<close>), a single currency fixed by an \<open>AssetIdAuthority\<close>, and \<open>MultiCurrency\<close> (\<open>impls.rs\<close>).
  Functions of the former carry the prefix \<open>ac\<close>, functions of the latter the prefix \<open>ga\<close>.
\<close>

section \<open>AssetCurrency\<close>

datatype authority = StakingAssetIdAuthority | SpendingAssetIdAuthority

fun authority_asset_id :: "authority \<Rightarrow> ga_state \<Rightarrow> asset_id" where
  "authority_asset_id StakingAssetIdAuthority s = StakingAssetId s"
| "authority_asset_id SpendingAssetIdAuthority s = SpendingAssetId s"

subsection \<open>Currency\<close>

definition ac_free_balance :: "authority \<Rightarrow> account_id \<Rightarrow> ga_state \<Rightarrow> balance" where
  "ac_free_balance U who s = free_balance (authority_asset_id U s) who s"

definition ac_total_issuance :: "authority \<Rightarrow> ga_state \<Rightarrow> balance" where
  "ac_total_issuance U s = total_issuance (authority_asset_id U s) s"

definition ac_minimum_balance :: "authority \<Rightarrow> ga_state \<Rightarrow> balance" where
  "ac_minimum_balance U s = minimum_balance (authority_asset_id U s) s"

definition ac_total_balance :: "authority \<Rightarrow> account_id \<Rightarrow> ga_state \<Rightarrow> balance" where
  "ac_total_balance U who s =
     ac_free_balance U who s + reserved_balance (authority_asset_id U s) who s"

definition ac_transfer ::
  "ga_config \<Rightarrow> authority \<Rightarrow> account_id \<Rightarrow> account_id \<Rightarrow> balance \<Rightarrow> existence_requirement \<Rightarrow>
    (ga_state, unit) dispatch" where
  "ac_transfer T U transactor dest v req =
     bind (gets (authority_asset_id U)) (\<lambda>a. make_transfer T a transactor dest v req)"

definition ac_ensure_can_withdraw ::
  "authority \<Rightarrow> account_id \<Rightarrow> balance \<Rightarrow> withdraw_reasons \<Rightarrow> balance \<Rightarrow> ga_state \<Rightarrow> dispatch_error + unit" where
  "ac_ensure_can_withdraw U who amount reasons new_balance s =
     ensure_can_withdraw (authority_asset_id U s) who amount reasons new_balance s"

definition ac_withdraw ::
  "ga_config \<Rightarrow> authority \<Rightarrow> account_id \<Rightarrow> balance \<Rightarrow> withdraw_reasons \<Rightarrow> existence_requirement \<Rightarrow>
    (ga_state, negative_imbalance) dispatch" where
  "ac_withdraw T U who v reasons req =
     bind (gets (authority_asset_id U)) (\<lambda>a.
     bind (gets (ac_free_balance U who)) (\<lambda>free.
     bind (ok_or (checked_sub free v) (GenericAsset_Error ga_error.InsufficientBalance)) (\<lambda>new_balance.
     bind (try_result (ac_ensure_can_withdraw U who v reasons new_balance)) (\<lambda>_.
     bind (gets (ac_minimum_balance U)) (\<lambda>minimum.
     bind (if new_balance < minimum then
             bind (gets (free_balance a who)) (\<lambda>amount.
             bind (modify (\<lambda>s. s\<lparr>FreeBalance := (FreeBalance s)((a, who) := None)\<rparr>)) (\<lambda>_.
             bind (if 0 < amount then modify (on_nonzero_unbalanced T (NegativeImbalance amount a))
                   else ret ()) (\<lambda>_.
             modify (deposit_event (DustReclaimed a who amount)))))
           else modify (set_free_balance T a who new_balance)) (\<lambda>_.
     ret (NegativeImbalance v a)))))))"

definition ac_make_free_balance_be ::
  "ga_config \<Rightarrow> authority \<Rightarrow> account_id \<Rightarrow> balance \<Rightarrow> ga_state \<Rightarrow> signed_imbalance \<times> ga_state" where
  "ac_make_free_balance_be T U who new_balance s =
     (let a = authority_asset_id U s;
          original = free_balance a who s;
          imbalance = (if original \<le> new_balance
                       then SignedPositive (PositiveImbalance (new_balance - original) a)
                       else SignedNegative (NegativeImbalance (original - new_balance) a))
      in (imbalance, set_free_balance T a who new_balance s))"

text \<open>
  In the arm that the source calls impossible, the negative imbalance is dropped and an empty
  positive imbalance is returned.
\<close>

definition ac_deposit_creating ::
  "ga_config \<Rightarrow> authority \<Rightarrow> account_id \<Rightarrow> balance \<Rightarrow> ga_state \<Rightarrow> positive_imbalance \<times> ga_state" where
  "ac_deposit_creating T U who v s =
     (case ac_make_free_balance_be T U who (ac_free_balance U who s + v) s of
        (SignedPositive p, s') \<Rightarrow> (p, s')
      | (SignedNegative n, s') \<Rightarrow> (positive_zero, drop_negative n s'))"

definition ac_deposit_into_existing ::
  "ga_config \<Rightarrow> authority \<Rightarrow> account_id \<Rightarrow> balance \<Rightarrow> (ga_state, positive_imbalance) dispatch" where
  "ac_deposit_into_existing T U who v =
     bind (gets (\<lambda>s. FreeBalance s (authority_asset_id U s, who))) (\<lambda>entry.
     if entry \<noteq> None then run (ac_deposit_creating T U who v)
     else throw (GenericAsset_Error AccountIdNotExist))"

definition ac_can_slash :: "authority \<Rightarrow> account_id \<Rightarrow> balance \<Rightarrow> ga_state \<Rightarrow> bool" where
  "ac_can_slash U who v s \<longleftrightarrow> v \<le> free_balance (authority_asset_id U s) who s"

definition ac_slash ::
  "ga_config \<Rightarrow> authority \<Rightarrow> account_id \<Rightarrow> balance \<Rightarrow> ga_state \<Rightarrow>
    (negative_imbalance \<times> balance) \<times> ga_state" where
  "ac_slash T U who v s =
     (let a = authority_asset_id U s;
          (remaining, s') = slash T a who v s
      in ((case remaining of
             Some r \<Rightarrow> (NegativeImbalance (v - r) a, r)
           | None \<Rightarrow> (NegativeImbalance v a, 0)), s'))"

text \<open>
  In \<open>burn\<close> the closure given to \<open>mutate\<close> computes the reduced issuance as its result and does
  not assign it: the issuance is written back as it was. \<open>issue\<close> assigns it.
\<close>

definition ac_burn :: "authority \<Rightarrow> balance \<Rightarrow> ga_state \<Rightarrow> positive_imbalance \<times> ga_state" where
  "ac_burn U amount s =
     (let a = authority_asset_id U s;
          issued = total_issuance a s;
          burned = (case checked_sub issued amount of Some _ \<Rightarrow> amount | None \<Rightarrow> issued)
      in (PositiveImbalance burned a,
          s\<lparr>TotalIssuance := storage_mutate 0 (\<lambda>v. v) a (TotalIssuance s)\<rparr>))"

definition ac_issue :: "authority \<Rightarrow> balance \<Rightarrow> ga_state \<Rightarrow> negative_imbalance \<times> ga_state" where
  "ac_issue U amount s =
     (let a = authority_asset_id U s;
          issued = total_issuance a s;
          (new_issued, issued_amount) =
            (case checked_add issued amount of
               Some n \<Rightarrow> (n, amount)
             | None \<Rightarrow> (- 1, - 1 - issued))
      in (NegativeImbalance issued_amount a,
          s\<lparr>TotalIssuance := storage_mutate 0 (\<lambda>_. new_issued) a (TotalIssuance s)\<rparr>))"

subsection \<open>ReservableCurrency, LockableCurrency and Inspect\<close>

definition ac_can_reserve :: "authority \<Rightarrow> account_id \<Rightarrow> balance \<Rightarrow> ga_state \<Rightarrow> bool" where
  "ac_can_reserve U who v s =
     (case checked_sub (ac_free_balance U who s) v of
        None \<Rightarrow> False
      | Some new_balance \<Rightarrow>
          is_ok (ensure_can_withdraw (authority_asset_id U s) who v {RESERVE} new_balance s))"

definition ac_reserve ::
  "ga_config \<Rightarrow> authority \<Rightarrow> account_id \<Rightarrow> balance \<Rightarrow> (ga_state, unit) dispatch" where
  "ac_reserve T U who v = bind (gets (authority_asset_id U)) (\<lambda>a. reserve T a who v)"

definition ac_unreserve :: "authority \<Rightarrow> account_id \<Rightarrow> balance \<Rightarrow> ga_state \<Rightarrow> balance \<times> ga_state" where
  "ac_unreserve U who v s = unreserve (authority_asset_id U s) who v s"

definition ac_slash_reserved ::
  "authority \<Rightarrow> account_id \<Rightarrow> balance \<Rightarrow> ga_state \<Rightarrow> (negative_imbalance \<times> balance) \<times> ga_state" where
  "ac_slash_reserved U who v s =
     (let a = authority_asset_id U s;
          (remaining, s') = slash_reserved a who v s;
          leftover = (case remaining of Some r \<Rightarrow> r | None \<Rightarrow> 0)
      in ((NegativeImbalance (v - leftover) a, leftover), s'))"

definition ac_repatriate_reserved ::
  "authority \<Rightarrow> account_id \<Rightarrow> account_id \<Rightarrow> balance \<Rightarrow> (ga_state, balance) dispatch" where
  "ac_repatriate_reserved U slashed beneficiary v =
     bind (gets (authority_asset_id U)) (\<lambda>a. run (repatriate_reserved a slashed beneficiary v))"

definition ac_set_lock ::
  "authority \<Rightarrow> lock_identifier \<Rightarrow> account_id \<Rightarrow> balance \<Rightarrow> withdraw_reasons \<Rightarrow> ga_state \<Rightarrow> ga_state" where
  "ac_set_lock U i who amount reasons s = set_lock i (authority_asset_id U s) who amount reasons s"

definition ac_extend_lock ::
  "authority \<Rightarrow> lock_identifier \<Rightarrow> account_id \<Rightarrow> balance \<Rightarrow> withdraw_reasons \<Rightarrow> ga_state \<Rightarrow> ga_state" where
  "ac_extend_lock U i who amount reasons s = extend_lock i (authority_asset_id U s) who amount reasons s"

definition ac_remove_lock :: "authority \<Rightarrow> lock_identifier \<Rightarrow> account_id \<Rightarrow> ga_state \<Rightarrow> ga_state" where
  "ac_remove_lock U i who s = remove_lock i (authority_asset_id U s) who s"

datatype deposit_consequence = DepositSuccess | BelowMinimum | DepositOverflow

datatype withdraw_consequence = WithdrawSuccess | NoFunds

definition ac_can_deposit :: "account_id \<Rightarrow> balance \<Rightarrow> ga_state \<Rightarrow> deposit_consequence" where
  "ac_can_deposit who amount s =
     (case checked_add (free_balance (SpendingAssetId s) who s) amount of
        Some b \<Rightarrow> (if b < ac_minimum_balance SpendingAssetIdAuthority s then BelowMinimum
                   else DepositSuccess)
      | None \<Rightarrow> DepositOverflow)"

definition ac_can_withdraw :: "account_id \<Rightarrow> balance \<Rightarrow> ga_state \<Rightarrow> withdraw_consequence" where
  "ac_can_withdraw who amount s =
     (case checked_sub (free_balance (SpendingAssetId s) who s) amount of
        Some _ \<Rightarrow> WithdrawSuccess
      | None \<Rightarrow> NoFunds)"

section \<open>MultiCurrency\<close>

definition ga_make_free_balance_be ::
  "ga_config \<Rightarrow> account_id \<Rightarrow> asset_id \<Rightarrow> balance \<Rightarrow> ga_state \<Rightarrow> signed_imbalance \<times> ga_state" where
  "ga_make_free_balance_be T who a new_balance s =
     (let original = free_balance a who s;
          imbalance = (if original \<le> new_balance
                       then SignedPositive (PositiveImbalance (new_balance - original) a)
                       else SignedNegative (NegativeImbalance (original - new_balance) a))
      in (imbalance, set_free_balance T a who new_balance s))"

definition ga_deposit_creating ::
  "ga_config \<Rightarrow> account_id \<Rightarrow> asset_id \<Rightarrow> balance \<Rightarrow> ga_state \<Rightarrow> positive_imbalance \<times> ga_state" where
  "ga_deposit_creating T who a v s =
     (if v = 0 then (positive_zero, s)
      else
        (case ga_make_free_balance_be T who a (free_balance a who s + v) s of
           (SignedPositive p, s') \<Rightarrow> (p, s')
         | (SignedNegative n, s') \<Rightarrow> (positive_zero, drop_negative n s')))"

definition ga_deposit_into_existing ::
  "ga_config \<Rightarrow> account_id \<Rightarrow> asset_id \<Rightarrow> balance \<Rightarrow> (ga_state, positive_imbalance) dispatch" where
  "ga_deposit_into_existing T who a v = run (ga_deposit_creating T who a v)"

definition ga_transfer ::
  "ga_config \<Rightarrow> account_id \<Rightarrow> account_id \<Rightarrow> asset_id \<Rightarrow> balance \<Rightarrow> existence_requirement \<Rightarrow>
    (ga_state, unit) dispatch" where
  "ga_transfer T transactor dest a v req =
     (if v = 0 then ret () else make_transfer T a transactor dest v req)"

definition ga_withdraw ::
  "ga_config \<Rightarrow> account_id \<Rightarrow> asset_id \<Rightarrow> balance \<Rightarrow> withdraw_reasons \<Rightarrow> existence_requirement \<Rightarrow>
    (ga_state, negative_imbalance) dispatch" where
  "ga_withdraw T who a v reasons req =
     (if v = 0 then ret negative_zero
      else
        bind (gets (free_balance a who)) (\<lambda>free.
        bind (ok_or (checked_sub free v) (GenericAsset_Error ga_error.InsufficientBalance)) (\<lambda>new_balance.
        bind (try_result (ensure_can_withdraw a who v reasons new_balance)) (\<lambda>_.
        bind (modify (set_free_balance T a who new_balance)) (\<lambda>_.
        ret (NegativeImbalance v a))))))"

definition ga_reserve :: "ga_config \<Rightarrow> account_id \<Rightarrow> asset_id \<Rightarrow> balance \<Rightarrow> (ga_state, unit) dispatch" where
  "ga_reserve T who a amount = (if amount = 0 then ret () else reserve T a who amount)"

definition ga_repatriate_reserved ::
  "account_id \<Rightarrow> asset_id \<Rightarrow> account_id \<Rightarrow> balance \<Rightarrow> (ga_state, balance) dispatch" where
  "ga_repatriate_reserved who a beneficiary amount = run (repatriate_reserved a who beneficiary amount)"

definition ga_unreserve :: "account_id \<Rightarrow> asset_id \<Rightarrow> balance \<Rightarrow> ga_state \<Rightarrow> balance \<times> ga_state" where
  "ga_unreserve who a amount s = (if amount = 0 then (0, s) else unreserve a who amount s)"

definition ga_create ::
  "ga_config \<Rightarrow> account_id \<Rightarrow> balance \<Rightarrow> u8 \<Rightarrow> u64 \<Rightarrow> bytes \<Rightarrow> (ga_state, asset_id) dispatch" where
  "ga_create T who initial_supply decimals minimum symb =
     bind (gets NextAssetId) (\<lambda>a.
     bind (create_asset T None (Some who)
             \<lparr>initial_issuance = initial_supply, permissions = permissions_new who\<rparr>
             \<lparr>symbol = symb, decimal_places = decimals, existential_deposit = minimum\<rparr>) (\<lambda>_.
     ret a))"

text \<open>The operations as the implementation of the trait.\<close>

definition ga_currency :: "ga_config \<Rightarrow> ga_state multi_currency" where
  "ga_currency T =
     \<lparr>mc_minimum_balance = minimum_balance,
      mc_fee_currency = SpendingAssetId,
      mc_staking_currency = StakingAssetId,
      mc_total_balance = (\<lambda>who a. total_balance a who),
      mc_free_balance = (\<lambda>who a. free_balance a who),
      mc_ensure_can_withdraw = (\<lambda>who a. ensure_can_withdraw a who),
      mc_deposit_creating = ga_deposit_creating T,
      mc_deposit_into_existing = ga_deposit_into_existing T,
      mc_make_free_balance_be = ga_make_free_balance_be T,
      mc_transfer = ga_transfer T,
      mc_withdraw = ga_withdraw T,
      mc_reserve = ga_reserve T,
      mc_repatriate_reserved = ga_repatriate_reserved,
      mc_unreserve = ga_unreserve,
      mc_create = ga_create T,
      mc_drop_positive = drop_positive,
      mc_drop_negative = drop_negative\<rparr>"

section \<open>The laws of the trait\<close>

lemma saturating_add_fits: "unat a + unat b < 2 ^ LENGTH('a) \<Longrightarrow> saturating_add a b = a + b"
  for a b :: "'a::len word"
  by (simp add: saturating_add_def)

lemma free_balance_reclaim_other:
  "b \<noteq> a \<Longrightarrow> free_balance b w (reclaim_free_balance T a who s) = free_balance b w s"
  by (simp add: reclaim_free_balance_def on_nonzero_unbalanced_def Let_def ga_simps)

lemma free_balance_reclaim:
  assumes "circulating a s < 2 ^ 128"
  shows "free_balance a w (reclaim_free_balance T a who s) =
    (let f = (\<lambda>w. free_balance a w s)(who := 0)
     in (f(dust_beneficiary T := f (dust_beneficiary T) + free_balance a who s)) w)"
proof -
  let ?d = "dust_beneficiary T" and ?v = "free_balance a who s"
  have "held a s ?d + held a s who \<le> circulating a s" if "?d \<noteq> who"
    using that by (rule held_two_le_circulating)
  then have "saturating_add (free_balance a ?d s) ?v = free_balance a ?d s + ?v" if "?d \<noteq> who"
    using that assms by (intro saturating_add_fits) (simp add: held_def)
  moreover have "saturating_add 0 ?v = ?v"
    using unat_less_pow [of ?v] by (simp add: saturating_add_def)
  ultimately show ?thesis
    by (auto simp: reclaim_free_balance_def on_nonzero_unbalanced_def Let_def ga_simps word_gt_0)
qed

lemma ga_transfer_Inr_iff:
  "ga_transfer T from to a v req s = (Inr (), s') \<longleftrightarrow>
     (if v = 0 then s' = s else make_transfer T a from to v req s = (Inr (), s'))"
  by (auto simp: ga_transfer_def call_eqs)

lemma free_balance_moved:
  "from \<noteq> to \<Longrightarrow> free_balance b w (moved T a from to v s) =
     (if b = a then ((\<lambda>w. free_balance a w s)(to := free_balance a to s + v,
        from := free_balance a from s - v)) w else free_balance b w s)"
  by (simp add: moved_def ga_simps)

lemma ga_transfer_refines:
  assumes "backed s" and "ga_transfer T from to a v req s = (Inr (), s')"
  shows "free_balance a w s' =
    transfer_spec (dust_beneficiary T) (minimum_balance a s) from to v (\<lambda>w. free_balance a w s) w"
proof (cases "v = 0 \<or> from = to")
  case True
  then show ?thesis
    using assms(2)
    by (auto simp: ga_transfer_Inr_iff make_transfer_Inr_iff transfer_spec_def split: if_splits)
next
  case False
  then have ok: "make_transfer T a from to v req s = (Inr (), s')"
    using assms(2) by (simp add: ga_transfer_Inr_iff)
  then have "circulating a (moved T a from to v s) < 2 ^ 128"
    using False backed_bound [OF assms(1)] by (simp add: moved_circulating make_transfer_Inr_iff)
  note reclaimed = free_balance_reclaim [OF this]
  show ?thesis
  proof (cases "free_balance a from s - v < minimum_balance a s")
    case True
    then show ?thesis
      using ok False by (simp add: make_transfer_Inr_iff reclaimed free_balance_moved
          transfer_spec_def Let_def)
  next
    case reap: False
    then show ?thesis
      using ok False by (simp add: make_transfer_Inr_iff free_balance_moved
          transfer_spec_def Let_def)
  qed
qed

lemma ga_transfer_backed: "preserves backed (ga_transfer T from to a v req)"
  unfolding ga_transfer_def by (intro preserves_rules make_transfer_backed)

lemma ga_transfer_circulating:
  "backed s \<Longrightarrow> ga_transfer T from to a v req s = (r, s') \<Longrightarrow> circulating b s' = circulating b s"
  using make_transfer_circulating [OF backed_bound]
  by (auto simp: ga_transfer_def call_eqs split: if_splits)

lemma ga_transfer_error: "ga_transfer T from to a v req s = (Inl e, s') \<Longrightarrow> s' = s"
  by (auto simp: ga_transfer_def call_eqs split: if_splits dest: atomicD [OF make_transfer_atomic])

lemma asset_meta_frame [ga_simps]:
  "minimum_balance b (reclaim_free_balance T a who s) = minimum_balance b s"
  "minimum_balance b (moved T a from to v s) = minimum_balance b s"
  by (simp_all add: minimum_balance_def asset_meta_def reclaim_free_balance_def
      on_nonzero_unbalanced_def Let_def set_free_balance_def deposit_event_def moved_def)

lemma ga_transfer_frame:
  assumes "ga_transfer T from to a v req s = (r, s')"
  shows "b \<noteq> a \<Longrightarrow> free_balance b w s' = free_balance b w s"
    and "minimum_balance b s' = minimum_balance b s"
  using assms
  by (auto simp: ga_transfer_def call_eqs make_transfer_Inr_iff free_balance_moved
      free_balance_reclaim_other ga_simps dest: atomicD [OF make_transfer_atomic]
      split: if_splits sum.splits) (cases r, auto simp: make_transfer_Inr_iff free_balance_moved
      free_balance_reclaim_other ga_simps dest: atomicD [OF make_transfer_atomic])+

interpretation ga: multi_currency "ga_currency T" backed circulating "dust_beneficiary T"
  for T :: ga_config
proof (unfold_locales, goal_cases)
  case (1 s "from" to a v req r s')
  then show ?case using preservesD [OF ga_transfer_backed] by (fastforce simp: ga_currency_def)
next
  case (2 s "from" to a v req r s' b)
  then show ?case by (simp add: ga_currency_def ga_transfer_circulating)
next
  case (3 "from" to a v req s e s')
  then show ?case by (simp add: ga_currency_def ga_transfer_error)
next
  case (4 s "from" to a v req u s' w)
  then show ?case by (simp add: ga_currency_def ga_transfer_refines)
next
  case (5 "from" to a v req s u s')
  then show ?case by (simp add: ga_currency_def ga_transfer_Inr_iff make_transfer_Inr_iff)
next
  case (6 "from" to a v req s r s' b w)
  then show ?case by (simp add: ga_currency_def ga_transfer_frame)
next
  case (7 "from" to a v req s r s' b)
  then show ?case by (simp add: ga_currency_def ga_transfer_frame)
next
  case (8 w a s)
  then show ?case by (simp add: ga_currency_def free_le_circulating)
next
  case (9 s a)
  then show ?case using backed_bound by blast
qed

end
