(* ===== verification/Cennzx_Trade.thy ===== *)
theory Cennzx_Trade
  imports Cennzx_Price GA_Currency
begin

text \<open>
  Trades and liquidity of the exchange. What the transfers of a trade do to the pools is proved for
  any currency that keeps the laws of \<open>multi_currency\<close>; the liquidity books and the rollback of
  failing calls need no law.
\<close>

section \<open>Calls on the ledger\<close>

lemma on_ledger_iff [call_eqs]:
  "on_ledger m s = (r, s') \<longleftrightarrow> (\<exists>l. m (Ledger s) = (r, l) \<and> s' = s\<lparr>Ledger := l\<rparr>)"
  by (auto simp: on_ledger_def split: prod.splits)

lemma and_result_Inr_iff [call_eqs]:
  "and_result m n s = (Inr y, s'') \<longleftrightarrow> (\<exists>x s'. m s = (Inr x, s') \<and> n s' = (Inr y, s''))"
  by (auto simp: and_result_def split: prod.splits sum.splits)

lemma preserves_and_result [preserves_rules]:
  "preserves P m \<Longrightarrow> preserves P n \<Longrightarrow> preserves P (and_result m n)"
  by (rule preservesI) (auto simp: and_result_def split: prod.splits dest: preservesD)

lemma preserves_on_ledger [preserves_rules]:
  "(\<And>s l. P s \<Longrightarrow> P (s\<lparr>Ledger := l\<rparr>)) \<Longrightarrow> preserves P (on_ledger m)"
  by (rule preservesI) (auto simp: call_eqs)

section \<open>Rollback\<close>

lemma execute_trade_atomic: "atomic (execute_trade T trader recipient sell buy x y)"
  unfolding execute_trade_def by (rule atomic_transactional)

lemma execute_buy_atomic: "atomic (execute_buy T trader recipient sell buy y max_x)"
  unfolding execute_buy_def
  by (intro atomic_check_then atomic_then_infallible execute_trade_atomic atomic_rules)

lemma execute_sell_atomic: "atomic (execute_sell T trader recipient sell buy x min_y)"
  unfolding execute_sell_def
  by (intro atomic_check_then atomic_then_infallible execute_trade_atomic atomic_rules)

lemma buy_asset_atomic: "atomic (buy_asset T orig recipient sell buy y max_x)"
  unfolding buy_asset_def
  by (intro atomic_check_then atomic_then_infallible execute_buy_atomic atomic_rules)

lemma sell_asset_atomic: "atomic (sell_asset T orig recipient sell buy x min_y)"
  unfolding sell_asset_def
  by (intro atomic_check_then atomic_then_infallible execute_sell_atomic atomic_rules)

lemma liquidity_calls_atomic:
  "atomic (add_liquidity T orig asset min_l max_a c)" "atomic (remove_liquidity T orig asset l min_a min_c)"
  unfolding add_liquidity_def remove_liquidity_def by (rule atomic_transactional)+

lemma set_fee_rate_atomic: "atomic (set_fee_rate orig f)"
  unfolding set_fee_rate_def by (intro atomic_check_then atomic_infallible atomic_rules)

section \<open>Prices of a trade through one pool\<close>

definition trade_pool :: "'s cx_config \<Rightarrow> asset_id \<Rightarrow> asset_id \<Rightarrow> 's cx_state \<Rightarrow> account_id" where
  "trade_pool T sell buy s = exchange_address_for T (if buy = CoreAssetId s then sell else buy) s"

lemma get_buy_price_one_pool:
  assumes "sell = CoreAssetId s \<or> buy = CoreAssetId s"
  shows "get_buy_price T buy y sell s = Inr v \<longleftrightarrow> sell \<noteq> buy \<and> 0 < y \<and>
    calculate_buy_price (DefaultFeeRate s) y (cx_free_balance T (trade_pool T sell buy s) sell s)
      (cx_free_balance T (trade_pool T sell buy s) buy s) = Inr v"
  using assms
  by (auto simp: get_buy_price_def get_core_to_asset_buy_price_def get_asset_to_core_buy_price_def
      get_exchange_reserves_def trade_pool_def Let_def call_eqs)

lemma get_sell_price_one_pool:
  assumes "sell = CoreAssetId s \<or> buy = CoreAssetId s"
  shows "get_sell_price T sell x buy s = Inr v \<longleftrightarrow> sell \<noteq> buy \<and> 0 < x \<and>
    calculate_sell_price (DefaultFeeRate s) x (cx_free_balance T (trade_pool T sell buy s) sell s)
      (cx_free_balance T (trade_pool T sell buy s) buy s) = Inr v"
  using assms
  by (auto simp: get_sell_price_def get_core_to_asset_sell_price_def get_asset_to_core_sell_price_def
      get_exchange_reserves_def trade_pool_def Let_def call_eqs)

lemma get_sell_price_two_pools:
  assumes "sell \<noteq> CoreAssetId s" and "buy \<noteq> CoreAssetId s"
    and "get_sell_price T sell x buy s = Inr v"
  obtains c where "sell \<noteq> buy" "0 < x" "0 < c" "get_asset_to_core_sell_price T sell x s = Inr c"
    and "calculate_sell_price (DefaultFeeRate s) x
      (cx_free_balance T (exchange_address_for T sell s) sell s)
      (cx_free_balance T (exchange_address_for T sell s) (CoreAssetId s) s) = Inr c"
    and "calculate_sell_price (DefaultFeeRate s) c
      (cx_free_balance T (exchange_address_for T buy s) (CoreAssetId s) s)
      (cx_free_balance T (exchange_address_for T buy s) buy s) = Inr v"
  using assms
  by (auto simp: get_sell_price_def get_core_to_asset_sell_price_def get_asset_to_core_sell_price_def
      get_exchange_reserves_def Let_def call_eqs)

section \<open>The transfers of a trade\<close>

lemma execute_trade_one_pool:
  assumes "execute_trade T trader recipient sell buy x y s = (Inr u, s')"
    and "sell = CoreAssetId s \<or> buy = CoreAssetId s"
  obtains l1 l2 where
    "mc_transfer (cx_currency T) trader (trade_pool T sell buy s) sell x KeepAlive (Ledger s) = (Inr (), l1)"
    "mc_transfer (cx_currency T) (trade_pool T sell buy s) recipient buy y KeepAlive l1 = (Inr (), l2)"
    "s' = s\<lparr>Ledger := l2\<rparr>"
  using assms by (auto simp: execute_trade_def trade_pool_def cx_transfer_def call_eqs)

lemma execute_trade_two_pools:
  assumes "execute_trade T trader recipient sell buy x y s = (Inr u, s')"
    and "sell \<noteq> CoreAssetId s" "buy \<noteq> CoreAssetId s"
  obtains c l1 l2 l3 where "get_asset_to_core_sell_price T sell x s = Inr c"
    "mc_transfer (cx_currency T) trader (exchange_address_for T sell s) sell x KeepAlive (Ledger s) = (Inr (), l1)"
    "mc_transfer (cx_currency T) (exchange_address_for T sell s) (exchange_address_for T buy s)
       (CoreAssetId s) c KeepAlive l1 = (Inr (), l2)"
    "mc_transfer (cx_currency T) (exchange_address_for T buy s) recipient buy y KeepAlive l2 = (Inr (), l3)"
    "s' = s\<lparr>Ledger := l3\<rparr>"
proof (cases "get_asset_to_core_sell_price T sell x s")
  case (Inr c)
  then show thesis
    using assms that [of c] by (auto simp: execute_trade_def cx_transfer_def call_eqs)
qed (use assms in \<open>auto simp: execute_trade_def call_eqs\<close>)

lemma execute_sell_Inr:
  assumes "execute_sell T trader recipient sell buy x min_y s = (Inr v, s')"
  obtains t where "get_sell_price T sell x buy s = Inr v" "min_y \<le> v" "x \<le> cx_free_balance T trader sell s"
    "execute_trade T trader recipient sell buy x v s = (Inr (), t)"
    "s' = cx_deposit_event (AssetSold sell buy trader x v) t"
  using assms by (auto simp: execute_sell_def call_eqs split: if_splits)

lemma execute_buy_Inr:
  assumes "execute_buy T trader recipient sell buy y max_x s = (Inr x, s')"
  obtains t where "get_buy_price T buy y sell s = Inr x" "x \<le> max_x" "x \<le> cx_free_balance T trader sell s"
    "execute_trade T trader recipient sell buy x y s = (Inr (), t)"
    "s' = cx_deposit_event (AssetBought sell buy trader x y) t"
  using assms by (auto simp: execute_buy_def call_eqs split: if_splits)

context multi_currency
begin

text \<open>The payee of a transfer by a payer that keeps the minimum receives exactly the amount.\<close>

lemma transfer_received_exact:
  assumes "inv s" and "mc_transfer C from to a v req s = (Inr u, s')" and "from \<noteq> to"
    and "mc_minimum_balance C a s \<le> mc_free_balance C from a s - v"
  shows "unat (mc_free_balance C to a s') = unat (mc_free_balance C to a s) + unat v"
proof (cases "v = 0")
  case True
  then show ?thesis using transfer_refines [OF assms(1,2), of to] by (simp add: transfer_spec_def)
next
  case False
  then show ?thesis
    using transfer_guard [OF assms(2)] transfer_exact(2) [OF assms(1-3) _ assms(4)]
    by (simp add: unat_add_fits)
qed

lemma swap_one_pool:
  assumes "inv l" and t1: "mc_transfer C trader pool sell x req l = (Inr u, l1)"
    and t2: "mc_transfer C pool recipient buy y req l1 = (Inr u', l2)"
    and "sell \<noteq> buy" and "pool \<noteq> trader" "pool \<noteq> recipient" "pool \<noteq> dust"
    and min: "mc_minimum_balance C buy l \<le> mc_free_balance C pool buy l - y"
  shows "unat (mc_free_balance C pool sell l2) = unat (mc_free_balance C pool sell l) + unat x"
    and "unat (mc_free_balance C pool buy l2) = unat (mc_free_balance C pool buy l) - unat y"
    and "unat (mc_free_balance C recipient buy l2) = unat (mc_free_balance C recipient buy l) + unat y"
proof -
  have inv1: "inv l1" using transfer_inv [OF \<open>inv l\<close> t1] .
  have frame1: "mc_free_balance C w buy l1 = mc_free_balance C w buy l" for w
    using transfer_other_asset [OF t1] \<open>sell \<noteq> buy\<close> by simp
  have frame2: "mc_free_balance C w sell l2 = mc_free_balance C w sell l1" for w
    using transfer_other_asset [OF t2] \<open>sell \<noteq> buy\<close> by simp
  have min1: "mc_minimum_balance C buy l1 \<le> mc_free_balance C pool buy l1 - y"
    using min transfer_minimum [OF t1] by (simp add: frame1)
  show "unat (mc_free_balance C pool sell l2) = unat (mc_free_balance C pool sell l) + unat x"
    using transfer_received [OF \<open>inv l\<close> t1] assms(5,7) by (simp add: frame2)
  show "unat (mc_free_balance C pool buy l2) = unat (mc_free_balance C pool buy l) - unat y"
    using transfer_paid [OF inv1 t2 assms(6) min1] by (simp add: frame1)
  show "unat (mc_free_balance C recipient buy l2) = unat (mc_free_balance C recipient buy l) + unat y"
    using transfer_received_exact [OF inv1 t2 assms(6) min1] by (simp add: frame1)
qed

text \<open>The second pool of a trade through two pools sees a swap too: it receives what the first pays.\<close>

lemma swap_two_pools:
  assumes "inv l" and t1: "mc_transfer C trader A sell x req l = (Inr u, l1)"
    and t2: "mc_transfer C A B core c req l1 = (Inr u', l2)"
    and t3: "mc_transfer C B recipient buy y req l2 = (Inr u'', l3)"
    and dist: "sell \<noteq> buy" "sell \<noteq> core" "buy \<noteq> core"
    and "A \<noteq> trader" "A \<noteq> B" "A \<noteq> dust" "B \<noteq> recipient" "B \<noteq> dust"
    and minA: "mc_minimum_balance C core l \<le> mc_free_balance C A core l - c"
    and minB: "mc_minimum_balance C buy l \<le> mc_free_balance C B buy l - y"
  shows "unat (mc_free_balance C A sell l3) = unat (mc_free_balance C A sell l) + unat x"
    and "unat (mc_free_balance C A core l3) = unat (mc_free_balance C A core l) - unat c"
    and "unat (mc_free_balance C B core l3) = unat (mc_free_balance C B core l) + unat c"
    and "unat (mc_free_balance C B buy l3) = unat (mc_free_balance C B buy l) - unat y"
    and "unat (mc_free_balance C recipient buy l3) = unat (mc_free_balance C recipient buy l) + unat y"
proof -
  have inv1: "inv l1" using transfer_inv [OF \<open>inv l\<close> t1] .
  note first = swap_one_pool [OF \<open>inv l\<close> t1 t2 dist(2) assms(8,9,10) minA]
  have frame1: "a \<noteq> sell \<Longrightarrow> mc_free_balance C w a l1 = mc_free_balance C w a l"
    and frame3: "a \<noteq> buy \<Longrightarrow> mc_free_balance C w a l3 = mc_free_balance C w a l2" for w a
    using transfer_other_asset [OF t1] transfer_other_asset [OF t3] by blast+
  have min1: "mc_minimum_balance C buy l1 \<le> mc_free_balance C B buy l1 - y"
    using minB transfer_minimum [OF t1] dist by (simp add: frame1)
  have "core \<noteq> buy" "B \<noteq> A" using dist assms(9) by auto
  note second = swap_one_pool [OF inv1 t2 t3 this assms(11,12) min1]
  show "unat (mc_free_balance C A sell l3) = unat (mc_free_balance C A sell l) + unat x"
    and "unat (mc_free_balance C A core l3) = unat (mc_free_balance C A core l) - unat c"
    using first dist by (simp_all add: frame3)
  show "unat (mc_free_balance C B core l3) = unat (mc_free_balance C B core l) + unat c"
    and "unat (mc_free_balance C B buy l3) = unat (mc_free_balance C B buy l) - unat y"
    and "unat (mc_free_balance C recipient buy l3) = unat (mc_free_balance C recipient buy l) + unat y"
    using second dist by (simp_all add: frame1)
qed

end

end
