(* ===== verification/Cennzx_Chain.thy ===== *)
theory Cennzx_Chain
  imports Cennzx_Trade
begin

text \<open>
  The exchange on the chain: its dispatchables as one transition function, the liquidity books
  (the total of a pool against the holdings of its providers), and the addresses of the pools.
\<close>

datatype cx_call =
    BuyAsset "account_id option" asset_id asset_id balance balance
  | SellAsset "account_id option" asset_id asset_id balance balance
  | AddLiquidityCall asset_id balance balance balance
  | RemoveLiquidityCall asset_id balance balance balance
  | SetFeeRate fee_rate

fun cx_dispatch :: "'s cx_config \<Rightarrow> origin \<Rightarrow> cx_call \<Rightarrow> ('s cx_state, unit) dispatch" where
  "cx_dispatch T orig (BuyAsset rc sell buy y max_x) = buy_asset T orig rc sell buy y max_x"
| "cx_dispatch T orig (SellAsset rc sell buy x min_y) = sell_asset T orig rc sell buy x min_y"
| "cx_dispatch T orig (AddLiquidityCall a min_l max_a c) = add_liquidity T orig a min_l max_a c"
| "cx_dispatch T orig (RemoveLiquidityCall a l min_a min_c) = remove_liquidity T orig a l min_a min_c"
| "cx_dispatch T orig (SetFeeRate f) = set_fee_rate orig f"

lemma cx_dispatch_atomic: "atomic (cx_dispatch T orig c)"
  by (cases c) (simp_all add: buy_asset_atomic sell_asset_atomic liquidity_calls_atomic set_fee_rate_atomic)

section \<open>The liquidity books\<close>

definition lp_sum :: "exchange_key \<Rightarrow> 's cx_state \<Rightarrow> nat" where
  "lp_sum k s = (\<Sum>w\<in>UNIV. unat (liquidity_balance k w s))"

definition books_at :: "exchange_key \<Rightarrow> 's cx_state \<Rightarrow> bool" where
  "books_at k s \<longleftrightarrow> unat (total_liquidity k s) = lp_sum k s"

lemma books_frame [simp]:
  "books_at k (s\<lparr>Ledger := l\<rparr>) = books_at k s"
  "books_at k (cx_deposit_event e s) = books_at k s"
  "books_at k (s\<lparr>DefaultFeeRate := f\<rparr>) = books_at k s"
  by (simp_all add: books_at_def lp_sum_def total_liquidity_def liquidity_balance_def cx_deposit_event_def)

lemma lp_sum_upd:
  "lp_sum k (s\<lparr>LiquidityBalance := (LiquidityBalance s)((j, who) \<mapsto> v), TotalLiquidity := M\<rparr>) =
     (if k = j then lp_sum k s + unat v - unat (liquidity_balance k who s) else lp_sum k s)"
proof -
  let ?s = "s\<lparr>LiquidityBalance := (LiquidityBalance s)((j, who) \<mapsto> v), TotalLiquidity := M\<rparr>"
  let ?f = "\<lambda>w. unat (liquidity_balance k w s)"
  have point: "unat (liquidity_balance k w ?s) = (if k = j then ?f(who := unat v) else ?f) w" for w
    by (auto simp: liquidity_balance_def)
  have "lp_sum k ?s = (\<Sum>w\<in>UNIV. (if k = j then ?f(who := unat v) else ?f) w)"
    unfolding lp_sum_def by (simp only: point)
  then show ?thesis
    using sum_upd_point [of ?f who "unat v"] by (cases "k = j") (simp_all add: lp_sum_def)
qed

lemma lp_balance_le: "unat (liquidity_balance k who s) \<le> lp_sum k s"
  unfolding lp_sum_def by (rule sum_ge_point)

lemma mint_liquidity_books:
  assumes "books_at k s" and "unat (total_liquidity k (mint_liquidity j who v s)) < 2 ^ 128 - 1"
  shows "books_at k (mint_liquidity j who v s)"
proof (cases "k = j")
  case True
  have total: "unat (total_liquidity k (mint_liquidity j who v s)) = unat (total_liquidity k s) + unat v"
    using assms(2) True
    by (simp add: mint_liquidity_def Let_def total_liquidity_def unat_saturating_add min_def split: if_splits)
  then have "unat (total_liquidity k s) + unat v < 2 ^ 128 - 1" using assms(2) by simp
  then have "unat (liquidity_balance k who s) + unat v < 2 ^ 128 - 1"
    using assms(1) lp_balance_le [of k who s] by (simp add: books_at_def)
  then have "unat (saturating_add (liquidity_balance k who s) v) = unat (liquidity_balance k who s) + unat v"
    by (simp add: unat_saturating_add)
  then have "lp_sum k (mint_liquidity j who v s) = lp_sum k s + unat v"
    using True by (simp add: mint_liquidity_def Let_def lp_sum_upd)
  then show ?thesis using assms(1) total by (simp add: books_at_def)
next
  case False
  then show ?thesis
    using assms(1) by (simp add: books_at_def mint_liquidity_def Let_def lp_sum_upd total_liquidity_def)
qed

lemma burn_liquidity_books:
  assumes "books_at k s"
  shows "books_at k (burn_liquidity j who v s)"
proof (cases "k = j")
  case True
  let ?b = "liquidity_balance k who s"
  have "unat (?b - min v ?b) = unat ?b - min (unat v) (unat ?b)"
    by (simp add: unat_sub_fits unat_min)
  then show ?thesis
    using assms lp_balance_le [of k who s] True
    by (simp add: books_at_def burn_liquidity_def Let_def lp_sum_upd total_liquidity_def
        unat_saturating_sub unat_min)
next
  case False
  then show ?thesis
    using assms by (simp add: books_at_def burn_liquidity_def Let_def lp_sum_upd total_liquidity_def)
qed

lemma cx_transfer_books: "preserves (books_at k) (cx_transfer T from to a v)"
  unfolding cx_transfer_def by (intro preserves_rules) simp

lemma execute_trade_books: "preserves (books_at k) (execute_trade T trader recipient sell buy x y)"
  unfolding execute_trade_def by (intro preserves_rules cx_transfer_books)

lemma buy_asset_books: "preserves (books_at k) (buy_asset T orig rc sell buy y max_x)"
  unfolding buy_asset_def execute_buy_def signed_def
  by (intro preserves_rules execute_trade_books) simp

lemma sell_asset_books: "preserves (books_at k) (sell_asset T orig rc sell buy x min_y)"
  unfolding sell_asset_def execute_sell_def signed_def
  by (intro preserves_rules execute_trade_books) simp

lemma remove_liquidity_books: "preserves (books_at k) (remove_liquidity T orig a l min_a min_c)"
  unfolding remove_liquidity_def signed_def
  by (intro preserves_rules cx_transfer_books) (simp_all add: burn_liquidity_books)

lemma set_fee_rate_books: "preserves (books_at k) (set_fee_rate orig f)"
  unfolding set_fee_rate_def rooted_def by (intro preserves_rules) simp

text \<open>What a successful \<open>add_liquidity\<close> does.\<close>

lemma add_liquidity_Inr:
  assumes "add_liquidity T orig asset min_l max_a c s = (Inr u, s')"
  obtains who a m l1 l2 where "orig = Signed who" "liquidity_to_mint T asset max_a c s = (a, m)"
    "max_a \<noteq> 0" "c \<noteq> 0" "min_l \<le> m" "a \<le> max_a"
    "mc_transfer (cx_currency T) who (exchange_address_for T asset s) (CoreAssetId s) c KeepAlive (Ledger s)
       = (Inr (), l1)"
    "mc_transfer (cx_currency T) who (exchange_address_for T asset s) asset a KeepAlive l1 = (Inr (), l2)"
    "s' = cx_deposit_event (AddLiquidity who c asset a)
       (mint_liquidity (CoreAssetId s, asset) who m (s\<lparr>Ledger := l2\<rparr>))"
proof (cases orig)
  case (Signed who)
  obtain a m where am: "liquidity_to_mint T asset max_a c s = (a, m)" by (rule prod.exhaust)
  show thesis
    using assms Signed am that [of who a m]
    by (auto simp: add_liquidity_def cx_transfer_def call_eqs ensure_signed_def Let_def split: if_splits)
qed (use assms in \<open>auto simp: add_liquidity_def call_eqs ensure_signed_def\<close>)

lemma total_liquidity_event [simp]: "total_liquidity k (cx_deposit_event e s) = total_liquidity k s"
  by (simp add: total_liquidity_def cx_deposit_event_def)

lemma cx_dispatch_books:
  assumes "books_at k s" and "cx_dispatch T orig c s = (r, s')"
    and "unat (total_liquidity k s') < 2 ^ 128 - 1"
  shows "books_at k s'"
proof (cases "\<exists>a min_l max_a n. c = AddLiquidityCall a min_l max_a n")
  case False
  then have "preserves (books_at k) (cx_dispatch T orig c)"
    by (cases c) (simp_all add: buy_asset_books sell_asset_books remove_liquidity_books set_fee_rate_books)
  then show ?thesis using assms(1,2) by (rule preservesD)
next
  case True
  then obtain a min_l max_a n where add: "add_liquidity T orig a min_l max_a n s = (r, s')"
    using assms(2) by auto
  show ?thesis
  proof (cases r)
    case (Inl e)
    then show ?thesis using add assms(1) atomicD [OF liquidity_calls_atomic(1)] by blast
  next
    case (Inr u)
    with add have "add_liquidity T orig a min_l max_a n s = (Inr u, s')" by simp
    then show ?thesis
    proof (rule add_liquidity_Inr)
      fix who b m l1 l2
      assume "s' = cx_deposit_event (AddLiquidity who n a b)
        (mint_liquidity (CoreAssetId s, a) who m (s\<lparr>Ledger := l2\<rparr>))"
      then show ?thesis using assms(1,3) by (simp add: mint_liquidity_books)
    qed
  qed
qed

text \<open>
  The states of the exchange: calls of the pallet, with any changes to the ledger by other pallets
  in between, as long as no pool has reached the largest liquidity that can be represented.
\<close>

inductive cx_reachable :: "'s cx_config \<Rightarrow> 's cx_state \<Rightarrow> bool" for T where
  start: "TotalLiquidity s = Map.empty \<Longrightarrow> LiquidityBalance s = Map.empty \<Longrightarrow> cx_reachable T s"
| call: "cx_reachable T s \<Longrightarrow> cx_dispatch T orig c s = (r, s') \<Longrightarrow>
    (\<And>k. unat (total_liquidity k s') < 2 ^ 128 - 1) \<Longrightarrow> cx_reachable T s'"
| ledger: "cx_reachable T s \<Longrightarrow> cx_reachable T (s\<lparr>Ledger := l\<rparr>)"

lemma cx_reachable_books: "cx_reachable T s \<Longrightarrow> books_at k s"
proof (induction rule: cx_reachable.induct)
  case (start s)
  then show ?case by (simp add: books_at_def lp_sum_def total_liquidity_def liquidity_balance_def)
next
  case (call s orig c r s')
  then show ?case by (blast intro: cx_dispatch_books)
qed simp

section \<open>Pool addresses\<close>

lemma exchange_preimage_inject:
  assumes "exchange_preimage c a = exchange_preimage c' a'"
  shows "c = c' \<and> a = a'"
proof -
  have "to_le_bytes 8 (ucast c :: u64) = to_le_bytes 8 (ucast c' :: u64)"
    and "to_le_bytes 8 (ucast a :: u64) = to_le_bytes 8 (ucast a' :: u64)"
    using assms by (simp_all add: exchange_preimage_def)
  then have "(ucast c :: u64) = ucast c'" "(ucast a :: u64) = ucast a'"
    by (simp_all add: to_le_bytes_inject [of 8])
  moreover have "unat (ucast x :: u64) = unat x" for x :: asset_id
    using unat_less_pow [of x] by (simp add: unsigned_ucast_eq take_bit_nat_eq_self)
  ultimately show ?thesis by (metis word_unat_eq_iff)
qed

text \<open>The hash is collision free on the addresses of pools.\<close>

definition pool_hash_ok :: "'s cx_config \<Rightarrow> bool" where
  "pool_hash_ok T \<longleftrightarrow> inj_on (cx_hash T) {exchange_preimage c a | c a. True}"

lemma exchange_address_inject:
  assumes "pool_hash_ok T" and "exchange_address_for T a s = exchange_address_for T b s"
  shows "a = b"
proof -
  have "exchange_preimage (CoreAssetId s) a = exchange_preimage (CoreAssetId s) b"
    using assms unfolding pool_hash_ok_def exchange_address_for_def by (rule inj_onD) blast+
  then show ?thesis using exchange_preimage_inject by blast
qed

end
