(* ===== verification/Cennzx_Liquidity.thy ===== *)
theory Cennzx_Liquidity
  imports Cennzx_Chain
begin

text \<open>
  The value of liquidity: what a deposit mints, what liquidity can be withdrawn for, and the
  inequalities between them.
\<close>

lemma div_le_cross: "x \<le> c * y \<Longrightarrow> 0 < y \<Longrightarrow> x div y \<le> c" for x y c :: nat
  by (metis div_le_mono div_mult_self_is_m)

lemma share_div_mono:
  fixes n R L Q M :: nat
  assumes "R * M \<le> Q * L" and "0 < L" and "0 < M"
  shows "n * R div L \<le> n * Q div M"
proof -
  let ?q = "n * R div L"
  have "?q * L * M \<le> n * R * M" by (simp add: div_times_less_eq_dividend)
  also have "\<dots> \<le> n * Q * L" using assms(1) by (simp add: mult.assoc)
  finally have "?q * M * L \<le> n * Q * L" by (simp only: mult.assoc mult.commute [of L])
  then have "?q * M \<le> n * Q" using \<open>0 < L\<close> by simp
  then show ?thesis using \<open>0 < M\<close> by (simp add: less_eq_div_iff_mult_less_eq)
qed

lemma deposit_fair:
  fixes m c L R a A n :: nat
  assumes m: "m = c * L div R" and a: "a = c * A div R + 1" and "0 < L" "0 < R"
  shows "m * (R + c) div (L + m) \<le> c" and "m * (A + a) div (L + m) \<le> a"
    and "n * R div L \<le> n * (R + c) div (L + m)" and "n * A div L \<le> n * (A + a) div (L + m)"
proof -
  have mR: "m * R \<le> c * L" using m by (simp add: div_times_less_eq_dividend)
  have "c * A \<le> a * R"
    using a \<open>0 < R\<close> dividend_less_div_times [of R "c * A"] by (simp add: algebra_simps)
  then have "c * A * L \<le> a * R * L" by (rule mult_right_mono) simp
  moreover have "m * R * A \<le> c * L * A" using mR by (rule mult_right_mono) simp
  ultimately have "m * A * R \<le> a * L * R" by (simp only: ac_simps)
  then have mA: "m * A \<le> a * L" using \<open>0 < R\<close> by simp
  show "m * (R + c) div (L + m) \<le> c" and "m * (A + a) div (L + m) \<le> a"
    using mR mA \<open>0 < L\<close> by (intro div_le_cross; simp add: algebra_simps)+
  show "n * R div L \<le> n * (R + c) div (L + m)" and "n * A div L \<le> n * (A + a) div (L + m)"
    using mR mA \<open>0 < L\<close> by (intro share_div_mono; simp add: algebra_simps)+
qed

text \<open>The reserves of a pool, and the operations on them as numbers.\<close>

definition pool_core :: "'s cx_config \<Rightarrow> asset_id \<Rightarrow> 's cx_state \<Rightarrow> nat" where
  "pool_core T asset s = unat (cx_free_balance T (exchange_address_for T asset s) (CoreAssetId s) s)"

definition pool_asset :: "'s cx_config \<Rightarrow> asset_id \<Rightarrow> 's cx_state \<Rightarrow> nat" where
  "pool_asset T asset s = unat (cx_free_balance T (exchange_address_for T asset s) asset s)"

definition pool_total :: "asset_id \<Rightarrow> 's cx_state \<Rightarrow> nat" where
  "pool_total asset s = unat (total_liquidity (CoreAssetId s, asset) s)"

lemma mint_amounts:
  assumes "liquidity_to_mint T asset max_a c s = (a, m)"
    and "0 < pool_total asset s" "0 < pool_core T asset s"
    and "unat c * pool_asset T asset s < 2 ^ 128 - 1" and "unat c * pool_total asset s < 2 ^ 128"
  shows "unat a = unat c * pool_asset T asset s div pool_core T asset s + 1"
    and "unat m = unat c * pool_total asset s div pool_core T asset s"
proof -
  let ?A = "cx_free_balance T (exchange_address_for T asset s) asset s"
    and ?R = "cx_free_balance T (exchange_address_for T asset s) (CoreAssetId s) s"
    and ?L = "total_liquidity (CoreAssetId s, asset) s"
  have a: "a = c * ?A div ?R + 1" and m: "m = c * ?L div ?R"
    using assms(1-3)
    by (auto simp: liquidity_to_mint_def Let_def pool_total_def pool_core_def split: if_splits)
  have prod: "unat (c * ?A) = unat c * unat ?A" "unat (c * ?L) = unat c * unat ?L"
    using assms(4,5) by (auto intro!: unat_mult_fits simp: pool_asset_def pool_total_def)
  have "unat c * unat ?A div unat ?R < 2 ^ 128 - 1"
    using assms(4) unfolding pool_asset_def by (rule le_less_trans [OF div_le_dividend])
  then have "unat (c * ?A div ?R + 1) = unat (c * ?A div ?R) + 1"
    by (subst unat_add_fits) (simp_all add: unat_div prod)
  then show "unat a = unat c * pool_asset T asset s div pool_core T asset s + 1"
    by (simp add: a unat_div prod pool_asset_def pool_core_def)
  show "unat m = unat c * pool_total asset s div pool_core T asset s"
    by (simp add: m unat_div prod pool_total_def pool_core_def)
qed

lemma liquidity_value_exact:
  assumes "unat l \<le> pool_total asset s" and "0 < pool_total asset s"
    and "unat l * pool_core T asset s < 2 ^ 128" and "unat l * pool_asset T asset s < 2 ^ 128"
  shows "unat (value_core (liquidity_value T asset l s)) = unat l * pool_core T asset s div pool_total asset s"
    and "unat (value_asset (liquidity_value T asset l s)) = unat l * pool_asset T asset s div pool_total asset s"
proof -
  have "min l (total_liquidity (CoreAssetId s, asset) s) = l"
    using assms(1) by (simp add: min_def word_le_nat_alt pool_total_def)
  moreover have "total_liquidity (CoreAssetId s, asset) s \<noteq> 0" using assms(2) by (auto simp: pool_total_def)
  ultimately show "unat (value_core (liquidity_value T asset l s)) = unat l * pool_core T asset s div pool_total asset s"
    and "unat (value_asset (liquidity_value T asset l s)) = unat l * pool_asset T asset s div pool_total asset s"
    using assms(3,4)
    by (simp_all add: liquidity_value_def calculate_liquidity_value_def Let_def unat_div unat_mult_fits
        pool_core_def pool_asset_def pool_total_def)
qed

context multi_currency
begin

text \<open>A deposit adds exactly its two amounts to the pool and mints exactly its liquidity.\<close>

lemma deposit_pool:
  assumes C: "cx_currency T = C" and "inv (Ledger s)"
    and add: "add_liquidity T (Signed who) asset min_l max_a c s = (Inr u, s')"
    and mint: "liquidity_to_mint T asset max_a c s = (a, m)"
    and pool: "exchange_address_for T asset s \<noteq> who" "exchange_address_for T asset s \<noteq> dust"
    and "asset \<noteq> CoreAssetId s" and "pool_total asset s + unat m < 2 ^ 128"
  shows "pool_core T asset s' = pool_core T asset s + unat c"
    and "pool_asset T asset s' = pool_asset T asset s + unat a"
    and "pool_total asset s' = pool_total asset s + unat m"
proof -
  let ?pool = "exchange_address_for T asset s" and ?core = "CoreAssetId s"
  obtain l1 l2 where t1: "mc_transfer C who ?pool ?core c KeepAlive (Ledger s) = (Inr (), l1)"
    and t2: "mc_transfer C who ?pool asset a KeepAlive l1 = (Inr (), l2)"
    and s': "s' = cx_deposit_event (AddLiquidity who c asset a)
       (mint_liquidity (?core, asset) who m (s\<lparr>Ledger := l2\<rparr>))"
    by (rule add_liquidity_Inr [OF add]) (use mint C in auto)
  have inv1: "inv l1" using transfer_inv [OF assms(2) t1] .
  have core: "unat (mc_free_balance C ?pool ?core l2) = unat (mc_free_balance C ?pool ?core (Ledger s)) + unat c"
    using transfer_received [OF assms(2) t1] transfer_other_asset [OF t2] pool assms(7) by metis
  have trade: "unat (mc_free_balance C ?pool asset l2) = unat (mc_free_balance C ?pool asset (Ledger s)) + unat a"
    using transfer_received [OF inv1 t2] transfer_other_asset [OF t1] pool assms(7) by metis
  have fields: "Ledger s' = l2" "CoreAssetId s' = ?core" "exchange_address_for T asset s' = ?pool"
    by (simp_all add: s' cx_deposit_event_def mint_liquidity_def Let_def exchange_address_for_def)
  show "pool_core T asset s' = pool_core T asset s + unat c"
    and "pool_asset T asset s' = pool_asset T asset s + unat a"
    using core trade by (simp_all add: pool_core_def pool_asset_def fields cx_free_balance_def C)
  show "pool_total asset s' = pool_total asset s + unat m"
    using assms(8) unfolding pool_total_def fields s'
    by (simp add: mint_liquidity_def Let_def total_liquidity_def unat_saturating_add cx_deposit_event_def)
qed

end

end
