(* ===== verification/GA_Reserve.thy ===== *)
theory GA_Reserve
  imports GA_Currency
begin

text \<open>
  Reserves, slashing and locks of the generic-asset pallet: what the operations do to the books.
  \<open>reserve\<close> and \<open>AssetCurrency::withdraw\<close> keep the books only while the account keeps the
  minimum balance; the lemmas say what happens in either case.
\<close>

section \<open>Reserve and unreserve\<close>

definition reserved_state ::
  "ga_config \<Rightarrow> asset_id \<Rightarrow> account_id \<Rightarrow> balance \<Rightarrow> ga_state \<Rightarrow> ga_state" where
  "reserved_state T a who v s =
     (let s1 = (if free_balance a who s - v < minimum_balance a s then reclaim_free_balance T a who s
                else s\<lparr>FreeBalance := (FreeBalance s)((a, who) \<mapsto> free_balance a who s - v)\<rparr>)
      in s1\<lparr>ReservedBalance := (ReservedBalance s1)((a, who) \<mapsto> reserved_balance a who s + v)\<rparr>)"

lemma reserve_Inr_iff:
  "reserve T a who v s = (Inr (), s') \<longleftrightarrow>
     v \<le> free_balance a who s \<and> s' = reserved_state T a who v s"
  by (auto simp: reserve_def call_eqs reserved_state_def Let_def split: if_splits)

lemma reserve_atomic: "atomic (reserve T a who v)"
  by (auto simp: atomic_def reserve_def call_eqs Let_def split: if_splits)

lemma reserved_balance_reclaim [ga_simps]:
  "reserved_balance b w (reclaim_free_balance T a who s) = reserved_balance b w s"
  by (simp add: reclaim_free_balance_def on_nonzero_unbalanced_def Let_def ga_simps)

lemma reserve_keeps_circulating:
  assumes "backed s" and "v \<le> free_balance a who s"
    and "minimum_balance a s \<le> free_balance a who s - v"
  shows "circulating b (reserved_state T a who v s) = circulating b s"
proof (cases "b = a")
  case True
  let ?s1 = "s\<lparr>FreeBalance := (FreeBalance s)((a, who) \<mapsto> free_balance a who s - v)\<rparr>"
  let ?s2 = "?s1\<lparr>ReservedBalance := (ReservedBalance ?s1)((a, who) \<mapsto> reserved_balance a who s + v)\<rparr>"
  have s2: "reserved_state T a who v s = ?s2"
    using assms(3) by (simp add: reserved_state_def Let_def)
  have "held a s who < 2 ^ 128"
    using held_le_circulating [of a s who] backed_bound [OF assms(1), of a] by linarith
  then have fits: "unat (reserved_balance a who s) + unat v < 2 ^ 128"
    using assms(2) by (simp add: held_def word_le_nat_alt)
  have "circulating a ?s1 + unat (free_balance a who s) = circulating a s + unat (free_balance a who s - v)"
    by (rule circulating_put_free)
  moreover have "circulating a ?s2 + unat (reserved_balance a who s)
      = circulating a ?s1 + unat (reserved_balance a who s + v)"
    using circulating_put_reserved [of a ?s1 who "reserved_balance a who s + v"] by (simp add: ga_simps)
  ultimately show ?thesis
    using assms(2) fits True unfolding s2
    by (simp add: unat_add_fits unat_sub_fits word_le_nat_alt)
next
  case False
  then show ?thesis
    using assms(3) by (auto simp: reserved_state_def Let_def ga_simps)
qed

text \<open>
  When the reservation would leave less than the minimum balance, the whole free balance is
  reclaimed as dust, the reserved part included, and the reserved part is credited all the same.
\<close>

lemma reserve_dust_circulating:
  assumes "circulating a s + unat v < 2 ^ 128" and "v \<le> free_balance a who s"
    and "free_balance a who s - v < minimum_balance a s"
  shows "circulating a (reserved_state T a who v s) = circulating a s + unat v"
proof -
  let ?s1 = "reclaim_free_balance T a who s"
  have "circulating a ?s1 = circulating a s"
    using assms(1) by (intro reclaim_free_balance_circulating) simp
  moreover have "unat (reserved_balance a who s) + unat v < 2 ^ 128"
    using held_le_circulating [of a s who] assms(1) by (simp add: held_def)
  ultimately show ?thesis
    using assms(3) circulating_put_reserved [of a ?s1 who "reserved_balance a who s + v"]
    by (simp add: reserved_state_def Let_def ga_simps unat_add_fits)
qed

lemma total_issuance_reserved_state [ga_simps]:
  "total_issuance b (reserved_state T a who v s) = total_issuance b s"
  by (simp add: reserved_state_def Let_def ga_simps)

lemma reserved_state_balances:
  assumes "minimum_balance a s \<le> free_balance a who s - v"
  shows "free_balance a who (reserved_state T a who v s) = free_balance a who s - v"
    and "reserved_balance a who (reserved_state T a who v s) = reserved_balance a who s + v"
  using assms by (auto simp: reserved_state_def Let_def ga_simps)

lemma unreserve_result: "fst (unreserve a who v s) = v - min (reserved_balance a who s) v"
  by (simp add: unreserve_def Let_def)

lemma unreserve_balances [ga_simps]:
  "free_balance b w (snd (unreserve a who v s)) =
     (if b = a \<and> w = who then free_balance a who s + min (reserved_balance a who s) v
      else free_balance b w s)"
  "reserved_balance b w (snd (unreserve a who v s)) =
     (if b = a \<and> w = who then reserved_balance a who s - min (reserved_balance a who s) v
      else reserved_balance b w s)"
  "total_issuance b (snd (unreserve a who v s)) = total_issuance b s"
  by (simp_all add: unreserve_def Let_def ga_simps)

lemma min_word_le: "min r v \<le> r" "unat (r - min r v) = unat r - unat (min r v)"
  for r v :: "'a::len word"
  by (simp_all add: unat_sub_fits)

lemma unreserve_circulating:
  assumes "circulating a s < 2 ^ 128"
  shows "circulating b (snd (unreserve a who v s)) = circulating b s"
proof (cases "b = a")
  case True
  let ?m = "min (reserved_balance a who s) v"
  have le: "unat ?m \<le> unat (reserved_balance a who s)"
    by (simp add: word_le_nat_alt [symmetric])
  have "unat (free_balance a who s) + unat ?m < 2 ^ 128"
    using held_le_circulating [of a s who] assms le by (simp add: held_def)
  then have "held a (snd (unreserve a who v s)) who = held a s who"
    using le by (simp add: held_def ga_simps unat_add_fits min_word_le)
  then show ?thesis
    using circulating_change [of who a "snd (unreserve a who v s)" s] True
    by (simp add: held_def ga_simps)
next
  case False
  then show ?thesis by (intro circulating_cong) (simp_all add: ga_simps)
qed

section \<open>Slashing and repatriation\<close>

lemma slash_reserved_effect:
  "slash_reserved a who v s = (r, s') \<Longrightarrow>
     unat (reserved_balance a who s') = unat (reserved_balance a who s) - unat v \<and>
     (case r of None \<Rightarrow> 0 | Some x \<Rightarrow> unat x) = unat v - unat (reserved_balance a who s)"
  by (auto simp: slash_reserved_def Let_def ga_simps unat_min unat_sub_fits min_def word_le_nat_alt
      word_unat_eq_iff)

lemma slash_reserved_frame [ga_simps]:
  "free_balance b w (snd (slash_reserved a who v s)) = free_balance b w s"
  "total_issuance b (snd (slash_reserved a who v s)) = total_issuance b s"
  "b \<noteq> a \<or> w \<noteq> who \<Longrightarrow> reserved_balance b w (snd (slash_reserved a who v s)) = reserved_balance b w s"
  by (auto simp: slash_reserved_def Let_def ga_simps)

text \<open>What a slash takes: as much of the amount as the account holds, free funds first.\<close>

lemma slash_reserved_circulating:
  assumes "slash_reserved a who v s = (r, s')"
  shows "circulating a s' + (unat v - (case r of None \<Rightarrow> 0 | Some x \<Rightarrow> unat x)) = circulating a s"
    and "b \<noteq> a \<Longrightarrow> circulating b s' = circulating b s"
proof -
  have s': "s' = snd (slash_reserved a who v s)" using assms by simp
  show "b \<noteq> a \<Longrightarrow> circulating b s' = circulating b s"
    unfolding s' by (intro circulating_cong) (simp_all add: ga_simps)
  have "circulating a s' + held a s who = circulating a s + held a s' who"
    unfolding s' by (rule circulating_change) (simp add: held_def ga_simps)
  moreover have "free_balance a who s' = free_balance a who s"
    unfolding s' by (simp add: ga_simps)
  ultimately show "circulating a s' + (unat v - (case r of None \<Rightarrow> 0 | Some x \<Rightarrow> unat x)) = circulating a s"
    using slash_reserved_effect [OF assms] by (simp add: held_def)
qed

lemma slash_circulating:
  assumes "slash T a who v s = (r, s')"
  shows "circulating a s' + (unat v - (case r of None \<Rightarrow> 0 | Some x \<Rightarrow> unat x)) = circulating a s"
    and "(case r of None \<Rightarrow> 0 | Some x \<Rightarrow> unat x) = unat v - held a s who"
proof -
  let ?f = "min (free_balance a who s) v"
  let ?s1 = "set_free_balance T a who (free_balance a who s - ?f) s"
  have s1: "circulating a ?s1 + unat ?f = circulating a s"
    using circulating_set_free [of a T who "free_balance a who s - ?f" s]
    by (simp add: min_word_le unat_min)
  have "circulating a s' + (unat v - (case r of None \<Rightarrow> 0 | Some x \<Rightarrow> unat x)) = circulating a s \<and>
     (case r of None \<Rightarrow> 0 | Some x \<Rightarrow> unat x) = unat v - held a s who"
  proof (cases "?f < v")
    case True
    then have f: "?f = free_balance a who s" and less: "free_balance a who s < v"
      by (auto simp: min_def split: if_splits)
    have sl: "slash_reserved a who (v - ?f) ?s1 = (r, s')"
      using assms True by (simp add: slash_def Let_def)
    have v: "unat (v - ?f) = unat v - unat (free_balance a who s)"
      using less f by (simp add: unat_sub_fits)
    have "reserved_balance a who ?s1 = reserved_balance a who s"
      by (simp add: ga_simps)
    then show ?thesis
      using slash_reserved_circulating(1) [OF sl] slash_reserved_effect [OF sl] s1 v f less
      by (simp add: held_def word_less_nat_alt)
  next
    case False
    then have f: "?f = v" and le: "v \<le> free_balance a who s"
      by (auto simp: min_def split: if_splits)
    have "r = None \<and> s' = ?s1"
      using assms False by (simp add: slash_def Let_def)
    then show ?thesis
      using s1 f le by (simp add: held_def word_le_nat_alt)
  qed
  then show "circulating a s' + (unat v - (case r of None \<Rightarrow> 0 | Some x \<Rightarrow> unat x)) = circulating a s"
    and "(case r of None \<Rightarrow> 0 | Some x \<Rightarrow> unat x) = unat v - held a s who"
    by blast+
qed

lemma repatriate_reserved_balances [ga_simps]:
  "free_balance b w (snd (repatriate_reserved a payee ben v s)) =
     (if b = a \<and> w = ben then free_balance a ben s + min (reserved_balance a payee s) v
      else free_balance b w s)"
  "reserved_balance b w (snd (repatriate_reserved a payee ben v s)) =
     (if b = a \<and> w = payee then reserved_balance a payee s - min (reserved_balance a payee s) v
      else reserved_balance b w s)"
  "total_issuance b (snd (repatriate_reserved a payee ben v s)) = total_issuance b s"
  by (simp_all add: repatriate_reserved_def Let_def ga_simps min_def)

lemma repatriate_reserved_circulating:
  assumes "circulating a s < 2 ^ 128"
  shows "circulating b (snd (repatriate_reserved a payee ben v s)) = circulating b s"
proof (cases "b = a \<and> v \<noteq> 0")
  case True
  let ?m = "min (reserved_balance a payee s) v"
  let ?s1 = "s\<lparr>FreeBalance := (FreeBalance s)((a, ben) \<mapsto> free_balance a ben s + ?m)\<rparr>"
  let ?s2 = "set_reserved_balance a payee (reserved_balance a payee s - ?m) ?s1"
  have s2: "snd (repatriate_reserved a payee ben v s) = ?s2"
    using True by (simp add: repatriate_reserved_def Let_def)
  have le: "unat ?m \<le> unat (reserved_balance a payee s)"
    by (simp add: word_le_nat_alt [symmetric])
  have "held a s ben + held a s payee \<le> circulating a s" if "ben \<noteq> payee"
    using that by (rule held_two_le_circulating)
  then have "unat (free_balance a ben s) + unat ?m < 2 ^ 128"
    using le assms held_le_circulating [of a s ben] by (cases "ben = payee") (auto simp: held_def)
  moreover have "circulating a ?s1 + unat (free_balance a ben s)
      = circulating a s + unat (free_balance a ben s + ?m)"
    by (rule circulating_put_free)
  moreover have "circulating a ?s2 + unat (reserved_balance a payee s)
      = circulating a ?s1 + unat (reserved_balance a payee s - ?m)"
    using circulating_set_reserved [of a payee "reserved_balance a payee s - ?m" ?s1]
    by (simp add: ga_simps)
  ultimately show ?thesis
    using True le unfolding s2 by (simp add: unat_add_fits min_word_le)
next
  case False
  then show ?thesis
    by (intro circulating_cong) (auto simp: ga_simps min_def)
qed

section \<open>Imbalances that are dropped keep the books\<close>

lemma backed_drop_negative:
  assumes "backed s" and "circulating (neg_asset i) s' + unat (neg_amount i) = circulating (neg_asset i) s"
    and "\<And>b. b \<noteq> neg_asset i \<Longrightarrow> circulating b s' = circulating b s"
    and "\<And>b. total_issuance b s' = total_issuance b s"
  shows "backed (drop_negative i s')"
  unfolding backed_def
proof
  fix b
  show "circulating b (drop_negative i s') = unat (total_issuance b (drop_negative i s'))"
    using assms(1,2) assms(3) [of b] assms(4) [of b]
    by (cases "b = neg_asset i") (auto simp: backed_def ga_simps unat_saturating_sub)
qed

lemma backed_drop_positive:
  assumes "backed s" and "circulating (pos_asset i) s' = circulating (pos_asset i) s + unat (pos_amount i)"
    and "circulating (pos_asset i) s + unat (pos_amount i) < 2 ^ 128"
    and "\<And>b. b \<noteq> pos_asset i \<Longrightarrow> circulating b s' = circulating b s"
    and "\<And>b. total_issuance b s' = total_issuance b s"
  shows "backed (drop_positive i s')"
  unfolding backed_def
proof
  fix b
  show "circulating b (drop_positive i s') = unat (total_issuance b (drop_positive i s'))"
    using assms(1-3) assms(4) [of b] assms(5) [of b]
    by (cases "b = pos_asset i") (auto simp: backed_def ga_simps unat_saturating_add)
qed

lemma slash_frame:
  "slash T a who v s = (r, s') \<Longrightarrow> total_issuance b s' = total_issuance b s"
  "slash T a who v s = (r, s') \<Longrightarrow> b \<noteq> a \<Longrightarrow> circulating b s' = circulating b s"
  by (auto simp: slash_def slash_reserved_def Let_def ga_simps circulating_other split: if_splits)

lemma ac_slash_drop_backed:
  assumes "backed s" and "ac_slash T U who v s = ((i, r), s')"
  shows "backed (drop_negative i s')"
proof -
  let ?a = "authority_asset_id U s"
  obtain rem where sl: "slash T ?a who v s = (rem, s')"
    and i: "i = (case rem of Some x \<Rightarrow> NegativeImbalance (v - x) ?a | None \<Rightarrow> NegativeImbalance v ?a)"
    using assms(2) by (auto simp: ac_slash_def Let_def split: prod.splits option.splits)
  have "unat (neg_amount i) = unat v - (case rem of None \<Rightarrow> 0 | Some x \<Rightarrow> unat x)" and "neg_asset i = ?a"
    using slash_circulating(2) [OF sl] unfolding i
    by (auto simp: unat_sub_fits word_le_nat_alt split: option.splits)
  then show ?thesis
    using slash_circulating(1) [OF sl] slash_frame [OF sl]
    by (intro backed_drop_negative [OF assms(1)]) simp_all
qed

lemma ac_slash_reserved_drop_backed:
  assumes "backed s" and "ac_slash_reserved U who v s = ((i, r), s')"
  shows "backed (drop_negative i s')"
proof -
  let ?a = "authority_asset_id U s"
  obtain rem where sl: "slash_reserved ?a who v s = (rem, s')"
    and i: "i = NegativeImbalance (v - (case rem of Some x \<Rightarrow> x | None \<Rightarrow> 0)) ?a"
    using assms(2) by (auto simp: ac_slash_reserved_def Let_def split: prod.splits)
  have "unat (neg_amount i) = unat v - (case rem of None \<Rightarrow> 0 | Some x \<Rightarrow> unat x)"
    using slash_reserved_effect [OF sl] unfolding i
    by (auto simp: unat_sub_fits word_le_nat_alt split: option.splits)
  moreover have "total_issuance b s' = total_issuance b s" for b
    using sl by (metis slash_reserved_frame(2) snd_conv)
  ultimately show ?thesis
    using slash_reserved_circulating [OF sl] i
    by (intro backed_drop_negative [OF assms(1)]) simp_all
qed

lemma ga_withdraw_drop_backed:
  assumes "backed s" and "ga_withdraw T who a v reasons req s = (Inr i, s')"
  shows "backed (drop_negative i s')"
proof (cases "v = 0")
  case True
  then have "i = negative_zero" and "s' = s"
    using assms(2) by (auto simp: ga_withdraw_def call_eqs)
  then show ?thesis
    using assms(1) by (intro backed_drop_negative [OF assms(1)]) (simp_all add: negative_zero_def)
next
  case False
  then have i: "i = NegativeImbalance v a" and le: "v \<le> free_balance a who s"
    and s': "s' = set_free_balance T a who (free_balance a who s - v) s"
    using assms(2) by (auto simp: ga_withdraw_def call_eqs checked_sub_def split: if_splits)
  have "circulating a s' + unat v = circulating a s"
    using circulating_set_free [of a T who "free_balance a who s - v" s] le
    by (simp add: s' unat_sub_fits word_le_nat_alt)
  then show ?thesis
    by (intro backed_drop_negative [OF assms(1)]) (simp_all add: i s' circulating_other ga_simps)
qed

lemma ga_deposit_creating_drop_backed:
  assumes "backed s" and "circulating a s + unat v < 2 ^ 128"
    and "ga_deposit_creating T who a v s = (i, s')"
  shows "backed (drop_positive i s')"
proof (cases "v = 0")
  case True
  then have "i = positive_zero" and "s' = s"
    using assms(3) by (auto simp: ga_deposit_creating_def)
  then show ?thesis
    using assms(1) backed_bound [OF assms(1)]
    by (intro backed_drop_positive [OF assms(1)]) (simp_all add: positive_zero_def)
next
  case False
  have fits: "unat (free_balance a who s) + unat v < 2 ^ 128"
    using free_le_circulating [of a who s] assms(2) by simp
  then have "free_balance a who s \<le> free_balance a who s + v"
    by (simp add: word_le_nat_alt unat_add_fits)
  then have i: "i = PositiveImbalance v a" and s': "s' = set_free_balance T a who (free_balance a who s + v) s"
    using assms(3) False by (auto simp: ga_deposit_creating_def ga_make_free_balance_be_def Let_def)
  have "circulating a s' = circulating a s + unat v"
    using circulating_set_free [of a T who "free_balance a who s + v" s] fits
    by (simp add: s' unat_add_fits)
  then show ?thesis
    using assms(2)
    by (intro backed_drop_positive [OF assms(1)]) (simp_all add: i s' circulating_other ga_simps)
qed

section \<open>Locks\<close>

lemma replace_lock_None: "replace_lock i f None ls = (filter (\<lambda>l. lock_id l \<noteq> i) ls, None)"
  by (induction ls) auto

text \<open>Replacing the lock \<open>i\<close> leaves one lock with that identifier and does not touch the others.\<close>

lemma replace_lock_other:
  assumes "lock_id n = i" and "\<And>l. lock_id l = i \<Longrightarrow> lock_id (f l n) = i"
  shows "filter (\<lambda>l. lock_id l \<noteq> i) (push_lock (replace_lock i f (Some n) ls)) =
    filter (\<lambda>l. lock_id l \<noteq> i) ls"
proof (induction ls)
  case (Cons l ls)
  then show ?case
    by (cases "replace_lock i f (Some n) ls")
      (auto simp: replace_lock_None push_lock_def Let_def assms split: option.splits)
qed (simp add: push_lock_def assms)

lemma replace_lock_same:
  assumes "lock_id n = i" and "\<And>l. lock_id l = i \<Longrightarrow> lock_id (f l n) = i"
  shows "filter (\<lambda>l. lock_id l = i) (push_lock (replace_lock i f (Some n) ls)) =
    [case find (\<lambda>l. lock_id l = i) ls of Some l \<Rightarrow> f l n | None \<Rightarrow> n]"
proof (induction ls)
  case (Cons l ls)
  then show ?case
    by (cases "replace_lock i f (Some n) ls")
      (auto simp: replace_lock_None push_lock_def Let_def assms split: option.splits)
qed (simp add: push_lock_def assms)

lemma locks_update:
  "locks a who (s\<lparr>Locks := (Locks s)((a, who) \<mapsto> ls)\<rparr>) = ls"
  by (simp add: locks_def)

lemma remove_lock_locks:
  "locks a who (remove_lock i a who s) = filter (\<lambda>l. lock_id l \<noteq> i) (locks a who s)"
  by (simp add: remove_lock_def Let_def locks_def)

text \<open>A withdrawal that the locks apply to leaves the locked amount in place.\<close>

lemma ensure_can_withdraw_locked:
  assumes "ensure_can_withdraw a who v r new s = Inr ()" and "v \<noteq> 0"
    and "l \<in> set (locks a who s)"
    and "reasons_from r = ReasonsAll \<or> lock_reasons l = ReasonsAll \<or> lock_reasons l = reasons_from r"
  shows "lock_amount l \<le> new"
  using assms by (auto simp: ensure_can_withdraw_def list_all_iff split: if_splits)

end
