(* ===== verification/GA_Chain.thy ===== *)
theory GA_Chain
  imports GA_Reserve
begin

text \<open>
  The generic-asset pallet on the chain: its dispatchables as one transition function, the states
  they reach from a genesis, and the properties of the pallet.
\<close>

section \<open>The dispatchables as a transition system\<close>

datatype ga_call =
    Create account_id asset_options asset_info
  | Transfer asset_id account_id balance
  | TransferAll asset_id account_id
  | UpdatePermission asset_id permissions_v1
  | UpdateAssetInfo asset_id asset_info
  | MintCall asset_id account_id balance
  | BurnCall asset_id account_id balance
  | CreateReserved asset_id asset_options asset_info

fun ga_dispatch :: "ga_config \<Rightarrow> origin \<Rightarrow> ga_call \<Rightarrow> (ga_state, unit) dispatch" where
  "ga_dispatch T orig (Create who options info) = create T orig who options info"
| "ga_dispatch T orig (Transfer a to v) = transfer T orig a to v"
| "ga_dispatch T orig (TransferAll a to) = transfer_all T orig a to"
| "ga_dispatch T orig (UpdatePermission a p) = update_permission orig a p"
| "ga_dispatch T orig (UpdateAssetInfo a info) = update_asset_info orig a info"
| "ga_dispatch T orig (MintCall a to v) = mint T orig a to v"
| "ga_dispatch T orig (BurnCall a target v) = burn T orig a target v"
| "ga_dispatch T orig (CreateReserved a options info) = create_reserved T orig a options info"

inductive ga_reachable :: "ga_config \<Rightarrow> ga_genesis \<Rightarrow> ga_state \<Rightarrow> bool" for T g where
  start: "ga_reachable T g (genesis_build T g)"
| step: "ga_reachable T g s \<Longrightarrow> ga_dispatch T orig c s = (r, s') \<Longrightarrow> ga_reachable T g s'"

section \<open>The invariant\<close>

text \<open>What \<open>fresh_ids\<close> depends on is written by creation, minting, burning and permission updates only.\<close>

lemma fresh_ids_frame [ga_simps]:
  "fresh_ids (set_free_balance T a who v s) = fresh_ids s"
  "fresh_ids (deposit_event e s) = fresh_ids s"
  "fresh_ids (reclaim_free_balance T a who s) = fresh_ids s"
  "fresh_ids (moved T a from to v s) = fresh_ids s"
  "fresh_ids (s\<lparr>AssetMeta := M\<rparr>) = fresh_ids s"
  by (simp_all add: fresh_ids_def set_free_balance_def deposit_event_def moved_def
      reclaim_free_balance_def on_nonzero_unbalanced_def Let_def)

lemma fresh_ids_permitted:
  assumes "fresh_ids s" and "check_permission a who what s"
  shows "\<not> NextAssetId s \<le> a"
proof
  assume "NextAssetId s \<le> a"
  then have "Permissions s a = None" using assms(1) by (simp add: fresh_ids_def)
  with assms(2) show False
    by (cases what)
      (simp_all add: check_permission_def get_permission_def storage_get_def default_permissions_def)
qed

lemma fresh_ids_issue:
  "fresh_ids s \<Longrightarrow> check_permission a who what s \<Longrightarrow>
     fresh_ids (s\<lparr>TotalIssuance := (TotalIssuance s)(a \<mapsto> v)\<rparr>)"
  "fresh_ids s \<Longrightarrow> check_permission a who what s \<Longrightarrow>
     fresh_ids (s\<lparr>Permissions := (Permissions s)(a \<mapsto> p)\<rparr>)"
  using fresh_ids_permitted by (auto simp: fresh_ids_def)

lemma make_transfer_fresh_ids: "preserves fresh_ids (make_transfer T a from to v req)"
proof (rule preservesI)
  fix s r s' assume "fresh_ids s" and "make_transfer T a from to v req s = (r, s')"
  then show "fresh_ids s'"
    by (cases r) (auto dest: atomicD [OF make_transfer_atomic] simp: make_transfer_Inr_iff ga_simps)
qed

lemma mint_free_fresh_ids: "preserves fresh_ids (mint_free T a who to v)"
proof (rule preservesI)
  fix s r s' assume "fresh_ids s" and "mint_free T a who to v s = (r, s')"
  then show "fresh_ids s'"
    by (cases r) (auto dest: atomicD [OF mint_free_atomic]
        simp: mint_free_Inr_iff ga_simps fresh_ids_issue)
qed

lemma burn_free_fresh_ids: "preserves fresh_ids (burn_free T a who to v)"
proof (rule preservesI)
  fix s r s' assume "fresh_ids s" and "burn_free T a who to v s = (r, s')"
  then show "fresh_ids s'"
    by (cases r) (auto dest: atomicD [OF burn_free_atomic]
        simp: burn_free_Inr_iff ga_simps fresh_ids_issue)
qed

lemma preserves_conj: "preserves P m \<Longrightarrow> preserves Q m \<Longrightarrow> preserves (\<lambda>s. P s \<and> Q s) m"
  by (auto simp: preserves_def)

lemma ga_inv_eq: "ga_inv = (\<lambda>s. backed s \<and> fresh_ids s)"
  by (simp add: ga_inv_def fun_eq_iff)

lemma make_transfer_inv: "preserves ga_inv (make_transfer T a from to v req)"
  unfolding ga_inv_eq by (intro preserves_conj make_transfer_backed make_transfer_fresh_ids)

lemma mint_free_inv: "preserves ga_inv (mint_free T a who to v)"
  unfolding ga_inv_eq by (intro preserves_conj mint_free_backed mint_free_fresh_ids)

lemma burn_free_inv: "preserves ga_inv (burn_free T a who to v)"
  unfolding ga_inv_eq by (intro preserves_conj burn_free_backed burn_free_fresh_ids)

lemma ga_inv_frame [ga_simps]:
  "ga_inv (deposit_event e s) = ga_inv s"
  "ga_inv (s\<lparr>AssetMeta := M\<rparr>) = ga_inv s"
  by (simp_all add: ga_inv_def ga_simps) (simp_all add: backed_def ga_simps)

lemma ga_inv_permissions:
  "ga_inv s \<Longrightarrow> check_permission a who what s \<Longrightarrow>
     ga_inv (s\<lparr>Permissions := (Permissions s)(a \<mapsto> p)\<rparr>)"
  by (auto simp: ga_inv_def fresh_ids_issue backed_def ga_simps)

lemma update_permission_inv: "preserves ga_inv (update_permission orig a p)"
  by (rule preservesI)
    (auto simp: update_permission_def bind_def call_defs ga_simps
      split: if_splits sum.splits dest: ga_inv_permissions)

lemma create_origin_inv:
  "preserves ga_inv (case ensure_signed BadOrigin orig of Inl _ \<Rightarrow> rooted orig | Inr _ \<Rightarrow> ret ())"
  by (auto simp: preserves_rules split: sum.splits)

lemmas ga_op_inv =
  make_transfer_inv mint_free_inv burn_free_inv create_asset_inv update_permission_inv create_origin_inv

lemma ga_dispatch_inv: "preserves ga_inv (ga_dispatch T orig c)"
proof (cases c)
  case Create then show ?thesis
    by (simp add: create_def) (intro preserves_rules ga_op_inv)
next
  case Transfer then show ?thesis
    by (simp add: transfer_def make_transfer_with_event_def)
      (intro preserves_rules ga_op_inv, simp add: ga_simps)
next
  case TransferAll then show ?thesis
    by (simp add: transfer_all_def make_transfer_with_event_def)
      (intro preserves_rules ga_op_inv, simp add: ga_simps)
next
  case UpdatePermission then show ?thesis by (simp add: ga_op_inv)
next
  case UpdateAssetInfo then show ?thesis
    by (simp add: update_asset_info_def) (intro preserves_rules ga_op_inv; simp add: ga_simps)
next
  case MintCall then show ?thesis
    by (simp add: mint_def) (intro preserves_rules ga_op_inv, simp add: ga_simps)
next
  case BurnCall then show ?thesis
    by (simp add: burn_def) (intro preserves_rules ga_op_inv, simp add: ga_simps)
next
  case CreateReserved then show ?thesis
    by (simp add: create_reserved_def) (intro preserves_rules ga_op_inv)
qed

section \<open>Genesis\<close>

text \<open>
  What a genesis configuration has to satisfy: the endowed accounts are distinct, the issuance
  fits, and the genesis assets lie below the first user-created identifier.
\<close>

definition genesis_ok :: "ga_genesis \<Rightarrow> bool" where
  "genesis_ok g \<longleftrightarrow>
     distinct (genesis_endowed_accounts g) \<and>
     unat (genesis_initial_balance g) * length (genesis_endowed_accounts g) < 2 ^ 128 \<and>
     (\<forall>a \<in> set (genesis_assets g). a < genesis_next_asset_id g) \<and>
     (\<forall>(a, w) \<in> set (genesis_permissions g). a < genesis_next_asset_id g)"

definition endow :: "ga_config \<Rightarrow> balance \<Rightarrow> account_id list \<Rightarrow> asset_id \<Rightarrow> ga_state \<Rightarrow> ga_state" where
  "endow T v ws a s = fold (\<lambda>w s. set_free_balance T a w v s) ws s"

lemma endow_free:
  "free_balance b w (endow T v ws a s) = (if b = a \<and> w \<in> set ws then v else free_balance b w s)"
  unfolding endow_def by (induction ws arbitrary: s) (auto simp: ga_simps)

lemma endow_frame:
  "reserved_balance b w (endow T v ws a s) = reserved_balance b w s"
  "TotalIssuance (endow T v ws a s) = TotalIssuance s"
  "Permissions (endow T v ws a s) = Permissions s"
  "NextAssetId (endow T v ws a s) = NextAssetId s"
  unfolding endow_def by (induction ws arbitrary: s) (auto simp: ga_simps)

lemma endow_all_free:
  "free_balance b w (fold (endow T v ws) as s) =
     (if b \<in> set as \<and> w \<in> set ws then v else free_balance b w s)"
  by (induction as arbitrary: s) (auto simp: endow_free)

lemma endow_all_frame:
  "reserved_balance b w (fold (endow T v ws) as s) = reserved_balance b w s"
  "TotalIssuance (fold (endow T v ws) as s) = TotalIssuance s"
  "Permissions (fold (endow T v ws) as s) = Permissions s"
  "NextAssetId (fold (endow T v ws) as s) = NextAssetId s"
  by (induction as arbitrary: s) (auto simp: endow_frame)

lemma meta_fold_frame: "\<exists>M. fold insert_asset_meta ms s = s\<lparr>AssetMeta := M\<rparr>"
proof (induction ms arbitrary: s)
  case Nil
  have "s = s\<lparr>AssetMeta := AssetMeta s\<rparr>" by simp
  then show ?case by (metis fold_simps(1))
next
  case (Cons m ms)
  show ?case using Cons [of "insert_asset_meta m s"] by (simp add: insert_asset_meta_def)
qed

lemma genesis_build_eq:
  "\<exists>M. genesis_build T g =
     (fold (endow T (genesis_initial_balance g) (genesis_endowed_accounts g)) (genesis_assets g)
        (genesis_state g))\<lparr>AssetMeta := M\<rparr>"
proof -
  have eq: "endow T v ws = (\<lambda>a. fold (\<lambda>w s. set_free_balance T a w v s) ws)" for v ws
    by (intro ext) (simp add: endow_def)
  show ?thesis
    unfolding genesis_build_def eq using meta_fold_frame by blast
qed

lemma genesis_circulating:
  assumes "distinct (genesis_endowed_accounts g)"
  shows "circulating a (genesis_build T g) =
    (if a \<in> set (genesis_assets g)
     then unat (genesis_initial_balance g) * length (genesis_endowed_accounts g) else 0)"
proof -
  let ?v = "genesis_initial_balance g" and ?ws = "genesis_endowed_accounts g"
  obtain M where b: "genesis_build T g =
     (fold (endow T ?v ?ws) (genesis_assets g) (genesis_state g))\<lparr>AssetMeta := M\<rparr>"
    using genesis_build_eq by blast
  have "held a (genesis_build T g) w = (if a \<in> set (genesis_assets g) \<and> w \<in> set ?ws then unat ?v else 0)" for w
    unfolding b held_def ga_simps endow_all_free endow_all_frame(1)
    by (simp add: free_balance_def reserved_balance_def genesis_state_def)
  then have "circulating a (genesis_build T g) =
     (\<Sum>w\<in>UNIV. if a \<in> set (genesis_assets g) \<and> w \<in> set ?ws then unat ?v else 0)"
    by (simp add: circulating_def)
  also have "\<dots> = (if a \<in> set (genesis_assets g) then unat ?v * card (set ?ws) else 0)"
    by (simp add: sum.If_cases)
  finally show ?thesis using distinct_card [OF assms] by simp
qed

lemma genesis_issuance:
  assumes "genesis_ok g"
  shows "unat (total_issuance a (genesis_build T g)) =
    (if a \<in> set (genesis_assets g)
     then unat (genesis_initial_balance g) * length (genesis_endowed_accounts g) else 0)"
proof -
  let ?v = "genesis_initial_balance g" and ?n = "length (genesis_endowed_accounts g)"
  have fits: "unat ?v * ?n < 2 ^ 128" using assms by (simp add: genesis_ok_def)
  have "unat (?v * word_of_nat ?n) = unat ?v * ?n"
  proof (cases "unat ?v = 0")
    case True
    then show ?thesis by (simp add: unat_eq_zero)
  next
    case False
    then have "?n < 2 ^ 128" using fits by (metis (no_types) One_nat_def Suc_leI le_less_trans mult_le_mono1 mult_1 neq0_conv)
    then have "unat (word_of_nat ?n :: balance) = ?n" by (simp add: unsigned_of_nat take_bit_nat_eq_self)
    then show ?thesis using fits by (simp add: unat_mult_fits)
  qed
  moreover obtain M where b: "genesis_build T g =
     (fold (endow T ?v (genesis_endowed_accounts g)) (genesis_assets g) (genesis_state g))\<lparr>AssetMeta := M\<rparr>"
    using genesis_build_eq by blast
  moreover have "map_of (map (\<lambda>i. (i, c)) xs) a = (if a \<in> set xs then Some c else None)" for xs and c :: balance
    by (induction xs) auto
  ultimately show ?thesis
    by (simp add: total_issuance_def b endow_all_frame genesis_state_def storage_get_def)
qed

lemma genesis_inv:
  assumes "genesis_ok g"
  shows "ga_inv (genesis_build T g)"
proof -
  obtain M where b: "genesis_build T g =
     (fold (endow T (genesis_initial_balance g) (genesis_endowed_accounts g)) (genesis_assets g)
        (genesis_state g))\<lparr>AssetMeta := M\<rparr>"
    using genesis_build_eq by blast
  have "fresh_ids (genesis_build T g)"
    using assms unfolding b fresh_ids_def
    by (auto simp: endow_all_frame genesis_state_def genesis_ok_def map_of_eq_None_iff)
  moreover have "backed (genesis_build T g)"
    using assms by (auto simp: backed_def genesis_issuance genesis_circulating genesis_ok_def)
  ultimately show ?thesis by (simp add: ga_inv_def)
qed

lemma ga_reachable_inv: "ga_reachable T g s \<Longrightarrow> genesis_ok g \<Longrightarrow> ga_inv s"
proof (induction rule: ga_reachable.induct)
  case start then show ?case by (rule genesis_inv)
next
  case (step s orig c r s')
  then show ?case using preservesD [OF ga_dispatch_inv] by blast
qed

end
