(* ===== verification/GA_Props.thy ===== *)
theory GA_Props
  imports GA_Chain
begin

text \<open>
  The properties of the generic-asset pallet, with a small chain (\<open>demo_config\<close>, \<open>demo_genesis\<close>,
  \<open>demo_state\<close>) on which they are evaluated.
\<close>

definition demo_config :: ga_config where
  "demo_config = \<lparr>dust_beneficiary = 99, inc_providers = (\<lambda>w p. p(w := p w + 1))\<rparr>"

definition demo_genesis :: ga_genesis where
  "demo_genesis =
     \<lparr>genesis_assets = [1, 2], genesis_initial_balance = 100, genesis_endowed_accounts = [1, 2],
      genesis_permissions = [(1, 1)], genesis_next_asset_id = 10, genesis_staking_asset_id = 1,
      genesis_spending_asset_id = 2,
      genesis_asset_meta = [(1, \<lparr>symbol = [], decimal_places = 4, existential_deposit = 3\<rparr>)]\<rparr>"

definition demo_state :: ga_state where
  "demo_state = genesis_build demo_config demo_genesis"

section \<open>Support\<close>

lemma demo_genesis_ok: "genesis_ok demo_genesis"
  by (simp add: genesis_ok_def demo_genesis_def)

lemma demo_reachable: "ga_reachable demo_config demo_genesis demo_state"
  unfolding demo_state_def by (rule ga_reachable.start)

lemma demo_inv: "ga_inv demo_state"
  using ga_reachable_inv [OF demo_reachable demo_genesis_ok] .

lemmas demo_defs = demo_state_def genesis_build_def genesis_state_def demo_genesis_def
  insert_asset_meta_def

lemma demo_free: "free_balance a w demo_state = (if (a = 1 \<or> a = 2) \<and> (w = 1 \<or> w = 2) then 100 else 0)"
  by (auto simp: demo_defs free_balance_def set_free_balance_def storage_get_def)

lemma demo_minimum: "minimum_balance 1 demo_state = 3"
  by (simp add: demo_defs minimum_balance_def asset_meta_def set_free_balance_def)

lemma demo_fields:
  "Locks demo_state = Map.empty" "ReservedBalance demo_state = Map.empty"
  "NextAssetId demo_state = 10" "SpendingAssetId demo_state = 2" "StakingAssetId demo_state = 1"
  "TotalIssuance demo_state 1 = Some 200" "TotalIssuance demo_state 2 = Some 200"
  "Permissions demo_state 1 = Some (V1 (permissions_new 1))"
  by (simp_all add: demo_defs set_free_balance_def)

lemma demo_backed: "backed demo_state"
  using demo_inv by (simp add: ga_inv_def)

lemma demo_issuance: "total_issuance 1 demo_state = 200" "total_issuance 2 demo_state = 200"
  by (simp_all add: total_issuance_def storage_get_def demo_fields)

lemma demo_circulating: "circulating 1 demo_state = 200" "circulating 2 demo_state = 200"
  using demo_backed by (simp_all add: backed_def demo_issuance)

lemma demo_reserved: "reserved_balance a w demo_state = 0"
  by (simp add: reserved_balance_def demo_fields)

lemma demo_unlocked: "ensure_can_withdraw a w v r n demo_state = Inr ()"
  by (simp add: ensure_can_withdraw_def locks_def demo_fields)

lemma demo_transfer:
  "ga_dispatch demo_config (Signed 1) (Transfer 1 2 30) demo_state =
     (Inr (), deposit_event (Transferred 1 1 2 30) (moved demo_config 1 1 2 30 demo_state))"
proof -
  have "make_transfer demo_config 1 1 2 30 AllowDeath demo_state
     = (Inr (), moved demo_config 1 1 2 30 demo_state)"
    by (simp add: make_transfer_Inr_iff demo_free demo_unlocked demo_minimum)
  then show ?thesis
    by (simp add: transfer_def make_transfer_with_event_def bind_def call_defs ensure_signed_def)
qed

lemma saturating_add_ge: "a \<le> saturating_add a b" for a b :: "'a::len word"
proof -
  have "unat a \<le> 2 ^ LENGTH('a) - 1" using unat_less_pow [of a] by linarith
  then show ?thesis by (simp add: word_le_nat_alt unat_saturating_add)
qed

lemma free_balance_reclaim_ge:
  "w \<noteq> who \<Longrightarrow> free_balance b w s \<le> free_balance b w (reclaim_free_balance T a who s)"
  by (auto simp: reclaim_free_balance_def on_nonzero_unbalanced_def Let_def ga_simps saturating_add_ge)

text \<open>A transfer lowers the balance of the payer only.\<close>

lemma make_transfer_lowers_payer:
  assumes "make_transfer T a from to v req s = (r, s')" and "w \<noteq> from"
  shows "free_balance b w s \<le> free_balance b w s'"
proof (cases r)
  case (Inl e)
  then show ?thesis using assms(1) atomicD [OF make_transfer_atomic] by blast
next
  case (Inr u)
  then have ok: "make_transfer T a from to v req s = (Inr (), s')" using assms(1) by simp
  then have "free_balance b w s \<le> free_balance b w (moved T a from to v s)" if "from \<noteq> to"
    using that assms(2)
    by (auto simp: make_transfer_Inr_iff free_balance_moved word_le_nat_alt unat_add_fits)
  moreover have "free_balance b w (moved T a from to v s)
      \<le> free_balance b w (reclaim_free_balance T a from (moved T a from to v s))"
    using assms(2) by (rule free_balance_reclaim_ge)
  ultimately show ?thesis
    using ok by (auto simp: make_transfer_Inr_iff)
qed

lemma make_transfer_with_event_lowers_payer:
  assumes "make_transfer_with_event T a from to v req s = (r, s')" and "w \<noteq> from"
  shows "free_balance b w s \<le> free_balance b w s'"
proof -
  obtain q t where m: "make_transfer T a from to v req s = (q, t)" by fastforce
  have "free_balance b w s' = free_balance b w t"
    using assms(1) m
    by (auto simp: make_transfer_with_event_def bind_def call_defs ga_simps split: sum.splits if_splits)
  then show ?thesis using make_transfer_lowers_payer [OF m assms(2)] by metis
qed

lemma mint_free_raises:
  "mint_free T a who to v s = (r, s') \<Longrightarrow> free_balance b w s \<le> free_balance b w s'"
  by (cases r) (auto dest: atomicD [OF mint_free_atomic]
      simp: mint_free_Inr_iff ga_simps word_le_nat_alt unat_add_fits)

lemma create_asset_raises:
  assumes "ga_inv s" and "create_asset T asset acc options info s = (r, s')"
  shows "free_balance b w s \<le> free_balance b w s'"
proof (cases r)
  case (Inl e) then show ?thesis using assms(2) atomicD [OF create_asset_atomic] by blast
next
  case (Inr u)
  with assms(2) obtain issuance a s1 where id: "create_asset_id asset s = (Inr a, s1)"
    and s': "s' = with_asset T a (case acc of Some w \<Rightarrow> w | None \<Rightarrow> 0) issuance options info s1"
    by (auto simp: create_asset_Inr_iff)
  have none: "TotalIssuance s a = None" and s1: "free_balance b w s1 = free_balance b w s"
    using create_asset_id_Inr [OF id] assms(1) by (auto simp: ga_inv_def fresh_ids_def ga_simps)
  show ?thesis
    using unissued_free_zero [OF _ none] assms(1) s1
    by (auto simp: s' with_asset_def Let_def ga_simps ga_inv_def)
qed

lemma create_asset_issuance:
  assumes "ga_inv s" and "create_asset T asset acc options info s = (r, s')"
    and "TotalIssuance s b \<noteq> None"
  shows "total_issuance b s' = total_issuance b s"
proof (cases r)
  case (Inl e) then show ?thesis using assms(2) atomicD [OF create_asset_atomic] by blast
next
  case (Inr u)
  with assms(2) obtain issuance a s1 where id: "create_asset_id asset s = (Inr a, s1)"
    and s': "s' = with_asset T a (case acc of Some w \<Rightarrow> w | None \<Rightarrow> 0) issuance options info s1"
    by (auto simp: create_asset_Inr_iff)
  have "TotalIssuance s a = None" and "TotalIssuance s1 = TotalIssuance s"
    using create_asset_id_Inr [OF id] assms(1) by (auto simp: ga_inv_def fresh_ids_def)
  then show ?thesis
    using assms(3) by (auto simp: s' total_issuance_def ga_simps)
qed

lemma mint_free_issuance:
  "mint_free T a who to v s = (r, s') \<Longrightarrow> total_issuance b s' \<noteq> total_issuance b s \<Longrightarrow>
     b = a \<and> check_permission a who Mint s"
  by (cases r) (auto dest: atomicD [OF mint_free_atomic] simp: mint_free_Inr_iff ga_simps
      split: if_splits)

lemma burn_free_issuance:
  "burn_free T a who to v s = (r, s') \<Longrightarrow> total_issuance b s' \<noteq> total_issuance b s \<Longrightarrow>
     b = a \<and> check_permission a who Burn s"
  by (cases r) (auto dest: atomicD [OF burn_free_atomic] simp: burn_free_Inr_iff ga_simps
      split: if_splits)

lemma demo_mint:
  "ga_dispatch demo_config (Signed 1) (MintCall 1 7 30) demo_state =
     (Inr (), deposit_event (Minted 1 7 30) (set_free_balance demo_config 1 7 30
        (demo_state\<lparr>TotalIssuance := (TotalIssuance demo_state)(1 \<mapsto> 230)\<rparr>)))"
proof -
  have "mint_free demo_config 1 1 7 30 demo_state =
     (Inr (), set_free_balance demo_config 1 7 30
        (demo_state\<lparr>TotalIssuance := (TotalIssuance demo_state)(1 \<mapsto> 230)\<rparr>))"
    by (simp add: mint_free_Inr_iff demo_free demo_issuance check_permission_def get_permission_def
        storage_get_def demo_fields permissions_new_def)
  then show ?thesis by (simp add: mint_def bind_def call_defs ensure_signed_def)
qed

lemma burn_free_lowers_permitted:
  "burn_free T a who to v s = (r, s') \<Longrightarrow> free_balance b w s' < free_balance b w s \<Longrightarrow>
     b = a \<and> check_permission a who Burn s"
  by (cases r) (auto dest: atomicD [OF burn_free_atomic] simp: burn_free_Inr_iff ga_simps
      split: if_splits)

lemma after_event:
  "bind m (\<lambda>_. modify (deposit_event e)) s = (r, s') \<Longrightarrow>
     \<exists>q t. m s = (q, t) \<and> (\<forall>b w. free_balance b w s' = free_balance b w t) \<and>
       (\<forall>b. total_issuance b s' = total_issuance b t)"
  by (auto simp: bind_def modify_def ga_simps split: prod.splits sum.splits)

lemma checked_pow_ten:
  assumes "checked_pow (10 :: balance) n = Some f"
  shows "unat f = 10 ^ n"
proof -
  have lt: "(10 :: nat) ^ n < 2 ^ 128" and f: "f = 10 ^ n"
    using assms by (auto simp: checked_pow_def split: if_splits)
  have "f = word_of_nat (10 ^ n)" using f by simp
  then have "unat f = unat (word_of_nat (10 ^ n) :: balance)" by (rule arg_cong)
  also have "\<dots> = take_bit 128 (10 ^ n)" by (subst unsigned_of_nat) simp
  also have "\<dots> = 10 ^ n" using lt by (rule take_bit_nat_eq_self)
  finally show ?thesis .
qed

lemma unat_sum_list:
  fixes ws :: "'a::len word list"
  shows "sum_list (map unat ws) < 2 ^ LENGTH('a) \<Longrightarrow> unat (sum_list ws) = sum_list (map unat ws)"
  by (induction ws) (simp_all add: unat_add_fits)

lemma find_lock_id: "find (\<lambda>l. lock_id l = i) ls = Some l \<Longrightarrow> lock_id l = i"
  by (auto simp: find_Some_iff)

lemma word_sub_wraps_above:
  fixes x y :: "'a::len word"
  assumes "x < y"
  shows "x < x - y"
proof (rule ccontr)
  assume "\<not> x < x - y"
  then have "x - y \<le> x" by simp
  then have "y \<le> x" by (simp add: word_sub_le_iff)
  with assms show False by simp
qed

section \<open>Properties\<close>

text \<open>
  C1. In every state that the dispatchables reach from a well-formed genesis, by any sequence of
  calls from any origins, the recorded total issuance of every asset is what all accounts hold
  of it, free and reserved.
\<close>

theorem ledger_backed:
  assumes "genesis_ok g" and "ga_reachable T g s"
  shows "circulating a s = unat (total_issuance a s)"
  using ga_reachable_inv [OF assms(2,1)] by (simp add: ga_inv_def backed_def)

theorem ledger_backed_witness:
  "let s = snd (ga_dispatch demo_config (Signed 1) (Transfer 1 2 98) demo_state)
   in circulating 1 s = unat (total_issuance 1 s)"
proof -
  have "ga_reachable demo_config demo_genesis
     (snd (ga_dispatch demo_config (Signed 1) (Transfer 1 2 98) demo_state))"
    by (rule ga_reachable.step [OF demo_reachable]) (rule prod.collapse [symmetric])
  then show ?thesis
    unfolding Let_def by (rule ledger_backed [OF demo_genesis_ok])
qed

text \<open>
  C2. No dispatchable lowers the free balance of an account unless the account signed the call or
  the signer holds the burn permission of that asset.
\<close>

theorem free_balance_decrease_authorised:
  assumes "ga_inv s" and "ga_dispatch T orig c s = (r, s')"
    and "free_balance a w s' < free_balance a w s"
  shows "orig = Signed w \<or> (\<exists>who. orig = Signed who \<and> check_permission a who Burn s)"
proof (cases c)
  case Create
  have "create T orig x21 x22 x23 s = (r, s') \<Longrightarrow> free_balance a w s \<le> free_balance a w s'" for x21 x22 x23
    using create_asset_raises [OF assms(1)]
    by (auto simp: create_def bind_def call_defs split: sum.splits prod.splits)
  then show ?thesis using Create assms(2,3) by (force simp: not_less [symmetric])
next
  case (Transfer b to v)
  then show ?thesis
    using assms(2,3) make_transfer_with_event_lowers_payer
    by (auto simp: transfer_def bind_def call_defs ensure_signed_def
        split: sum.splits prod.splits if_splits origin.splits) (metis not_less)+
next
  case (TransferAll b to)
  then show ?thesis
    using assms(2,3) make_transfer_with_event_lowers_payer
    by (auto simp: transfer_all_def bind_def call_defs ensure_signed_def
        split: sum.splits prod.splits if_splits origin.splits) (metis not_less)+
next
  case UpdatePermission
  then show ?thesis
    using assms(2,3) by (auto simp: update_permission_def bind_def call_defs ga_simps
        split: sum.splits prod.splits if_splits)
next
  case UpdateAssetInfo
  then show ?thesis
    using assms(2,3) by (auto simp: update_asset_info_def bind_def call_defs ga_simps
        split: sum.splits prod.splits if_splits)
next
  case (MintCall b to v)
  then show ?thesis
    using assms(2,3) mint_free_raises
    by (auto simp: mint_def bind_def call_defs ga_simps split: sum.splits prod.splits)
      (metis not_less)+
next
  case (BurnCall b target v)
  then show ?thesis
    using assms(2,3) burn_free_lowers_permitted
    by (auto simp: burn_def bind_def call_defs ga_simps ensure_signed_def
        split: sum.splits prod.splits origin.splits) (metis not_less)+
next
  case (CreateReserved b options info)
  then show ?thesis
    using assms(2,3) create_asset_raises [OF assms(1)]
    by (auto simp: create_reserved_def bind_def call_defs split: sum.splits prod.splits)
      (metis not_less)+
qed

theorem free_balance_decrease_authorised_witness:
  "let s' = snd (ga_dispatch demo_config (Signed 1) (Transfer 1 2 30) demo_state)
   in free_balance 1 1 s' < free_balance 1 1 demo_state \<and>
      (Signed 1 = Signed 1 \<or> (\<exists>who. Signed 1 = Signed who \<and> check_permission 1 who Burn demo_state))"
proof -
  have lower: "free_balance 1 1 (deposit_event (Transferred 1 1 2 30) (moved demo_config 1 1 2 30 demo_state))
      < free_balance 1 1 demo_state"
    by (simp add: ga_simps free_balance_moved demo_free)
  show ?thesis
    using lower free_balance_decrease_authorised [OF demo_inv demo_transfer lower]
    unfolding Let_def demo_transfer by simp
qed

text \<open>
  C3. The total issuance of an existing asset changes only in a call signed by an account with the
  mint or the burn permission of that asset.
\<close>

theorem issuance_change_authorised:
  assumes "ga_inv s" and "ga_dispatch T orig c s = (r, s')"
    and "total_issuance a s' \<noteq> total_issuance a s" and "TotalIssuance s a \<noteq> None"
  shows "\<exists>who. orig = Signed who \<and> (check_permission a who Mint s \<or> check_permission a who Burn s)"
proof (cases c)
  case Create
  then show ?thesis
    using assms create_asset_issuance [OF assms(1)]
    by (auto simp: create_def bind_def call_defs split: sum.splits prod.splits)
next
  case Transfer
  then show ?thesis
    using assms(2,3) make_transfer_issuance
    by (auto simp: transfer_def make_transfer_with_event_def bind_def call_defs ga_simps
        split: sum.splits prod.splits if_splits)
next
  case TransferAll
  then show ?thesis
    using assms(2,3) make_transfer_issuance
    by (auto simp: transfer_all_def make_transfer_with_event_def bind_def call_defs ga_simps
        split: sum.splits prod.splits if_splits)
next
  case UpdatePermission
  then show ?thesis
    using assms(2,3) by (auto simp: update_permission_def bind_def call_defs ga_simps
        split: sum.splits prod.splits if_splits)
next
  case UpdateAssetInfo
  then show ?thesis
    using assms(2,3) by (auto simp: update_asset_info_def bind_def call_defs ga_simps
        split: sum.splits prod.splits if_splits)
next
  case (MintCall b to v)
  then show ?thesis
    using assms(2,3) mint_free_issuance
    by (fastforce simp: mint_def bind_def call_defs ga_simps ensure_signed_def
        split: sum.splits prod.splits origin.splits)
next
  case (BurnCall b target v)
  then show ?thesis
    using assms(2,3) burn_free_issuance
    by (fastforce simp: burn_def bind_def call_defs ga_simps ensure_signed_def
        split: sum.splits prod.splits origin.splits)
next
  case (CreateReserved b options info)
  then show ?thesis
    using assms create_asset_issuance [OF assms(1)]
    by (auto simp: create_reserved_def bind_def call_defs split: sum.splits prod.splits)
qed

theorem issuance_change_authorised_witness:
  "let s' = snd (ga_dispatch demo_config (Signed 1) (MintCall 1 7 30) demo_state)
   in total_issuance 1 s' = 230 \<and>
      (\<exists>who. Signed 1 = Signed who \<and>
         (check_permission 1 who Mint demo_state \<or> check_permission 1 who Burn demo_state))"
proof -
  have eq: "total_issuance 1 (snd (ga_dispatch demo_config (Signed 1) (MintCall 1 7 30) demo_state)) = 230"
    by (subst demo_mint) (simp add: ga_simps)
  have "total_issuance 1 (snd (ga_dispatch demo_config (Signed 1) (MintCall 1 7 30) demo_state))
      \<noteq> total_issuance 1 demo_state"
    unfolding eq by (simp add: demo_issuance)
  from issuance_change_authorised [OF demo_inv prod.collapse [symmetric] this] eq
  show ?thesis by (simp add: Let_def demo_fields)
qed

text \<open>
  C4. A successful \<open>MultiCurrency::transfer\<close> changes the free balances of its asset as the abstract
  transfer does (the remainder of a reaped payer goes to the dust beneficiary), leaves every
  other asset alone and keeps the total held of every asset.
\<close>

theorem transfer_refines_spec:
  assumes "backed s" and "ga_transfer T from to a v req s = (Inr (), s')"
  shows "(\<lambda>w. free_balance a w s') =
      transfer_spec (dust_beneficiary T) (minimum_balance a s) from to v (\<lambda>w. free_balance a w s) \<and>
    (\<forall>b w. b \<noteq> a \<longrightarrow> free_balance b w s' = free_balance b w s) \<and>
    (\<forall>b. circulating b s' = circulating b s)"
proof -
  have t: "mc_transfer (ga_currency T) from to a v req s = (Inr (), s')"
    using assms(2) by (simp add: ga_currency_def)
  show ?thesis
    using ga.transfer_refines [OF assms(1) t] ga.transfer_other_asset [OF t]
      ga.transfer_circ [OF assms(1) t]
    by (auto simp: ga_currency_def)
qed

theorem transfer_refines_spec_witness:
  "free_balance 1 99 (snd (ga_transfer demo_config 1 2 1 98 KeepAlive demo_state)) = 2"
proof -
  have t: "ga_transfer demo_config 1 2 1 98 KeepAlive demo_state =
      (Inr (), snd (ga_transfer demo_config 1 2 1 98 KeepAlive demo_state))"
    by (simp add: ga_transfer_def make_transfer_def call_defs bind_def checked_sub_def
        checked_add_def demo_free demo_unlocked ga_simps demo_minimum)
  show ?thesis
    using transfer_refines_spec [OF demo_backed t, THEN conjunct1, THEN fun_cong, of 99]
    by (simp add: transfer_spec_def Let_def demo_free demo_minimum demo_config_def)
qed

text \<open>
  C5. A transfer spends only what lies above every lock that applies to transfers.
\<close>

theorem transfer_respects_locks:
  assumes "make_transfer T a from to v req s = (Inr (), s')" and "v \<noteq> 0"
    and "l \<in> set (locks a from s)" and "lock_reasons l \<noteq> ReasonsFee"
  shows "unat (lock_amount l) + unat v \<le> unat (free_balance a from s)"
proof -
  have "reasons_from {TRANSFER} = ReasonsMisc" by (simp add: reasons_from_def)
  then have "lock_reasons l = ReasonsAll \<or> lock_reasons l = reasons_from {TRANSFER}"
    using assms(4) by (cases "lock_reasons l") auto
  then have "lock_amount l \<le> free_balance a from s - v"
    using assms(1-3) by (auto simp: make_transfer_Inr_iff intro: ensure_can_withdraw_locked)
  moreover have "v \<le> free_balance a from s"
    using assms(1) by (simp add: make_transfer_Inr_iff)
  ultimately show ?thesis by (simp add: word_le_nat_alt unat_sub_fits)
qed

theorem transfer_respects_locks_witness:
  "let s = set_lock 7 1 1 60 {TRANSFER} demo_state;
       l = \<lparr>lock_id = 7, lock_amount = 60, lock_reasons = ReasonsMisc\<rparr>
   in unat (lock_amount l) + unat (40 :: balance) \<le> unat (free_balance 1 1 s)"
proof -
  let ?s = "set_lock 7 1 1 60 {TRANSFER} demo_state"
  let ?l = "\<lparr>lock_id = 7, lock_amount = 60, lock_reasons = ReasonsMisc\<rparr>"
  have ls: "locks 1 1 ?s = [?l]"
    by (simp add: set_lock_def Let_def locks_def demo_fields push_lock_def reasons_from_def)
  have free: "free_balance a w ?s = free_balance a w demo_state" for a w
    by (simp add: set_lock_def Let_def free_balance_def)
  have "\<exists>s'. make_transfer demo_config 1 1 2 40 AllowDeath ?s = (Inr (), s')"
    by (simp add: make_transfer_Inr_iff free demo_free ensure_can_withdraw_def ls)
  then obtain s' where "make_transfer demo_config 1 1 2 40 AllowDeath ?s = (Inr (), s')" by blast
  from transfer_respects_locks [OF this, of ?l] show ?thesis by (simp add: ls Let_def)
qed

text \<open>
  C6. A dispatchable that returns an error has not changed the storage, although none of the
  dispatchables is transactional: every check precedes the first write.
\<close>

theorem dispatch_error_no_write:
  assumes "ga_dispatch T orig c s = (Inl e, s')"
  shows "s' = s"
proof (cases c)
  case Create
  then show ?thesis
    using assms atomicD [OF create_asset_atomic]
    by (auto simp: create_def call_eqs split: sum.splits)
next
  case Transfer
  then show ?thesis
    using assms atomicD [OF make_transfer_atomic]
    by (auto simp: transfer_def make_transfer_with_event_def call_eqs split: if_splits)
next
  case TransferAll
  then show ?thesis
    using assms atomicD [OF make_transfer_atomic]
    by (auto simp: transfer_all_def make_transfer_with_event_def call_eqs split: if_splits)
next
  case UpdatePermission
  then show ?thesis using assms by (auto simp: update_permission_def call_eqs split: if_splits)
next
  case UpdateAssetInfo
  then show ?thesis using assms by (auto simp: update_asset_info_def call_eqs split: if_splits)
next
  case MintCall
  then show ?thesis
    using assms atomicD [OF mint_free_atomic] by (auto simp: mint_def call_eqs)
next
  case BurnCall
  then show ?thesis
    using assms atomicD [OF burn_free_atomic] by (auto simp: burn_def call_eqs)
next
  case CreateReserved
  then show ?thesis
    using assms atomicD [OF create_asset_atomic] by (auto simp: create_reserved_def call_eqs)
qed

theorem dispatch_error_no_write_witness:
  "snd (ga_dispatch demo_config (Signed 1) (Transfer 1 2 101) demo_state) = demo_state"
proof -
  have "ga_dispatch demo_config (Signed 1) (Transfer 1 2 101) demo_state =
      (Inl (GenericAsset_Error ga_error.InsufficientBalance),
       snd (ga_dispatch demo_config (Signed 1) (Transfer 1 2 101) demo_state))"
    by (simp add: transfer_def make_transfer_with_event_def make_transfer_def call_defs bind_def
        checked_sub_def demo_free ensure_signed_def)
  then show ?thesis by (rule dispatch_error_no_write)
qed

text \<open>
  Creating a user asset takes the next free identifier, issues the initial amount scaled by the
  decimal places (exactly: nothing wraps), gives all of it to the owner and records permissions
  and metadata; the identifier was unused before and the next identifier is one higher.
\<close>

theorem create_asset_result:
  assumes "ga_inv s" and "create_asset T None (Some who) options info s = (Inr (), s')"
  shows "let a = NextAssetId s; n = 10 ^ unat (decimal_places info) * unat (initial_issuance options) in
      TotalIssuance s a = None \<and> NextAssetId s' = a + 1 \<and> a < NextAssetId s' \<and>
      unat (total_issuance a s') = n \<and> circulating a s' = n \<and>
      unat (free_balance a who s') = n \<and>
      get_permission a s' = V1 (permissions options) \<and> asset_meta a s' = info \<and>
      existential_deposit info \<noteq> 0"
proof -
  let ?a = "NextAssetId s"
  from assms(2) obtain f issuance a s1 where ed: "existential_deposit info \<noteq> 0"
    and f: "checked_pow (10 :: balance) (unat (decimal_places info)) = Some f"
    and i: "checked_mul f (initial_issuance options) = Some issuance"
    and id: "create_asset_id None s = (Inr a, s1)"
    and s': "s' = with_asset T a who issuance options info s1"
    by (auto simp: create_asset_Inr_iff)
  have a: "a = ?a" "a < a + 1" "s1 = s\<lparr>NextAssetId := a + 1\<rparr>"
    using create_asset_id_Inr [OF id] by auto
  have fresh: "TotalIssuance s a = None" using assms(1) a by (simp add: ga_inv_def fresh_ids_def)
  have "unat f = 10 ^ unat (decimal_places info)"
    using f by (rule checked_pow_ten)
  then have n: "unat issuance = 10 ^ unat (decimal_places info) * unat (initial_issuance options)"
    using i by (simp add: checked_mul_Some_iff)
  have inv: "ga_inv s'" using assms preservesD [OF create_asset_inv] by blast
  have ti: "total_issuance a s' = issuance" by (simp add: s' total_issuance_def ga_simps)
  then have "circulating a s' = unat issuance" using inv by (simp add: ga_inv_def backed_def)
  moreover have "free_balance a who s' = issuance"
    by (simp add: s' with_asset_def Let_def ga_simps)
  ultimately show ?thesis
    using ed n fresh a ti
    by (simp add: Let_def s' ga_simps get_permission_def asset_meta_def)
qed

theorem create_asset_result_witness:
  "let s' = snd (create_asset demo_config None (Some 5)
       \<lparr>initial_issuance = 3, permissions = permissions_new 5\<rparr>
       \<lparr>symbol = [], decimal_places = 2, existential_deposit = 1\<rparr> demo_state)
   in NextAssetId s' = 11 \<and> unat (free_balance 10 5 s') = 300"
proof -
  let ?o = "\<lparr>initial_issuance = 3, permissions = permissions_new 5\<rparr>"
  let ?i = "\<lparr>symbol = [], decimal_places = 2, existential_deposit = 1\<rparr>"
  let ?s' = "snd (create_asset demo_config None (Some 5) ?o ?i demo_state)"
  have "create_asset demo_config None (Some 5) ?o ?i demo_state = (Inr (), ?s')"
    by (simp add: create_asset_def create_asset_id_def call_defs bind_def checked_pow_def
        checked_mul_def checked_add_def demo_fields Let_def)
  from create_asset_result [OF demo_inv this] show ?thesis
    by (simp add: Let_def demo_fields)
qed

text \<open>
  C7. \<open>reserve\<close> conserves what the accounts hold as long as the remaining free balance reaches the
  minimum balance; otherwise the whole free balance goes to the dust beneficiary while the
  amount is credited as reserved as well, so that the amount comes into existence a second time.
\<close>

theorem reserve_circulating:
  assumes "backed s" and "circulating a s + unat v < 2 ^ 128"
    and "reserve T a who v s = (Inr (), s')"
  shows "circulating a s' =
    (if minimum_balance a s \<le> free_balance a who s - v then circulating a s
     else circulating a s + unat v)"
  using assms reserve_keeps_circulating [OF assms(1), of v a who a T]
    reserve_dust_circulating [OF assms(2), of who T]
  by (auto simp: reserve_Inr_iff not_le)

theorem reserve_circulating_witness:
  "circulating 1 (snd (reserve demo_config 1 1 98 demo_state)) = 298 \<and>
   circulating 1 (snd (reserve demo_config 1 1 90 demo_state)) = 200"
proof -
  have "reserve demo_config 1 1 98 demo_state = (Inr (), reserved_state demo_config 1 1 98 demo_state)"
    and "reserve demo_config 1 1 90 demo_state = (Inr (), reserved_state demo_config 1 1 90 demo_state)"
    by (simp_all add: reserve_Inr_iff demo_free)
  then show ?thesis
    using reserve_circulating [OF demo_backed, of 1 98 demo_config 1 "reserved_state demo_config 1 1 98 demo_state"]
      reserve_circulating [OF demo_backed, of 1 90 demo_config 1 "reserved_state demo_config 1 1 90 demo_state"]
    by (simp add: demo_circulating demo_minimum demo_free)
qed

text \<open>
  C8. \<open>AssetCurrency::withdraw\<close> takes the amount out of the accounts when the rest reaches the
  minimum balance; when it does not, nothing leaves the accounts (the whole balance goes to the
  dust beneficiary) although an imbalance of the full amount is returned to the caller.
\<close>

theorem ac_withdraw_circulating:
  assumes "backed s" and "ac_withdraw T U who v reasons req s = (Inr i, s')"
  shows "let a = authority_asset_id U s in
    i = NegativeImbalance v a \<and>
    circulating a s' + (if minimum_balance a s \<le> free_balance a who s - v then unat v else 0) =
      circulating a s"
proof -
  let ?a = "authority_asset_id U s"
  have le: "v \<le> free_balance ?a who s" and i: "i = NegativeImbalance v ?a"
    and s': "s' = (if free_balance ?a who s - v < minimum_balance ?a s
                   then reclaim_free_balance T ?a who s
                   else set_free_balance T ?a who (free_balance ?a who s - v) s)"
    using assms(2)
    by (auto simp: ac_withdraw_def call_eqs checked_sub_def ac_free_balance_def
        ac_minimum_balance_def reclaim_free_balance_def Let_def split: if_splits)
  have "circulating ?a (set_free_balance T ?a who (free_balance ?a who s - v) s) + unat v = circulating ?a s"
    using circulating_set_free [of ?a T who "free_balance ?a who s - v" s] le
    by (simp add: unat_sub_fits word_le_nat_alt)
  then show ?thesis
    using reclaim_free_balance_circulating [OF backed_bound [OF assms(1)]]
    by (auto simp: Let_def i s' not_le)
qed

theorem ac_withdraw_circulating_witness:
  "circulating 1 (snd (ac_withdraw demo_config StakingAssetIdAuthority 1 98 {FEE} KeepAlive demo_state)) = 200"
proof -
  let ?r = "ac_withdraw demo_config StakingAssetIdAuthority 1 98 {FEE} KeepAlive demo_state"
  have "?r = (Inr (NegativeImbalance 98 1), snd ?r)"
    by (simp add: ac_withdraw_def call_defs bind_def checked_sub_def ac_free_balance_def
        ac_minimum_balance_def ac_ensure_can_withdraw_def demo_fields demo_free demo_minimum
        demo_unlocked)
  from ac_withdraw_circulating [OF demo_backed this] show ?thesis
    by (simp add: Let_def demo_fields demo_free demo_minimum demo_circulating)
qed

text \<open>
  C9. \<open>AssetCurrency::burn\<close> leaves the total issuance as it was (the new value is not assigned), and
  dropping the returned imbalance raises the issuance by the burned amount instead of restoring
  it; \<open>issue\<close> does assign, and dropping what it returns restores the issuance.
\<close>

theorem ac_burn_issue_issuance:
  assumes "ac_burn U v s = (p, s1)" and "ac_issue U v s = (n, s2)"
    and "unat (total_issuance a s) + unat v < 2 ^ 128" and "v \<le> total_issuance a s"
    and "a = authority_asset_id U s"
  shows "total_issuance a s1 = total_issuance a s \<and>
    total_issuance a (drop_positive p s1) = total_issuance a s + v \<and>
    total_issuance a s2 = total_issuance a s + v \<and>
    total_issuance a (drop_negative n s2) = total_issuance a s"
proof -
  have s1: "p = PositiveImbalance v a" "total_issuance a s1 = total_issuance a s"
    using assms(1,4,5)
    by (auto simp: ac_burn_def Let_def checked_sub_def total_issuance_def storage_mutate_def)
  have s2: "n = NegativeImbalance v a" "total_issuance a s2 = total_issuance a s + v"
    using assms(2,3,5)
    by (auto simp: ac_issue_def Let_def checked_add_def total_issuance_def storage_mutate_def)
  have "v \<le> total_issuance a s + v"
    using assms(3) by (simp add: word_le_nat_alt unat_add_fits)
  then show ?thesis
    using s1 s2 assms(3) by (simp add: ga_simps saturating_add_fits saturating_sub_def)
qed

theorem ac_burn_issue_issuance_witness:
  "total_issuance 1 (snd (ac_burn StakingAssetIdAuthority 50 demo_state)) = 200 \<and>
   total_issuance 1 (drop_positive (fst (ac_burn StakingAssetIdAuthority 50 demo_state))
     (snd (ac_burn StakingAssetIdAuthority 50 demo_state))) = 250"
  using ac_burn_issue_issuance [OF prod.collapse [symmetric] prod.collapse [symmetric],
      of 1 demo_state 50 StakingAssetIdAuthority]
  by (simp add: demo_issuance demo_fields)

text \<open>
  C10. \<open>AssetCurrency::slash\<close> takes as much of the amount as the account holds, free and reserved
  together, and returns exactly what it could not take; the imbalance it returns is what left
  the accounts, so that dropping it squares the books.
\<close>

theorem ac_slash_exact:
  assumes "backed s" and "ac_slash T U who v s = ((i, r), s')"
  shows "let a = authority_asset_id U s in
    unat (neg_amount i) = min (unat v) (held a s who) \<and>
    unat r = unat v - held a s who \<and>
    circulating a s' + unat (neg_amount i) = circulating a s \<and>
    backed (drop_negative i s')"
proof -
  let ?a = "authority_asset_id U s"
  obtain rem s1 where sl1: "slash T ?a who v s = (rem, s1)" by (rule prod.exhaust)
  then have pair: "((i, r), s') = (case rem of Some x \<Rightarrow> (NegativeImbalance (v - x) ?a, x)
      | None \<Rightarrow> (NegativeImbalance v ?a, 0), s1)"
    using assms(2) [symmetric] by (simp only: ac_slash_def Let_def prod.case)
  then have sl: "slash T ?a who v s = (rem, s')" using sl1 by (simp only: prod.inject)
  have r: "r = (case rem of Some x \<Rightarrow> x | None \<Rightarrow> 0)"
    and i: "i = (case rem of Some x \<Rightarrow> NegativeImbalance (v - x) ?a | None \<Rightarrow> NegativeImbalance v ?a)"
    using pair by (cases rem; simp)+
  have rem: "unat r = unat v - held ?a s who"
    using slash_circulating(2) [OF sl] by (cases rem) (simp_all add: r)
  have "r \<le> v" using rem by (simp add: word_le_nat_alt)
  then have amount: "unat (neg_amount i) = unat v - unat r"
    by (cases rem) (simp_all add: i r unat_sub_fits)
  have "circulating ?a s' + (unat v - unat r) = circulating ?a s"
    using slash_circulating(1) [OF sl] by (cases rem) (simp_all add: r)
  then show ?thesis
    using ac_slash_drop_backed [OF assms] amount rem by (simp add: Let_def)
qed

theorem ac_slash_exact_witness:
  "let p = ac_slash demo_config StakingAssetIdAuthority 1 130 demo_state
   in unat (neg_amount (fst (fst p))) = 100 \<and> unat (snd (fst p)) = 30"
proof -
  obtain i r s' where p: "ac_slash demo_config StakingAssetIdAuthority 1 130 demo_state = ((i, r), s')"
    by (metis prod.collapse)
  show ?thesis
    using ac_slash_exact [OF demo_backed p]
    by (simp add: Let_def p demo_fields held_def demo_free demo_reserved)
qed

text \<open>
  Setting a lock leaves exactly one lock with its identifier, the new one; extending keeps the
  larger amount and joins the reasons; removing leaves none; the locks with other identifiers
  are untouched by all three, in their order.
\<close>

theorem lock_laws:
  "let mine = filter (\<lambda>l. lock_id l = i); others = filter (\<lambda>l. lock_id l \<noteq> i);
       new = \<lparr>lock_id = i, lock_amount = v, lock_reasons = reasons_from r\<rparr>
   in mine (locks a who (set_lock i a who v r s)) = [new] \<and>
    others (locks a who (set_lock i a who v r s)) = others (locks a who s) \<and>
    mine (locks a who (extend_lock i a who v r s)) =
      [case find (\<lambda>l. lock_id l = i) (locks a who s) of
         Some l \<Rightarrow> \<lparr>lock_id = i, lock_amount = max (lock_amount l) v,
                   lock_reasons = reasons_bitor (lock_reasons l) (reasons_from r)\<rparr>
       | None \<Rightarrow> new] \<and>
    others (locks a who (extend_lock i a who v r s)) = others (locks a who s) \<and>
    mine (locks a who (remove_lock i a who s)) = [] \<and>
    others (locks a who (remove_lock i a who s)) = others (locks a who s)"
  by (auto simp: set_lock_def extend_lock_def Let_def locks_update replace_lock_other
      replace_lock_same remove_lock_locks dest: find_lock_id split: option.splits)

text \<open>
  \<open>get_all_balances\<close> adds up the amounts of all locks, although locks overlay each other: when
  the sum exceeds the free balance, the subtraction wraps and the reported available balance is
  larger than the free balance.
\<close>

theorem get_all_balances_wraps:
  assumes "(\<Sum>l\<leftarrow>locks a who s. unat (lock_amount l)) < 2 ^ 128"
    and "unat (free_balance a who s) < (\<Sum>l\<leftarrow>locks a who s. unat (lock_amount l))"
  shows "free_balance a who s < all_available (get_all_balances who a s)"
proof -
  let ?free = "free_balance a who s" and ?staked = "sum_list (map lock_amount (locks a who s))"
  have staked: "unat ?staked = (\<Sum>l\<leftarrow>locks a who s. unat (lock_amount l))"
    using unat_sum_list [of "map lock_amount (locks a who s)"] assms(1) by (simp add: comp_def)
  have "?free < ?staked" using assms(2) staked by (simp add: word_less_nat_alt)
  then have "?free < ?free - ?staked"
    by (rule word_sub_wraps_above) 
  then show ?thesis by (simp add: get_all_balances_def Let_def)
qed

theorem get_all_balances_wraps_witness:
  "let s = set_lock 8 1 1 60 {TRANSFER} (set_lock 7 1 1 60 {TRANSFER} demo_state)
   in free_balance 1 1 s < all_available (get_all_balances 1 1 s)"
proof -
  let ?s = "set_lock 8 1 1 60 {TRANSFER} (set_lock 7 1 1 60 {TRANSFER} demo_state)"
  have "locks 1 1 ?s = [\<lparr>lock_id = 7, lock_amount = 60, lock_reasons = ReasonsMisc\<rparr>,
                        \<lparr>lock_id = 8, lock_amount = 60, lock_reasons = ReasonsMisc\<rparr>]"
    by (simp add: set_lock_def Let_def locks_def demo_fields push_lock_def reasons_from_def)
  moreover have "free_balance 1 1 ?s = 100"
    using demo_free [of 1 1] by (simp add: set_lock_def Let_def free_balance_def)
  ultimately show ?thesis
    using get_all_balances_wraps [of 1 1 ?s] by (simp add: Let_def)
qed

end
