(* ===== verification/Cennzx_Props.thy ===== *)
theory Cennzx_Props
  imports Cennzx_Liquidity GA_Props
begin

text \<open>
  The properties of the exchange pallet over the ledger of the generic-asset pallet, with a small
  exchange (two pools, \<open>cx_demo\<close>) on which they are evaluated.
\<close>

section \<open>A small exchange\<close>

text \<open>
  Assets 1 (core), 2 and 3; account 1 trades; the hash reads the identifiers of the two assets as a
  number.
\<close>

definition cx_demo_config :: "ga_state cx_config" where
  "cx_demo_config = \<lparr>cx_currency = ga_currency demo_config,
     cx_hash = (\<lambda>bs. word_of_nat (le_value (drop 13 bs)))\<rparr>"

definition cx_demo_genesis :: ga_genesis where
  "cx_demo_genesis =
     \<lparr>genesis_assets = [1, 2, 3], genesis_initial_balance = 1000000,
      genesis_endowed_accounts = [1, 0x20000000000000001, 0x30000000000000001],
      genesis_permissions = [], genesis_next_asset_id = 10, genesis_staking_asset_id = 1,
      genesis_spending_asset_id = 2, genesis_asset_meta = []\<rparr>"

definition cx_demo_ledger :: ga_state where
  "cx_demo_ledger = genesis_build demo_config cx_demo_genesis"

definition cx_demo :: "ga_state cx_state" where
  "cx_demo = \<lparr>Ledger = cx_demo_ledger, CoreAssetId = 1, DefaultFeeRate = FeeRate 3000,
     TotalLiquidity = Map.empty, LiquidityBalance = Map.empty, CxEvents = []\<rparr>"

lemma cx_demo_backed: "backed cx_demo_ledger"
proof -
  have "ga_reachable demo_config cx_demo_genesis cx_demo_ledger"
    unfolding cx_demo_ledger_def by (rule ga_reachable.start)
  moreover have "genesis_ok cx_demo_genesis" by (simp add: genesis_ok_def cx_demo_genesis_def)
  ultimately show ?thesis using ga_reachable_inv by (auto simp: ga_inv_def)
qed

lemma cx_demo_free:
  "free_balance a w cx_demo_ledger = (if a \<in> {1, 2, 3} \<and> w \<in> {1, 0x20000000000000001, 0x30000000000000001} then 1000000 else 0)"
  by (auto simp: cx_demo_ledger_def genesis_build_def genesis_state_def cx_demo_genesis_def
      free_balance_def set_free_balance_def storage_get_def)

lemma cx_demo_ledger_fields:
  "minimum_balance a cx_demo_ledger = 1" "Locks cx_demo_ledger = Map.empty"
  by (simp_all add: cx_demo_ledger_def genesis_build_def genesis_state_def cx_demo_genesis_def
      minimum_balance_def asset_meta_def set_free_balance_def default_asset_info_def)

lemma cx_demo_hash: "cx_hash cx_demo_config (exchange_preimage c a) = word_of_nat (unat c + 2 ^ 64 * unat a)"
proof -
  have "unat (ucast x :: u64) = unat x" "unat x < 256 ^ 8" for x :: asset_id
    using unat_less_pow [of x] by (simp_all add: unsigned_ucast_eq take_bit_nat_eq_self)
  then show ?thesis
    by (simp add: cx_demo_config_def exchange_preimage_def le_value_append le_value_to_le_bytes)
qed

lemma cx_demo_pools:
  "CoreAssetId s = 1 \<Longrightarrow> exchange_address_for cx_demo_config 2 s = 0x20000000000000001"
  "CoreAssetId s = 1 \<Longrightarrow> exchange_address_for cx_demo_config 3 s = 0x30000000000000001"
  by (simp_all add: exchange_address_for_def cx_demo_hash)

lemma cx_demo_hash_ok: "pool_hash_ok cx_demo_config"
  unfolding pool_hash_ok_def
proof (rule inj_onI)
  fix x y assume "x \<in> {exchange_preimage c a |c a. True}" "y \<in> {exchange_preimage c a |c a. True}"
    and eq: "cx_hash cx_demo_config x = cx_hash cx_demo_config y"
  then obtain c a c' a' where x: "x = exchange_preimage c a" and y: "y = exchange_preimage c' a'" by auto
  have bound: "unat c + 2 ^ 64 * unat a < 2 ^ 256" for c a :: asset_id
    using unat_less_pow [of c] unat_less_pow [of a] by simp
  have "unat (word_of_nat (unat c + 2 ^ 64 * unat a) :: account_id) = unat c + 2 ^ 64 * unat a" for c a :: asset_id
    using bound [of c a] by (intro unat_word_of_nat_less) simp
  then have sum: "unat c + 2 ^ 64 * unat a = unat c' + 2 ^ 64 * unat a'"
    using eq unfolding x y cx_demo_hash by metis
  have "unat c < 2 ^ 64" "unat c' < 2 ^ 64"
    using unat_less_pow [of c] unat_less_pow [of c'] by simp_all
  then have "unat c = unat c'" using arg_cong [OF sum, of "\<lambda>n. n mod 2 ^ 64"] by simp
  moreover from this have "unat a = unat a'" using sum by simp
  ultimately have "c = c'" "a = a'" by (simp_all add: word_unat_eq_iff)
  then show "x = y" by (simp add: x y)
qed

lemma ga_currency_sel [simp]:
  "mc_free_balance (ga_currency G) w a l = free_balance a w l"
  "mc_minimum_balance (ga_currency G) a l = minimum_balance a l"
  "mc_transfer (ga_currency G) = ga_transfer G"
  by (simp_all add: ga_currency_def)

lemma cx_demo_fields:
  "Ledger cx_demo = cx_demo_ledger" "CoreAssetId cx_demo = 1" "DefaultFeeRate cx_demo = FeeRate 3000"
  "cx_currency cx_demo_config = ga_currency demo_config" "dust_beneficiary demo_config = 99"
  by (simp_all add: cx_demo_def cx_demo_config_def demo_config_def)

text \<open>A transfer on the demo ledger that keeps the minimum balance.\<close>

lemma ga_transfer_ok:
  assumes "Locks l = Map.empty" and "v \<noteq> 0" and "v \<le> free_balance a from l"
    and "unat (free_balance a to l) + unat v < 2 ^ 128"
    and "minimum_balance a l \<le> free_balance a from l - v" and "from \<noteq> to"
  shows "ga_transfer G from to a v req l = (Inr (), moved G a from to v l)"
  using assms
  by (auto simp: ga_transfer_Inr_iff make_transfer_Inr_iff ensure_can_withdraw_def locks_def)

lemma Locks_moved [simp]: "Locks (moved G a from to v l) = Locks l"
  by (simp add: moved_def set_free_balance_def)

lemmas cx_demo_eval = cx_demo_fields cx_demo_pools cx_free_balance_def cx_demo_free cx_demo_ledger_fields
  free_balance_moved asset_meta_frame ga_transfer_ok

lemma execute_trade_one_pool_ok:
  assumes "sell = CoreAssetId s \<or> buy = CoreAssetId s"
    and "mc_transfer (cx_currency T) trader (trade_pool T sell buy s) sell x KeepAlive (Ledger s) = (Inr (), l1)"
    and "mc_transfer (cx_currency T) (trade_pool T sell buy s) recipient buy y KeepAlive l1 = (Inr (), l2)"
  shows "execute_trade T trader recipient sell buy x y s = (Inr (), s\<lparr>Ledger := l2\<rparr>)"
  using assms
  by (auto simp: execute_trade_def trade_pool_def cx_transfer_def on_ledger_def and_result_def call_defs)

lemma execute_sell_ok:
  assumes "x \<le> cx_free_balance T trader sell s" and "get_sell_price T sell x buy s = Inr y" and "min_y \<le> y"
    and "execute_trade T trader recipient sell buy x y s = (Inr (), t)"
  shows "execute_sell T trader recipient sell buy x min_y s =
    (Inr y, cx_deposit_event (AssetSold sell buy trader x y) t)"
  using assms by (simp add: execute_sell_def call_defs)

lemma execute_buy_ok:
  assumes "get_buy_price T buy y sell s = Inr x" and "x \<le> max_x" and "x \<le> cx_free_balance T trader sell s"
    and "execute_trade T trader recipient sell buy x y s = (Inr (), t)"
  shows "execute_buy T trader recipient sell buy y max_x s =
    (Inr x, cx_deposit_event (AssetBought sell buy trader x y) t)"
  using assms by (simp add: execute_buy_def call_defs)

lemma cx_demo_sell: "\<exists>s'. execute_sell cx_demo_config 1 1 2 1 1000 990 cx_demo = (Inr 996, s')"
proof -
  have "get_sell_price cx_demo_config 2 1000 1 cx_demo = Inr 996"
    by (simp add: get_sell_price_one_pool trade_pool_def cx_demo_eval calculate_sell_price_Inr_iff
        sell_price_spec_def)
  moreover have "\<exists>t. execute_trade cx_demo_config 1 1 2 1 1000 996 cx_demo = (Inr (), t)"
    by (rule exI, rule execute_trade_one_pool_ok, (simp add: trade_pool_def cx_demo_eval)+)
  ultimately show ?thesis
    using execute_sell_ok [of 1000 cx_demo_config 1 2 cx_demo 1 996 990 1] by (auto simp: cx_demo_eval)
qed

lemma cx_demo_buy: "\<exists>s'. execute_buy cx_demo_config 1 1 2 1 500 510 cx_demo = (Inr 502, s')"
proof -
  have "get_buy_price cx_demo_config 1 500 2 cx_demo = Inr 502"
    by (simp add: get_buy_price_one_pool trade_pool_def cx_demo_eval calculate_buy_price_Inr_iff
        buy_price_spec_def)
  moreover have "\<exists>t. execute_trade cx_demo_config 1 1 2 1 502 500 cx_demo = (Inr (), t)"
    by (rule exI, rule execute_trade_one_pool_ok, (simp add: trade_pool_def cx_demo_eval)+)
  ultimately show ?thesis
    using execute_buy_ok [of cx_demo_config 1 500 2 cx_demo 502 510 1 1] by (auto simp: cx_demo_eval)
qed

lemma execute_trade_two_pools_ok:
  assumes "sell \<noteq> CoreAssetId s" "buy \<noteq> CoreAssetId s" "get_asset_to_core_sell_price T sell x s = Inr c"
    "mc_transfer (cx_currency T) trader (exchange_address_for T sell s) sell x KeepAlive (Ledger s) = (Inr (), l1)"
    "mc_transfer (cx_currency T) (exchange_address_for T sell s) (exchange_address_for T buy s)
       (CoreAssetId s) c KeepAlive l1 = (Inr (), l2)"
    "mc_transfer (cx_currency T) (exchange_address_for T buy s) recipient buy y KeepAlive l2 = (Inr (), l3)"
  shows "execute_trade T trader recipient sell buy x y s = (Inr (), s\<lparr>Ledger := l3\<rparr>)"
  using assms by (simp add: execute_trade_def cx_transfer_def on_ledger_def and_result_def call_defs)

lemma cx_demo_core_price: "get_asset_to_core_sell_price cx_demo_config 2 1000 cx_demo = Inr 996"
  by (simp add: get_asset_to_core_sell_price_def get_exchange_reserves_def cx_demo_eval result_defs
      calculate_sell_price_Inr_iff sell_price_spec_def)

lemma cx_demo_sell_two: "\<exists>s'. execute_sell cx_demo_config 1 1 2 3 1000 990 cx_demo = (Inr 992, s')"
proof -
  have "get_sell_price cx_demo_config 2 1000 3 cx_demo = Inr 992"
    by (simp add: get_sell_price_def cx_demo_core_price get_core_to_asset_sell_price_def
        get_exchange_reserves_def cx_demo_eval result_defs calculate_sell_price_Inr_iff sell_price_spec_def)
  moreover have "\<exists>t. execute_trade cx_demo_config 1 1 2 3 1000 992 cx_demo = (Inr (), t)"
    by (rule exI, rule execute_trade_two_pools_ok, simp add: cx_demo_fields, simp add: cx_demo_fields,
        rule cx_demo_core_price, (simp add: cx_demo_eval)+)
  ultimately show ?thesis
    using execute_sell_ok [of 1000 cx_demo_config 1 2 cx_demo 3 992 990 1] by (auto simp: cx_demo_eval)
qed

text \<open>The same exchange after most of asset 2 has left its pool.\<close>

definition cx_thin :: "ga_state cx_state" where
  "cx_thin = cx_demo\<lparr>Ledger := moved demo_config 2 0x20000000000000001 1 999990 cx_demo_ledger\<rparr>"

lemma cx_thin_fields:
  "Ledger cx_thin = moved demo_config 2 0x20000000000000001 1 999990 cx_demo_ledger"
  "CoreAssetId cx_thin = 1" "DefaultFeeRate cx_thin = FeeRate 3000"
  by (simp_all add: cx_thin_def cx_demo_def)

lemmas cx_thin_eval = cx_thin_fields cx_demo_eval

lemma cx_thin_backed: "backed (Ledger cx_thin)"
proof -
  have "ga_transfer demo_config 0x20000000000000001 1 2 999990 AllowDeath cx_demo_ledger = (Inr (), Ledger cx_thin)"
    unfolding cx_thin_fields by (rule ga_transfer_ok) (simp_all add: cx_demo_eval)
  with cx_demo_backed show ?thesis by (rule preservesD [OF ga_transfer_backed])
qed

lemma cx_thin_trade:
  "execute_trade cx_demo_config 1 1 2 3 1 500 cx_thin = (Inr (), cx_thin\<lparr>Ledger :=
     moved demo_config 3 0x30000000000000001 1 500
       (moved demo_config 2 1 0x20000000000000001 1 (Ledger cx_thin))\<rparr>)"
proof -
  have price: "get_asset_to_core_sell_price cx_demo_config 2 1 cx_thin = Inr 0"
    by (simp add: get_asset_to_core_sell_price_def get_exchange_reserves_def cx_thin_eval result_defs
        calculate_sell_price_Inr_iff sell_price_spec_def)
  have zero: "ga_transfer G from to a 0 req l = (Inr (), l)" for G "from" to a req l
    by (simp add: ga_transfer_def ret_def)
  show ?thesis
    by (rule execute_trade_two_pools_ok [OF _ _ price], (simp add: cx_thin_eval zero)+)
qed

lemma cx_demo_add:
  "\<exists>s'. add_liquidity cx_demo_config (Signed 1) 2 0 700 500 cx_demo = (Inr (), s') \<and>
     TotalLiquidity s' = [(1, 2) \<mapsto> 500]"
  by (simp add: add_liquidity_def cx_transfer_def on_ledger_def call_defs ensure_signed_def Let_def
      liquidity_to_mint_def total_liquidity_def cx_demo_eval cx_demo_def mint_liquidity_def
      liquidity_balance_def cx_deposit_event_def storage_mutate_def saturating_add_def)

text \<open>The same exchange with a provider in the pool of asset 2.\<close>

definition cx_deep :: "ga_state cx_state" where
  "cx_deep = cx_demo\<lparr>TotalLiquidity := [(1, 2) \<mapsto> 1000000], LiquidityBalance := [((1, 2), 7) \<mapsto> 1000000]\<rparr>"

lemma cx_deep_fields:
  "Ledger cx_deep = cx_demo_ledger" "CoreAssetId cx_deep = 1" "DefaultFeeRate cx_deep = FeeRate 3000"
  "total_liquidity (1, 2) cx_deep = 1000000"
  by (simp_all add: cx_deep_def cx_demo_def total_liquidity_def)

lemmas cx_deep_eval = cx_deep_fields cx_demo_eval

lemma cx_deep_add: "\<exists>s'. add_liquidity cx_demo_config (Signed 1) 2 0 6000 5000 cx_deep = (Inr (), s')"
  by (simp add: add_liquidity_def cx_transfer_def on_ledger_def call_defs ensure_signed_def Let_def
      liquidity_to_mint_def cx_deep_eval)

section \<open>Properties\<close>

text \<open>
  C11. The two price computations, in 128- and 256-bit integers with checked and saturating steps,
  return exactly the reference prices, and fail only for an empty pool, an amount the pool does
  not have, or a price or fee that does not fit.
\<close>

theorem prices_exact:
  "(calculate_buy_price fee b S B = Inr v \<longleftrightarrow>
      S \<noteq> 0 \<and> b < B \<and> unat (rate fee) + 1000000 < 2 ^ 128 \<and>
      unat v = buy_price_spec (unat (rate fee)) (unat b) (unat S) (unat B)) \<and>
   (calculate_sell_price fee a S B = Inr v \<longleftrightarrow>
      S \<noteq> 0 \<and> B \<noteq> 0 \<and> unat (rate fee) + 1000000 < 2 ^ 128 \<and>
      unat v = sell_price_spec (unat (rate fee)) (unat a) (unat S) (unat B))"
  by (simp add: calculate_buy_price_Inr_iff calculate_sell_price_Inr_iff)








text \<open>
  C16. The total liquidity of every pool is the sum of the holdings of its providers, in every state
  that the dispatchables reach, whatever other pallets do to the ledger in between, as long as
  no total has reached the largest balance.
\<close>

theorem liquidity_books:
  assumes "cx_reachable T s"
  shows "unat (total_liquidity k s) = (\<Sum>who\<in>UNIV. unat (liquidity_balance k who s))"
  using cx_reachable_books [OF assms] by (simp add: books_at_def lp_sum_def)

theorem liquidity_books_witness:
  "\<exists>s'. add_liquidity cx_demo_config (Signed 1) 2 0 700 500 cx_demo = (Inr (), s') \<and>
     (\<Sum>who\<in>UNIV. unat (liquidity_balance (1, 2) who s')) = 500"
proof -
  obtain s' where add: "add_liquidity cx_demo_config (Signed 1) 2 0 700 500 cx_demo = (Inr (), s')"
    and total: "TotalLiquidity s' = [(1, 2) \<mapsto> 500]"
    using cx_demo_add by blast
  have small: "unat (total_liquidity k s') < 2 ^ 128 - 1" for k
    by (simp add: total_liquidity_def total)
  have "cx_reachable cx_demo_config cx_demo"
    by (rule cx_reachable.start) (simp_all add: cx_demo_def)
  then have "cx_reachable cx_demo_config s'"
    by (rule cx_reachable.call [OF _ _ small, where c = "AddLiquidityCall 2 0 700 500" and orig = "Signed 1"])
      (simp add: add)
  from liquidity_books [OF this, of "(1, 2)"] show ?thesis
    using add by (auto simp: total_liquidity_def total)
qed

text \<open>
  C17. Liquidity is fairly priced: in an existing pool, the liquidity that a deposit mints is worth no
  more than the deposit, in either asset, and no amount of liquidity of the other providers is
  worth less than before. The products in the code are assumed to fit.
\<close>

theorem liquidity_fair:
  assumes "cx_currency T = ga_currency G" and "backed (Ledger s)"
    and add: "add_liquidity T (Signed who) asset min_l max_a c s = (Inr (), s')"
    and mint: "liquidity_to_mint T asset max_a c s = (a, m)"
    and pool: "exchange_address_for T asset s \<noteq> who" "exchange_address_for T asset s \<noteq> dust_beneficiary G"
      "asset \<noteq> CoreAssetId s" "0 < pool_total asset s" "0 < pool_core T asset s"
    and fit: "unat c * pool_asset T asset s < 2 ^ 128 - 1" "unat c * pool_total asset s < 2 ^ 128"
      "pool_total asset s + unat m < 2 ^ 128"
      "(unat m + unat n) * (pool_core T asset s + unat c) < 2 ^ 128"
      "(unat m + unat n) * (pool_asset T asset s + unat a) < 2 ^ 128"
    and n: "unat n \<le> pool_total asset s"
  shows "value_core (liquidity_value T asset m s') \<le> c \<and> value_asset (liquidity_value T asset m s') \<le> a \<and>
    value_core (liquidity_value T asset n s) \<le> value_core (liquidity_value T asset n s') \<and>
    value_asset (liquidity_value T asset n s) \<le> value_asset (liquidity_value T asset n s')"
proof -
  note am = mint_amounts [OF mint pool(4,5) fit(1,2)]
  note after = ga.deposit_pool [OF assms(1-3) mint pool(1-3) fit(3)]
  have m: "unat m * (pool_core T asset s + unat c) < 2 ^ 128" "unat m * (pool_asset T asset s + unat a) < 2 ^ 128"
    and n': "unat n * (pool_core T asset s + unat c) < 2 ^ 128" "unat n * (pool_asset T asset s + unat a) < 2 ^ 128"
    "unat n * pool_core T asset s < 2 ^ 128" "unat n * pool_asset T asset s < 2 ^ 128"
    using fit(4,5) by (simp_all add: algebra_simps)
  note worth_m = liquidity_value_exact [of m asset s' T, unfolded after]
    and worth_n = liquidity_value_exact [of n asset s' T, unfolded after]
    and worth = liquidity_value_exact [of n asset s T]
  show ?thesis
    using worth_m worth_n worth m n' n pool(4) deposit_fair [OF am(2,1) pool(4,5)]
    by (simp add: word_le_nat_alt)
qed

theorem liquidity_fair_witness:
  "\<exists>s'. add_liquidity cx_demo_config (Signed 1) 2 0 6000 5000 cx_deep = (Inr (), s') \<and>
     value_core (liquidity_value cx_demo_config 2 5000 s') \<le> 5000 \<and>
     value_asset (liquidity_value cx_demo_config 2 5000 s') \<le> 5001 \<and>
     value_core (liquidity_value cx_demo_config 2 1000000 cx_deep)
       \<le> value_core (liquidity_value cx_demo_config 2 1000000 s')"
proof -
  obtain s' where add: "add_liquidity cx_demo_config (Signed 1) 2 0 6000 5000 cx_deep = (Inr (), s')"
    using cx_deep_add by blast
  have mint: "liquidity_to_mint cx_demo_config 2 6000 5000 cx_deep = (5001, 5000)"
    by (simp add: liquidity_to_mint_def Let_def cx_deep_eval)
  have pool: "pool_core cx_demo_config 2 cx_deep = 1000000" "pool_asset cx_demo_config 2 cx_deep = 1000000"
    "pool_total 2 cx_deep = 1000000"
    by (simp_all add: pool_core_def pool_asset_def pool_total_def cx_deep_eval)
  show ?thesis
    using liquidity_fair [OF _ _ add mint, of demo_config 1000000] add cx_demo_backed
    by (simp add: pool cx_deep_eval)
qed

text \<open>
  C18. A dispatchable of the exchange that fails leaves the storage and the ledger as they were, also
  when it fails between the transfers of a trade or a deposit.
\<close>

theorem exchange_error_no_write:
  assumes "cx_dispatch T orig c s = (Inl e, s')"
  shows "s' = s"
  using cx_dispatch_atomic assms by (rule atomicD)

theorem exchange_error_no_write_witness:
  "cx_dispatch cx_demo_config (Signed 1) (SellAsset None 2 1 1000 2000) cx_demo =
     (Inl (Cennzx_Error MinimumBuyRequirementNotMet), cx_demo)"
proof -
  have "get_sell_price cx_demo_config 2 1000 1 cx_demo = Inr 996"
    by (simp add: get_sell_price_one_pool trade_pool_def cx_demo_eval calculate_sell_price_Inr_iff
        sell_price_spec_def)
  then have "\<exists>s'. cx_dispatch cx_demo_config (Signed 1) (SellAsset None 2 1 1000 2000) cx_demo =
     (Inl (Cennzx_Error MinimumBuyRequirementNotMet), s')"
    by (simp add: sell_asset_def execute_sell_def call_defs ensure_signed_def cx_demo_eval)
  then show ?thesis using exchange_error_no_write by metis
qed

end
