(* ===== verification/Vec_Lib.thy ===== *)
theory Vec_Lib
  imports Prelude
begin

text \<open>
  Operations of Rust's \<open>Vec\<close> that the pallets use on sorted vectors: \<open>binary_search\<close>, \<open>insert\<close> and
  \<open>remove\<close>. A search returns the index of the element, or the index where it can be inserted.
\<close>

datatype search_result = Found nat | NotFound nat

text \<open>The loop of \<open>binary_search_by\<close>: \<open>left\<close> and \<open>right\<close> close in on the element.\<close>

function binary_search_loop :: "'a::linorder list \<Rightarrow> 'a \<Rightarrow> nat \<Rightarrow> nat \<Rightarrow> search_result" where
  "binary_search_loop xs x left right =
     (if left < right then
        let mid = left + (right - left) div 2
        in if xs ! mid < x then binary_search_loop xs x (mid + 1) right
           else if x < xs ! mid then binary_search_loop xs x left mid
           else Found mid
      else NotFound left)"
  by pat_completeness auto
termination
  by (relation "measure (\<lambda>(xs, x, left, right). right - left)") auto

declare binary_search_loop.simps [simp del]

definition binary_search :: "'a::linorder list \<Rightarrow> 'a \<Rightarrow> search_result" where
  "binary_search xs x = binary_search_loop xs x 0 (length xs)"

definition insert_at :: "nat \<Rightarrow> 'a \<Rightarrow> 'a list \<Rightarrow> 'a list" where
  "insert_at i x xs = take i xs @ x # drop i xs"

definition remove_at :: "nat \<Rightarrow> 'a list \<Rightarrow> 'a list" where
  "remove_at i xs = take i xs @ drop (Suc i) xs"

section \<open>The search\<close>

lemma binary_search_loop_Found:
  "binary_search_loop xs x left right = Found i \<Longrightarrow> right \<le> length xs \<Longrightarrow> i < length xs \<and> xs ! i = x"
proof (induction xs x left right rule: binary_search_loop.induct)
  case (1 xs x left right)
  from 1(3) show ?case
    using 1(1,2,4) by (subst (asm) binary_search_loop.simps) (auto simp: Let_def split: if_splits)
qed

lemma binary_search_loop_NotFound:
  assumes "binary_search_loop xs x left right = NotFound i" and "sorted_wrt (<) xs"
    and "left \<le> right" "right \<le> length xs"
    and "\<forall>j<left. xs ! j < x" and "\<forall>j<length xs. right \<le> j \<longrightarrow> x < xs ! j"
  shows "i \<le> length xs \<and> (\<forall>j<i. xs ! j < x) \<and> (\<forall>j<length xs. i \<le> j \<longrightarrow> x < xs ! j)"
  using assms
proof (induction xs x left right rule: binary_search_loop.induct)
  case (1 xs x left right)
  let ?mid = "left + (right - left) div 2"
  have mono: "xs ! j \<le> xs ! k" if "j \<le> k" "k < length xs" for j k
    using that 1(4) by (metis le_less sorted_wrt_nth_less)
  show ?case
  proof (cases "left < right")
    case True
    then have mid: "?mid < length xs" using 1(6) by linarith
    consider (less) "xs ! ?mid < x" | (greater) "x < xs ! ?mid" | (eq) "xs ! ?mid = x" by fastforce
    then show ?thesis
    proof cases
      case less
      have "xs ! j < x" if "j < ?mid + 1" for j
        using mono [of j ?mid] that mid less by (metis Suc_eq_plus1 le_less_trans less_Suc_eq_le)
      then show ?thesis
        using 1(1) [OF True refl less] 1(3-8) True less
        by (subst (asm) binary_search_loop.simps) (simp add: Let_def)
    next
      case greater
      have "x < xs ! j" if "j < length xs" "?mid \<le> j" for j
        using mono [of ?mid j] that greater by (meson less_le_trans)
      moreover have "\<not> xs ! ?mid < x" using greater by simp
      ultimately show ?thesis
        using 1(2) [OF True refl _ greater] 1(3-8) True greater
        by (subst (asm) binary_search_loop.simps) (simp add: Let_def)
    next
      case eq
      then show ?thesis
        using 1(3) True by (subst (asm) binary_search_loop.simps) (simp add: Let_def)
    qed
  next
    case False
    then show ?thesis
      using 1(3,5-8) by (subst (asm) binary_search_loop.simps) auto
  qed
qed

lemma binary_search_Found: "binary_search xs x = Found i \<Longrightarrow> i < length xs \<and> xs ! i = x"
  unfolding binary_search_def by (rule binary_search_loop_Found) auto

lemma binary_search_NotFound:
  assumes "binary_search xs x = NotFound i" and "sorted_wrt (<) xs"
  shows "i \<le> length xs" and "\<And>j. j < i \<Longrightarrow> xs ! j < x"
    and "\<And>j. j < length xs \<Longrightarrow> i \<le> j \<Longrightarrow> x < xs ! j"
  using binary_search_loop_NotFound [OF assms(1) [unfolded binary_search_def] assms(2)] by auto

text \<open>On a strictly sorted vector the search finds exactly the elements.\<close>

lemma binary_search_Found_iff:
  assumes "sorted_wrt (<) xs"
  shows "binary_search xs x = Found i \<longleftrightarrow> i < length xs \<and> xs ! i = x"
proof
  assume R: "i < length xs \<and> xs ! i = x"
  have "distinct xs" using assms by (simp add: strict_sorted_iff)
  show "binary_search xs x = Found i"
  proof (cases "binary_search xs x")
    case (Found k)
    then show ?thesis
      using R binary_search_Found [OF Found] nth_eq_iff_index_eq [OF \<open>distinct xs\<close>] by auto
  next
    case (NotFound k)
    then show ?thesis
      using R binary_search_NotFound [OF NotFound assms] by (metis less_irrefl not_le)
  qed
qed (rule binary_search_Found)

lemma binary_search_member:
  assumes "sorted_wrt (<) xs"
  shows "(\<exists>i. binary_search xs x = Found i) \<longleftrightarrow> x \<in> set xs"
  by (simp add: binary_search_Found_iff [OF assms] in_set_conv_nth)

section \<open>Insertion and removal\<close>

lemma insert_at_sorted:
  assumes "binary_search xs x = NotFound i" and "sorted_wrt (<) xs"
  shows "sorted_wrt (<) (insert_at i x xs)"
proof -
  note nf = binary_search_NotFound [OF assms]
  have "y < x" if "y \<in> set (take i xs)" for y
    using that nf(1,2) by (auto simp: in_set_conv_nth)
  moreover have "x < y" if "y \<in> set (drop i xs)" for y
    using that nf(1,3) by (auto simp: in_set_conv_nth)
  moreover have "sorted_wrt (<) (take i xs @ drop i xs)" using assms(2) by simp
  ultimately show ?thesis
    by (auto simp: insert_at_def sorted_wrt_append simp del: append_take_drop_id)
qed

lemma remove_at_sorted:
  assumes "sorted_wrt (<) xs"
  shows "sorted_wrt (<) (remove_at i xs)"
proof -
  have "sorted_wrt (<) (take i xs @ drop i xs)" using assms by simp
  then show ?thesis
    unfolding sorted_wrt_append remove_at_def
    by (metis (no_types, lifting) drop_drop sorted_wrt_drop plus_1_eq_Suc in_set_dropD)
qed

lemma length_insert_at [simp]: "i \<le> length xs \<Longrightarrow> length (insert_at i x xs) = Suc (length xs)"
  by (simp add: insert_at_def)

lemma length_remove_at [simp]: "i < length xs \<Longrightarrow> length (remove_at i xs) = length xs - 1"
  by (simp add: remove_at_def)

lemma set_insert_at [simp]: "set (insert_at i x xs) = insert x (set xs)"
  unfolding insert_at_def by (metis Un_insert_right append_take_drop_id list.simps(15) set_append)

lemma nth_insert_at:
  assumes "i \<le> length xs"
  shows "insert_at i x xs ! j = (if j < i then xs ! j else if j = i then x else xs ! (j - 1))"
  using assms by (auto simp: insert_at_def nth_append nth_Cons' min_def)

lemma nth_remove_at:
  assumes "i < length xs"
  shows "remove_at i xs ! j = (if j < i then xs ! j else xs ! Suc j)"
  using assms by (auto simp: remove_at_def nth_append min_def)

lemma set_remove_at: "i < length xs \<Longrightarrow> distinct xs \<Longrightarrow> set (remove_at i xs) = set xs - {xs ! i}"
proof -
  assume i: "i < length xs" and "distinct xs"
  then have "distinct (take i xs @ xs ! i # drop (Suc i) xs)" by (simp add: id_take_nth_drop [symmetric])
  moreover have "set xs = set (take i xs @ xs ! i # drop (Suc i) xs)" using i by (simp add: id_take_nth_drop [symmetric])
  ultimately show ?thesis by (auto simp: remove_at_def)
qed

lemma preserves_search:
  "(\<And>i. preserves P (f i)) \<Longrightarrow> (\<And>i. preserves P (g i)) \<Longrightarrow>
     preserves P (case r of Found i \<Rightarrow> f i | NotFound i \<Rightarrow> g i)"
  by (cases r) auto

end
