(* ===== verification/Gov_Votes.thy ===== *)
theory Gov_Votes
  imports Vec_Lib
begin

unbundle bit_operations_syntax

text \<open>
  The votes of the council on a proposal (\<open>crml/governance/src/types.rs\<close>): two bit fields of 256 bits,
  each in two halves, which say who has voted and how. The lemmas read them as votes by index.
\<close>

section \<open>The bit fields\<close>

record proposal_vote_info =
  vote_bits :: "u128 \<times> u128"
  active_bits :: "u128 \<times> u128"

record council_vote_count =
  count_yes :: u32
  count_no :: u32

definition default_votes :: proposal_vote_info where
  "default_votes = \<lparr>vote_bits = (0, 0), active_bits = (0, 0)\<rparr>"

text \<open>\<open>u128::count_ones\<close>.\<close>

definition count_ones :: "u128 \<Rightarrow> u32" where
  "count_ones w = word_of_nat (length (filter (bit w) [0..<128]))"

definition get_vote :: "proposal_vote_info \<Rightarrow> u8 \<Rightarrow> bool option" where
  "get_vote v index =
     (if index \<le> 127 then
        if 0 < fst (active_bits v) AND push_bit (unat index) 1
        then Some (0 < fst (vote_bits v) AND push_bit (unat index) 1)
        else None
      else
        let index = index - 128
        in if 0 < snd (active_bits v) AND push_bit (unat index) 1
           then Some (0 < snd (vote_bits v) AND push_bit (unat index) 1)
           else None)"

definition record_vote :: "u8 \<Rightarrow> bool \<Rightarrow> proposal_vote_info \<Rightarrow> proposal_vote_info" where
  "record_vote index vote v =
     (if index \<le> 127 then
        let on_mask = push_bit (unat index) 1
        in v\<lparr>active_bits := (fst (active_bits v) OR on_mask, snd (active_bits v)),
             vote_bits := (if vote then fst (vote_bits v) OR on_mask else fst (vote_bits v),
                           snd (vote_bits v))\<rparr>
      else
        let on_mask = push_bit (unat (index - 128)) 1
        in v\<lparr>active_bits := (fst (active_bits v), snd (active_bits v) OR on_mask),
             vote_bits := (fst (vote_bits v),
                           if vote then snd (vote_bits v) OR on_mask else snd (vote_bits v))\<rparr>)"

definition count_votes :: "proposal_vote_info \<Rightarrow> council_vote_count" where
  "count_votes v =
     (let active_count = count_ones (fst (active_bits v)) + count_ones (snd (active_bits v));
          yes_count = count_ones (fst (vote_bits v)) + count_ones (snd (vote_bits v));
          no_count = active_count - yes_count
      in \<lparr>count_yes = yes_count, count_no = no_count\<rparr>)"

text \<open>The shifts of \<open>insert_voter\<close> and \<open>remove_voter\<close> on one half.\<close>

definition open_bit :: "nat \<Rightarrow> u128 \<Rightarrow> u128" where
  "open_bit n w =
     (let low_mask = push_bit n 1 - 1; high_mask = NOT low_mask
      in push_bit 1 (w AND high_mask) OR (w AND low_mask))"

definition close_bit :: "nat \<Rightarrow> u128 \<Rightarrow> u128" where
  "close_bit n w =
     (let low_mask = push_bit n 1 - 1; high_mask = push_bit 1 (NOT low_mask)
      in drop_bit 1 (w AND high_mask) OR (w AND low_mask))"

definition insert_voter :: "u8 \<Rightarrow> proposal_vote_info \<Rightarrow> proposal_vote_info" where
  "insert_voter index v =
     (if index \<le> 127 then
        v\<lparr>active_bits := (open_bit (unat index) (fst (active_bits v)), snd (active_bits v)),
          vote_bits := (open_bit (unat index) (fst (vote_bits v)), snd (vote_bits v))\<rparr>
      else
        v\<lparr>active_bits := (fst (active_bits v), open_bit (unat (index - 128)) (snd (active_bits v))),
          vote_bits := (fst (vote_bits v), open_bit (unat (index - 128)) (snd (vote_bits v)))\<rparr>)"

definition remove_voter :: "u8 \<Rightarrow> proposal_vote_info \<Rightarrow> proposal_vote_info" where
  "remove_voter index v =
     (if index \<le> 127 then
        v\<lparr>active_bits := (close_bit (unat index) (fst (active_bits v)), snd (active_bits v)),
          vote_bits := (close_bit (unat index) (fst (vote_bits v)), snd (vote_bits v))\<rparr>
      else
        v\<lparr>active_bits := (fst (active_bits v), close_bit (unat (index - 128)) (snd (active_bits v))),
          vote_bits := (fst (vote_bits v), close_bit (unat (index - 128)) (snd (vote_bits v)))\<rparr>)"

section \<open>Reading the bits\<close>

text \<open>The vote at an index of the lower half, where the council sits.\<close>

definition vote_at :: "proposal_vote_info \<Rightarrow> nat \<Rightarrow> bool option" where
  "vote_at v i = (if bit (fst (active_bits v)) i then Some (bit (fst (vote_bits v)) i) else None)"

lemma and_single_bit [simp]: "0 < w AND 2 ^ n \<longleftrightarrow> bit w n" for w :: u128
  by (simp add: word_gt_0 and_exp_eq_0_iff_not_bit)

lemma low_index:
  assumes "n < 128"
  shows "(word_of_nat n :: u8) \<le> 127" and "unat (word_of_nat n :: u8) = n"
proof -
  show n: "unat (word_of_nat n :: u8) = n" using assms by (simp add: unat_word_of_nat_less)
  show "(word_of_nat n :: u8) \<le> 127" using assms by (simp add: word_le_nat_alt n)
qed

lemma get_vote_low: "n < 128 \<Longrightarrow> get_vote v (word_of_nat n) = vote_at v n"
  by (simp add: get_vote_def low_index vote_at_def)

lemma low_mask: "push_bit n 1 - 1 = (mask n :: u128)"
  by (simp only: push_bit_of_1 mask_eq_exp_minus_1)

lemmas bit_word_iffs = bit_or_iff bit_and_iff bit_not_iff bit_push_bit_iff bit_drop_bit_eq bit_mask_iff
  possible_bit_word comp_apply

lemma bit_open:
  assumes "n < 128"
  shows "bit (open_bit n w) i \<longleftrightarrow> i < 128 \<and> (if i < n then bit w i else i \<noteq> n \<and> bit w (i - 1))"
  using assms unfolding open_bit_def Let_def low_mask
  by (simp only: bit_word_iffs) (auto dest: bit_imp_le_length)

lemma bit_close:
  assumes "n < 128"
  shows "bit (close_bit n w) i \<longleftrightarrow> (if i < n then bit w i else bit w (Suc i))"
  using assms unfolding close_bit_def Let_def low_mask
  by (simp only: bit_word_iffs) (auto dest: bit_imp_le_length)

lemma vote_at_default [simp]: "vote_at default_votes i = None"
  by (simp add: vote_at_def default_votes_def)

lemma vote_at_record:
  assumes "n < 128" and "vote_at v n = None" and "\<not> bit (fst (vote_bits v)) n"
  shows "vote_at (record_vote (word_of_nat n) vote v) i = (if i = n then Some vote else vote_at v i)"
  using assms by (auto simp: record_vote_def low_index Let_def vote_at_def bit_simps)

lemma vote_at_insert:
  "n < 128 \<Longrightarrow> i < 128 \<Longrightarrow> vote_at (insert_voter (word_of_nat n) v) i =
     (if i < n then vote_at v i else if i = n then None else vote_at v (i - 1))"
  by (simp add: insert_voter_def low_index vote_at_def bit_open)

lemma vote_at_remove:
  "n < 128 \<Longrightarrow> vote_at (remove_voter (word_of_nat n) v) i =
     (if i < n then vote_at v i else vote_at v (Suc i))"
  by (simp add: remove_voter_def low_index vote_at_def bit_close)

section \<open>Well-formed votes\<close>

text \<open>
  For a council of \<open>n\<close> members: only members have voted, no one voted for without having voted, and
  the upper half is empty.
\<close>

definition votes_ok :: "nat \<Rightarrow> proposal_vote_info \<Rightarrow> bool" where
  "votes_ok n v \<longleftrightarrow> snd (active_bits v) = 0 \<and> snd (vote_bits v) = 0 \<and>
     (\<forall>i. bit (fst (active_bits v)) i \<longrightarrow> i < n) \<and>
     (\<forall>i. bit (fst (vote_bits v)) i \<longrightarrow> bit (fst (active_bits v)) i)"

lemma votes_ok_default [simp]: "votes_ok n default_votes"
  by (simp add: votes_ok_def default_votes_def)

lemma votes_ok_record: "votes_ok n v \<Longrightarrow> i < n \<Longrightarrow> n \<le> 128 \<Longrightarrow> votes_ok n (record_vote (word_of_nat i) vote v)"
  by (auto simp: votes_ok_def record_vote_def low_index Let_def bit_simps)

lemma votes_ok_insert:
  assumes "votes_ok n v" and "i \<le> n" and "n < 128"
  shows "votes_ok (Suc n) (insert_voter (word_of_nat i) v)"
proof -
  have "i < 128" using assms by simp
  then show ?thesis
    using assms(1,2) unfolding votes_ok_def insert_voter_def
    by (auto simp: low_index bit_open split: if_splits)
qed

lemma votes_ok_remove:
  assumes "votes_ok n v" and "i < n" and "n \<le> 128"
  shows "votes_ok (n - 1) (remove_voter (word_of_nat i) v)"
proof -
  have "i < 128" using assms by simp
  then show ?thesis
    using assms(1,2)
    by (auto simp: votes_ok_def remove_voter_def low_index bit_close split: if_splits) 
qed

text \<open>The counts are the numbers of members who voted for and against.\<close>

lemma filter_length_card: "length (filter P [0..<n]) = card {i. i < n \<and> P i}"
  by (rule trans [OF length_filter_conv_card]) (auto intro: arg_cong [where f = card])

lemma count_votes_card:
  assumes "votes_ok n v" and "n \<le> 128"
  shows "unat (count_yes (count_votes v)) = card {i. i < n \<and> vote_at v i = Some True}"
    and "unat (count_no (count_votes v)) = card {i. i < n \<and> vote_at v i = Some False}"
proof -
  let ?Y = "{i. i < n \<and> vote_at v i = Some True}" and ?N = "{i. i < n \<and> vote_at v i = Some False}"
  let ?A = "{i. i < 128 \<and> bit (fst (active_bits v)) i}"
  have A: "?A = ?Y \<union> ?N" and Y: "{i. i < 128 \<and> bit (fst (vote_bits v)) i} = ?Y"
    using assms by (auto simp: votes_ok_def vote_at_def)
  have fin: "finite ?Y" "finite ?N" "?Y \<inter> ?N = {}" by auto
  have "card ?A \<le> card {i. i < (128::nat)}" by (rule card_mono) auto
  then have small: "card ?Y + card ?N \<le> 128"
    using fin by (simp add: A card_Un_disjoint)
  have yes: "unat (count_ones (fst (vote_bits v))) = card ?Y"
    using small by (simp add: count_ones_def filter_length_card Y unat_word_of_nat_less)
  have active: "unat (count_ones (fst (active_bits v))) = card ?Y + card ?N"
    unfolding count_ones_def filter_length_card A card_Un_disjoint [OF fin]
    using small by (intro unat_word_of_nat_less) simp
  have zero: "count_ones 0 = 0" by (simp add: count_ones_def)
  show "unat (count_yes (count_votes v)) = card ?Y"
    using assms(1) yes by (simp add: count_votes_def Let_def votes_ok_def zero)
  show "unat (count_no (count_votes v)) = card ?N"
    using assms(1) yes active
    by (simp add: count_votes_def Let_def votes_ok_def zero unat_sub_fits word_le_nat_alt)
qed

end
