(* ===== verification/Reservable_Spec.thy ===== *)
theory Reservable_Spec
  imports GA_Types
begin

text \<open>
  The part of the \<open>Currency\<close> and \<open>ReservableCurrency\<close> traits that pallets use to hold deposits: the
  operations as a record on the ledger's storage \<open>'l\<close>, and the laws that their users rely on as a
  locale. A deposit that is slashed and whose imbalance is dropped is destroyed.
\<close>

record 'l reservable_currency =
  rc_reserved_balance :: "account_id \<Rightarrow> 'l \<Rightarrow> balance"
  rc_reserve :: "account_id \<Rightarrow> balance \<Rightarrow> ('l, unit) dispatch"
  rc_unreserve :: "account_id \<Rightarrow> balance \<Rightarrow> 'l \<Rightarrow> balance \<times> 'l"
  rc_slash_reserved :: "account_id \<Rightarrow> balance \<Rightarrow> 'l \<Rightarrow> (negative_imbalance \<times> balance) \<times> 'l"
  rc_drop_negative :: "negative_imbalance \<Rightarrow> 'l \<Rightarrow> 'l"

text \<open>\<open>let _ = T::Currency::slash_reserved(..)\<close>: the imbalance goes out of scope at once.\<close>

definition burn_reserved :: "'l reservable_currency \<Rightarrow> account_id \<Rightarrow> balance \<Rightarrow> 'l \<Rightarrow> 'l" where
  "burn_reserved R who v l =
     (case rc_slash_reserved R who v l of ((i, _), l') \<Rightarrow> rc_drop_negative R i l')"

locale reservable_currency =
  fixes R :: "'l reservable_currency"
    and inv :: "'l \<Rightarrow> bool"
    and issued :: "'l \<Rightarrow> nat"
  assumes reserve_error: "rc_reserve R who v l = (Inl e, l') \<Longrightarrow> l' = l"
    and reserve_reserved: "rc_reserve R who v l = (Inr u, l') \<Longrightarrow>
      rc_reserved_balance R w l' = (if w = who then rc_reserved_balance R who l + v else rc_reserved_balance R w l)"
    and unreserve_reserved: "rc_reserved_balance R w (snd (rc_unreserve R who v l)) =
      rc_reserved_balance R w l - (if w = who then min (rc_reserved_balance R who l) v else 0)"
    and burn_reserved_reserved: "rc_reserved_balance R w (burn_reserved R who v l) =
      rc_reserved_balance R w l - (if w = who then min (rc_reserved_balance R who l) v else 0)"
    and unreserve_inv: "inv l \<Longrightarrow> inv (snd (rc_unreserve R who v l))"
    and burn_reserved_inv: "inv l \<Longrightarrow> inv (burn_reserved R who v l)"
    and burn_reserved_issued: "inv l \<Longrightarrow>
      issued (burn_reserved R who v l) + unat (min (rc_reserved_balance R who l) v) = issued l"
begin

text \<open>A deposit that is still reserved is destroyed in full.\<close>

lemma burn_deposit:
  assumes "inv l" and "v \<le> rc_reserved_balance R who l"
  shows "unat (rc_reserved_balance R who (burn_reserved R who v l)) = unat (rc_reserved_balance R who l) - unat v"
    and "issued (burn_reserved R who v l) + unat v = issued l"
  using burn_reserved_reserved [of who who v l] burn_reserved_issued [OF assms(1), of who v] assms(2)
  by (simp_all add: min_absorb2 unat_sub_fits)

end

end
