(* ===== verification/Governance.thy ===== *)
theory Governance
  imports Gov_Votes Reservable_Spec
begin

text \<open>
  The governance pallet (\<open>crml/governance/src/lib.rs\<close>): the council votes on proposals, an approved
  proposal goes to a referendum, where holders of stake may veto it, and a proposal that is not
  vetoed is scheduled and enacted by root.

  What the pallet takes from elsewhere comes with its configuration (the currency of the bonds, the
  scheduler, \<open>Permill::from_rational\<close>, the calls of the runtime) or, where it changes from block to
  block (block number, stakes, registered identities), with the environment of a call.
\<close>

section \<open>Types and storage\<close>

type_synonym proposal_id = u64
type_synonym permill = u32

record proposal =
  sponsor :: account_id
  justification_uri :: bytes
  enactment_delay :: block_number

datatype proposal_status_info =
    Deliberation
  | ReferendumDeliberation
  | ApprovedWaitingEnactment
  | ApprovedEnacted bool
  | ApprovedEnactmentCancelled
  | Disapproved
  | ReferendumVetoed

datatype gov_event =
    SubmitProposal proposal_id
  | EnactReferendum proposal_id bool
  | ProposalVeto proposal_id
  | ReferendumVeto proposal_id
  | ReferendumCreated proposal_id
  | ReferendumApproved proposal_id

datatype gov_call =
    SubmitProposalCall bytes bytes block_number
  | VoteOnProposalCall proposal_id bool
  | AddCouncilMemberCall account_id
  | RemoveCouncilMemberCall account_id
  | CancelEnactmentCall proposal_id
  | VoteAgainstReferendumCall proposal_id
  | EnactReferendumCall proposal_id
  | SetProposalBondCall balance
  | SetMinimumCouncilStakeCall balance
  | SetReferendumThresholdCall permill
  | SetMinimumVoterStakedAmountCall balance

text \<open>
  A call of the runtime is one of this pallet or of another one; calls of other pallets act on the
  rest of the storage, here the ledger \<open>'l\<close> and the scheduler \<open>'q\<close>.
\<close>

datatype 'o runtime_call = GovernanceCall gov_call | OtherCall 'o

text \<open>\<open>iter_start_times\<close> is the order in which the storage iterates over \<open>ReferendumStartTime\<close>.\<close>

record ('l, 'q, 'o) gov_config =
  gov_currency :: "'l reservable_currency"
  max_council_size :: u8
  minimum_registered_identities :: u32
  permill_from_rational :: "balance \<Rightarrow> balance \<Rightarrow> permill"
  schedule_named :: "proposal_id \<Rightarrow> block_number \<Rightarrow> 'q \<Rightarrow> bool \<times> 'q"
  cancel_named :: "proposal_id \<Rightarrow> 'q \<Rightarrow> bool \<times> 'q"
  decode_call :: "bytes \<Rightarrow> 'o runtime_call option"
  dispatch_other :: "'o \<Rightarrow> 'l \<times> 'q \<Rightarrow> bool \<times> 'l \<times> 'q"
  iter_start_times :: "(proposal_id \<rightharpoonup> block_number) \<Rightarrow> (proposal_id \<times> block_number) list"

record gov_env =
  block_now :: block_number
  active_balance :: "account_id \<Rightarrow> balance"
  total_staked :: balance
  registered_identity_count :: "account_id \<Rightarrow> u32"

record ('l, 'q) gov_state =
  GovLedger :: 'l
  Scheduler :: 'q
  Proposals :: "proposal_id \<rightharpoonup> proposal"
  ProposalCalls :: "proposal_id \<rightharpoonup> bytes"
  ProposalVotes :: "proposal_id \<rightharpoonup> proposal_vote_info"
  ProposalStatus :: "proposal_id \<rightharpoonup> proposal_status_info"
  ReferendumVotes :: "proposal_id \<times> account_id \<rightharpoonup> balance"
  ReferendumVetoSum :: "proposal_id \<rightharpoonup> balance"
  ReferendumStartTime :: "proposal_id \<rightharpoonup> block_number"
  Council :: "account_id list option"
  NextProposalId :: proposal_id
  ProposalBond :: balance
  MinVoterStakedAmount :: balance
  ReferendumThreshold :: permill
  MinimumCouncilStake :: balance
  GovEvents :: "gov_event list"

definition gov_genesis :: "'l \<Rightarrow> 'q \<Rightarrow> ('l, 'q) gov_state" where
  "gov_genesis l q =
     \<lparr>GovLedger = l, Scheduler = q, Proposals = Map.empty, ProposalCalls = Map.empty,
      ProposalVotes = Map.empty, ProposalStatus = Map.empty, ReferendumVotes = Map.empty,
      ReferendumVetoSum = Map.empty, ReferendumStartTime = Map.empty, Council = None,
      NextProposalId = 0, ProposalBond = 0, MinVoterStakedAmount = 10000000,
      ReferendumThreshold = 330000, MinimumCouncilStake = 10000000, GovEvents = []\<rparr>"

definition REFERENDUM_LENGTH :: u32 where "REFERENDUM_LENGTH = 21600"
definition REFERENDUM_CHECK_INTERVAL :: u32 where "REFERENDUM_CHECK_INTERVAL = 1000"

definition gov_deposit_event :: "gov_event \<Rightarrow> ('l, 'q) gov_state \<Rightarrow> ('l, 'q) gov_state" where
  "gov_deposit_event e s = s\<lparr>GovEvents := GovEvents s @ [e]\<rparr>"

definition council :: "('l, 'q) gov_state \<Rightarrow> account_id list" where
  "council s = (case Council s of Some c \<Rightarrow> c | None \<Rightarrow> [])"

definition proposal_votes :: "proposal_id \<Rightarrow> ('l, 'q) gov_state \<Rightarrow> proposal_vote_info" where
  "proposal_votes p s = storage_get default_votes (ProposalVotes s) p"

definition referendum_veto_sum :: "proposal_id \<Rightarrow> ('l, 'q) gov_state \<Rightarrow> balance" where
  "referendum_veto_sum p s = storage_get 0 (ReferendumVetoSum s) p"

definition slash_bond :: "('l, 'q, 'o) gov_config \<Rightarrow> account_id \<Rightarrow> ('l, 'q) gov_state \<Rightarrow> ('l, 'q) gov_state" where
  "slash_bond T who s = s\<lparr>GovLedger := burn_reserved (gov_currency T) who (ProposalBond s) (GovLedger s)\<rparr>"

section \<open>Checks\<close>

definition check_council_account_validity ::
  "('l, 'q, 'o) gov_config \<Rightarrow> gov_env \<Rightarrow> account_id \<Rightarrow> ('l, 'q) gov_state \<Rightarrow> dispatch_error + unit" where
  "check_council_account_validity T E account s =
     result_bind (result_ensure (MinimumCouncilStake s \<le> active_balance E account)
       (Governance_Error NotEnoughStaked)) (\<lambda>_.
     result_ensure (minimum_registered_identities T \<le> registered_identity_count E account)
       (Governance_Error NotEnoughRegistrations))"

definition check_voter_account_validity ::
  "('l, 'q, 'o) gov_config \<Rightarrow> gov_env \<Rightarrow> account_id \<Rightarrow> balance \<Rightarrow> ('l, 'q) gov_state \<Rightarrow>
    dispatch_error + unit" where
  "check_voter_account_validity T E account staked_amount s =
     result_bind (result_ensure (MinVoterStakedAmount s < staked_amount)
       (Governance_Error NotEnoughStaked)) (\<lambda>_.
     result_ensure (minimum_registered_identities T \<le> registered_identity_count E account)
       (Governance_Error NotEnoughRegistrations))"

text \<open>\<open>council().binary_search(&who)\<close>, with \<open>NotCouncilor\<close> for an account that is not found.\<close>

definition council_index :: "account_id \<Rightarrow> ('l, 'q) gov_state \<Rightarrow> dispatch_error + u8" where
  "council_index who s =
     (case binary_search (council s) who of
        Found i \<Rightarrow> Inr (word_of_nat i)
      | NotFound _ \<Rightarrow> Inl (Governance_Error NotCouncilor))"

section \<open>Proposals and votes\<close>

definition submit_proposal ::
  "('l, 'q, 'o) gov_config \<Rightarrow> gov_env \<Rightarrow> origin \<Rightarrow> bytes \<Rightarrow> bytes \<Rightarrow> block_number \<Rightarrow>
    (('l, 'q) gov_state, unit) dispatch" where
  "submit_proposal T E orig call uri delay =
     bind (signed orig) (\<lambda>who.
     bind (try_result (check_council_account_validity T E who)) (\<lambda>_.
     bind (try_result (council_index who)) (\<lambda>sponsor_idx.
     bind (gets NextProposalId) (\<lambda>proposal_id.
     bind (\<lambda>s. case rc_reserve (gov_currency T) who (ProposalBond s) (GovLedger s) of
             (r, l) \<Rightarrow> (r, s\<lparr>GovLedger := l\<rparr>)) (\<lambda>_.
     modify (\<lambda>s. s\<lparr>
       Proposals := (Proposals s)(proposal_id \<mapsto>
         \<lparr>sponsor = who, justification_uri = uri, enactment_delay = max 1 delay\<rparr>),
       ProposalCalls := (ProposalCalls s)(proposal_id \<mapsto> call),
       ProposalVotes := (ProposalVotes s)(proposal_id \<mapsto> record_vote sponsor_idx True default_votes),
       ProposalStatus := (ProposalStatus s)(proposal_id \<mapsto> Deliberation),
       NextProposalId := saturating_add proposal_id 1\<rparr>))))))"

text \<open>What a vote leads to: the referendum, the end of the proposal, or nothing yet.\<close>

definition start_referendum :: "gov_env \<Rightarrow> proposal_id \<Rightarrow> ('l, 'q) gov_state \<Rightarrow> ('l, 'q) gov_state" where
  "start_referendum E p s =
     (if ProposalCalls s p \<noteq> None then
        gov_deposit_event (ReferendumCreated p) (s\<lparr>
          ProposalStatus := (ProposalStatus s)(p \<mapsto> ReferendumDeliberation),
          ProposalVotes := (ProposalVotes s)(p := None),
          ReferendumStartTime := (ReferendumStartTime s)(p \<mapsto> block_now E),
          ReferendumVetoSum := (ReferendumVetoSum s)(p \<mapsto> 0)\<rparr>)
      else s\<lparr>ProposalStatus := (ProposalStatus s)(p \<mapsto> ApprovedEnacted True)\<rparr>)"

definition reject_proposal ::
  "('l, 'q, 'o) gov_config \<Rightarrow> proposal_id \<Rightarrow> account_id \<Rightarrow> ('l, 'q) gov_state \<Rightarrow> ('l, 'q) gov_state" where
  "reject_proposal T p who s =
     (let s1 = slash_bond T who (gov_deposit_event (ProposalVeto p) s)
      in s1\<lparr>Proposals := (Proposals s1)(p := None),
            ProposalCalls := (ProposalCalls s1)(p := None),
            ProposalVotes := (ProposalVotes s1)(p := None),
            ProposalStatus := (ProposalStatus s1)(p \<mapsto> Disapproved)\<rparr>)"

definition vote_threshold :: "('l, 'q) gov_state \<Rightarrow> u32" where
  "vote_threshold s = word_of_nat (case Council s of Some c \<Rightarrow> length c | None \<Rightarrow> 1) div 2"

definition vote_on_proposal ::
  "('l, 'q, 'o) gov_config \<Rightarrow> gov_env \<Rightarrow> origin \<Rightarrow> proposal_id \<Rightarrow> bool \<Rightarrow>
    (('l, 'q) gov_state, unit) dispatch" where
  "vote_on_proposal T E orig p vote =
     bind (signed orig) (\<lambda>who.
     bind (try_result (council_index who)) (\<lambda>voter_idx.
     bind (gets (\<lambda>s. Proposals s p)) (\<lambda>found.
     bind (ok_or found (Governance_Error ProposalMissing)) (\<lambda>prop.
     bind (gets (proposal_votes p)) (\<lambda>votes.
     bind (ensure (get_vote votes voter_idx = None) (Governance_Error DoubleVote)) (\<lambda>_.
     let votes = record_vote voter_idx vote votes; tally = count_votes votes in
     bind (modify (\<lambda>s. s\<lparr>ProposalVotes := (ProposalVotes s)(p \<mapsto> votes)\<rparr>)) (\<lambda>_.
     bind (gets vote_threshold) (\<lambda>threshold.
     if threshold < count_yes tally then modify (start_referendum E p)
     else if threshold < count_no tally then modify (reject_proposal T p (sponsor prop))
     else ret ()))))))))"

section \<open>The council\<close>

definition translate_votes ::
  "(proposal_vote_info \<Rightarrow> proposal_vote_info) \<Rightarrow> ('l, 'q) gov_state \<Rightarrow> ('l, 'q) gov_state" where
  "translate_votes f s = s\<lparr>ProposalVotes := (\<lambda>p. map_option f (ProposalVotes s p))\<rparr>"

definition add_council_member ::
  "('l, 'q, 'o) gov_config \<Rightarrow> gov_env \<Rightarrow> origin \<Rightarrow> account_id \<Rightarrow> (('l, 'q) gov_state, unit) dispatch" where
  "add_council_member T E orig new_member =
     bind (rooted orig) (\<lambda>_.
     bind (gets council) (\<lambda>members.
     bind (try_result (check_council_account_validity T E new_member)) (\<lambda>_.
     bind (ensure (length members < unat (max_council_size T)) (Governance_Error MaxCouncilReached)) (\<lambda>_.
     case binary_search members new_member of
       NotFound i \<Rightarrow> modify (\<lambda>s. (translate_votes (insert_voter (word_of_nat i)) s)
                                \<lparr>Council := Some (insert_at i new_member members)\<rparr>)
     | Found _ \<Rightarrow> ret ()))))"

definition remove_council_member :: "origin \<Rightarrow> account_id \<Rightarrow> (('l, 'q) gov_state, unit) dispatch" where
  "remove_council_member orig member =
     bind (rooted orig) (\<lambda>_.
     bind (gets council) (\<lambda>members.
     bind (ensure (1 < length members) (Governance_Error MinCouncilReached)) (\<lambda>_.
     case binary_search members member of
       Found i \<Rightarrow> modify (\<lambda>s. (translate_votes (remove_voter (word_of_nat i)) s)
                             \<lparr>Council := Some (remove_at i members)\<rparr>)
     | NotFound _ \<Rightarrow> ret ())))"

section \<open>Referenda\<close>

definition vote_against_referendum ::
  "('l, 'q, 'o) gov_config \<Rightarrow> gov_env \<Rightarrow> origin \<Rightarrow> proposal_id \<Rightarrow> (('l, 'q) gov_state, unit) dispatch" where
  "vote_against_referendum T E orig p =
     bind (signed orig) (\<lambda>who.
     bind (gets (\<lambda>s. ReferendumStartTime s p)) (\<lambda>start.
     bind (ok_or start (Governance_Error ProposalMissing)) (\<lambda>start_time.
     bind (gets (\<lambda>s. ProposalStatus s p)) (\<lambda>status.
     bind (ensure (status = Some ReferendumDeliberation) (Governance_Error ReferendumNotDeliberating)) (\<lambda>_.
     bind (gets (\<lambda>s. ReferendumVotes s (p, who))) (\<lambda>voted.
     bind (ensure (voted = None) (Governance_Error DoubleVote)) (\<lambda>_.
     let staked_amount = active_balance E who in
     bind (try_result (check_voter_account_validity T E who staked_amount)) (\<lambda>_.
     bind (ensure (start_time \<le> block_now E) (Governance_Error ReferendumNotStarted)) (\<lambda>_.
     modify (\<lambda>s. s\<lparr>ReferendumVotes := (ReferendumVotes s)((p, who) \<mapsto> staked_amount),
       ReferendumVetoSum := storage_mutate 0 (\<lambda>n. n + staked_amount) p (ReferendumVetoSum s)\<rparr>))))))))))"

definition remove_referendum_votes :: "proposal_id \<Rightarrow> ('l, 'q) gov_state \<Rightarrow> ('l, 'q) gov_state" where
  "remove_referendum_votes p s =
     s\<lparr>ReferendumVotes := (\<lambda>k. if fst k = p then None else ReferendumVotes s k)\<rparr>"

definition veto_referendum ::
  "('l, 'q, 'o) gov_config \<Rightarrow> proposal_id \<Rightarrow> account_id \<Rightarrow> ('l, 'q) gov_state \<Rightarrow> ('l, 'q) gov_state" where
  "veto_referendum T p who s =
     (let s1 = slash_bond T who (gov_deposit_event (ReferendumVeto p) s)
      in s1\<lparr>Proposals := (Proposals s1)(p := None),
            ProposalCalls := (ProposalCalls s1)(p := None),
            ReferendumStartTime := (ReferendumStartTime s1)(p := None),
            ReferendumVetoSum := (ReferendumVetoSum s1)(p := None),
            ProposalStatus := (ProposalStatus s1)(p \<mapsto> ReferendumVetoed)\<rparr>)"

definition approve_referendum ::
  "('l, 'q, 'o) gov_config \<Rightarrow> gov_env \<Rightarrow> proposal_id \<Rightarrow> proposal \<Rightarrow> ('l, 'q) gov_state \<Rightarrow> ('l, 'q) gov_state" where
  "approve_referendum T E p prop s =
     (if ProposalCalls s p \<noteq> None then
        let q = snd (schedule_named T p (block_now E + enactment_delay prop) (Scheduler s));
            s1 = gov_deposit_event (ReferendumApproved p) (s\<lparr>Scheduler := q\<rparr>)
        in s1\<lparr>ProposalStatus := (ProposalStatus s1)(p \<mapsto> ApprovedWaitingEnactment)\<rparr>
      else s\<lparr>ProposalStatus := (ProposalStatus s)(p \<mapsto> ApprovedEnacted True)\<rparr>)"

definition end_referendum ::
  "('l, 'q, 'o) gov_config \<Rightarrow> gov_env \<Rightarrow> proposal_id \<Rightarrow> ('l, 'q) gov_state \<Rightarrow> ('l, 'q) gov_state" where
  "end_referendum T E p s =
     (case Proposals s p of
        None \<Rightarrow> s
      | Some prop \<Rightarrow>
          let s1 = remove_referendum_votes p s
          in if ReferendumThreshold s1 \<le> permill_from_rational T (referendum_veto_sum p s1) (total_staked E)
             then veto_referendum T p (sponsor prop) s1
             else approve_referendum T E p prop s1)"

definition check_referendum ::
  "('l, 'q, 'o) gov_config \<Rightarrow> gov_env \<Rightarrow> proposal_id \<times> block_number \<Rightarrow> u64 \<times> ('l, 'q) gov_state \<Rightarrow>
    u64 \<times> ('l, 'q) gov_state" where
  "check_referendum T E pb ws =
     (if snd pb + REFERENDUM_LENGTH \<le> block_now E \<and>
         ProposalStatus (snd ws) (fst pb) = Some ReferendumDeliberation
      then (fst ws + 1, end_referendum T E (fst pb) (snd ws)) else ws)"

definition on_initialize ::
  "('l, 'q, 'o) gov_config \<Rightarrow> gov_env \<Rightarrow> ('l, 'q) gov_state \<Rightarrow> u64 \<times> ('l, 'q) gov_state" where
  "on_initialize T E s =
     (if block_now E mod REFERENDUM_CHECK_INTERVAL = 0 then
        let (weight_count, s') =
          fold (check_referendum T E) (iter_start_times T (ReferendumStartTime s)) (0, s)
        in (weight_count * 1000000, s')
      else (0, s))"

definition cancel_enactment ::
  "('l, 'q, 'o) gov_config \<Rightarrow> origin \<Rightarrow> proposal_id \<Rightarrow> (('l, 'q) gov_state, unit) dispatch" where
  "cancel_enactment T orig p =
     bind (rooted orig) (\<lambda>_.
     bind (gets (\<lambda>s. Proposals s p)) (\<lambda>found.
     bind (ok_or found (Governance_Error ProposalMissing)) (\<lambda>prop.
     bind (gets (\<lambda>s. cancel_named T p (Scheduler s))) (\<lambda>cancelled.
     bind (modify (\<lambda>s. s\<lparr>Scheduler := snd cancelled\<rparr>)) (\<lambda>_.
     bind (ensure (fst cancelled) (Governance_Error ProposalMissing)) (\<lambda>_.
     bind (modify (slash_bond T (sponsor prop))) (\<lambda>_.
     modify (\<lambda>s. s\<lparr>ProposalStatus := (ProposalStatus s)(p \<mapsto> ApprovedEnactmentCancelled),
       ProposalCalls := (ProposalCalls s)(p := None),
       ProposalVotes := (ProposalVotes s)(p := None),
       ReferendumStartTime := (ReferendumStartTime s)(p := None)\<rparr>))))))))"

section \<open>Settings\<close>

definition set_proposal_bond :: "origin \<Rightarrow> balance \<Rightarrow> (('l, 'q) gov_state, unit) dispatch" where
  "set_proposal_bond orig v = bind (rooted orig) (\<lambda>_. modify (\<lambda>s. s\<lparr>ProposalBond := v\<rparr>))"

definition set_minimum_council_stake :: "origin \<Rightarrow> balance \<Rightarrow> (('l, 'q) gov_state, unit) dispatch" where
  "set_minimum_council_stake orig v = bind (rooted orig) (\<lambda>_. modify (\<lambda>s. s\<lparr>MinimumCouncilStake := v\<rparr>))"

definition set_referendum_threshold :: "origin \<Rightarrow> permill \<Rightarrow> (('l, 'q) gov_state, unit) dispatch" where
  "set_referendum_threshold orig v = bind (rooted orig) (\<lambda>_. modify (\<lambda>s. s\<lparr>ReferendumThreshold := v\<rparr>))"

definition set_minimum_voter_staked_amount :: "origin \<Rightarrow> balance \<Rightarrow> (('l, 'q) gov_state, unit) dispatch" where
  "set_minimum_voter_staked_amount orig v =
     bind (rooted orig) (\<lambda>_. modify (\<lambda>s. s\<lparr>MinVoterStakedAmount := v\<rparr>))"

section \<open>Enactment\<close>

definition dispatch_elsewhere ::
  "('l, 'q, 'o) gov_config \<Rightarrow> 'o \<Rightarrow> ('l, 'q) gov_state \<Rightarrow> bool \<times> ('l, 'q) gov_state" where
  "dispatch_elsewhere T c s =
     (case dispatch_other T c (GovLedger s, Scheduler s) of
        (ok, l, q) \<Rightarrow> (ok, s\<lparr>GovLedger := l, Scheduler := q\<rparr>))"

definition close_referendum ::
  "('l, 'q, 'o) gov_config \<Rightarrow> proposal_id \<Rightarrow> account_id \<Rightarrow> bool \<Rightarrow> ('l, 'q) gov_state \<Rightarrow> ('l, 'q) gov_state" where
  "close_referendum T p who ok s =
     (let s1 = gov_deposit_event (EnactReferendum p ok) s;
          s2 = s1\<lparr>GovLedger := snd (rc_unreserve (gov_currency T) who (ProposalBond s1) (GovLedger s1))\<rparr>
      in s2\<lparr>ProposalStatus := (ProposalStatus s2)(p \<mapsto> ApprovedEnacted ok),
            Proposals := (Proposals s2)(p := None),
            ProposalCalls := (ProposalCalls s2)(p := None),
            ReferendumVetoSum := (ReferendumVetoSum s2)(p := None),
            ReferendumStartTime := (ReferendumStartTime s2)(p := None)\<rparr>)"

text \<open>\<open>dispatch\<close> is the dispatcher of the runtime, run with the root origin.\<close>

definition enact_referendum ::
  "('o runtime_call \<Rightarrow> ('l, 'q) gov_state \<Rightarrow> (bool \<times> ('l, 'q) gov_state) option) \<Rightarrow>
    ('l, 'q, 'o) gov_config \<Rightarrow> origin \<Rightarrow> proposal_id \<Rightarrow> ('l, 'q) gov_state \<Rightarrow>
    ((dispatch_error + unit) \<times> ('l, 'q) gov_state) option" where
  "enact_referendum dispatch T orig p s =
     (if orig \<noteq> Root then Some (Inl BadOrigin, s)
      else case ProposalCalls s p of
        None \<Rightarrow> Some (Inl (Governance_Error ProposalMissing), s)
      | Some proposal_call \<Rightarrow>
          (case Proposals s p of
             None \<Rightarrow> Some (Inl (Governance_Error ProposalMissing), s)
           | Some prop \<Rightarrow>
               (case decode_call T proposal_call of
                  None \<Rightarrow> Some (Inr (), s)
                | Some call \<Rightarrow>
                    map_option (\<lambda>(ok, s1). (Inr (), close_referendum T p (sponsor prop) ok s1))
                      (dispatch call s))))"

text \<open>
  The calls of the pallet. The call of a proposal may itself be \<open>enact_referendum\<close>: the recursion goes
  as deep as the calls are nested, and \<open>None\<close> means that the depth \<open>n\<close> does not suffice.
\<close>

fun gov_dispatch ::
  "nat \<Rightarrow> ('l, 'q, 'o) gov_config \<Rightarrow> gov_env \<Rightarrow> origin \<Rightarrow> gov_call \<Rightarrow> ('l, 'q) gov_state \<Rightarrow>
    ((dispatch_error + unit) \<times> ('l, 'q) gov_state) option" where
  "gov_dispatch n T E orig (SubmitProposalCall call uri delay) s = Some (submit_proposal T E orig call uri delay s)"
| "gov_dispatch n T E orig (VoteOnProposalCall p vote) s = Some (vote_on_proposal T E orig p vote s)"
| "gov_dispatch n T E orig (AddCouncilMemberCall who) s = Some (add_council_member T E orig who s)"
| "gov_dispatch n T E orig (RemoveCouncilMemberCall who) s = Some (remove_council_member orig who s)"
| "gov_dispatch n T E orig (CancelEnactmentCall p) s = Some (cancel_enactment T orig p s)"
| "gov_dispatch n T E orig (VoteAgainstReferendumCall p) s = Some (vote_against_referendum T E orig p s)"
| "gov_dispatch 0 T E orig (EnactReferendumCall p) s = None"
| "gov_dispatch (Suc n) T E orig (EnactReferendumCall p) s =
     enact_referendum (\<lambda>call s. case call of
         OtherCall c \<Rightarrow> Some (dispatch_elsewhere T c s)
       | GovernanceCall c \<Rightarrow> map_option (\<lambda>(r, s1). (is_ok r, s1)) (gov_dispatch n T E Root c s))
       T orig p s"
| "gov_dispatch n T E orig (SetProposalBondCall v) s = Some (set_proposal_bond orig v s)"
| "gov_dispatch n T E orig (SetMinimumCouncilStakeCall v) s = Some (set_minimum_council_stake orig v s)"
| "gov_dispatch n T E orig (SetReferendumThresholdCall t) s = Some (set_referendum_threshold orig t s)"
| "gov_dispatch n T E orig (SetMinimumVoterStakedAmountCall v) s = Some (set_minimum_voter_staked_amount orig v s)"

end
