(* ===== verification/Gov_Inv.thy ===== *)
theory Gov_Inv
  imports Governance
begin

text \<open>
  The invariant of the governance pallet (a strictly sorted council of at most 128 members, and votes
  of members only), what it says of votes by member, and the life of a decided proposal.
\<close>

lemma origin_eqs:
  "Inr who = ensure_signed bad orig \<longleftrightarrow> orig = Signed who" "Inr u = ensure_root bad orig \<longleftrightarrow> orig = Root"
  by (auto simp: ensure_signed_def ensure_root_def split: origin.splits)

section \<open>The invariant\<close>

definition gov_inv :: "('l, 'q) gov_state \<Rightarrow> bool" where
  "gov_inv s \<longleftrightarrow> sorted_wrt (<) (council s) \<and> length (council s) \<le> 128 \<and>
     (\<forall>p v. ProposalVotes s p = Some v \<longrightarrow> votes_ok (length (council s)) v)"

lemma gov_inv_weaken:
  assumes "gov_inv s" and "Council s' = Council s"
    and "\<And>p. ProposalVotes s' p = ProposalVotes s p \<or> ProposalVotes s' p = None"
  shows "gov_inv s'"
proof -
  have "council s' = council s" using assms(2) by (simp add: council_def)
  then show ?thesis using assms(1,3) unfolding gov_inv_def by (metis option.distinct(1))
qed

lemma gov_inv_votes: "gov_inv s \<Longrightarrow> votes_ok (length (council s)) (proposal_votes p s)"
  by (auto simp: gov_inv_def proposal_votes_def storage_get_def split: option.splits)

lemma gov_inv_put_votes:
  assumes "gov_inv s" and "votes_ok (length (council s)) v"
  shows "gov_inv (s\<lparr>ProposalVotes := (ProposalVotes s)(p \<mapsto> v)\<rparr>)"
  using assms by (auto simp: gov_inv_def council_def)

lemma council_index_Inr:
  assumes "council_index who s = Inr i"
  obtains n where "n < length (council s)" "council s ! n = who" "i = word_of_nat n"
    "binary_search (council s) who = Found n"
  using assms binary_search_Found [of "council s" who]
  by (auto simp: council_index_def split: search_result.splits)

lemma gov_inv_record:
  assumes "gov_inv s" and "council_index who s = Inr i" and "votes_ok (length (council s)) v"
  shows "votes_ok (length (council s)) (record_vote i vote v)"
  using assms by (auto simp: gov_inv_def elim!: council_index_Inr intro: votes_ok_record)

text \<open>The helpers of the handlers leave council and votes alone, apart from removing votes.\<close>

lemma slash_bond_fields [simp]:
  "Council (slash_bond T who s) = Council s" "ProposalVotes (slash_bond T who s) = ProposalVotes s"
  "Proposals (slash_bond T who s) = Proposals s" "ProposalStatus (slash_bond T who s) = ProposalStatus s"
  "NextProposalId (slash_bond T who s) = NextProposalId s" "ProposalCalls (slash_bond T who s) = ProposalCalls s"
  "ReferendumStartTime (slash_bond T who s) = ReferendumStartTime s"
  "ReferendumVotes (slash_bond T who s) = ReferendumVotes s"
  "ReferendumVetoSum (slash_bond T who s) = ReferendumVetoSum s"
  by (simp_all add: slash_bond_def)

lemma gov_event_fields [simp]:
  "Council (gov_deposit_event e s) = Council s" "ProposalVotes (gov_deposit_event e s) = ProposalVotes s"
  "Proposals (gov_deposit_event e s) = Proposals s" "ProposalStatus (gov_deposit_event e s) = ProposalStatus s"
  "NextProposalId (gov_deposit_event e s) = NextProposalId s" "ProposalCalls (gov_deposit_event e s) = ProposalCalls s"
  "ReferendumStartTime (gov_deposit_event e s) = ReferendumStartTime s"
  "ReferendumVotes (gov_deposit_event e s) = ReferendumVotes s"
  "ReferendumVetoSum (gov_deposit_event e s) = ReferendumVetoSum s"
  "GovLedger (gov_deposit_event e s) = GovLedger s" "ProposalBond (gov_deposit_event e s) = ProposalBond s"
  by (simp_all add: gov_deposit_event_def)

lemma start_referendum_inv: "gov_inv s \<Longrightarrow> gov_inv (start_referendum E p s)"
  by (erule gov_inv_weaken) (auto simp: start_referendum_def)

lemma reject_proposal_inv: "gov_inv s \<Longrightarrow> gov_inv (reject_proposal T p who s)"
  by (erule gov_inv_weaken) (auto simp: reject_proposal_def Let_def)

lemma end_referendum_inv: "gov_inv s \<Longrightarrow> gov_inv (end_referendum T E p s)"
  by (erule gov_inv_weaken)
    (auto simp: end_referendum_def veto_referendum_def approve_referendum_def remove_referendum_votes_def
      Let_def split: option.splits)

lemma close_referendum_inv: "gov_inv s \<Longrightarrow> gov_inv (close_referendum T p who ok s)"
  by (erule gov_inv_weaken) (auto simp: close_referendum_def Let_def)

lemma dispatch_elsewhere_inv: "gov_inv s \<Longrightarrow> gov_inv (snd (dispatch_elsewhere T c s))"
  by (erule gov_inv_weaken) (auto simp: dispatch_elsewhere_def split: prod.splits)

section \<open>Preservation\<close>

lemma submit_proposal_inv: "preserves gov_inv (submit_proposal T E orig call uri delay)"
proof (rule preservesI)
  fix s r s' assume inv: "gov_inv s" and run: "submit_proposal T E orig call uri delay s = (r, s')"
  consider "Council s' = Council s" "ProposalVotes s' = ProposalVotes s"
    | who i p where "council_index who s = Inr i" "Council s' = Council s"
      "ProposalVotes s' = (ProposalVotes s)(p \<mapsto> record_vote i True default_votes)"
    using run unfolding submit_proposal_def signed_def
    by (fastforce simp: bind_def try_result_def gets_def modify_def split: prod.splits sum.splits)
  then show "gov_inv s'"
  proof cases
    case 1
    then show ?thesis by (intro gov_inv_weaken [OF inv]) simp_all
  next
    case 2
    then show ?thesis
      using inv gov_inv_record [OF inv 2(1) votes_ok_default, of True]
      by (auto simp: gov_inv_def council_def)
  qed
qed

lemma vote_on_proposal_cases:
  assumes "vote_on_proposal T E orig p vote s = (r, s')"
  obtains (Err) e where "r = Inl e" "s' = s"
  | (Ok) who i pr v sv where "r = Inr ()" "orig = Signed who" "council_index who s = Inr i"
      "Proposals s p = Some pr" "get_vote (proposal_votes p s) i = None"
      "v = record_vote i vote (proposal_votes p s)" "sv = s\<lparr>ProposalVotes := (ProposalVotes s)(p \<mapsto> v)\<rparr>"
      "s' = (if vote_threshold s < count_yes (count_votes v) then start_referendum E p sv
             else if vote_threshold s < count_no (count_votes v) then reject_proposal T p (sponsor pr) sv
             else sv)"
proof (cases r)
  case (Inl e)
  then show thesis
    using assms Err by (auto simp: vote_on_proposal_def signed_def call_eqs origin_eqs Let_def split: if_splits)
next
  case (Inr u)
  then obtain who i pr where org: "orig = Signed who" and i: "Inr i = council_index who s"
    and pr: "Proposals s p = Some pr" and fresh: "get_vote (proposal_votes p s) i = None"
    using assms by (auto simp: vote_on_proposal_def signed_def call_eqs origin_eqs Let_def split: if_splits)
  have "vote_threshold (s\<lparr>ProposalVotes := m\<rparr>) = vote_threshold s" for m
    by (simp add: vote_threshold_def)
  with Inr assms org pr fresh i [symmetric] show thesis
    by (intro Ok) (auto simp: vote_on_proposal_def signed_def call_defs ensure_signed_def Let_def)
qed

lemma vote_on_proposal_inv: "preserves gov_inv (vote_on_proposal T E orig p vote)"
proof (rule preservesI)
  fix s r s' assume inv: "gov_inv s" and "vote_on_proposal T E orig p vote s = (r, s')"
  from this(2) show "gov_inv s'"
  proof (cases rule: vote_on_proposal_cases)
    case (Ok who i pr v sv)
    have "votes_ok (length (council s)) v"
      unfolding Ok(6) by (rule gov_inv_record [OF inv Ok(3) gov_inv_votes [OF inv]])
    then have "gov_inv sv" unfolding Ok(7) by (rule gov_inv_put_votes [OF inv])
    then show ?thesis
      unfolding Ok(8) by (simp add: start_referendum_inv reject_proposal_inv)
  qed (simp add: inv)
qed

lemma add_council_member_inv:
  assumes "max_council_size T \<le> 128"
  shows "preserves gov_inv (add_council_member T E orig who)"
proof (rule preservesI)
  fix s r s' assume inv: "gov_inv s" and run: "add_council_member T E orig who s = (r, s')"
  show "gov_inv s'"
  proof (cases "s' = s")
    case False
    with run obtain i where nf: "binary_search (council s) who = NotFound i"
      and len: "length (council s) < unat (max_council_size T)"
      and s': "s' = (translate_votes (insert_voter (word_of_nat i)) s)\<lparr>Council := Some (insert_at i who (council s))\<rparr>"
      by (cases r) (auto simp: add_council_member_def call_eqs split: if_splits search_result.splits)
    have "sorted_wrt (<) (council s)" using inv by (simp add: gov_inv_def)
    note nf' = binary_search_NotFound(1) [OF nf this] and sorted' = insert_at_sorted [OF nf this]
    have "length (council s) < 128" using len assms by (simp add: word_le_nat_alt)
    then show ?thesis
      using inv nf' sorted' votes_ok_insert
      by (auto simp: gov_inv_def s' council_def translate_votes_def)
  qed (use inv in simp)
qed

lemma remove_council_member_inv: "preserves gov_inv (remove_council_member orig who)"
proof (rule preservesI)
  fix s r s' assume inv: "gov_inv s" and run: "remove_council_member orig who s = (r, s')"
  show "gov_inv s'"
  proof (cases "s' = s")
    case False
    with run obtain i where f: "binary_search (council s) who = Found i"
      and s': "s' = (translate_votes (remove_voter (word_of_nat i)) s)\<lparr>Council := Some (remove_at i (council s))\<rparr>"
      by (cases r) (auto simp: remove_council_member_def call_eqs split: if_splits search_result.splits)
    have "i < length (council s)" using binary_search_Found [OF f] by simp
    then show ?thesis
      using inv votes_ok_remove remove_at_sorted
      by (auto simp: gov_inv_def s' council_def translate_votes_def)
  qed (use inv in simp)
qed

lemma vote_against_referendum_frame:
  "vote_against_referendum T E orig p s = (r, s') \<Longrightarrow> Council s' = Council s \<and> ProposalVotes s' = ProposalVotes s"
  by (cases r) (auto simp: vote_against_referendum_def call_eqs Let_def split: if_splits)

lemma vote_against_referendum_inv: "preserves gov_inv (vote_against_referendum T E orig p)"
proof (rule preservesI)
  fix s r s' assume inv: "gov_inv s" and "vote_against_referendum T E orig p s = (r, s')"
  then show "gov_inv s'" by (auto dest!: vote_against_referendum_frame intro: gov_inv_weaken [OF inv])
qed

lemma cancel_enactment_frame:
  "cancel_enactment T orig p s = (r, s') \<Longrightarrow>
     Council s' = Council s \<and> (\<forall>q. ProposalVotes s' q = ProposalVotes s q \<or> ProposalVotes s' q = None)"
  by (cases r) (auto simp: cancel_enactment_def call_eqs split: if_splits)

lemma cancel_enactment_inv: "preserves gov_inv (cancel_enactment T orig p)"
proof (rule preservesI)
  fix s r s' assume inv: "gov_inv s" and "cancel_enactment T orig p s = (r, s')"
  from cancel_enactment_frame [OF this(2)] show "gov_inv s'" by (intro gov_inv_weaken [OF inv]) auto
qed

lemma settings_inv:
  "preserves gov_inv (set_proposal_bond orig v)" "preserves gov_inv (set_minimum_council_stake orig v)"
  "preserves gov_inv (set_referendum_threshold orig w)" "preserves gov_inv (set_minimum_voter_staked_amount orig v)"
  unfolding set_proposal_bond_def set_minimum_council_stake_def set_referendum_threshold_def
    set_minimum_voter_staked_amount_def rooted_def
  by (intro preserves_rules; erule gov_inv_weaken; simp)+

section \<open>Calls, blocks and reachable states\<close>

text \<open>
  An invariant of the storage is kept by every call, however deep calls are nested, when the calls
  other than \<open>enact_referendum\<close>, the calls of other pallets and the end of an enactment keep it.
\<close>

lemma gov_dispatch_keeps:
  assumes plain: "\<And>orig c s r s'. (\<And>p. c \<noteq> EnactReferendumCall p) \<Longrightarrow> P s \<Longrightarrow>
      gov_dispatch 0 T E orig c s = Some (r, s') \<Longrightarrow> P s'"
    and elsewhere: "\<And>c s. P s \<Longrightarrow> P (snd (dispatch_elsewhere T c s))"
    and close: "\<And>s0 q pr s who ok. P s0 \<Longrightarrow> Proposals s0 q = Some pr \<Longrightarrow> P s \<Longrightarrow> P (close_referendum T q who ok s)"
  shows "P s \<Longrightarrow> gov_dispatch n T E orig c s = Some (r, s') \<Longrightarrow> P s'"
proof (induction n arbitrary: orig c s r s')
  case 0
  then show ?case by (cases c) (use plain in \<open>fastforce+\<close>)
next
  case (Suc n)
  show ?case
  proof (cases "\<exists>p. c = EnactReferendumCall p")
    case True
    then obtain p where c: "c = EnactReferendumCall p" by blast
    let ?dispatch = "\<lambda>call s. case call of OtherCall c \<Rightarrow> Some (dispatch_elsewhere T c s)
      | GovernanceCall c \<Rightarrow> map_option (\<lambda>(r, s1). (is_ok r, s1)) (gov_dispatch n T E Root c s)"
    have nested: "P t'" if "P t" "?dispatch call t = Some (ok, t')" for call t ok t'
    proof (cases call)
      case (OtherCall d)
      then show ?thesis using that elsewhere [of t d] by simp
    qed (use that Suc.IH in auto)
    from Suc.prems(2) have "enact_referendum ?dispatch T orig p s = Some (r, s')" by (simp add: c)
    then show ?thesis
      using Suc.prems(1) nested close
      by (auto simp: enact_referendum_def split: if_splits option.splits)
  next
    case False
    then have "gov_dispatch 0 T E orig c s = Some (r, s')" using Suc.prems(2) by (cases c) auto
    then show ?thesis using plain False Suc.prems(1) by blast
  qed
qed

lemma gov_dispatch_inv:
  assumes "max_council_size T \<le> 128" and "gov_inv s" and "gov_dispatch n T E orig c s = Some (r, s')"
  shows "gov_inv s'"
proof (rule gov_dispatch_keeps [where P = gov_inv, OF _ _ _ assms(2,3)])
  fix orig c s r s'
  assume "\<And>p. c \<noteq> EnactReferendumCall p" "gov_inv s" "gov_dispatch 0 T E orig c s = Some (r, s')"
  then show "gov_inv s'"
    by (cases c) (auto dest: submit_proposal_inv [THEN preservesD] vote_on_proposal_inv [THEN preservesD]
        add_council_member_inv [OF assms(1), THEN preservesD] remove_council_member_inv [THEN preservesD]
        cancel_enactment_inv [THEN preservesD] vote_against_referendum_inv [THEN preservesD]
        settings_inv [THEN preservesD])
qed (simp_all add: dispatch_elsewhere_inv close_referendum_inv)

text \<open>A block starts with \<open>on_initialize\<close>, which ends referenda one by one.\<close>

lemma on_initialize_keeps:
  assumes "\<And>p s. P s \<Longrightarrow> P (end_referendum T E p s)" and "P s"
  shows "P (snd (on_initialize T E s))"
proof -
  have "P (snd (fold (check_referendum T E) ps (w, s)))" if "P s" for ps w s
    using that by (induction ps arbitrary: w s) (auto simp: check_referendum_def assms(1))
  then show ?thesis using assms(2) by (simp add: on_initialize_def split_beta)
qed

inductive gov_step :: "('l, 'q, 'o) gov_config \<Rightarrow> ('l, 'q) gov_state \<Rightarrow> ('l, 'q) gov_state \<Rightarrow> bool"
  for T where
  Call: "gov_dispatch n T E orig c s = Some (r, s') \<Longrightarrow> gov_step T s s'"
| Block: "gov_step T s (snd (on_initialize T E s))"
| Elsewhere: "gov_step T s (s\<lparr>GovLedger := l, Scheduler := q\<rparr>)"

definition gov_reachable :: "('l, 'q, 'o) gov_config \<Rightarrow> ('l, 'q) gov_state \<Rightarrow> bool" where
  "gov_reachable T s \<longleftrightarrow> (\<exists>l q. (gov_step T)\<^sup>*\<^sup>* (gov_genesis l q) s)"

lemma gov_step_inv: "gov_step T s s' \<Longrightarrow> max_council_size T \<le> 128 \<Longrightarrow> gov_inv s \<Longrightarrow> gov_inv s'"
proof (induction rule: gov_step.induct)
  case (Elsewhere s l q)
  then show ?case by (auto elim: gov_inv_weaken)
qed (auto intro: gov_dispatch_inv on_initialize_keeps end_referendum_inv)

lemma gov_reachable_inv:
  assumes "gov_reachable T s" and "max_council_size T \<le> 128"
  shows "gov_inv s"
proof -
  have "gov_inv (gov_genesis l q)" for l :: 'a and q :: 'b
    by (simp add: gov_inv_def gov_genesis_def council_def)
  moreover have "(gov_step T)\<^sup>*\<^sup>* s0 s \<Longrightarrow> gov_inv s0 \<Longrightarrow> gov_inv s" for s0
    by (induction rule: rtranclp_induct) (auto intro: gov_step_inv [OF _ assms(2)])
  ultimately show ?thesis using assms(1) by (auto simp: gov_reachable_def)
qed

section \<open>Votes by member\<close>

definition member_vote :: "proposal_id \<Rightarrow> account_id \<Rightarrow> ('l, 'q) gov_state \<Rightarrow> bool option" where
  "member_vote p who s =
     (case binary_search (council s) who of
        Found i \<Rightarrow> get_vote (proposal_votes p s) (word_of_nat i)
      | NotFound _ \<Rightarrow> None)"

lemma member_vote_nth:
  assumes "gov_inv s" and "i < length (council s)"
  shows "member_vote p (council s ! i) s = vote_at (proposal_votes p s) i"
proof -
  have "binary_search (council s) (council s ! i) = Found i"
    using assms by (simp add: gov_inv_def binary_search_Found_iff)
  then show ?thesis using assms by (simp add: member_vote_def get_vote_low gov_inv_def)
qed

lemma member_vote_outside:
  assumes "gov_inv s" and "who \<notin> set (council s)"
  shows "member_vote p who s = None"
  using assms binary_search_member [of "council s" who]
  by (auto simp: member_vote_def gov_inv_def split: search_result.splits)

lemma member_vote_card:
  assumes "gov_inv s"
  shows "card {who. member_vote p who s = Some b} =
    card {i. i < length (council s) \<and> vote_at (proposal_votes p s) i = Some b}" (is "card ?M = card ?I")
proof -
  have "?M = (!) (council s) ` ?I"
  proof (intro set_eqI iffI)
    fix who assume "who \<in> ?M"
    then have "who \<in> set (council s)" using member_vote_outside [OF assms] by fastforce
    then obtain i where "i < length (council s)" "who = council s ! i" by (metis in_set_conv_nth)
    then show "who \<in> (!) (council s) ` ?I"
      using \<open>who \<in> ?M\<close> member_vote_nth [OF assms, of i p] by auto
  qed (use member_vote_nth [OF assms] in auto)
  moreover have "inj_on ((!) (council s)) ?I"
    using assms by (auto simp: gov_inv_def inj_on_def strict_sorted_iff nth_eq_iff_index_eq)
  ultimately show ?thesis by (simp add: card_image)
qed

lemma counts_are_members:
  assumes "gov_inv s"
  shows "unat (count_yes (count_votes (proposal_votes p s))) = card {who. member_vote p who s = Some True}"
    and "unat (count_no (count_votes (proposal_votes p s))) = card {who. member_vote p who s = Some False}"
  using count_votes_card [OF gov_inv_votes [OF assms]] assms
  by (simp_all add: member_vote_card [OF assms] gov_inv_def)

end
