(* ===== verification/Gov_Life.thy ===== *)
theory Gov_Life
  imports Gov_Inv
begin

text \<open>
  Facts about the governance pallet that its properties rest on: votes stay with their members when
  the council changes, a decided proposal stays decided, and how deep enactments nest.
\<close>

section \<open>Votes stay with their members\<close>

lemma add_council_member_cases:
  assumes "add_council_member T E orig new s = (r, s')"
  obtains (Same) "s' = s" "r = Inr () \<Longrightarrow> new \<in> set (council s)"
  | (Added) i where "r = Inr ()" "binary_search (council s) new = NotFound i"
      "length (council s) < unat (max_council_size T)" "council s' = insert_at i new (council s)"
      "ProposalVotes s' = (\<lambda>p. map_option (insert_voter (word_of_nat i)) (ProposalVotes s p))"
proof (cases "binary_search (council s) new")
  case (Found i)
  then have "new \<in> set (council s)" using binary_search_Found [OF Found] by (metis nth_mem)
  moreover have "s' = s"
    using assms Found by (cases r) (auto simp: add_council_member_def rooted_def call_eqs split: if_splits)
  ultimately show thesis using Same by blast
next
  case (NotFound i)
  show thesis
  proof (cases r)
    case (Inl e)
    then have "s' = s"
      using assms NotFound by (auto simp: add_council_member_def rooted_def call_eqs split: if_splits)
    then show thesis using Same Inl by blast
  next
    case (Inr u)
    then show thesis
      using assms NotFound
      by (intro Added [of i]) (auto simp: add_council_member_def rooted_def call_eqs council_def
          translate_votes_def split: if_splits)
  qed
qed

lemma remove_council_member_cases:
  assumes "remove_council_member orig old s = (r, s')"
  obtains (Same) "s' = s" "r = Inr () \<Longrightarrow> \<exists>i. binary_search (council s) old = NotFound i"
  | (Removed) i where "r = Inr ()" "binary_search (council s) old = Found i" "1 < length (council s)"
      "council s' = remove_at i (council s)"
      "ProposalVotes s' = (\<lambda>p. map_option (remove_voter (word_of_nat i)) (ProposalVotes s p))"
proof (cases "binary_search (council s) old")
  case (NotFound i)
  moreover have "s' = s"
    using assms NotFound by (cases r) (auto simp: remove_council_member_def rooted_def call_eqs split: if_splits)
  ultimately show thesis using Same by blast
next
  case (Found i)
  show thesis
  proof (cases r)
    case (Inl e)
    then have "s' = s"
      using assms Found by (auto simp: remove_council_member_def rooted_def call_eqs split: if_splits)
    then show thesis using Same Inl by blast
  next
    case (Inr u)
    then show thesis
      using assms Found
      by (intro Removed [of i]) (auto simp: remove_council_member_def rooted_def call_eqs council_def
          translate_votes_def split: if_splits)
  qed
qed

lemma member_voteI:
  assumes "gov_inv s" and "i < length (council s)" and "council s ! i = who"
  shows "member_vote p who s = vote_at (proposal_votes p s) i"
  using member_vote_nth [OF assms(1,2)] assms(3) by simp

lemma proposal_votes_insert:
  assumes "ProposalVotes s' = (\<lambda>p. map_option (insert_voter (word_of_nat n)) (ProposalVotes s p))"
    and "n < 128" and "i < 128"
  shows "vote_at (proposal_votes p s') i =
    (if i < n then vote_at (proposal_votes p s) i else if i = n then None else vote_at (proposal_votes p s) (i - 1))"
  using assms by (cases "ProposalVotes s p") (auto simp: proposal_votes_def storage_get_def vote_at_insert)

lemma proposal_votes_remove:
  assumes "ProposalVotes s' = (\<lambda>p. map_option (remove_voter (word_of_nat n)) (ProposalVotes s p))"
    and "n < 128"
  shows "vote_at (proposal_votes p s') i =
    (if i < n then vote_at (proposal_votes p s) i else vote_at (proposal_votes p s) (Suc i))"
  using assms by (cases "ProposalVotes s p") (auto simp: proposal_votes_def storage_get_def vote_at_remove)

lemma added_member_votes:
  assumes inv: "gov_inv s" "gov_inv s'" and nf: "binary_search (council s) new = NotFound i"
    and c: "council s' = insert_at i new (council s)"
    and v: "ProposalVotes s' = (\<lambda>p. map_option (insert_voter (word_of_nat i)) (ProposalVotes s p))"
  shows "member_vote p who s' = (if who = new then None else member_vote p who s)"
proof -
  have le: "i \<le> length (council s)" and new: "new \<notin> set (council s)"
    using binary_search_NotFound [OF nf] inv(1) nf binary_search_member [of "council s" new]
    by (auto simp: gov_inv_def)
  have len: "length (council s') = Suc (length (council s))" using le c by simp
  then have small: "length (council s) < 128" using inv(2) by (simp add: gov_inv_def)
  note votes = proposal_votes_insert [OF v]
  consider "who = new" | j where "j < length (council s)" "who = council s ! j" "who \<noteq> new"
    | "who \<notin> set (council s)" "who \<noteq> new" by (metis in_set_conv_nth)
  then show ?thesis
  proof cases
    case 1
    have "member_vote p new s' = vote_at (proposal_votes p s') i"
      using le len by (intro member_voteI [OF inv(2)]) (simp_all add: c nth_insert_at)
    then show ?thesis using 1 votes [of i p] le small by simp
  next
    case 2
    let ?k = "if j < i then j else Suc j"
    have "member_vote p who s' = vote_at (proposal_votes p s') ?k"
      using le len 2 by (intro member_voteI [OF inv(2)]) (simp_all add: c nth_insert_at)
    then show ?thesis
      using 2 votes [of ?k p] le small member_voteI [OF inv(1) 2(1), of who p] by (auto split: if_splits)
  next
    case 3
    then show ?thesis using member_vote_outside [OF inv(1)] member_vote_outside [OF inv(2)] by (simp add: c)
  qed
qed

lemma removed_member_votes:
  assumes inv: "gov_inv s" "gov_inv s'" and f: "binary_search (council s) old = Found i"
    and c: "council s' = remove_at i (council s)"
    and v: "ProposalVotes s' = (\<lambda>p. map_option (remove_voter (word_of_nat i)) (ProposalVotes s p))"
  shows "member_vote p who s' = (if who = old then None else member_vote p who s)"
proof -
  have i: "i < length (council s)" "council s ! i = old" using binary_search_Found [OF f] by auto
  have len: "length (council s') = length (council s) - 1" using i c by simp
  have small: "length (council s) \<le> 128" using inv(1) by (simp add: gov_inv_def)
  have dist: "distinct (council s)" using inv(1) by (simp add: gov_inv_def strict_sorted_iff)
  have mem: "who \<in> set (council s') \<longleftrightarrow> who \<in> set (council s) \<and> who \<noteq> old"
    using i dist set_remove_at [OF i(1) dist] by (auto simp: c)
  show ?thesis
  proof (cases "who \<in> set (council s')")
    case True
    then obtain j where j: "j < length (council s)" "council s ! j = who" using mem by (metis in_set_conv_nth)
    let ?k = "if j < i then j else j - 1"
    have ne: "j \<noteq> i" using j i mem True by auto
    have "member_vote p who s' = vote_at (proposal_votes p s') ?k"
      using i len j ne by (intro member_voteI [OF inv(2)]) (auto simp: c nth_remove_at)
    also have "\<dots> = vote_at (proposal_votes p s) j"
      using proposal_votes_remove [OF v, of p ?k] i small ne by auto
    finally show ?thesis using True mem member_voteI [OF inv(1) j] by simp
  next
    case False
    then show ?thesis using mem member_vote_outside [OF inv(1)] member_vote_outside [OF inv(2)] by auto
  qed
qed

section \<open>Decided proposals\<close>

text \<open>A proposal that was submitted and has been removed again: rejected, vetoed or enacted.\<close>

definition decided :: "proposal_id \<Rightarrow> ('l, 'q) gov_state \<Rightarrow> bool" where
  "decided p s \<longleftrightarrow> Proposals s p = None \<and> p < NextProposalId s"

definition decided_as :: "proposal_id \<Rightarrow> proposal_status_info option \<Rightarrow> ('l, 'q) gov_state \<Rightarrow> bool" where
  "decided_as p st s \<longleftrightarrow> decided p s \<and> ProposalStatus s p = st"

lemma less_saturating_succ: "a < b \<Longrightarrow> a < saturating_add b 1" for a b :: u64
proof -
  assume "a < b"
  moreover have "b \<le> saturating_add b 1"
    using unat_less_pow [of b] by (simp add: word_le_nat_alt unat_saturating_add)
  ultimately show ?thesis by simp
qed

lemmas decided_defs = decided_as_def decided_def

lemma submit_proposal_decided: "preserves (decided_as p st) (submit_proposal T E orig call uri delay)"
proof (rule preservesI)
  fix s r s' assume "decided_as p st s" and "submit_proposal T E orig call uri delay s = (r, s')"
  then show "decided_as p st s'"
    unfolding submit_proposal_def signed_def
    by (fastforce simp: bind_def try_result_def gets_def modify_def decided_defs less_saturating_succ
        split: prod.splits sum.splits)
qed

lemma vote_on_proposal_decided: "preserves (decided_as p st) (vote_on_proposal T E orig q vote)"
proof (rule preservesI)
  fix s r s' assume d: "decided_as p st s" and "vote_on_proposal T E orig q vote s = (r, s')"
  from this(2) show "decided_as p st s'"
  proof (cases rule: vote_on_proposal_cases)
    case (Ok who i pr v sv)
    have "p \<noteq> q" using d Ok(4) by (auto simp: decided_defs)
    then show ?thesis
      using d unfolding Ok(8) Ok(7)
      by (simp add: decided_defs start_referendum_def reject_proposal_def Let_def)
  qed (simp add: d)
qed

lemma council_changes_decided:
  "preserves (decided_as p st) (add_council_member T E orig who)"
  "preserves (decided_as p st) (remove_council_member orig who)"
  unfolding add_council_member_def remove_council_member_def rooted_def
  by (intro preserves_rules preserves_search; simp add: decided_defs translate_votes_def)+

lemma vote_against_referendum_decided: "preserves (decided_as p st) (vote_against_referendum T E orig q)"
  unfolding vote_against_referendum_def signed_def Let_def
  by (intro preserves_rules) (simp add: decided_defs)

lemma cancel_enactment_decided: "preserves (decided_as p st) (cancel_enactment T orig q)"
proof (rule preservesI)
  fix s r s' assume "decided_as p st s" and "cancel_enactment T orig q s = (r, s')"
  then show "decided_as p st s'"
    by (cases r) (auto simp: cancel_enactment_def rooted_def call_eqs decided_defs split: if_splits)
qed

lemma settings_decided:
  "preserves (decided_as p st) (set_proposal_bond orig v)"
  "preserves (decided_as p st) (set_minimum_council_stake orig v)"
  "preserves (decided_as p st) (set_referendum_threshold orig w)"
  "preserves (decided_as p st) (set_minimum_voter_staked_amount orig v)"
  unfolding set_proposal_bond_def set_minimum_council_stake_def set_referendum_threshold_def
    set_minimum_voter_staked_amount_def rooted_def
  by (intro preserves_rules; simp add: decided_defs)+

lemma gov_dispatch_decided:
  fixes s s' :: "('l, 'q) gov_state"
  assumes "decided_as p st s" and "gov_dispatch n T E orig c s = Some (r, s')"
  shows "decided_as p st s'"
proof (rule gov_dispatch_keeps [where P = "decided_as p st", OF _ _ _ assms])
  fix orig c s r s'
  assume "\<And>p. c \<noteq> EnactReferendumCall p" "decided_as p st s" "gov_dispatch 0 T E orig c s = Some (r, s')"
  then show "decided_as p st s'"
    by (cases c) (auto dest: submit_proposal_decided [THEN preservesD] vote_on_proposal_decided [THEN preservesD]
        council_changes_decided [THEN preservesD] cancel_enactment_decided [THEN preservesD]
        vote_against_referendum_decided [THEN preservesD] settings_decided [THEN preservesD])
next
  fix s0 s :: "('l, 'q) gov_state" and q pr who ok
  assume "decided_as p st s0" "Proposals s0 q = Some pr" "decided_as p st s"
  then show "decided_as p st (close_referendum T q who ok s)"
    by (auto simp: decided_defs close_referendum_def Let_def)
qed (auto simp: decided_defs dispatch_elsewhere_def split: prod.splits)

lemma end_referendum_decided: "decided_as p st s \<Longrightarrow> decided_as p st (end_referendum T E q s)"
  by (auto simp: decided_defs end_referendum_def veto_referendum_def approve_referendum_def
      remove_referendum_votes_def Let_def split: option.splits)

lemma gov_steps_decided: "(gov_step T)\<^sup>*\<^sup>* s s' \<Longrightarrow> decided_as p st s \<Longrightarrow> decided_as p st s'"
proof (induction rule: rtranclp_induct)
  case (step s1 s2)
  from step(2) step.IH [OF step.prems] show ?case
  proof (induction rule: gov_step.induct)
    case (Elsewhere s l q)
    then show ?case by (simp add: decided_defs)
  qed (auto intro: gov_dispatch_decided on_initialize_keeps end_referendum_decided)
qed

section \<open>Nested enactments\<close>

text \<open>
  The proposal that the call of proposal \<open>p\<close> enacts in turn, if any. The nested call runs before the
  enactment writes anything, so the whole chain is read from one state.
\<close>

definition nested_enactment ::
  "('l, 'q, 'o) gov_config \<Rightarrow> ('l, 'q) gov_state \<Rightarrow> proposal_id \<Rightarrow> proposal_id option" where
  "nested_enactment T s p =
     (case (ProposalCalls s p, Proposals s p) of
        (Some bytes, Some _) \<Rightarrow>
          (case decode_call T bytes of
             Some (GovernanceCall (EnactReferendumCall q)) \<Rightarrow> Some q
           | _ \<Rightarrow> None)
      | _ \<Rightarrow> None)"

fun enactment_chain ::
  "nat \<Rightarrow> ('l, 'q, 'o) gov_config \<Rightarrow> ('l, 'q) gov_state \<Rightarrow> proposal_id \<Rightarrow> proposal_id option" where
  "enactment_chain 0 T s p = Some p"
| "enactment_chain (Suc n) T s p =
     (case nested_enactment T s p of None \<Rightarrow> None | Some q \<Rightarrow> enactment_chain n T s q)"

lemma result_pair: "\<exists>s r. x = (r, s)"
  by (cases x) simp

lemma gov_dispatch_None_iff:
  "gov_dispatch n T E Root (EnactReferendumCall p) s = None \<longleftrightarrow> enactment_chain n T s p \<noteq> None"
proof (induction n arbitrary: p)
  case (Suc n)
  show ?case
  proof (cases "nested_enactment T s p")
    case None
    then have "gov_dispatch (Suc n) T E Root (EnactReferendumCall p) s \<noteq> None"
      by (auto simp: nested_enactment_def enact_referendum_def result_pair
          split: option.splits runtime_call.splits gov_call.splits)
    then show ?thesis using None by simp
  next
    case (Some q)
    then have "gov_dispatch (Suc n) T E Root (EnactReferendumCall p) s = None \<longleftrightarrow>
        gov_dispatch n T E Root (EnactReferendumCall q) s = None"
      by (auto simp: nested_enactment_def enact_referendum_def
          split: option.splits runtime_call.splits gov_call.splits)
    then show ?thesis using Some Suc.IH by simp
  qed
qed simp

end
