(* ===== verification/GA_Bonds.thy ===== *)
theory GA_Bonds
  imports GA_Reserve Reservable_Spec
begin

text \<open>
  \<open>AssetCurrency\<close> of the generic-asset pallet as a currency for deposits: the laws of
  \<open>reservable_currency\<close> for the reserves of the staking or the spending asset.
\<close>

definition ac_reservable :: "ga_config \<Rightarrow> authority \<Rightarrow> ga_state reservable_currency" where
  "ac_reservable T U =
     \<lparr>rc_reserved_balance = (\<lambda>who s. reserved_balance (authority_asset_id U s) who s),
      rc_reserve = ac_reserve T U,
      rc_unreserve = ac_unreserve U,
      rc_slash_reserved = ac_slash_reserved U,
      rc_drop_negative = drop_negative\<rparr>"

lemma authority_frame [simp]:
  "authority_asset_id U (snd (slash_reserved a who v s)) = authority_asset_id U s"
  "authority_asset_id U (snd (unreserve a who v s)) = authority_asset_id U s"
  "authority_asset_id U (drop_negative i s) = authority_asset_id U s"
  "authority_asset_id U (reserved_state T a who v s) = authority_asset_id U s"
  by (cases U; simp add: slash_reserved_def unreserve_def Let_def set_reserved_balance_def drop_negative_def
      reserved_state_def reclaim_free_balance_def on_nonzero_unbalanced_def set_free_balance_def
      deposit_event_def)+

lemma reserved_balance_drop [simp]: "reserved_balance a w (drop_negative i s) = reserved_balance a w s"
  by (simp add: drop_negative_def reserved_balance_def)

lemma burn_reserved_ac:
  "burn_reserved (ac_reservable T U) who v s =
     drop_negative (fst (fst (ac_slash_reserved U who v s))) (snd (slash_reserved (authority_asset_id U s) who v s))"
  by (simp add: burn_reserved_def ac_reservable_def ac_slash_reserved_def Let_def split: prod.splits)

lemma slash_reserved_balance:
  "reserved_balance b w (snd (slash_reserved a who v s)) =
     reserved_balance b w s - (if b = a \<and> w = who then min (reserved_balance a who s) v else 0)"
  by (simp add: slash_reserved_def Let_def ga_simps)

lemma ac_slash_reserved_imbalance:
  "fst (fst (ac_slash_reserved U who v s)) =
     NegativeImbalance (min (reserved_balance (authority_asset_id U s) who s) v) (authority_asset_id U s)"
proof -
  have "v - (v - min r v) = min r v" for r by simp
  then show ?thesis by (auto simp: ac_slash_reserved_def slash_reserved_def Let_def)
qed

lemma reserved_state_reserved:
  "reserved_balance b w (reserved_state T a who v s) =
     (if b = a \<and> w = who then reserved_balance a who s + v else reserved_balance b w s)"
  by (auto simp: reserved_state_def Let_def ga_simps)

interpretation bonds: reservable_currency "ac_reservable T U" backed
  "\<lambda>s. unat (total_issuance (authority_asset_id U s) s)" for T :: ga_config and U :: authority
proof (unfold_locales, goal_cases)
  case (1 who v l e l')
  then show ?case
    by (auto simp: ac_reservable_def ac_reserve_def call_eqs dest: atomicD [OF reserve_atomic])
next
  case (2 who v l u l' w)
  then have "l' = reserved_state T (authority_asset_id U l) who v l"
    by (auto simp: ac_reservable_def ac_reserve_def call_eqs reserve_Inr_iff)
  then show ?case by (simp add: ac_reservable_def reserved_state_reserved)
next
  case (3 w who v l)
  then show ?case
    by (simp add: ac_reservable_def ac_unreserve_def ga_simps)
next
  case (4 w who v l)
  then show ?case
    unfolding burn_reserved_ac by (simp add: ac_reservable_def slash_reserved_balance)
next
  case (5 l who v)
  then show ?case
    using unreserve_circulating [OF backed_bound [OF 5]]
    by (simp add: ac_reservable_def ac_unreserve_def backed_def ga_simps)
next
  case (6 l who v)
  then show ?case
    using ac_slash_reserved_drop_backed [OF 6]
    by (auto simp: burn_reserved_def ac_reservable_def split: prod.splits)
next
  case (7 l who v)
  let ?a = "authority_asset_id U l" and ?m = "min (reserved_balance (authority_asset_id U l) who l) v"
  have "unat ?m \<le> held ?a l who" by (simp add: held_def unat_min)
  also have "\<dots> \<le> unat (total_issuance ?a l)"
    using held_le_circulating [of ?a l who] 7 by (simp add: backed_def)
  finally show ?case
    unfolding burn_reserved_ac ac_slash_reserved_imbalance
    by (simp add: ac_reservable_def ga_simps unat_saturating_sub)
qed

end
