(* ===== verification/Gov_Props.thy ===== *)
theory Gov_Props
  imports Gov_Life GA_Bonds GA_Props
begin

text \<open>
  The properties of the governance pallet, with a small chain (\<open>gov_demo_config\<close>, \<open>gov_demo\<close>) on which
  they are evaluated: bonds in the staking asset of the generic-asset pallet, a scheduler that is a
  map from proposals to blocks, and three councillors.
\<close>

section \<open>A small chain\<close>

definition gov_demo_config :: "(ga_state, proposal_id \<rightharpoonup> block_number, unit) gov_config" where
  "gov_demo_config =
     \<lparr>gov_currency = ac_reservable demo_config StakingAssetIdAuthority,
      max_council_size = 128, minimum_registered_identities = 2,
      permill_from_rational = (\<lambda>n d. ucast (n * 1000000 div d)),
      schedule_named = (\<lambda>p b q. if q p = None then (True, q(p \<mapsto> b)) else (False, q)),
      cancel_named = (\<lambda>p q. if q p = None then (False, q) else (True, q(p := None))),
      decode_call = (\<lambda>bs. case bs of [] \<Rightarrow> None | b # _ \<Rightarrow>
        if b = 255 then Some (OtherCall ()) else Some (GovernanceCall (EnactReferendumCall (ucast b)))),
      dispatch_other = (\<lambda>_ lq. (True, lq)),
      iter_start_times = (\<lambda>m. List.map_filter (\<lambda>p. map_option (Pair p) (m p)) [0, 1, 2])\<rparr>"

definition gov_demo_env :: gov_env where
  "gov_demo_env =
     \<lparr>block_now = 22000, active_balance = (\<lambda>_. 40000000), total_staked = 100000000,
      registered_identity_count = (\<lambda>_. 2)\<rparr>"

definition gov_demo :: "(ga_state, proposal_id \<rightharpoonup> block_number) gov_state" where
  "gov_demo = (gov_genesis demo_state Map.empty)
     \<lparr>Council := Some [5, 7, 9], NextProposalId := 2,
      Proposals := [0 \<mapsto> \<lparr>sponsor = 5, justification_uri = [], enactment_delay = 10\<rparr>],
      ProposalCalls := [0 \<mapsto> [0]],
      ProposalStatus := [0 \<mapsto> Deliberation, 1 \<mapsto> Disapproved],
      ProposalVotes := [0 \<mapsto> record_vote 0 True default_votes]\<rparr>"

lemmas gov_demo_defs = gov_demo_def gov_genesis_def gov_demo_env_def gov_demo_config_def

lemma gov_demo_council: "council gov_demo = [5, 7, 9]"
  by (simp add: gov_demo_defs council_def)

lemma gov_demo_search:
  "binary_search [5, 7, 9] (5 :: account_id) = Found 0" "binary_search [5, 7, 9] (7 :: account_id) = Found 1"
  "binary_search [5, 7, 9] (9 :: account_id) = Found 2" "binary_search [5, 7, 9] (6 :: account_id) = NotFound 1"
  by (simp_all add: binary_search_def binary_search_loop.simps Let_def)

lemma gov_demo_fields:
  "Council gov_demo = Some [5, 7, 9]" "NextProposalId gov_demo = 2" "ProposalCalls gov_demo = [0 \<mapsto> [0]]"
  "Proposals gov_demo = [0 \<mapsto> \<lparr>sponsor = 5, justification_uri = [], enactment_delay = 10\<rparr>]"
  "ProposalVotes gov_demo = [0 \<mapsto> record_vote 0 True default_votes]"
  "ProposalStatus gov_demo = [0 \<mapsto> Deliberation, 1 \<mapsto> Disapproved]" "GovLedger gov_demo = demo_state"
  "ProposalBond gov_demo = 0"
  by (simp_all add: gov_demo_defs)

lemma gov_demo_votes: "vote_at (proposal_votes 0 gov_demo) i = (if i = 0 then Some True else None)"
  using vote_at_record [of 0 default_votes True i]
  by (simp add: proposal_votes_def gov_demo_fields default_votes_def [THEN arg_cong [of _ _ vote_bits]])

lemma gov_demo_inv: "gov_inv gov_demo"
proof -
  have "votes_ok 3 (record_vote (word_of_nat 0) True default_votes)"
    by (rule votes_ok_record) simp_all
  moreover have "length (council gov_demo) = 3" by (simp add: gov_demo_council)
  ultimately show ?thesis
    unfolding gov_inv_def by (auto simp: gov_demo_fields gov_demo_council numeral_3_eq_3)
qed

lemma gov_demo_member_votes:
  "member_vote 0 5 gov_demo = Some True" "member_vote 0 7 gov_demo = None" "member_vote 0 9 gov_demo = None"
  using member_vote_nth [OF gov_demo_inv, of 0 0] member_vote_nth [OF gov_demo_inv, of 1 0]
    member_vote_nth [OF gov_demo_inv, of 2 0]
  by (simp_all add: gov_demo_votes gov_demo_council)

section \<open>The council and its votes\<close>

text \<open>
  C19. In every state that is reached from the empty storage by calls, blocks and changes of other
  pallets, the council is strictly sorted and has at most 128 members, and the counts that decide on
  a proposal are the numbers of present members who voted for and against it.
\<close>
theorem council_votes_counted:
  assumes "gov_reachable T s" and "max_council_size T \<le> 128"
  shows "sorted_wrt (<) (council s) \<and> length (council s) \<le> 128 \<and>
    unat (count_yes (count_votes (proposal_votes p s))) = card {who. member_vote p who s = Some True} \<and>
    unat (count_no (count_votes (proposal_votes p s))) = card {who. member_vote p who s = Some False} \<and>
    {who. member_vote p who s \<noteq> None} \<subseteq> set (council s)"
proof -
  have inv: "gov_inv s" using gov_reachable_inv [OF assms] .
  have "{who. member_vote p who s \<noteq> None} \<subseteq> set (council s)"
    by (intro subsetI, rule ccontr) (simp add: member_vote_outside [OF inv])
  then show ?thesis using inv counts_are_members [OF inv] by (simp add: gov_inv_def)
qed

definition gov_first :: "(ga_state, proposal_id \<rightharpoonup> block_number) gov_state" where
  "gov_first = (gov_genesis demo_state Map.empty)\<lparr>Council := Some [5]\<rparr>"

lemma gov_first_reachable: "gov_reachable gov_demo_config gov_first"
proof -
  have "gov_dispatch 0 gov_demo_config gov_demo_env Root (AddCouncilMemberCall 5)
      (gov_genesis demo_state Map.empty) = Some (Inr (), gov_first)"
    by (simp add: add_council_member_def rooted_def call_defs ensure_root_def gov_demo_defs council_def
        check_council_account_validity_def result_defs binary_search_def binary_search_loop.simps
        insert_at_def translate_votes_def gov_first_def)
  then show ?thesis unfolding gov_reachable_def by (blast intro: gov_step.Call)
qed

theorem council_votes_counted_witness:
  "sorted_wrt (<) (council gov_first) \<and> length (council gov_first) \<le> 128 \<and>
    unat (count_yes (count_votes (proposal_votes 0 gov_first))) = card {who. member_vote 0 who gov_first = Some True}"
  using council_votes_counted [OF gov_first_reachable, of 0] by (simp add: gov_demo_config_def)

lemma added_votes_follow:
  assumes "gov_inv s" and "max_council_size T \<le> 128" and "add_council_member T E orig new s = (Inr (), s')"
  shows "set (council s') = insert new (set (council s)) \<and>
    (\<forall>who. member_vote p who s' =
      (if who = new \<and> new \<notin> set (council s) then None else member_vote p who s))"
proof -
  have inv': "gov_inv s'" using add_council_member_inv [OF assms(2)] assms(1,3) by (rule preservesD)
  from assms(3) show ?thesis
  proof (cases rule: add_council_member_cases)
    case (Added i)
    then have "new \<notin> set (council s)"
      using binary_search_member [of "council s" new] assms(1) by (auto simp: gov_inv_def)
    then show ?thesis using added_member_votes [OF assms(1) inv' Added(2,4,5)] Added(4) by simp
  qed auto
qed

lemma removed_votes_follow:
  assumes "gov_inv s" and "remove_council_member orig old s = (Inr (), s')"
  shows "set (council s') = set (council s) - {old} \<and>
    (\<forall>who. member_vote p who s' = (if who = old then None else member_vote p who s))"
proof -
  have inv': "gov_inv s'" using remove_council_member_inv assms by (rule preservesD)
  have sorted: "sorted_wrt (<) (council s)" using assms(1) by (simp add: gov_inv_def)
  from assms(2) show ?thesis
  proof (cases rule: remove_council_member_cases)
    case Same
    then have "old \<notin> set (council s)" using binary_search_member [OF sorted, of old] by auto
    then show ?thesis using Same member_vote_outside [OF assms(1)] by auto
  next
    case (Removed i)
    then show ?thesis
      using removed_member_votes [OF assms(1) inv' Removed(2,4,5)] set_remove_at [of i "council s"] sorted
        binary_search_Found [OF Removed(2)] by (simp add: strict_sorted_iff)
  qed
qed

text \<open>
  C20. When a member joins or leaves the council, every other member keeps the vote they cast on every
  proposal, although the positions in the bit fields shift; who joins starts without a vote, and the
  vote of who leaves is gone.
\<close>
theorem votes_follow_members:
  assumes "gov_inv s" and "max_council_size T \<le> 128"
  shows "(add_council_member T E orig new s = (Inr (), s') \<longrightarrow>
      set (council s') = insert new (set (council s)) \<and>
      (\<forall>who. member_vote p who s' =
        (if who = new \<and> new \<notin> set (council s) then None else member_vote p who s))) \<and>
    (remove_council_member orig old s = (Inr (), s') \<longrightarrow>
      set (council s') = set (council s) - {old} \<and>
      (\<forall>who. member_vote p who s' = (if who = old then None else member_vote p who s)))"
  using added_votes_follow [OF assms] removed_votes_follow [OF assms(1)] by blast

theorem votes_follow_members_witness:
  "\<exists>s'. add_council_member gov_demo_config gov_demo_env Root 6 gov_demo = (Inr (), s') \<and>
     council s' = [5, 6, 7, 9] \<and> member_vote 0 5 s' = Some True \<and> member_vote 0 6 s' = None"
proof -
  let ?s' = "(translate_votes (insert_voter 1) gov_demo)\<lparr>Council := Some [5, 6, 7, 9]\<rparr>"
  have add: "add_council_member gov_demo_config gov_demo_env Root 6 gov_demo = (Inr (), ?s')"
    by (simp add: add_council_member_def rooted_def call_defs ensure_root_def gov_demo_council
        gov_demo_search check_council_account_validity_def result_defs insert_at_def)
      (simp add: gov_demo_defs)
  from votes_follow_members [OF gov_demo_inv, of gov_demo_config gov_demo_env Root 6 ?s' 0] add
  have "member_vote 0 who ?s' = (if who = 6 then None else member_vote 0 who gov_demo)" for who
    by (simp add: gov_demo_council gov_demo_config_def)
  then show ?thesis using add gov_demo_member_votes by (intro exI [of _ ?s']) (simp add: council_def)
qed

section \<open>Decisions\<close>

definition supporters :: "proposal_id \<Rightarrow> ('l, 'q) gov_state \<Rightarrow> nat" where
  "supporters p s = card {who. member_vote p who s = Some True}"

definition opponents :: "proposal_id \<Rightarrow> ('l, 'q) gov_state \<Rightarrow> nat" where
  "opponents p s = card {who. member_vote p who s = Some False}"

lemma recorded_member_vote:
  assumes inv: "gov_inv s" and i: "council_index who s = Inr i" and fresh: "get_vote (proposal_votes p s) i = None"
    and sv: "sv = s\<lparr>ProposalVotes := (ProposalVotes s)(p \<mapsto> record_vote i vote (proposal_votes p s))\<rparr>"
  shows "gov_inv sv" and "member_vote p who s = None"
    and "member_vote p m sv = (if m = who then Some vote else member_vote p m s)"
proof -
  let ?v = "proposal_votes p s"
  show inv': "gov_inv sv"
    unfolding sv by (intro gov_inv_put_votes [OF inv] gov_inv_record [OF inv i] gov_inv_votes [OF inv])
  obtain n where n: "n < length (council s)" "council s ! n = who" "i = word_of_nat n"
    "binary_search (council s) who = Found n" using i by (rule council_index_Inr)
  have small: "n < 128" using n inv by (simp add: gov_inv_def)
  have none: "vote_at ?v n = None" using fresh small by (simp add: n(3) get_vote_low)
  then have "\<not> bit (fst (vote_bits ?v)) n"
    using gov_inv_votes [OF inv, of p] by (auto simp: votes_ok_def vote_at_def split: if_splits)
  note recorded = vote_at_record [OF small none this, of vote]
  show "member_vote p who s = None" using n fresh by (simp add: member_vote_def)
  have c: "council sv = council s" and v: "proposal_votes p sv = record_vote (word_of_nat n) vote ?v"
    by (simp_all add: sv council_def proposal_votes_def n(3))
  have dist: "distinct (council s)" using inv by (simp add: gov_inv_def strict_sorted_iff)
  show "member_vote p m sv = (if m = who then Some vote else member_vote p m s)"
  proof (cases "m \<in> set (council s)")
    case True
    then obtain k where k: "k < length (council s)" "council s ! k = m" by (metis in_set_conv_nth)
    then have "k = n \<longleftrightarrow> m = who" using n dist by (auto simp: nth_eq_iff_index_eq)
    then show ?thesis
      using member_voteI [OF inv, of k m p] member_voteI [OF inv', of k m p] k by (simp add: c v recorded)
  next
    case False
    then show ?thesis
      using n(1,2) member_vote_outside [OF inv False] member_vote_outside [OF inv'] by (auto simp: c)
  qed
qed

lemma recorded_counts:
  assumes "gov_inv s" and "council_index who s = Inr i" and "get_vote (proposal_votes p s) i = None"
  shows "unat (count_yes (count_votes (record_vote i vote (proposal_votes p s)))) =
      supporters p s + (if vote then 1 else 0)"
    and "unat (count_no (count_votes (record_vote i vote (proposal_votes p s)))) =
      opponents p s + (if vote then 0 else 1)"
proof -
  let ?sv = "s\<lparr>ProposalVotes := (ProposalVotes s)(p \<mapsto> record_vote i vote (proposal_votes p s))\<rparr>"
  note rec = recorded_member_vote [OF assms, where vote = vote, OF refl]
  have v: "proposal_votes p ?sv = record_vote i vote (proposal_votes p s)" by (simp add: proposal_votes_def)
  have set: "{m. member_vote p m ?sv = Some b} =
      (if b = vote then insert who {m. member_vote p m s = Some b} else {m. member_vote p m s = Some b})" for b
    using rec(2,3) by auto
  have card: "card {m. member_vote p m ?sv = Some b} =
      card {m. member_vote p m s = Some b} + (if b = vote then 1 else 0)" for b
    unfolding set using rec(2) by simp
  show "unat (count_yes (count_votes (record_vote i vote (proposal_votes p s)))) =
      supporters p s + (if vote then 1 else 0)"
    using counts_are_members(1) [OF rec(1), of p] by (simp add: v card supporters_def)
  show "unat (count_no (count_votes (record_vote i vote (proposal_votes p s)))) =
      opponents p s + (if vote then 0 else 1)"
    using counts_are_members(2) [OF rec(1), of p] by (simp add: v card opponents_def)
qed

lemma vote_threshold_half:
  assumes "gov_inv s" and "council s \<noteq> []"
  shows "unat (vote_threshold s) = length (council s) div 2"
proof -
  have "length (council s) < 2 ^ LENGTH(32)" using assms(1) by (simp add: gov_inv_def)
  moreover have "vote_threshold s = word_of_nat (length (council s)) div 2"
    using assms(2) by (auto simp: vote_threshold_def council_def split: option.splits)
  ultimately show ?thesis by (simp add: unat_div unat_word_of_nat_less)
qed

lemma votes_bounded:
  assumes inv: "gov_inv s" and who: "who \<in> set (council s)" "member_vote p who s = None"
  shows "supporters p s + opponents p s < length (council s)"
proof -
  let ?Y = "{m. member_vote p m s = Some True}" and ?N = "{m. member_vote p m s = Some False}"
  have "?Y \<union> ?N \<subseteq> set (council s) - {who}"
  proof
    fix m assume "m \<in> ?Y \<union> ?N"
    then have "member_vote p m s \<noteq> None" by auto
    then show "m \<in> set (council s) - {who}" using member_vote_outside [OF inv] who(2) by (metis DiffI singletonD)
  qed
  then have "card (?Y \<union> ?N) \<le> card (set (council s) - {who})" by (rule card_mono [OF finite_Diff [OF finite_set]])
  also have "\<dots> < card (set (council s))" using who(1) by (rule card_Diff1_less [OF finite_set])
  also have "\<dots> \<le> length (council s)" by (rule card_length)
  finally have "card (?Y \<union> ?N) < length (council s)" .
  moreover have "card (?Y \<union> ?N) = card ?Y + card ?N"
    by (rule card_Un_disjoint) auto
  ultimately show ?thesis unfolding supporters_def opponents_def by linarith
qed

lemma vote_on_proposal_ok:
  assumes "council_index who s = Inr i" and "Proposals s p = Some pr" and "get_vote (proposal_votes p s) i = None"
    and "v = record_vote i vote (proposal_votes p s)" and "sv = s\<lparr>ProposalVotes := (ProposalVotes s)(p \<mapsto> v)\<rparr>"
  shows "vote_on_proposal T E (Signed who) p vote s = (Inr (),
    if vote_threshold s < count_yes (count_votes v) then start_referendum E p sv
    else if vote_threshold s < count_no (count_votes v) then reject_proposal T p (sponsor pr) sv else sv)"
proof -
  have "vote_threshold (s\<lparr>ProposalVotes := m\<rparr>) = vote_threshold s" for m by (simp add: vote_threshold_def)
  then show ?thesis
    using assms by (simp add: vote_on_proposal_def signed_def call_defs ensure_signed_def Let_def)
qed

text \<open>
  C21. The vote of a councillor who has not voted on an existing proposal is accepted. With it counted,
  a majority for the proposal starts its referendum with no vetoes (or, without a call, marks it as
  enacted); a majority against it removes the proposal and burns the bond of its sponsor; otherwise
  only the vote itself is written.
\<close>
theorem vote_decides:
  assumes "gov_inv s" and "who \<in> set (council s)" and "Proposals s p = Some pr" and "member_vote p who s = None"
    and "yes = supporters p s + (if vote then 1 else 0)" and "no = opponents p s + (if vote then 0 else 1)"
    and "half = length (council s) div 2"
  shows "\<exists>s'. vote_on_proposal T E (Signed who) p vote s = (Inr (), s') \<and>
    (half < yes \<and> ProposalCalls s p \<noteq> None \<longrightarrow>
       ProposalStatus s' p = Some ReferendumDeliberation \<and> ReferendumStartTime s' p = Some (block_now E) \<and>
       referendum_veto_sum p s' = 0 \<and> Proposals s' = Proposals s \<and> GovLedger s' = GovLedger s) \<and>
    (half < yes \<and> ProposalCalls s p = None \<longrightarrow> ProposalStatus s' p = Some (ApprovedEnacted True)) \<and>
    (half < no \<longrightarrow> ProposalStatus s' p = Some Disapproved \<and> Proposals s' p = None \<and>
       GovLedger s' = burn_reserved (gov_currency T) (sponsor pr) (ProposalBond s) (GovLedger s)) \<and>
    (yes \<le> half \<and> no \<le> half \<longrightarrow> ProposalStatus s' = ProposalStatus s \<and> GovLedger s' = GovLedger s \<and>
       (\<forall>m. member_vote p m s' = (if m = who then Some vote else member_vote p m s)))"
proof -
  have sorted: "sorted_wrt (<) (council s)" using assms(1) by (simp add: gov_inv_def)
  then obtain n where "binary_search (council s) who = Found n"
    using binary_search_member assms(2) by blast
  then have i: "council_index who s = Inr (word_of_nat n)" by (simp add: council_index_def)
  then have fresh: "get_vote (proposal_votes p s) (word_of_nat n) = None"
    using assms(4) \<open>binary_search (council s) who = Found n\<close> by (simp add: member_vote_def)
  let ?v = "record_vote (word_of_nat n) vote (proposal_votes p s)"
  let ?sv = "s\<lparr>ProposalVotes := (ProposalVotes s)(p \<mapsto> ?v)\<rparr>"
  note counts = recorded_counts [OF assms(1) i fresh, where vote = vote]
  have "council s \<noteq> []" using assms(2) by auto
  note half = vote_threshold_half [OF assms(1) this, folded assms(7)]
  have yes: "vote_threshold s < count_yes (count_votes ?v) \<longleftrightarrow> half < yes"
    and no: "vote_threshold s < count_no (count_votes ?v) \<longleftrightarrow> half < no"
    using counts half by (simp_all add: word_less_nat_alt assms(5,6))
  have excl: "\<not> (half < yes \<and> half < no)" using votes_bounded [OF assms(1,2,4)] assms(5-7) by auto
  let ?s' = "if half < yes then start_referendum E p ?sv
    else if half < no then reject_proposal T p (sponsor pr) ?sv else ?sv"
  have run: "vote_on_proposal T E (Signed who) p vote s = (Inr (), ?s')"
    using vote_on_proposal_ok [OF i assms(3) fresh, where vote = vote and T = T and E = E, OF refl refl]
    by (simp only: yes no)
  note votes = recorded_member_vote(3) [OF assms(1) i fresh refl]
  consider "half < yes" "\<not> half < no" | "\<not> half < yes" "half < no" | "\<not> half < yes" "\<not> half < no"
    using excl by blast
  then show ?thesis
  proof cases
    case 1
    then show ?thesis
      using run by (simp add: start_referendum_def referendum_veto_sum_def gov_deposit_event_def)
  next
    case 2
    then show ?thesis
      using run by (simp add: reject_proposal_def slash_bond_def Let_def gov_deposit_event_def)
  next
    case 3
    then show ?thesis using run votes by simp
  qed
qed

theorem vote_decides_witness:
  "\<exists>s'. vote_on_proposal gov_demo_config gov_demo_env (Signed 7) 0 True gov_demo = (Inr (), s') \<and>
     ProposalStatus s' 0 = Some ReferendumDeliberation \<and> ReferendumStartTime s' 0 = Some 22000"
proof -
  have members: "member_vote 0 m gov_demo = (if m = 5 then Some True else None)" for m
  proof (cases "m \<in> set (council gov_demo)")
    case True
    then consider "m = 5" | "m = 7" | "m = 9" by (auto simp: gov_demo_council)
    then show ?thesis by cases (simp_all add: gov_demo_member_votes)
  next
    case False
    then have "m \<noteq> 5" by (auto simp: gov_demo_council)
    then show ?thesis using member_vote_outside [OF gov_demo_inv False] by simp
  qed
  have who: "7 \<in> set (council gov_demo)" and half: "1 = length (council gov_demo) div 2"
    by (simp_all add: gov_demo_council)
  have yes: "2 = supporters 0 gov_demo + (if True then 1 else 0)"
    and no: "0 = opponents 0 gov_demo + (if True then 0 else 1)"
    by (simp_all add: supporters_def opponents_def members)
  have pr: "Proposals gov_demo 0 = Some \<lparr>sponsor = 5, justification_uri = [], enactment_delay = 10\<rparr>"
    and calls: "ProposalCalls gov_demo 0 \<noteq> None" and now: "block_now gov_demo_env = 22000"
    by (simp_all add: gov_demo_fields gov_demo_env_def)
  from vote_decides [OF gov_demo_inv who pr _ yes no half, of gov_demo_config gov_demo_env]
  obtain s' where "vote_on_proposal gov_demo_config gov_demo_env (Signed 7) 0 True gov_demo = (Inr (), s')"
    "ProposalStatus s' 0 = Some ReferendumDeliberation" "ReferendumStartTime s' 0 = Some (block_now gov_demo_env)"
    using calls gov_demo_member_votes(2) by (auto simp: gov_demo_member_votes)
  then show ?thesis using now by simp
qed



section \<open>Referenda\<close>

text \<open>
  C23. Councillors can vote on a proposal whose referendum is running. When such votes reach a majority
  again, the tally of vetoes is set back to zero and the referendum starts anew, while the record of
  who has vetoed stays: the accounts that vetoed before can neither count nor veto again.
\<close>
theorem revote_discards_vetoes:
  assumes "ProposalStatus s p = Some ReferendumDeliberation" and "Proposals s p = Some pr"
    and "ProposalCalls s p \<noteq> None" and "council_index who s = Inr i"
    and "get_vote (proposal_votes p s) i = None"
    and "vote_threshold s < count_yes (count_votes (record_vote i True (proposal_votes p s)))"
    and "ReferendumVotes s (p, vetoer) = Some stake"
  shows "\<exists>s'. vote_on_proposal T E (Signed who) p True s = (Inr (), s') \<and>
    ProposalStatus s' p = Some ReferendumDeliberation \<and> referendum_veto_sum p s' = 0 \<and>
    ReferendumStartTime s' p = Some (block_now E) \<and>
    vote_against_referendum T E' (Signed vetoer) p s' = (Inl (Governance_Error DoubleVote), s')"
proof -
  let ?sv = "s\<lparr>ProposalVotes := (ProposalVotes s)(p \<mapsto> record_vote i True (proposal_votes p s))\<rparr>"
  have "vote_on_proposal T E (Signed who) p True s = (Inr (), start_referendum E p ?sv)"
    using vote_on_proposal_ok [OF assms(4,2,5) refl refl, of T E] assms(6) by simp
  moreover have "vote_against_referendum T E' (Signed vetoer) p (start_referendum E p ?sv) =
      (Inl (Governance_Error DoubleVote), start_referendum E p ?sv)"
    using assms(3,7) by (auto simp: vote_against_referendum_def signed_def call_defs ensure_signed_def
        start_referendum_def Let_def)
  ultimately show ?thesis
    using assms(3) by (auto simp: start_referendum_def referendum_veto_sum_def gov_deposit_event_def)
qed

definition gov_vetoed :: "(ga_state, proposal_id \<rightharpoonup> block_number) gov_state" where
  "gov_vetoed = gov_demo
     \<lparr>Council := Some [5], ProposalStatus := [0 \<mapsto> ReferendumDeliberation], ProposalVotes := Map.empty,
      ReferendumStartTime := [0 \<mapsto> 100], ReferendumVetoSum := [0 \<mapsto> 40000000],
      ReferendumVotes := [(0, 3) \<mapsto> 40000000]\<rparr>"

theorem revote_discards_vetoes_witness:
  "referendum_veto_sum 0 gov_vetoed = 40000000 \<and>
   (\<exists>s'. vote_on_proposal gov_demo_config gov_demo_env (Signed 5) 0 True gov_vetoed = (Inr (), s') \<and>
     referendum_veto_sum 0 s' = 0)"
proof -
  have index: "council_index 5 gov_vetoed = Inr 0"
    by (simp add: council_index_def council_def gov_vetoed_def binary_search_def binary_search_loop.simps Let_def)
  have votes: "proposal_votes 0 gov_vetoed = default_votes" by (simp add: proposal_votes_def gov_vetoed_def)
  have "vote_at default_votes 0 = get_vote default_votes 0" using get_vote_low [of 0 default_votes] by simp
  then have fresh: "get_vote (proposal_votes 0 gov_vetoed) 0 = None" by (simp add: votes)
  have inv: "gov_inv gov_vetoed" by (simp add: gov_inv_def gov_vetoed_def council_def)
  have "vote_threshold gov_vetoed = 0" by (simp add: vote_threshold_def gov_vetoed_def)
  then have maj: "vote_threshold gov_vetoed < count_yes (count_votes (record_vote 0 True (proposal_votes 0 gov_vetoed)))"
    using recorded_counts(1) [OF inv index fresh, of True] by (simp add: word_less_nat_alt)
  show ?thesis
    using revote_discards_vetoes [OF _ _ _ index fresh maj, of _ 3 40000000 gov_demo_config gov_demo_env]
    by (auto simp: gov_vetoed_def gov_demo_fields referendum_veto_sum_def)
qed

lemma remove_referendum_votes_fields [simp]:
  "Proposals (remove_referendum_votes p s) = Proposals s" "ProposalCalls (remove_referendum_votes p s) = ProposalCalls s"
  "ReferendumThreshold (remove_referendum_votes p s) = ReferendumThreshold s"
  "referendum_veto_sum p (remove_referendum_votes p s) = referendum_veto_sum p s"
  "GovLedger (remove_referendum_votes p s) = GovLedger s" "Scheduler (remove_referendum_votes p s) = Scheduler s"
  "ProposalBond (remove_referendum_votes p s) = ProposalBond s"
  by (simp_all add: remove_referendum_votes_def referendum_veto_sum_def)

text \<open>
  C24. A referendum that ends is vetoed exactly when the vetoed share of the stake reaches the
  threshold. Vetoed, the proposal is removed and its bond, held in an asset of the generic-asset
  pallet, leaves the reserve of the sponsor and the issuance of the asset; otherwise its enactment is
  scheduled after the delay it asked for, and the ledger is untouched.
\<close>
theorem referendum_outcome:
  assumes "gov_currency T = ac_reservable A U" and "backed (GovLedger s)"
    and "Proposals s p = Some pr" and "ProposalCalls s p \<noteq> None"
    and "ProposalBond s \<le> rc_reserved_balance (gov_currency T) (sponsor pr) (GovLedger s)"
  shows "(if ReferendumThreshold s \<le> permill_from_rational T (referendum_veto_sum p s) (total_staked E)
    then ProposalStatus (end_referendum T E p s) p = Some ReferendumVetoed \<and>
      Proposals (end_referendum T E p s) p = None \<and> Scheduler (end_referendum T E p s) = Scheduler s \<and>
      backed (GovLedger (end_referendum T E p s)) \<and>
      unat (rc_reserved_balance (gov_currency T) (sponsor pr) (GovLedger (end_referendum T E p s))) =
        unat (rc_reserved_balance (gov_currency T) (sponsor pr) (GovLedger s)) - unat (ProposalBond s) \<and>
      unat (total_issuance (authority_asset_id U (GovLedger (end_referendum T E p s)))
        (GovLedger (end_referendum T E p s))) + unat (ProposalBond s) =
        unat (total_issuance (authority_asset_id U (GovLedger s)) (GovLedger s))
    else ProposalStatus (end_referendum T E p s) p = Some ApprovedWaitingEnactment \<and>
      Scheduler (end_referendum T E p s) =
        snd (schedule_named T p (block_now E + enactment_delay pr) (Scheduler s)) \<and>
      GovLedger (end_referendum T E p s) = GovLedger s)"
proof -
  let ?l = "burn_reserved (gov_currency T) (sponsor pr) (ProposalBond s) (GovLedger s)"
  note bond = bonds.burn_deposit [OF assms(2), of "ProposalBond s" A U "sponsor pr"]
    bonds.burn_reserved_inv [OF assms(2), of A U "sponsor pr" "ProposalBond s"]
  show ?thesis
  proof (cases "ReferendumThreshold s \<le> permill_from_rational T (referendum_veto_sum p s) (total_staked E)")
    case True
    then have "GovLedger (end_referendum T E p s) = ?l"
      using assms(3) by (simp add: end_referendum_def veto_referendum_def slash_bond_def Let_def
          gov_deposit_event_def)
    then show ?thesis
      using True assms bond
      by (simp add: end_referendum_def veto_referendum_def slash_bond_def Let_def
          gov_deposit_event_def)
  next
    case False
    then show ?thesis
      using assms(3,4) by (auto simp: end_referendum_def approve_referendum_def Let_def
          gov_deposit_event_def)
  qed
qed

definition gov_bonded :: "(ga_state, proposal_id \<rightharpoonup> block_number) gov_state" where
  "gov_bonded = gov_vetoed
     \<lparr>GovLedger := reserved_state demo_config 1 1 90 demo_state, ProposalBond := 60,
      Proposals := [0 \<mapsto> \<lparr>sponsor = 1, justification_uri = [], enactment_delay = 10\<rparr>]\<rparr>"

lemma gov_bonded_ledger:
  "backed (GovLedger gov_bonded)" "reserved_balance 1 1 (GovLedger gov_bonded) = 90"
  "StakingAssetId (GovLedger gov_bonded) = 1" "total_issuance 1 (GovLedger gov_bonded) = 200"
proof -
  have "circulating b (reserved_state demo_config 1 1 90 demo_state) = circulating b demo_state" for b
    by (rule reserve_keeps_circulating [OF demo_backed]) (simp_all add: demo_free demo_minimum)
  then show "backed (GovLedger gov_bonded)"
    using demo_backed by (simp add: backed_def gov_bonded_def ga_simps)
  show "StakingAssetId (GovLedger gov_bonded) = 1"
    by (simp add: gov_bonded_def reserved_state_def Let_def demo_free demo_minimum demo_fields)
qed (simp_all add: gov_bonded_def reserved_state_reserved demo_reserved ga_simps demo_issuance)

theorem referendum_outcome_witness:
  "ProposalStatus (end_referendum gov_demo_config gov_demo_env 0 gov_bonded) 0 = Some ReferendumVetoed \<and>
   backed (GovLedger (end_referendum gov_demo_config gov_demo_env 0 gov_bonded))"
proof -
  have cur: "gov_currency gov_demo_config = ac_reservable demo_config StakingAssetIdAuthority"
    by (simp add: gov_demo_config_def)
  have pr: "Proposals gov_bonded 0 = Some \<lparr>sponsor = 1, justification_uri = [], enactment_delay = 10\<rparr>"
    and calls: "ProposalCalls gov_bonded 0 \<noteq> None" and bond: "ProposalBond gov_bonded = 60"
    by (simp_all add: gov_bonded_def gov_vetoed_def gov_demo_fields)
  have reserved: "ProposalBond gov_bonded \<le> rc_reserved_balance (gov_currency gov_demo_config)
      (sponsor \<lparr>sponsor = 1, justification_uri = [], enactment_delay = 10\<rparr>) (GovLedger gov_bonded)"
    by (simp add: cur ac_reservable_def gov_bonded_ledger bond)
  have veto: "ReferendumThreshold gov_bonded \<le>
      permill_from_rational gov_demo_config (referendum_veto_sum 0 gov_bonded) (total_staked gov_demo_env)"
    by (simp add: gov_bonded_def gov_vetoed_def referendum_veto_sum_def) (simp add: gov_demo_defs)
  show ?thesis
    using referendum_outcome [OF cur gov_bonded_ledger(1) pr calls reserved, of gov_demo_env] veto by simp
qed

section \<open>Enactment\<close>

text \<open>
  C25. Enacting a proposal returns when the proposals that its call enacts in turn were submitted
  before it: with a depth of one more than the identifier of the proposal the calls come to an end.
\<close>
theorem enactment_returns:
  assumes "\<And>q r. nested_enactment T s q = Some r \<Longrightarrow> r < q"
  shows "\<exists>r s'. gov_dispatch (Suc (unat p)) T E Root (EnactReferendumCall p) s = Some (r, s')"
proof -
  have less: "unat r < unat q" if "nested_enactment T s q = Some r" for q r
    using assms [OF that] by (simp only: word_less_nat_alt)
  have "enactment_chain (Suc n) T s p = None" if "unat p \<le> n" for n
    using that
  proof (induction n arbitrary: p)
    case 0
    then have "nested_enactment T s p = None" using less [of p] by (cases "nested_enactment T s p") auto
    then show ?case by simp
  next
    case (Suc n)
    show ?case
    proof (cases "nested_enactment T s p")
      case (Some q)
      then have "unat q \<le> n" using less [OF Some] Suc.prems by linarith
      then show ?thesis using Suc.IH [of q] by (simp only: enactment_chain.simps(2) [of "Suc n"] Some option.case)
    qed simp
  qed
  from this [OF order_refl] gov_dispatch_None_iff [of "Suc (unat p)" T E p s]
  obtain x where "gov_dispatch (Suc (unat p)) T E Root (EnactReferendumCall p) s = Some x"
    by (cases "gov_dispatch (Suc (unat p)) T E Root (EnactReferendumCall p) s") auto
  then show ?thesis by (cases x) blast
qed

definition gov_other :: "(ga_state, proposal_id \<rightharpoonup> block_number) gov_state" where
  "gov_other = gov_demo
     \<lparr>ProposalCalls := [0 \<mapsto> [255], 1 \<mapsto> [0]],
      Proposals := (\<lambda>_. Some \<lparr>sponsor = 5, justification_uri = [], enactment_delay = 10\<rparr>)\<rparr>"

theorem enactment_returns_witness:
  "nested_enactment gov_demo_config gov_other 1 = Some 0 \<and>
   (\<exists>r s'. gov_dispatch 2 gov_demo_config gov_demo_env Root (EnactReferendumCall 1) gov_other = Some (r, s'))"
proof -
  have "nested_enactment gov_demo_config gov_other q = (if q = 1 then Some 0 else None)" for q
    by (simp add: nested_enactment_def gov_other_def gov_demo_config_def)
  moreover from this have "r < q" if "nested_enactment gov_demo_config gov_other q = Some r" for q r
    using that by (auto split: if_splits)
  from enactment_returns [OF this, where p = 1 and E = gov_demo_env]
  have "\<exists>r s'. gov_dispatch 2 gov_demo_config gov_demo_env Root (EnactReferendumCall 1) gov_other = Some (r, s')"
    by (simp only: unat_1 numeral_2_eq_2 One_nat_def)
  ultimately show ?thesis by simp
qed

text \<open>
  C26. A proposal whose call enacts the proposal itself can be submitted and approved like any other,
  but its enactment never returns: no depth of nested calls is enough.
\<close>
theorem self_enactment_never_returns:
  assumes "ProposalCalls s p = Some call" and "Proposals s p = Some pr"
    and "decode_call T call = Some (GovernanceCall (EnactReferendumCall p))"
  shows "\<forall>n. gov_dispatch n T E Root (EnactReferendumCall p) s = None"
proof
  fix n
  have "nested_enactment T s p = Some p" using assms by (simp add: nested_enactment_def)
  then have "enactment_chain n T s p = Some p" by (induction n) simp_all
  then show "gov_dispatch n T E Root (EnactReferendumCall p) s = None" by (simp add: gov_dispatch_None_iff)
qed

theorem self_enactment_never_returns_witness:
  "\<forall>n. gov_dispatch n gov_demo_config gov_demo_env Root (EnactReferendumCall 0) gov_demo = None"
  by (rule self_enactment_never_returns [where call = "[0]"]) (simp_all add: gov_demo_fields gov_demo_config_def)

section \<open>Errors\<close>

text \<open>
  C27. A call of the pallet that returns an error has changed nothing, provided that a scheduler that
  refuses to cancel leaves its agenda as it was. The bonds are held by the generic-asset pallet.
\<close>
theorem governance_error_no_write:
  assumes "gov_currency T = ac_reservable A U"
    and "\<And>q a a'. cancel_named T q a = (False, a') \<Longrightarrow> a' = a"
    and "gov_dispatch n T E orig c s = Some (Inl e, s')"
  shows "s' = s"
proof (cases c)
  case (SubmitProposalCall call uri delay)
  then have "submit_proposal T E orig call uri delay s = (Inl e, s')" using assms(3) by simp
  then show ?thesis
    using bonds.reserve_error [of A U] unfolding submit_proposal_def signed_def assms(1)
    by (auto simp: bind_def try_result_def gets_def modify_def assms(1) split: prod.splits sum.splits)
next
  case (VoteOnProposalCall p vote)
  then have "vote_on_proposal T E orig p vote s = (Inl e, s')" using assms(3) by simp
  then show ?thesis by (cases rule: vote_on_proposal_cases) auto
next
  case (EnactReferendumCall p)
  then show ?thesis
    using assms(3) by (cases n) (auto simp: enact_referendum_def split: if_splits option.splits)
next
  case (CancelEnactmentCall p)
  have "s\<lparr>Scheduler := snd (cancel_named T p (Scheduler s))\<rparr> = s" if "\<not> fst (cancel_named T p (Scheduler s))"
    using assms(2) [of p "Scheduler s" "snd (cancel_named T p (Scheduler s))"] that
    by (cases "cancel_named T p (Scheduler s)") simp
  then show ?thesis
    using assms(3) CancelEnactmentCall by (auto simp: cancel_enactment_def rooted_def call_eqs split: if_splits)
next
  case (AddCouncilMemberCall who)
  then have "add_council_member T E orig who s = (Inl e, s')" using assms(3) by simp
  then show ?thesis by (cases rule: add_council_member_cases) auto
next
  case (RemoveCouncilMemberCall who)
  then have "remove_council_member orig who s = (Inl e, s')" using assms(3) by simp
  then show ?thesis by (cases rule: remove_council_member_cases) auto
qed (use assms(3) in \<open>auto simp: vote_against_referendum_def set_proposal_bond_def set_minimum_council_stake_def
    set_referendum_threshold_def set_minimum_voter_staked_amount_def signed_def rooted_def call_eqs Let_def
    split: if_splits\<close>)

theorem governance_error_no_write_witness:
  "\<exists>s'. gov_dispatch 0 gov_demo_config gov_demo_env Root (CancelEnactmentCall 0) gov_demo =
     Some (Inl (Governance_Error ProposalMissing), s') \<and> s' = gov_demo"
proof -
  let ?s' = "snd (cancel_enactment gov_demo_config Root 0 gov_demo)"
  have run: "gov_dispatch 0 gov_demo_config gov_demo_env Root (CancelEnactmentCall 0) gov_demo =
      Some (Inl (Governance_Error ProposalMissing), ?s')"
    by (simp add: cancel_enactment_def rooted_def ensure_root_def call_defs gov_demo_fields)
      (simp add: gov_demo_defs)
  have "?s' = gov_demo"
    by (rule governance_error_no_write [OF _ _ run]) (auto simp: gov_demo_config_def split: if_splits)
  then show ?thesis using run by simp
qed

end
