(* ===== verification/Utf8.thy ===== *)
theory Utf8
  imports Prelude
begin

text \<open>
  Strings as Rust has them: \<open>core::str::from_utf8\<close> accepts well-formed UTF-8, \<open>str::trim\<close> removes white
  space at both ends, and the decimal form of an unsigned integer. A string is split into its
  characters, each the list of its bytes.
\<close>

section \<open>Validation\<close>

definition utf8_width :: "u8 \<Rightarrow> nat" where
  "utf8_width b =
     (if b \<le> 0x7F then 1
      else if 0xC2 \<le> b \<and> b \<le> 0xDF then 2
      else if 0xE0 \<le> b \<and> b \<le> 0xEF then 3
      else if 0xF0 \<le> b \<and> b \<le> 0xF4 then 4 else 0)"

definition continuation :: "u8 \<Rightarrow> bool" where
  "continuation b \<longleftrightarrow> 0x80 \<le> b \<and> b \<le> 0xBF"

text \<open>The second byte excludes overlong forms, surrogates and what lies beyond U+10FFFF.\<close>

definition second_byte_ok :: "u8 \<Rightarrow> u8 \<Rightarrow> bool" where
  "second_byte_ok b c \<longleftrightarrow> continuation c \<and>
     (b = 0xE0 \<longrightarrow> 0xA0 \<le> c) \<and> (b = 0xED \<longrightarrow> c \<le> 0x9F) \<and>
     (b = 0xF0 \<longrightarrow> 0x90 \<le> c) \<and> (b = 0xF4 \<longrightarrow> c \<le> 0x8F)"

fun utf8_tail_ok :: "u8 \<Rightarrow> bytes \<Rightarrow> bool" where
  "utf8_tail_ok b [] \<longleftrightarrow> True"
| "utf8_tail_ok b (c # cs) \<longleftrightarrow> second_byte_ok b c \<and> list_all continuation cs"

function utf8_chars :: "bytes \<Rightarrow> bytes list option" where
  "utf8_chars [] = Some []"
| "utf8_chars (b # bs) =
     (let n = utf8_width b; tail = take (n - 1) bs
      in if n = 0 \<or> length bs < n - 1 \<or> \<not> utf8_tail_ok b tail then None
         else map_option ((#) (b # tail)) (utf8_chars (drop (n - 1) bs)))"
  by pat_completeness auto
termination
  by (relation "measure length") auto

definition is_utf8 :: "bytes \<Rightarrow> bool" where
  "is_utf8 bs \<longleftrightarrow> utf8_chars bs \<noteq> None"

section \<open>White space\<close>

fun char_code :: "bytes \<Rightarrow> nat" where
  "char_code [b] = unat b"
| "char_code [b, c] = unat b mod 32 * 64 + unat c mod 64"
| "char_code [b, c, d] = unat b mod 16 * 4096 + unat c mod 64 * 64 + unat d mod 64"
| "char_code [b, c, d, e] = unat b mod 8 * 262144 + unat c mod 64 * 4096 + unat d mod 64 * 64 + unat e mod 64"
| "char_code _ = 0"

definition is_whitespace :: "bytes \<Rightarrow> bool" where
  "is_whitespace ch \<longleftrightarrow> (let c = char_code ch in
     9 \<le> c \<and> c \<le> 13 \<or> c = 0x20 \<or> c = 0x85 \<or> c = 0xA0 \<or> c = 0x1680 \<or> 0x2000 \<le> c \<and> c \<le> 0x200A \<or>
     c = 0x2028 \<or> c = 0x2029 \<or> c = 0x202F \<or> c = 0x205F \<or> c = 0x3000)"

definition trim_chars :: "bytes list \<Rightarrow> bytes list" where
  "trim_chars cs = rev (dropWhile is_whitespace (rev (dropWhile is_whitespace cs)))"

section \<open>Literals and numbers\<close>

definition ascii :: "string \<Rightarrow> bytes" where
  "ascii cs = map of_char cs"

fun decimal :: "nat \<Rightarrow> bytes" where
  "decimal n = (if n < 10 then [word_of_nat (48 + n)] else decimal (n div 10) @ [word_of_nat (48 + n mod 10)])"

declare decimal.simps [simp del]

definition decimal_value :: "bytes \<Rightarrow> nat" where
  "decimal_value bs = foldl (\<lambda>n b. n * 10 + (unat b - 48)) 0 bs"

section \<open>Facts\<close>

lemma utf8_chars_concat: "utf8_chars bs = Some cs \<Longrightarrow> concat cs = bs"
  by (induction bs arbitrary: cs rule: utf8_chars.induct) (auto simp: Let_def split: if_splits)

lemma decimal_digit: "n < 10 \<Longrightarrow> unat (word_of_nat (48 + n) :: u8) = 48 + n"
  by (rule unat_word_of_nat_less) simp

lemma decimal_roundtrip: "decimal_value (decimal n) = n"
proof (induction n rule: decimal.induct)
  case (1 n)
  show ?case
  proof (cases "n < 10")
    case True
    then show ?thesis using decimal_digit [of n] by (simp add: decimal_value_def decimal.simps [of n])
  next
    case False
    then show ?thesis using 1 decimal_digit [of "n mod 10"] by (simp add: decimal_value_def decimal.simps [of n])
  qed
qed

end
