(* ===== verification/Nft_Types.thy ===== *)
theory Nft_Types
  imports Currency_Spec Utf8
begin

text \<open>
  The data of the NFT pallet (\<open>crml/nft/src/types.rs\<close>): metadata schemes, royalties, listings, offers
  and marketplaces. A \<open>Permill\<close> is its number of parts in a million.
\<close>

type_synonym collection_id = u32
type_synonym series_id = u32
type_synonym serial_number = u32
type_synonym token_count = u32
type_synonym token_id = "collection_id \<times> series_id \<times> serial_number"
type_synonym offer_id = u64
type_synonym marketplace_id = u32
type_synonym listing_id = u128
type_synonym permill_parts = u32

definition AUCTION_EXTENSION_PERIOD :: block_number where "AUCTION_EXTENSION_PERIOD = 40"
definition MAX_ENTITLEMENTS :: nat where "MAX_ENTITLEMENTS = 8"
definition ACCURACY :: u32 where "ACCURACY = 1000000"

section \<open>Metadata schemes\<close>

datatype metadata_scheme = Https bytes | Http bytes | IpfsDir bytes | IpfsShared bytes

fun scheme_prefix :: "metadata_scheme \<Rightarrow> bytes" where
  "scheme_prefix (Http _) = ascii ''http://''"
| "scheme_prefix (Https _) = ascii ''https://''"
| "scheme_prefix (IpfsDir _) = ascii ''ipfs://''"
| "scheme_prefix (IpfsShared _) = ascii ''ipfs://''"

definition ends_with :: "bytes \<Rightarrow> bytes \<Rightarrow> bool" where
  "ends_with suf path \<longleftrightarrow> length suf \<le> length path \<and> drop (length path - length suf) path = suf"

definition starts_with :: "bytes \<Rightarrow> bytes \<Rightarrow> bool" where
  "starts_with pre path \<longleftrightarrow> take (length pre) path = pre"

definition sanitize_path :: "bytes \<Rightarrow> bytes \<Rightarrow> bytes option" where
  "sanitize_path pre path =
     (if path = [] then None
      else case utf8_chars path of
        None \<Rightarrow> None
      | Some chars \<Rightarrow>
          let path = concat (trim_chars chars);
              path = (if ends_with (ascii ''/'') path then take (length path - 1) path else path);
              path = (if starts_with pre path then drop (length pre) path else path)
          in Some path)"

definition sanitize :: "metadata_scheme \<Rightarrow> metadata_scheme option" where
  "sanitize scheme =
     (case scheme of
        Http path \<Rightarrow> map_option Http (sanitize_path (scheme_prefix scheme) path)
      | Https path \<Rightarrow> map_option Https (sanitize_path (scheme_prefix scheme) path)
      | IpfsDir path \<Rightarrow> map_option IpfsDir (sanitize_path (scheme_prefix scheme) path)
      | IpfsShared path \<Rightarrow> map_option IpfsShared (sanitize_path (scheme_prefix scheme) path))"

definition scheme_from_index :: "u8 \<Rightarrow> bytes \<Rightarrow> metadata_scheme option" where
  "scheme_from_index index path =
     (if index = 0 then Some (Https path)
      else if index = 1 then Some (Http path)
      else if index = 2 then Some (IpfsDir path)
      else if index = 3 then Some (IpfsShared path)
      else None)"

section \<open>Attributes\<close>

datatype nft_attribute_value =
    I32 "32 word" | U8 u8 | U16 "16 word" | U32 u32 | U64 u64 | U128 u128 | Bytes32 bytes
  | Bytes bytes | String bytes | Hash bytes | Timestamp u64 | Url bytes

fun type_id :: "nft_attribute_value \<Rightarrow> u8" where
  "type_id (I32 _) = 0"
| "type_id (U8 _) = 1"
| "type_id (U16 _) = 2"
| "type_id (U32 _) = 3"
| "type_id (U64 _) = 4"
| "type_id (U128 _) = 5"
| "type_id (Bytes32 _) = 6"
| "type_id (Bytes _) = 7"
| "type_id (String _) = 8"
| "type_id (Hash _) = 9"
| "type_id (Timestamp _) = 10"
| "type_id (Url _) = 11"

definition is_valid_type_id :: "u8 \<Rightarrow> bool" where
  "is_valid_type_id i \<longleftrightarrow> i < 12"

fun attribute_len :: "nft_attribute_value \<Rightarrow> nat" where
  "attribute_len (I32 _) = 4"
| "attribute_len (U8 _) = 1"
| "attribute_len (U16 _) = 2"
| "attribute_len (U32 _) = 4"
| "attribute_len (U64 _) = 8"
| "attribute_len (U128 _) = 16"
| "attribute_len (Bytes32 _) = 32"
| "attribute_len (Bytes b) = length b"
| "attribute_len (String s) = length s"
| "attribute_len (Hash _) = 32"
| "attribute_len (Timestamp _) = 8"
| "attribute_len (Url u) = length u"

section \<open>Royalties\<close>

record royalties_schedule =
  entitlements :: "(account_id \<times> permill_parts) list"

definition total_parts :: "royalties_schedule \<Rightarrow> u32" where
  "total_parts r = sum_list (map snd (entitlements r))"

definition validate :: "royalties_schedule \<Rightarrow> bool" where
  "validate r \<longleftrightarrow> entitlements r \<noteq> [] \<and> length (entitlements r) \<le> MAX_ENTITLEMENTS \<and> total_parts r \<le> ACCURACY"

text \<open>\<open>Permill::from_parts\<close> takes the minimum with the accuracy, which \<open>validate\<close> has checked already.\<close>

definition calculate_total_entitlement :: "royalties_schedule \<Rightarrow> permill_parts" where
  "calculate_total_entitlement r = (if \<not> validate r then 0 else min (total_parts r) ACCURACY)"

definition default_royalties :: royalties_schedule where
  "default_royalties = \<lparr>entitlements = []\<rparr>"

section \<open>Listings, offers and marketplaces\<close>

datatype token_lock_reason = Listed listing_id

datatype auction_closure_reason = ExpiredNoBids | SettlementFailed | VendorCancelled

record marketplace =
  mp_account :: account_id
  mp_entitlement :: permill_parts

record auction_listing =
  al_payment_asset :: asset_id
  al_reserve_price :: balance
  al_close :: block_number
  al_seller :: account_id
  al_tokens :: "token_id list"
  al_royalties :: royalties_schedule
  al_marketplace :: "marketplace_id option"

record fixed_price_listing =
  fp_payment_asset :: asset_id
  fp_fixed_price :: balance
  fp_close :: block_number
  fp_buyer :: "account_id option"
  fp_seller :: account_id
  fp_tokens :: "token_id list"
  fp_royalties :: royalties_schedule
  fp_marketplace :: "marketplace_id option"

datatype listing = FixedPrice fixed_price_listing | Auction auction_listing

record simple_offer =
  so_token_id :: token_id
  so_asset_id :: asset_id
  so_amount :: balance
  so_buyer :: account_id
  so_marketplace :: "marketplace_id option"

datatype offer_type = Simple simple_offer

record collection_info_t =
  ci_name :: bytes
  ci_owner :: account_id
  ci_royalties :: "(account_id \<times> permill_parts) list"

record token_info_t =
  ti_attributes :: "nft_attribute_value list"
  ti_owner :: account_id
  ti_royalties :: "(account_id \<times> permill_parts) list"

section \<open>The listings of the previous storage version\<close>

record auction_listing_v1 =
  al1_payment_asset :: asset_id
  al1_reserve_price :: balance
  al1_close :: block_number
  al1_seller :: account_id
  al1_tokens :: "token_id list"
  al1_royalties :: royalties_schedule

record fixed_price_listing_v1 =
  fp1_payment_asset :: asset_id
  fp1_fixed_price :: balance
  fp1_close :: block_number
  fp1_buyer :: "account_id option"
  fp1_seller :: account_id
  fp1_tokens :: "token_id list"
  fp1_royalties :: royalties_schedule

datatype listing_v1 = FixedPriceV1 fixed_price_listing_v1 | AuctionV1 auction_listing_v1

fun migrate_listing :: "listing_v1 \<Rightarrow> listing" where
  "migrate_listing (FixedPriceV1 l) =
     FixedPrice \<lparr>fp_payment_asset = fp1_payment_asset l, fp_fixed_price = fp1_fixed_price l,
       fp_close = fp1_close l, fp_buyer = fp1_buyer l, fp_seller = fp1_seller l, fp_tokens = fp1_tokens l,
       fp_royalties = fp1_royalties l, fp_marketplace = None\<rparr>"
| "migrate_listing (AuctionV1 l) =
     Auction \<lparr>al_payment_asset = al1_payment_asset l, al_reserve_price = al1_reserve_price l,
       al_close = al1_close l, al_seller = al1_seller l, al_tokens = al1_tokens l,
       al_royalties = al1_royalties l, al_marketplace = None\<rparr>"

end
