(* ===== verification/Nft.thy ===== *)
theory Nft
  imports Nft_Types Vec_Lib
begin

text \<open>
  The NFT pallet (\<open>crml/nft/src/lib.rs\<close>): collections, series and tokens, fixed price sales, auctions
  and offers. The fungible assets it pays with are any \<open>MultiCurrency\<close> on the storage \<open>'l\<close>; the handler
  that hears of transfers (\<open>OnTransferSubscription\<close>) works on the storage \<open>'h\<close>. \<open>Permill\<close>
  multiplication and the order in which a storage map is iterated come with the configuration.
\<close>

section \<open>Configuration and storage\<close>

definition MAX_COLLECTION_NAME_LENGTH :: nat where "MAX_COLLECTION_NAME_LENGTH = 32"
definition MAX_COLLECTION_LISTING_LIMIT :: nat where "MAX_COLLECTION_LISTING_LIMIT = 100"

record ('l, 'h) nft_config =
  nft_currency :: "'l multi_currency"
  default_listing_duration :: block_number
  permill_mul :: "permill_parts \<Rightarrow> balance \<Rightarrow> balance"
  on_nft_transfer :: "token_id \<Rightarrow> 'h \<Rightarrow> 'h"
  drain_end_schedule :: "(block_number \<times> listing_id \<rightharpoonup> bool) \<Rightarrow> block_number \<Rightarrow> listing_id list"

datatype nft_event =
    CreateCollection collection_id bytes account_id
  | CreateSeries collection_id series_id token_count account_id
  | CreateTokens collection_id series_id token_count account_id
  | TokensTransfer account_id collection_id series_id "serial_number list" account_id
  | TokensBurn collection_id series_id "serial_number list"
  | FixedPriceSaleListed collection_id listing_id "marketplace_id option"
  | FixedPriceSaleComplete collection_id listing_id account_id
  | FixedPriceSaleClosed collection_id listing_id
  | FixedPriceSalePriceUpdated collection_id listing_id
  | AuctionOpen collection_id listing_id "marketplace_id option"
  | AuctionSold collection_id listing_id asset_id balance account_id
  | AuctionClosed collection_id listing_id auction_closure_reason
  | Bid collection_id listing_id balance
  | RegisteredMarketplace account_id permill_parts marketplace_id
  | OfferMade offer_id balance asset_id "marketplace_id option" account_id
  | OfferAccepted offer_id
  | OfferRejected offer_id
  | OfferCancelled offer_id
  | TokenBalancesUpdated collection_id series_id

record ('l, 'h) nft_state =
  NftLedger :: 'l
  Subscriber :: 'h
  CollectionOwner :: "collection_id \<rightharpoonup> account_id"
  CollectionName :: "collection_id \<rightharpoonup> bytes"
  CollectionRoyalties :: "collection_id \<rightharpoonup> royalties_schedule"
  TokenLocks :: "token_id \<rightharpoonup> token_lock_reason"
  TokenOwner :: "(collection_id \<times> series_id) \<times> serial_number \<rightharpoonup> account_id"
  TokenBalance :: "account_id \<rightharpoonup> (collection_id \<times> series_id \<rightharpoonup> token_count)"
  NextMarketplaceId :: marketplace_id
  RegisteredMarketplaces :: "marketplace_id \<rightharpoonup> marketplace"
  SeriesAttributes :: "collection_id \<times> series_id \<rightharpoonup> nft_attribute_value list"
  SeriesName :: "collection_id \<times> series_id \<rightharpoonup> bytes"
  SeriesRoyalties :: "collection_id \<times> series_id \<rightharpoonup> royalties_schedule"
  SeriesIssuance :: "collection_id \<times> series_id \<rightharpoonup> token_count"
  SeriesMetadataScheme :: "collection_id \<times> series_id \<rightharpoonup> metadata_scheme"
  SeriesMetadataURI :: "collection_id \<times> series_id \<rightharpoonup> bytes"
  NextCollectionId :: collection_id
  NextSeriesId :: "collection_id \<rightharpoonup> series_id"
  NextSerialNumber :: "collection_id \<times> series_id \<rightharpoonup> serial_number"
  NextListingId :: listing_id
  Listings :: "listing_id \<rightharpoonup> listing"
  OpenCollectionListings :: "collection_id \<times> listing_id \<rightharpoonup> bool"
  ListingWinningBid :: "listing_id \<rightharpoonup> account_id \<times> balance"
  ListingEndSchedule :: "block_number \<times> listing_id \<rightharpoonup> bool"
  Offers :: "offer_id \<rightharpoonup> offer_type"
  TokenOffers :: "token_id \<rightharpoonup> offer_id list"
  NextOfferId :: offer_id
  NftStorageVersion :: u32
  CollectionMetadataURI :: "collection_id \<rightharpoonup> bytes"
  IsSingleIssue :: "collection_id \<times> series_id \<rightharpoonup> bool"
  NftEvents :: "nft_event list"

definition nft_genesis :: "'l \<Rightarrow> 'h \<Rightarrow> ('l, 'h) nft_state" where
  "nft_genesis l h =
     \<lparr>NftLedger = l, Subscriber = h, CollectionOwner = Map.empty, CollectionName = Map.empty,
      CollectionRoyalties = Map.empty, TokenLocks = Map.empty, TokenOwner = Map.empty,
      TokenBalance = Map.empty, NextMarketplaceId = 0, RegisteredMarketplaces = Map.empty,
      SeriesAttributes = Map.empty, SeriesName = Map.empty, SeriesRoyalties = Map.empty,
      SeriesIssuance = Map.empty, SeriesMetadataScheme = Map.empty, SeriesMetadataURI = Map.empty,
      NextCollectionId = 0, NextSeriesId = Map.empty, NextSerialNumber = Map.empty, NextListingId = 0,
      Listings = Map.empty, OpenCollectionListings = Map.empty, ListingWinningBid = Map.empty,
      ListingEndSchedule = Map.empty, Offers = Map.empty, TokenOffers = Map.empty, NextOfferId = 0,
      NftStorageVersion = 2, CollectionMetadataURI = Map.empty, IsSingleIssue = Map.empty, NftEvents = []\<rparr>"

definition nft_deposit_event :: "nft_event \<Rightarrow> ('l, 'h) nft_state \<Rightarrow> ('l, 'h) nft_state" where
  "nft_deposit_event e s = s\<lparr>NftEvents := NftEvents s @ [e]\<rparr>"

definition token_owner :: "collection_id \<times> series_id \<Rightarrow> serial_number \<Rightarrow> ('l, 'h) nft_state \<Rightarrow> account_id" where
  "token_owner k n s = storage_get 0 (TokenOwner s) (k, n)"

definition token_balance :: "account_id \<Rightarrow> ('l, 'h) nft_state \<Rightarrow> (collection_id \<times> series_id \<rightharpoonup> token_count)" where
  "token_balance who s = storage_get Map.empty (TokenBalance s) who"

definition check_ownership :: "account_id \<Rightarrow> token_id \<Rightarrow> ('l, 'h) nft_state \<Rightarrow> bool" where
  "check_ownership account t s = (case t of (c, e, n) \<Rightarrow> token_owner (c, e) n s = account)"

definition next_serial_number :: "collection_id \<times> series_id \<Rightarrow> ('l, 'h) nft_state \<Rightarrow> serial_number" where
  "next_serial_number k s = storage_get 0 (NextSerialNumber s) k"

definition token_offers :: "token_id \<Rightarrow> ('l, 'h) nft_state \<Rightarrow> offer_id list" where
  "token_offers t s = storage_get [] (TokenOffers s) t"

text \<open>An operation of the ledger, run in the storage of the pallet.\<close>

definition pay :: "('l, 'a) dispatch \<Rightarrow> (('l, 'h) nft_state, 'a) dispatch" where
  "pay m = (\<lambda>s. case m (NftLedger s) of (r, l) \<Rightarrow> (r, s\<lparr>NftLedger := l\<rparr>))"

definition nft_err :: "nft_error \<Rightarrow> dispatch_error" where
  "nft_err e = Nft_Error e"

section \<open>Collections, series and marketplaces\<close>

text \<open>\<open>if let Some(owner) = collection_owner(..) { ensure!(owner == origin, NoPermission) .. } else { NoCollection }\<close>\<close>

definition ensure_collection_owner :: "collection_id \<Rightarrow> account_id \<Rightarrow> (('l, 'h) nft_state, unit) dispatch" where
  "ensure_collection_owner c who =
     bind (gets (\<lambda>s. CollectionOwner s c)) (\<lambda>found.
     case found of
       Some owner \<Rightarrow> ensure (owner = who) (nft_err NoPermission)
     | None \<Rightarrow> throw (nft_err NoCollection))"

definition migrate_to_metadata_scheme ::
  "origin \<Rightarrow> collection_id \<Rightarrow> series_id \<Rightarrow> metadata_scheme \<Rightarrow> (('l, 'h) nft_state, unit) dispatch" where
  "migrate_to_metadata_scheme orig c e scheme =
     bind (signed orig) (\<lambda>who.
     bind (ensure_collection_owner c who) (\<lambda>_.
     bind (gets (\<lambda>s. SeriesMetadataScheme s (c, e))) (\<lambda>present.
     bind (ensure (present = None) (nft_err NoPermission)) (\<lambda>_.
     bind (ok_or (sanitize scheme) (nft_err InvalidMetadataPath)) (\<lambda>sanitized.
     modify (\<lambda>s. s\<lparr>SeriesMetadataScheme := (SeriesMetadataScheme s)((c, e) \<mapsto> sanitized)\<rparr>))))))"

definition set_owner :: "origin \<Rightarrow> collection_id \<Rightarrow> account_id \<Rightarrow> (('l, 'h) nft_state, unit) dispatch" where
  "set_owner orig c new_owner =
     bind (signed orig) (\<lambda>who.
     bind (ensure_collection_owner c who) (\<lambda>_.
     modify (\<lambda>s. s\<lparr>CollectionOwner := (CollectionOwner s)(c \<mapsto> new_owner)\<rparr>)))"

definition name_valid :: "bytes \<Rightarrow> (('l, 'h) nft_state, unit) dispatch" where
  "name_valid name =
     bind (ensure (name \<noteq> [] \<and> length name \<le> MAX_COLLECTION_NAME_LENGTH) (nft_err CollectionNameInvalid)) (\<lambda>_.
     ensure (is_utf8 name) (nft_err CollectionNameInvalid))"

definition set_series_name ::
  "origin \<Rightarrow> collection_id \<Rightarrow> series_id \<Rightarrow> bytes \<Rightarrow> (('l, 'h) nft_state, unit) dispatch" where
  "set_series_name orig c e name =
     bind (signed orig) (\<lambda>who.
     bind (ensure_collection_owner c who) (\<lambda>_.
     bind (gets (\<lambda>s. SeriesMetadataScheme s (c, e))) (\<lambda>scheme.
     bind (ensure (scheme \<noteq> None) (nft_err NoSeries)) (\<lambda>_.
     bind (gets (\<lambda>s. SeriesName s (c, e))) (\<lambda>present.
     bind (ensure (present = None) (nft_err NameAlreadySet)) (\<lambda>_.
     bind (name_valid name) (\<lambda>_.
     modify (\<lambda>s. s\<lparr>SeriesName := (SeriesName s)((c, e) \<mapsto> name)\<rparr>))))))))"

definition register_marketplace ::
  "origin \<Rightarrow> account_id option \<Rightarrow> permill_parts \<Rightarrow> (('l, 'h) nft_state, unit) dispatch" where
  "register_marketplace orig account entitlement =
     bind (signed orig) (\<lambda>who.
     bind (ensure (entitlement \<le> ACCURACY) (nft_err RoyaltiesInvalid)) (\<lambda>_.
     let market = (case account of Some a \<Rightarrow> a | None \<Rightarrow> who) in
     bind (gets NextMarketplaceId) (\<lambda>m.
     bind (ensure (checked_add m 1 \<noteq> None) (nft_err NoAvailableIds)) (\<lambda>_.
     bind (modify (\<lambda>s. s\<lparr>RegisteredMarketplaces := (RegisteredMarketplaces s)(m \<mapsto>
       \<lparr>mp_account = market, mp_entitlement = entitlement\<rparr>)\<rparr>)) (\<lambda>_.
     bind (modify (nft_deposit_event (RegisteredMarketplace market entitlement m))) (\<lambda>_.
     modify (\<lambda>s. s\<lparr>NextMarketplaceId := NextMarketplaceId s + 1\<rparr>)))))))"

definition create_collection ::
  "origin \<Rightarrow> bytes \<Rightarrow> royalties_schedule option \<Rightarrow> (('l, 'h) nft_state, unit) dispatch" where
  "create_collection orig name royalties =
     bind (signed orig) (\<lambda>who.
     bind (name_valid name) (\<lambda>_.
     bind (gets NextCollectionId) (\<lambda>c.
     bind (ensure (checked_add c 1 \<noteq> None) (nft_err NoAvailableIds)) (\<lambda>_.
     bind (case royalties of
             Some r \<Rightarrow>
               bind (ensure (validate r) (nft_err RoyaltiesInvalid)) (\<lambda>_.
               modify (\<lambda>s. s\<lparr>CollectionRoyalties := (CollectionRoyalties s)(c \<mapsto> r)\<rparr>))
           | None \<Rightarrow> ret ()) (\<lambda>_.
     bind (modify (\<lambda>s. s\<lparr>CollectionOwner := (CollectionOwner s)(c \<mapsto> who),
       CollectionName := (CollectionName s)(c \<mapsto> name),
       NextCollectionId := NextCollectionId s + 1\<rparr>)) (\<lambda>_.
     modify (nft_deposit_event (CreateCollection c name who))))))))"

section \<open>Minting, transfers and burning\<close>

definition add_token_balance ::
  "account_id \<Rightarrow> collection_id \<times> series_id \<Rightarrow> token_count \<Rightarrow> ('l, 'h) nft_state \<Rightarrow> ('l, 'h) nft_state" where
  "add_token_balance who k quantity s =
     s\<lparr>TokenBalance := storage_mutate Map.empty (\<lambda>b. b(k \<mapsto> storage_get 0 b k + quantity)) who (TokenBalance s)\<rparr>"

text \<open>\<open>try_mutate\<close>: the entry is written only when the account has a balance in the series.\<close>

definition sub_token_balance ::
  "account_id \<Rightarrow> collection_id \<times> series_id \<Rightarrow> token_count \<Rightarrow> (('l, 'h) nft_state, unit) dispatch" where
  "sub_token_balance who k quantity =
     bind (gets (token_balance who)) (\<lambda>balances.
     case balances k of
       Some balance \<Rightarrow>
         let new_balance = saturating_sub balance quantity;
             balances' = (if new_balance = 0 then balances(k := None) else balances(k \<mapsto> new_balance))
         in modify (\<lambda>s. s\<lparr>TokenBalance := (TokenBalance s)(who \<mapsto> balances')\<rparr>)
     | None \<Rightarrow> throw (nft_err NoToken))"

definition do_mint ::
  "account_id \<Rightarrow> collection_id \<Rightarrow> series_id \<Rightarrow> serial_number \<Rightarrow> token_count \<Rightarrow>
    ('l, 'h) nft_state \<Rightarrow> ('l, 'h) nft_state" where
  "do_mint owner c e first quantity s =
     (let s1 =
        (if 0 < quantity then
           (add_token_balance owner (c, e) quantity
             (s\<lparr>TokenOwner := (\<lambda>(k, n). if k = (c, e) \<and> first \<le> n \<and> n < first + quantity
                                          then Some owner else TokenOwner s (k, n))\<rparr>))
             \<lparr>NextSerialNumber := storage_mutate 0 (\<lambda>q. saturating_add q quantity) (c, e) (NextSerialNumber s)\<rparr>
         else s\<lparr>NextSerialNumber := (NextSerialNumber s)((c, e) \<mapsto> 0)\<rparr>)
      in s1\<lparr>SeriesIssuance := storage_mutate 0 (\<lambda>q. saturating_add q quantity) (c, e) (SeriesIssuance s1)\<rparr>)"

definition do_mint_series ::
  "account_id \<Rightarrow> collection_id \<Rightarrow> token_count \<Rightarrow> account_id option \<Rightarrow> metadata_scheme \<Rightarrow>
    royalties_schedule option \<Rightarrow> (('l, 'h) nft_state, series_id) dispatch" where
  "do_mint_series who c quantity owner scheme royalties =
     bind (ensure_collection_owner c who) (\<lambda>_.
     bind (gets (\<lambda>s. storage_get 0 (NextSeriesId s) c)) (\<lambda>e.
     bind (ensure (checked_add e 1 \<noteq> None) (nft_err NoAvailableIds)) (\<lambda>_.
     bind (ok_or (sanitize scheme) (nft_err InvalidMetadataPath)) (\<lambda>scheme.
     bind (modify (\<lambda>s. s\<lparr>SeriesMetadataScheme := (SeriesMetadataScheme s)((c, e) \<mapsto> scheme)\<rparr>)) (\<lambda>_.
     bind (case royalties of
             Some r \<Rightarrow>
               bind (ensure (validate r) (nft_err RoyaltiesInvalid)) (\<lambda>_.
               modify (\<lambda>s. s\<lparr>SeriesRoyalties := (SeriesRoyalties s)((c, e) \<mapsto> r)\<rparr>))
           | None \<Rightarrow> ret ()) (\<lambda>_.
     let owner = (case owner of Some a \<Rightarrow> a | None \<Rightarrow> who) in
     bind (modify (do_mint owner c e 0 quantity)) (\<lambda>_.
     bind (modify (\<lambda>s. s\<lparr>NextSeriesId := storage_mutate 0 (\<lambda>i. i + 1) c (NextSeriesId s)\<rparr>)) (\<lambda>_.
     bind (modify (nft_deposit_event (CreateSeries c e quantity owner))) (\<lambda>_.
     ret e)))))))))"

definition mint_series ::
  "origin \<Rightarrow> collection_id \<Rightarrow> token_count \<Rightarrow> account_id option \<Rightarrow> metadata_scheme \<Rightarrow>
    royalties_schedule option \<Rightarrow> (('l, 'h) nft_state, unit) dispatch" where
  "mint_series orig c quantity owner scheme royalties =
     transactional (
     bind (signed orig) (\<lambda>who.
     bind (do_mint_series who c quantity owner scheme royalties) (\<lambda>_.
     ret ())))"

definition mint_additional ::
  "origin \<Rightarrow> collection_id \<Rightarrow> series_id \<Rightarrow> token_count \<Rightarrow> account_id option \<Rightarrow>
    (('l, 'h) nft_state, unit) dispatch" where
  "mint_additional orig c e quantity owner =
     transactional (
     bind (signed orig) (\<lambda>who.
     bind (ensure (0 < quantity) (nft_err NoToken)) (\<lambda>_.
     bind (ensure_collection_owner c who) (\<lambda>_.
     bind (gets (\<lambda>s. NextSerialNumber s (c, e))) (\<lambda>present.
     bind (ensure (present \<noteq> None) (nft_err NoToken)) (\<lambda>_.
     bind (gets (next_serial_number (c, e))) (\<lambda>serial.
     bind (ensure (checked_add serial quantity \<noteq> None) (nft_err NoAvailableIds)) (\<lambda>_.
     let owner = (case owner of Some a \<Rightarrow> a | None \<Rightarrow> who) in
     bind (modify (do_mint owner c e serial quantity)) (\<lambda>_.
     modify (nft_deposit_event (CreateTokens c e quantity owner)))))))))))"

text \<open>The tokens are moved one by one; a failing update of the sender's count is ignored.\<close>

definition move_token ::
  "('l, 'h) nft_config \<Rightarrow> collection_id \<Rightarrow> series_id \<Rightarrow> account_id \<Rightarrow> serial_number \<Rightarrow>
    ('l, 'h) nft_state \<Rightarrow> ('l, 'h) nft_state" where
  "move_token T c e new_owner n s =
     s\<lparr>TokenOwner := (TokenOwner s)(((c, e), n) \<mapsto> new_owner),
       Subscriber := on_nft_transfer T (c, e, n) (Subscriber s)\<rparr>"

definition do_transfer_unchecked ::
  "('l, 'h) nft_config \<Rightarrow> collection_id \<Rightarrow> series_id \<Rightarrow> serial_number list \<Rightarrow> account_id \<Rightarrow> account_id \<Rightarrow>
    ('l, 'h) nft_state \<Rightarrow> ('l, 'h) nft_state" where
  "do_transfer_unchecked T c e serials current_owner new_owner s =
     (let s1 = fold (move_token T c e new_owner) serials s;
          quantity = word_of_nat (length serials);
          s2 = snd (sub_token_balance current_owner (c, e) quantity s1)
      in add_token_balance new_owner (c, e) quantity s2)"

fun ensure_movable ::
  "account_id \<Rightarrow> collection_id \<Rightarrow> series_id \<Rightarrow> serial_number list \<Rightarrow> ('l, 'h) nft_state \<Rightarrow>
    dispatch_error + unit" where
  "ensure_movable who c e [] s = Inr ()"
| "ensure_movable who c e (n # ns) s =
     result_bind (result_ensure (TokenLocks s (c, e, n) = None) (nft_err TokenListingProtection)) (\<lambda>_.
     result_bind (result_ensure (token_owner (c, e) n s = who) (nft_err NoPermission)) (\<lambda>_.
     ensure_movable who c e ns s))"

definition transfer_batch ::
  "('l, 'h) nft_config \<Rightarrow> origin \<Rightarrow> collection_id \<Rightarrow> series_id \<Rightarrow> serial_number list \<Rightarrow> account_id \<Rightarrow>
    (('l, 'h) nft_state, unit) dispatch" where
  "transfer_batch T orig c e serials new_owner =
     transactional (
     bind (signed orig) (\<lambda>who.
     bind (ensure (0 < length serials) (nft_err NoToken)) (\<lambda>_.
     bind (try_result (ensure_movable who c e serials)) (\<lambda>_.
     bind (modify (do_transfer_unchecked T c e serials who new_owner)) (\<lambda>_.
     modify (nft_deposit_event (TokensTransfer who c e serials new_owner)))))))"

definition nft_transfer ::
  "('l, 'h) nft_config \<Rightarrow> origin \<Rightarrow> token_id \<Rightarrow> account_id \<Rightarrow> (('l, 'h) nft_state, unit) dispatch" where
  "nft_transfer T orig t new_owner = (case t of (c, e, n) \<Rightarrow> transfer_batch T orig c e [n] new_owner)"

fun burn_tokens ::
  "account_id \<Rightarrow> collection_id \<Rightarrow> series_id \<Rightarrow> serial_number list \<Rightarrow> (('l, 'h) nft_state, unit) dispatch" where
  "burn_tokens who c e [] = ret ()"
| "burn_tokens who c e (n # ns) =
     bind (gets (\<lambda>s. TokenLocks s (c, e, n))) (\<lambda>lock.
     bind (ensure (lock = None) (nft_err TokenListingProtection)) (\<lambda>_.
     bind (gets (token_owner (c, e) n)) (\<lambda>owner.
     bind (ensure (owner = who) (nft_err NoPermission)) (\<lambda>_.
     bind (modify (\<lambda>s. s\<lparr>TokenOwner := (TokenOwner s)(((c, e), n) := None)\<rparr>)) (\<lambda>_.
     burn_tokens who c e ns)))))"

definition remove_issuance ::
  "collection_id \<Rightarrow> series_id \<Rightarrow> token_count \<Rightarrow> ('l, 'h) nft_state \<Rightarrow> ('l, 'h) nft_state" where
  "remove_issuance c e quantity s =
     (if saturating_sub (storage_get 0 (SeriesIssuance s) (c, e)) quantity = 0 then
        s\<lparr>SeriesAttributes := (SeriesAttributes s)((c, e) := None),
          SeriesIssuance := (SeriesIssuance s)((c, e) := None),
          SeriesMetadataScheme := (SeriesMetadataScheme s)((c, e) := None),
          SeriesRoyalties := (SeriesRoyalties s)((c, e) := None)\<rparr>
      else s\<lparr>SeriesIssuance := storage_mutate 0 (\<lambda>q. saturating_sub q quantity) (c, e) (SeriesIssuance s)\<rparr>)"

definition burn_batch ::
  "origin \<Rightarrow> collection_id \<Rightarrow> series_id \<Rightarrow> serial_number list \<Rightarrow> (('l, 'h) nft_state, unit) dispatch" where
  "burn_batch orig c e serials =
     transactional (
     bind (signed orig) (\<lambda>who.
     bind (ensure (serials \<noteq> []) (nft_err NoToken)) (\<lambda>_.
     bind (burn_tokens who c e serials) (\<lambda>_.
     let quantity = word_of_nat (length serials) in
     bind (sub_token_balance who (c, e) quantity) (\<lambda>_.
     bind (modify (remove_issuance c e quantity)) (\<lambda>_.
     modify (nft_deposit_event (TokensBurn c e serials))))))))"

definition nft_burn :: "origin \<Rightarrow> token_id \<Rightarrow> (('l, 'h) nft_state, unit) dispatch" where
  "nft_burn orig t = (case t of (c, e, n) \<Rightarrow> burn_batch orig c e [n])"

end
