(* ===== verification/Nft_Sales.thy ===== *)
theory Nft_Sales
  imports Nft
begin

text \<open>
  The sales of the NFT pallet: fixed price listings, auctions with their bids and their closing at the
  start of a block, and offers. Payments run through the \<open>MultiCurrency\<close> of the configuration.
\<close>

section \<open>Royalties of a bundle\<close>

fun bundle_uniform ::
  "collection_id \<Rightarrow> series_id \<Rightarrow> token_id list \<Rightarrow> ('l, 'h) nft_state \<Rightarrow> dispatch_error + unit" where
  "bundle_uniform c0 e0 [] s = Inr ()"
| "bundle_uniform c0 e0 ((c, e, n) # ts) s =
     result_bind (result_ensure (c = c0) (nft_err MixedBundleSale)) (\<lambda>_.
     result_bind (if e \<noteq> e0 then result_ensure (SeriesRoyalties s (c, e) = None) (nft_err RoyaltiesProtection)
                  else Inr ()) (\<lambda>_.
     bundle_uniform c0 e0 ts s))"

definition check_bundle_royalties ::
  "token_id list \<Rightarrow> marketplace_id option \<Rightarrow> ('l, 'h) nft_state \<Rightarrow> dispatch_error + royalties_schedule" where
  "check_bundle_royalties tokens market s =
     (case tokens of
        [] \<Rightarrow> Inl Panic
      | (c0, e0, _) # _ \<Rightarrow>
          result_bind (bundle_uniform c0 e0 tokens s) (\<lambda>_.
          let royalties = (case SeriesRoyalties s (c0, e0) of
                Some r \<Rightarrow> r
              | None \<Rightarrow> (case CollectionRoyalties s c0 of Some r \<Rightarrow> r | None \<Rightarrow> default_royalties))
          in case market of
               Some m \<Rightarrow>
                 (case RegisteredMarketplaces s m of
                    None \<Rightarrow> Inl (nft_err MarketplaceNotRegistered)
                  | Some mp \<Rightarrow>
                      let royalties = royalties\<lparr>entitlements := entitlements royalties @
                            [(mp_account mp, mp_entitlement mp)]\<rparr>
                      in result_bind (result_ensure (validate royalties) (nft_err RoyaltiesInvalid)) (\<lambda>_.
                         Inr royalties))
             | None \<Rightarrow> Inr royalties))"

section \<open>Listing tokens\<close>

fun lock_tokens :: "account_id \<Rightarrow> listing_id \<Rightarrow> token_id list \<Rightarrow> (('l, 'h) nft_state, unit) dispatch" where
  "lock_tokens who l [] = ret ()"
| "lock_tokens who l (t # ts) =
     bind (gets (\<lambda>s. TokenLocks s t)) (\<lambda>lock.
     bind (ensure (lock = None) (nft_err TokenListingProtection)) (\<lambda>_.
     bind (gets (check_ownership who t)) (\<lambda>owned.
     bind (ensure owned (nft_err NoPermission)) (\<lambda>_.
     bind (modify (\<lambda>s. s\<lparr>TokenLocks := (TokenLocks s)(t \<mapsto> Listed l)\<rparr>)) (\<lambda>_.
     lock_tokens who l ts)))))"

definition unlock_tokens :: "token_id list \<Rightarrow> ('l, 'h) nft_state \<Rightarrow> ('l, 'h) nft_state" where
  "unlock_tokens tokens s = fold (\<lambda>t s. s\<lparr>TokenLocks := (TokenLocks s)(t := None)\<rparr>) tokens s"

text \<open>
  What \<open>sell_bundle\<close> and \<open>auction_bundle\<close> have in common; \<open>mk\<close> builds the listing and its event from the
  royalties, the closing block and the seller.
\<close>

definition open_listing ::
  "('l, 'h) nft_config \<Rightarrow> block_number \<Rightarrow> origin \<Rightarrow> token_id list \<Rightarrow> block_number option \<Rightarrow>
    marketplace_id option \<Rightarrow> (royalties_schedule \<Rightarrow> block_number \<Rightarrow> account_id \<Rightarrow> listing) \<Rightarrow>
    (collection_id \<Rightarrow> listing_id \<Rightarrow> nft_event) \<Rightarrow> (('l, 'h) nft_state, unit) dispatch" where
  "open_listing T now orig tokens duration market mk event =
     transactional (
     bind (signed orig) (\<lambda>who.
     bind (ensure (tokens \<noteq> []) (nft_err NoToken)) (\<lambda>_.
     bind (try_result (check_bundle_royalties tokens market)) (\<lambda>royalties.
     bind (gets NextListingId) (\<lambda>l.
     bind (ensure (checked_add l 1 \<noteq> None) (nft_err NoAvailableIds)) (\<lambda>_.
     let c = fst (hd tokens) in
     bind (lock_tokens who l tokens) (\<lambda>_.
     let end_block = saturating_add now (case duration of Some d \<Rightarrow> d | None \<Rightarrow> default_listing_duration T) in
     bind (modify (\<lambda>s. s\<lparr>ListingEndSchedule := (ListingEndSchedule s)((end_block, l) \<mapsto> True),
       OpenCollectionListings := (OpenCollectionListings s)((c, l) \<mapsto> True),
       Listings := (Listings s)(l \<mapsto> mk royalties end_block who),
       NextListingId := NextListingId s + 1\<rparr>)) (\<lambda>_.
     modify (nft_deposit_event (event c l))))))))))"

definition sell_bundle ::
  "('l, 'h) nft_config \<Rightarrow> block_number \<Rightarrow> origin \<Rightarrow> token_id list \<Rightarrow> account_id option \<Rightarrow> asset_id \<Rightarrow>
    balance \<Rightarrow> block_number option \<Rightarrow> marketplace_id option \<Rightarrow> (('l, 'h) nft_state, unit) dispatch" where
  "sell_bundle T now orig tokens buyer asset price duration market =
     open_listing T now orig tokens duration market
       (\<lambda>royalties end_block who. FixedPrice
          \<lparr>fp_payment_asset = asset, fp_fixed_price = price, fp_close = end_block, fp_buyer = buyer,
           fp_seller = who, fp_tokens = tokens, fp_royalties = royalties, fp_marketplace = market\<rparr>)
       (\<lambda>c l. FixedPriceSaleListed c l market)"

definition sell ::
  "('l, 'h) nft_config \<Rightarrow> block_number \<Rightarrow> origin \<Rightarrow> token_id \<Rightarrow> account_id option \<Rightarrow> asset_id \<Rightarrow>
    balance \<Rightarrow> block_number option \<Rightarrow> marketplace_id option \<Rightarrow> (('l, 'h) nft_state, unit) dispatch" where
  "sell T now orig t buyer asset price duration market =
     transactional (sell_bundle T now orig [t] buyer asset price duration market)"

definition auction_bundle ::
  "('l, 'h) nft_config \<Rightarrow> block_number \<Rightarrow> origin \<Rightarrow> token_id list \<Rightarrow> asset_id \<Rightarrow>
    balance \<Rightarrow> block_number option \<Rightarrow> marketplace_id option \<Rightarrow> (('l, 'h) nft_state, unit) dispatch" where
  "auction_bundle T now orig tokens asset reserve_price duration market =
     open_listing T now orig tokens duration market
       (\<lambda>royalties end_block who. Auction
          \<lparr>al_payment_asset = asset, al_reserve_price = reserve_price, al_close = end_block,
           al_seller = who, al_tokens = tokens, al_royalties = royalties, al_marketplace = market\<rparr>)
       (\<lambda>c l. AuctionOpen c l market)"

definition auction ::
  "('l, 'h) nft_config \<Rightarrow> block_number \<Rightarrow> origin \<Rightarrow> token_id \<Rightarrow> asset_id \<Rightarrow>
    balance \<Rightarrow> block_number option \<Rightarrow> marketplace_id option \<Rightarrow> (('l, 'h) nft_state, unit) dispatch" where
  "auction T now orig t asset reserve_price duration market =
     auction_bundle T now orig [t] asset reserve_price duration market"

section \<open>Buying\<close>

text \<open>
  The royalties of a fixed price sale: each entitled account is paid out of the imbalance that the
  withdrawal from the buyer left. On an error the imbalance is dropped and the whole call rolled back.
\<close>

fun pay_royalties ::
  "('l, 'h) nft_config \<Rightarrow> asset_id \<Rightarrow> balance \<Rightarrow> (account_id \<times> permill_parts) list \<Rightarrow>
    balance \<Rightarrow> negative_imbalance \<Rightarrow> (('l, 'h) nft_state, balance \<times> negative_imbalance) dispatch" where
  "pay_royalties T asset price [] for_seller imbalance = ret (for_seller, imbalance)"
| "pay_royalties T asset price ((who, entitlement) # es) for_seller imbalance =
     (let royalty = permill_mul T entitlement price in
      bind (pay (mc_deposit_into_existing (nft_currency T) who asset royalty)) (\<lambda>deposited.
      case negative_offset imbalance deposited of
        Same rest \<Rightarrow> pay_royalties T asset price es (for_seller - royalty) rest
      | Other _ \<Rightarrow> throw (nft_err InternalPayment)))"

definition pay_fixed_price ::
  "('l, 'h) nft_config \<Rightarrow> account_id \<Rightarrow> fixed_price_listing \<Rightarrow> (('l, 'h) nft_state, unit) dispatch" where
  "pay_fixed_price T who l =
     (if calculate_total_entitlement (fp_royalties l) = 0 then
        pay (mc_transfer (nft_currency T) who (fp_seller l) (fp_payment_asset l) (fp_fixed_price l) AllowDeath)
      else
        bind (pay (mc_withdraw (nft_currency T) who (fp_payment_asset l) (fp_fixed_price l) {TRANSFER} AllowDeath))
          (\<lambda>imbalance.
        bind (pay_royalties T (fp_payment_asset l) (fp_fixed_price l) (entitlements (fp_royalties l))
            (fp_fixed_price l) imbalance) (\<lambda>(for_seller, imbalance).
        bind (pay (mc_deposit_into_existing (nft_currency T) (fp_seller l) (fp_payment_asset l) for_seller))
          (\<lambda>deposited.
        case negative_offset imbalance deposited of
          Same rest \<Rightarrow> pay (run (\<lambda>s. ((), mc_drop_negative (nft_currency T) rest s)))
        | Other _ \<Rightarrow> throw (nft_err InternalPayment)))))"

definition remove_fixed_price_listing :: "listing_id \<Rightarrow> ('l, 'h) nft_state \<Rightarrow> ('l, 'h) nft_state" where
  "remove_fixed_price_listing l s =
     (let s1 = s\<lparr>Listings := (Listings s)(l := None), ListingWinningBid := (ListingWinningBid s)(l := None)\<rparr>
      in case Listings s l of
           Some (FixedPrice fp) \<Rightarrow>
             s1\<lparr>ListingEndSchedule := (ListingEndSchedule s1)((fp_close fp, l) := None)\<rparr>
         | _ \<Rightarrow> s1)"

definition buy ::
  "('l, 'h) nft_config \<Rightarrow> origin \<Rightarrow> listing_id \<Rightarrow> (('l, 'h) nft_state, unit) dispatch" where
  "buy T orig l =
     transactional (
     bind (signed orig) (\<lambda>who.
     bind (gets (\<lambda>s. Listings s l)) (\<lambda>found.
     case found of
       Some (FixedPrice fp) \<Rightarrow>
         bind (case fp_buyer fp of
                 Some buyer \<Rightarrow> ensure (who = buyer) (nft_err NoPermission)
               | None \<Rightarrow> ret ()) (\<lambda>_.
         case fp_tokens fp of
           [] \<Rightarrow> throw (nft_err NoToken)
         | (c, e, _) # _ \<Rightarrow>
             bind (pay_fixed_price T who fp) (\<lambda>_.
             bind (modify (unlock_tokens (fp_tokens fp))) (\<lambda>_.
             let serials = map (\<lambda>(_, _, n). n) (fp_tokens fp) in
             bind (modify (\<lambda>s. s\<lparr>OpenCollectionListings := (OpenCollectionListings s)((c, l) := None)\<rparr>)) (\<lambda>_.
             bind (modify (do_transfer_unchecked T c e serials (fp_seller fp) who)) (\<lambda>_.
             bind (modify (remove_fixed_price_listing l)) (\<lambda>_.
             modify (nft_deposit_event (FixedPriceSaleComplete c l who))))))))
     | _ \<Rightarrow> throw (nft_err NotForFixedPriceSale))))"

definition update_fixed_price ::
  "origin \<Rightarrow> listing_id \<Rightarrow> balance \<Rightarrow> (('l, 'h) nft_state, unit) dispatch" where
  "update_fixed_price orig l new_price =
     bind (signed orig) (\<lambda>who.
     bind (gets (\<lambda>s. Listings s l)) (\<lambda>found.
     case found of
       Some (FixedPrice fp) \<Rightarrow>
         bind (ensure (fp_seller fp = who) (nft_err NoPermission)) (\<lambda>_.
         case fp_tokens fp of
           [] \<Rightarrow> throw Panic
         | t # _ \<Rightarrow>
             bind (modify (\<lambda>s. s\<lparr>Listings := (Listings s)(l \<mapsto> FixedPrice (fp\<lparr>fp_fixed_price := new_price\<rparr>))\<rparr>)) (\<lambda>_.
             modify (nft_deposit_event (FixedPriceSalePriceUpdated (fst t) l))))
     | _ \<Rightarrow> throw (nft_err NotForFixedPriceSale)))"

section \<open>Bidding\<close>

text \<open>Funds for a bid or an offer: locks are checked when the balance covers the amount, then it is reserved.\<close>

definition reserve_funds ::
  "('l, 'h) nft_config \<Rightarrow> account_id \<Rightarrow> asset_id \<Rightarrow> balance \<Rightarrow> (('l, 'h) nft_state, unit) dispatch" where
  "reserve_funds T who asset amount =
     bind (gets (\<lambda>s. mc_free_balance (nft_currency T) who asset (NftLedger s))) (\<lambda>balance.
     bind (case checked_sub balance amount of
             Some after \<Rightarrow>
               try_result (\<lambda>s. mc_ensure_can_withdraw (nft_currency T) who asset amount {RESERVE} after (NftLedger s))
           | None \<Rightarrow> ret ()) (\<lambda>_.
     pay (mc_reserve (nft_currency T) who asset amount)))"

definition unreserve_funds ::
  "('l, 'h) nft_config \<Rightarrow> account_id \<Rightarrow> asset_id \<Rightarrow> balance \<Rightarrow> ('l, 'h) nft_state \<Rightarrow> ('l, 'h) nft_state" where
  "unreserve_funds T who asset amount s =
     s\<lparr>NftLedger := snd (mc_unreserve (nft_currency T) who asset amount (NftLedger s))\<rparr>"

definition replace_bid ::
  "('l, 'h) nft_config \<Rightarrow> listing_id \<Rightarrow> asset_id \<Rightarrow> account_id \<Rightarrow> balance \<Rightarrow>
    ('l, 'h) nft_state \<Rightarrow> ('l, 'h) nft_state" where
  "replace_bid T l asset who amount s =
     (let s1 = (case ListingWinningBid s l of
                  Some (old, old_amount) \<Rightarrow> unreserve_funds T old asset old_amount s
                | None \<Rightarrow> s)
      in s1\<lparr>ListingWinningBid := (ListingWinningBid s1)(l \<mapsto> (who, amount))\<rparr>)"

definition extend_auction ::
  "block_number \<Rightarrow> listing_id \<Rightarrow> auction_listing \<Rightarrow> ('l, 'h) nft_state \<Rightarrow> ('l, 'h) nft_state" where
  "extend_auction now l al s =
     (let blocks_till_close = al_close al - now;
          new_close = now + AUCTION_EXTENSION_PERIOD
      in if blocks_till_close \<le> AUCTION_EXTENSION_PERIOD then
           s\<lparr>ListingEndSchedule := (ListingEndSchedule s)((al_close al, l) := None, (new_close, l) \<mapsto> True),
             Listings := (Listings s)(l \<mapsto> Auction (al\<lparr>al_close := new_close\<rparr>))\<rparr>
         else s)"

definition bid ::
  "('l, 'h) nft_config \<Rightarrow> block_number \<Rightarrow> origin \<Rightarrow> listing_id \<Rightarrow> balance \<Rightarrow>
    (('l, 'h) nft_state, unit) dispatch" where
  "bid T now orig l amount =
     transactional (
     bind (signed orig) (\<lambda>who.
     bind (gets (\<lambda>s. Listings s l)) (\<lambda>found.
     case found of
       Some (Auction al) \<Rightarrow>
         bind (gets (\<lambda>s. ListingWinningBid s l)) (\<lambda>current.
         bind (case current of
                 Some (_, highest) \<Rightarrow> ensure (highest < amount) (nft_err BidTooLow)
               | None \<Rightarrow> ensure (al_reserve_price al \<le> amount) (nft_err BidTooLow)) (\<lambda>_.
         bind (reserve_funds T who (al_payment_asset al) amount) (\<lambda>_.
         bind (modify (replace_bid T l (al_payment_asset al) who amount)) (\<lambda>_.
         bind (modify (extend_auction now l al)) (\<lambda>_.
         case al_tokens al of
           [] \<Rightarrow> throw Panic
         | t # _ \<Rightarrow> modify (nft_deposit_event (Bid (fst t) l amount)))))))
     | _ \<Rightarrow> throw (nft_err NotForAuction))))"

definition close_listing ::
  "listing_id \<Rightarrow> block_number \<Rightarrow> token_id list \<Rightarrow> (collection_id \<Rightarrow> nft_event) \<Rightarrow>
    (('l, 'h) nft_state, unit) dispatch" where
  "close_listing l close tokens event =
     bind (modify (\<lambda>s. s\<lparr>Listings := (Listings s)(l := None),
       ListingEndSchedule := (ListingEndSchedule s)((close, l) := None)\<rparr>)) (\<lambda>_.
     bind (modify (unlock_tokens tokens)) (\<lambda>_.
     case tokens of
       [] \<Rightarrow> throw Panic
     | t # _ \<Rightarrow>
         bind (modify (\<lambda>s. s\<lparr>OpenCollectionListings := (OpenCollectionListings s)((fst t, l) := None)\<rparr>)) (\<lambda>_.
         modify (nft_deposit_event (event (fst t))))))"

definition cancel_sale :: "origin \<Rightarrow> listing_id \<Rightarrow> (('l, 'h) nft_state, unit) dispatch" where
  "cancel_sale orig l =
     bind (signed orig) (\<lambda>who.
     bind (gets (\<lambda>s. Listings s l)) (\<lambda>found.
     case found of
       Some (FixedPrice fp) \<Rightarrow>
         bind (ensure (fp_seller fp = who) (nft_err NoPermission)) (\<lambda>_.
         close_listing l (fp_close fp) (fp_tokens fp) (\<lambda>c. FixedPriceSaleClosed c l))
     | Some (Auction al) \<Rightarrow>
         bind (ensure (al_seller al = who) (nft_err NoPermission)) (\<lambda>_.
         bind (gets (\<lambda>s. ListingWinningBid s l)) (\<lambda>current.
         bind (ensure (current = None) (nft_err TokenListingProtection)) (\<lambda>_.
         close_listing l (al_close al) (al_tokens al) (\<lambda>c. AuctionClosed c l VendorCancelled))))
     | None \<Rightarrow> ret ()))"

section \<open>Settlement\<close>

fun repatriate_royalties ::
  "('l, 'h) nft_config \<Rightarrow> account_id \<Rightarrow> asset_id \<Rightarrow> balance \<Rightarrow> (account_id \<times> permill_parts) list \<Rightarrow>
    balance \<Rightarrow> (('l, 'h) nft_state, balance) dispatch" where
  "repatriate_royalties T buyer asset amount [] for_seller = ret for_seller"
| "repatriate_royalties T buyer asset amount ((who, entitlement) # es) for_seller =
     (let royalty = permill_mul T entitlement amount in
      bind (pay (mc_repatriate_reserved (nft_currency T) buyer asset who royalty)) (\<lambda>_.
      repatriate_royalties T buyer asset amount es (for_seller - royalty)))"

definition process_payment_and_transfer ::
  "('l, 'h) nft_config \<Rightarrow> account_id \<Rightarrow> account_id \<Rightarrow> asset_id \<Rightarrow> token_id list \<Rightarrow> balance \<Rightarrow>
    royalties_schedule \<Rightarrow> (('l, 'h) nft_state, unit) dispatch" where
  "process_payment_and_transfer T buyer seller asset tokens amount royalties =
     transactional (
     let for_royalties = permill_mul T (calculate_total_entitlement royalties) amount in
     bind (if for_royalties \<noteq> 0 then repatriate_royalties T buyer asset amount (entitlements royalties) amount
           else ret amount) (\<lambda>for_seller.
     bind (gets (\<lambda>s. mc_free_balance (nft_currency T) seller asset (NftLedger s))) (\<lambda>seller_balance.
     bind (pay (mc_repatriate_reserved (nft_currency T) buyer asset seller for_seller)) (\<lambda>_.
     bind (gets (\<lambda>s. mc_free_balance (nft_currency T) seller asset (NftLedger s))) (\<lambda>new_balance.
     bind (ensure (saturating_add seller_balance for_seller \<le> new_balance) (nft_err InternalPayment)) (\<lambda>_.
     case tokens of
       [] \<Rightarrow> throw Panic
     | (c, e, _) # _ \<Rightarrow>
         modify (do_transfer_unchecked T c e (map (\<lambda>(_, _, n). n) tokens) seller buyer)))))))"

text \<open>
  \<open>close_listings_at\<close> takes the listings scheduled for the block one by one. A bid whose settlement fails
  is released. There is no result to return an error in: \<open>None\<close> is a panic, on a listing without tokens.
\<close>

definition settle_auction ::
  "('l, 'h) nft_config \<Rightarrow> listing_id \<Rightarrow> collection_id \<Rightarrow> auction_listing \<Rightarrow>
    ('l, 'h) nft_state \<Rightarrow> ('l, 'h) nft_state" where
  "settle_auction T l c al s =
     (case ListingWinningBid s l of
        Some (winner, hammer_price) \<Rightarrow>
          (case process_payment_and_transfer T winner (al_seller al) (al_payment_asset al) (al_tokens al)
                  hammer_price (al_royalties al) (s\<lparr>ListingWinningBid := (ListingWinningBid s)(l := None)\<rparr>) of
             (Inl _, s1) \<Rightarrow>
               nft_deposit_event (AuctionClosed c l SettlementFailed)
                 (unreserve_funds T winner (al_payment_asset al) hammer_price s1)
           | (Inr _, s1) \<Rightarrow>
               nft_deposit_event (AuctionSold c l (al_payment_asset al) hammer_price winner) s1)
      | None \<Rightarrow> nft_deposit_event (AuctionClosed c l ExpiredNoBids) s)"

definition release_listing ::
  "listing_id \<Rightarrow> token_id list \<Rightarrow> (collection_id \<Rightarrow> ('l, 'h) nft_state \<Rightarrow> ('l, 'h) nft_state) \<Rightarrow>
    ('l, 'h) nft_state \<Rightarrow> ('l, 'h) nft_state option" where
  "release_listing l tokens finish s =
     (case tokens of
        [] \<Rightarrow> None
      | t # _ \<Rightarrow>
          let s1 = unlock_tokens tokens s
          in Some (finish (fst t) (s1\<lparr>OpenCollectionListings := (OpenCollectionListings s1)((fst t, l) := None)\<rparr>)))"

definition expire_listing ::
  "('l, 'h) nft_config \<Rightarrow> block_number \<Rightarrow> listing_id \<Rightarrow> ('l, 'h) nft_state \<Rightarrow> ('l, 'h) nft_state option" where
  "expire_listing T now l s =
     (let s1 = s\<lparr>ListingEndSchedule := (ListingEndSchedule s)((now, l) := None),
                 Listings := (Listings s)(l := None)\<rparr>
      in case Listings s l of
           Some (FixedPrice fp) \<Rightarrow>
             release_listing l (fp_tokens fp) (\<lambda>c. nft_deposit_event (FixedPriceSaleClosed c l)) s1
         | Some (Auction al) \<Rightarrow> release_listing l (al_tokens al) (\<lambda>c. settle_auction T l c al) s1
         | None \<Rightarrow> Some s1)"

fun expire_listings ::
  "('l, 'h) nft_config \<Rightarrow> block_number \<Rightarrow> listing_id list \<Rightarrow> ('l, 'h) nft_state \<Rightarrow> ('l, 'h) nft_state option" where
  "expire_listings T now [] s = Some s"
| "expire_listings T now (l # ls) s = Option.bind (expire_listing T now l s) (expire_listings T now ls)"

definition close_listings_at ::
  "('l, 'h) nft_config \<Rightarrow> block_number \<Rightarrow> ('l, 'h) nft_state \<Rightarrow> (u32 \<times> ('l, 'h) nft_state) option" where
  "close_listings_at T now s =
     (let ls = drain_end_schedule T (ListingEndSchedule s) now
      in map_option (Pair (word_of_nat (length ls))) (expire_listings T now ls s))"

section \<open>Offers\<close>

definition make_simple_offer ::
  "('l, 'h) nft_config \<Rightarrow> origin \<Rightarrow> token_id \<Rightarrow> balance \<Rightarrow> asset_id \<Rightarrow> marketplace_id option \<Rightarrow>
    (('l, 'h) nft_state, unit) dispatch" where
  "make_simple_offer T orig t amount asset market =
     transactional (
     bind (signed orig) (\<lambda>who.
     bind (ensure (amount \<noteq> 0) (nft_err ZeroOffer)) (\<lambda>_.
     bind (gets (check_ownership who t)) (\<lambda>owned.
     bind (ensure (\<not> owned) (nft_err IsTokenOwner)) (\<lambda>_.
     bind (gets NextOfferId) (\<lambda>offer.
     bind (ensure (checked_add offer 1 \<noteq> None) (nft_err NoAvailableIds)) (\<lambda>_.
     bind (gets (\<lambda>s. case TokenLocks s t of
         Some (Listed l) \<Rightarrow> (case Listings s l of Some (Auction _) \<Rightarrow> True | _ \<Rightarrow> False)
       | None \<Rightarrow> False)) (\<lambda>on_auction.
     bind (ensure (\<not> on_auction) (nft_err TokenOnAuction)) (\<lambda>_.
     bind (reserve_funds T who asset amount) (\<lambda>_.
     bind (modify (\<lambda>s. s\<lparr>TokenOffers := storage_mutate [] (\<lambda>os. os @ [offer]) t (TokenOffers s),
       Offers := (Offers s)(offer \<mapsto> Simple \<lparr>so_token_id = t, so_asset_id = asset, so_amount = amount,
         so_buyer = who, so_marketplace = market\<rparr>),
       NextOfferId := NextOfferId s + 1\<rparr>)) (\<lambda>_.
     modify (nft_deposit_event (OfferMade offer amount asset market who)))))))))))))"

definition remove_offer :: "offer_id \<Rightarrow> token_id \<Rightarrow> (('l, 'h) nft_state, unit) dispatch" where
  "remove_offer offer t =
     bind (modify (\<lambda>s. s\<lparr>Offers := (Offers s)(offer := None)\<rparr>)) (\<lambda>_.
     bind (gets (token_offers t)) (\<lambda>os.
     case binary_search os offer of
       Found i \<Rightarrow> modify (\<lambda>s. s\<lparr>TokenOffers := (TokenOffers s)(t \<mapsto> remove_at i os)\<rparr>)
     | NotFound _ \<Rightarrow> throw Panic))"

definition cancel_offer ::
  "('l, 'h) nft_config \<Rightarrow> origin \<Rightarrow> offer_id \<Rightarrow> (('l, 'h) nft_state, unit) dispatch" where
  "cancel_offer T orig offer =
     bind (signed orig) (\<lambda>who.
     bind (gets (\<lambda>s. Offers s offer)) (\<lambda>found.
     case found of
       Some (Simple so) \<Rightarrow>
         bind (ensure (so_buyer so = who) (nft_err NotBuyer)) (\<lambda>_.
         bind (modify (unreserve_funds T who (so_asset_id so) (so_amount so))) (\<lambda>_.
         bind (remove_offer offer (so_token_id so)) (\<lambda>_.
         modify (nft_deposit_event (OfferCancelled offer)))))
     | None \<Rightarrow> throw (nft_err InvalidOffer)))"

definition accept_offer ::
  "('l, 'h) nft_config \<Rightarrow> origin \<Rightarrow> offer_id \<Rightarrow> (('l, 'h) nft_state, unit) dispatch" where
  "accept_offer T orig offer =
     transactional (
     bind (signed orig) (\<lambda>who.
     bind (gets (\<lambda>s. Offers s offer)) (\<lambda>found.
     case found of
       Some (Simple so) \<Rightarrow>
         bind (gets (check_ownership who (so_token_id so))) (\<lambda>owned.
         bind (ensure owned (nft_err NoPermission)) (\<lambda>_.
         bind (try_result (check_bundle_royalties [so_token_id so] (so_marketplace so))) (\<lambda>royalties.
         bind (process_payment_and_transfer T (so_buyer so) who (so_asset_id so) [so_token_id so]
           (so_amount so) royalties) (\<lambda>_.
         bind (remove_offer offer (so_token_id so)) (\<lambda>_.
         modify (nft_deposit_event (OfferAccepted offer)))))))
     | None \<Rightarrow> throw (nft_err InvalidOffer))))"

section \<open>Repair, migration and views\<close>

definition count_owners ::
  "collection_id \<times> series_id \<Rightarrow> ('l, 'h) nft_state \<Rightarrow> (account_id \<rightharpoonup> token_count)" where
  "count_owners k s =
     fold (\<lambda>n m. storage_mutate 0 (\<lambda>x. x + 1) (token_owner k (word_of_nat n) s) m)
       [0..<unat (next_serial_number k s)] Map.empty"

definition update_token_balance ::
  "origin \<Rightarrow> collection_id \<Rightarrow> series_id \<Rightarrow> (('l, 'h) nft_state, unit) dispatch" where
  "update_token_balance orig c e =
     transactional (
     bind (signed orig) (\<lambda>_.
     bind (gets (\<lambda>s. CollectionOwner s c)) (\<lambda>owner.
     bind (ensure (owner \<noteq> None) (nft_err NoCollection)) (\<lambda>_.
     bind (gets (\<lambda>s. SeriesMetadataScheme s (c, e))) (\<lambda>scheme.
     bind (ensure (scheme \<noteq> None) (nft_err NoSeries)) (\<lambda>_.
     bind (gets (next_serial_number (c, e))) (\<lambda>count.
     bind (ensure (0 < count) (nft_err NoToken)) (\<lambda>_.
     bind (gets (count_owners (c, e))) (\<lambda>counts.
     bind (modify (\<lambda>s. s\<lparr>TokenBalance := (\<lambda>who. case counts who of
         None \<Rightarrow> TokenBalance s who
       | Some n \<Rightarrow> Some ((token_balance who s)((c, e) \<mapsto> n)))\<rparr>)) (\<lambda>_.
     modify (nft_deposit_event (TokenBalancesUpdated c e))))))))))))"

text \<open>The old listings are given as the list in which the storage iterates over them.\<close>

definition nft_on_runtime_upgrade ::
  "(listing_id \<times> listing_v1) list \<Rightarrow> ('l, 'h) nft_state \<Rightarrow> u64 \<times> ('l, 'h) nft_state" where
  "nft_on_runtime_upgrade old s =
     (if NftStorageVersion s = 1 then
        (6000000 + word_of_nat (length old) * 100000,
         fold (\<lambda>(l, listing) s. s\<lparr>Listings := (Listings s)(l \<mapsto> migrate_listing listing)\<rparr>) old
           (s\<lparr>NftStorageVersion := 2, CollectionMetadataURI := Map.empty, IsSingleIssue := Map.empty\<rparr>))
      else (0, s))"

definition series_exists :: "collection_id \<Rightarrow> series_id \<Rightarrow> ('l, 'h) nft_state \<Rightarrow> bool" where
  "series_exists c e s \<longleftrightarrow> SeriesMetadataScheme s (c, e) \<noteq> None"

definition utf8_or_empty :: "bytes \<Rightarrow> bytes" where
  "utf8_or_empty path = (if is_utf8 path then path else [])"

definition token_uri :: "token_id \<Rightarrow> ('l, 'h) nft_state \<Rightarrow> bytes" where
  "token_uri t s =
     (case t of (c, e, n) \<Rightarrow>
        (case SeriesMetadataScheme s (c, e) of
           Some (Http path) \<Rightarrow>
             ascii ''http://'' @ utf8_or_empty path @ ascii ''/'' @ decimal (unat n) @ ascii ''.json''
         | Some (Https path) \<Rightarrow>
             ascii ''https://'' @ utf8_or_empty path @ ascii ''/'' @ decimal (unat n) @ ascii ''.json''
         | Some (IpfsDir cid) \<Rightarrow>
             ascii ''ipfs://'' @ utf8_or_empty cid @ ascii ''/'' @ decimal (unat n) @ ascii ''.json''
         | Some (IpfsShared cid) \<Rightarrow> ascii ''ipfs://'' @ utf8_or_empty cid @ ascii ''.json''
         | None \<Rightarrow> []))"

definition collection_info :: "collection_id \<Rightarrow> ('l, 'h) nft_state \<Rightarrow> collection_info_t option" where
  "collection_info c s =
     (let name = storage_get [] (CollectionName s) c;
          owner = storage_get 0 (CollectionOwner s) c
      in if name = [] then None
         else Some \<lparr>ci_name = name, ci_owner = owner,
           ci_royalties = (case CollectionRoyalties s c of Some r \<Rightarrow> entitlements r | None \<Rightarrow> [])\<rparr>)"

definition token_info :: "collection_id \<Rightarrow> series_id \<Rightarrow> serial_number \<Rightarrow> ('l, 'h) nft_state \<Rightarrow> token_info_t" where
  "token_info c e n s =
     \<lparr>ti_attributes = storage_get [] (SeriesAttributes s) (c, e), ti_owner = token_owner (c, e) n s,
      ti_royalties = (case SeriesRoyalties s (c, e) of
         Some r \<Rightarrow> entitlements r
       | None \<Rightarrow> (case CollectionRoyalties s c of Some r \<Rightarrow> entitlements r | None \<Rightarrow> []))\<rparr>"

text \<open>
  The listings of a collection from a cursor on; \<open>open_ids\<close> are the identifiers that the storage holds
  for the collection, in any order.
\<close>

definition collection_listings ::
  "listing_id list \<Rightarrow> listing_id \<Rightarrow> nat \<Rightarrow> ('l, 'h) nft_state \<Rightarrow> listing_id option \<times> (listing_id \<times> listing) list" where
  "collection_listings open_ids cursor limit s =
     (let ids = sort open_ids;
          page = take (min limit MAX_COLLECTION_LISTING_LIMIT) (filter (\<lambda>l. cursor \<le> l) ids);
          highest = (if page = [] then 0 else last page);
          response = List.map_filter (\<lambda>l. map_option (Pair l) (Listings s l)) page;
          new_cursor = (if ids = [] then None else if highest \<noteq> last ids then Some (highest + 1) else None)
      in (new_cursor, response))"

text \<open>
  The tokens of an account in a collection; \<open>entries e\<close> are the serial numbers and owners that the storage
  holds for series \<open>e\<close>, in any order.
\<close>

definition collected_tokens ::
  "(series_id \<Rightarrow> (serial_number \<times> account_id) list) \<Rightarrow> collection_id \<Rightarrow> account_id \<Rightarrow>
    ('l, 'h) nft_state \<Rightarrow> token_id list" where
  "collected_tokens entries c address s =
     concat (map (\<lambda>e. map (\<lambda>n. (c, e, n)) (sort (map fst (filter (\<lambda>(n, owner). owner = address) (entries e)))))
       (map word_of_nat [0..<unat (storage_get 0 (NextSeriesId s) c)]))"

end
