(* ===== verification/Nft_Chain.thy ===== *)
theory Nft_Chain
  imports Nft_Sales
begin

text \<open>
  The calls of the NFT pallet as one dispatcher, the start of a block, and the states they lead to.
\<close>

datatype nft_call =
    MigrateToMetadataScheme collection_id series_id metadata_scheme
  | SetOwner collection_id account_id
  | SetSeriesName collection_id series_id bytes
  | RegisterMarketplace "account_id option" permill_parts
  | CreateCollectionCall bytes "royalties_schedule option"
  | MintSeries collection_id token_count "account_id option" metadata_scheme "royalties_schedule option"
  | MintAdditional collection_id series_id token_count "account_id option"
  | NftTransfer token_id account_id
  | TransferBatch collection_id series_id "serial_number list" account_id
  | NftBurn token_id
  | BurnBatch collection_id series_id "serial_number list"
  | Sell token_id "account_id option" asset_id balance "block_number option" "marketplace_id option"
  | SellBundle "token_id list" "account_id option" asset_id balance "block_number option" "marketplace_id option"
  | Buy listing_id
  | AuctionCall token_id asset_id balance "block_number option" "marketplace_id option"
  | AuctionBundle "token_id list" asset_id balance "block_number option" "marketplace_id option"
  | BidCall listing_id balance
  | CancelSale listing_id
  | UpdateFixedPrice listing_id balance
  | MakeSimpleOffer token_id balance asset_id "marketplace_id option"
  | CancelOffer offer_id
  | AcceptOffer offer_id
  | UpdateTokenBalance collection_id series_id

fun nft_dispatch ::
  "('l, 'h) nft_config \<Rightarrow> block_number \<Rightarrow> origin \<Rightarrow> nft_call \<Rightarrow> (('l, 'h) nft_state, unit) dispatch" where
  "nft_dispatch T now orig (MigrateToMetadataScheme c e scheme) = migrate_to_metadata_scheme orig c e scheme"
| "nft_dispatch T now orig (SetOwner c who) = set_owner orig c who"
| "nft_dispatch T now orig (SetSeriesName c e name) = set_series_name orig c e name"
| "nft_dispatch T now orig (RegisterMarketplace account entitlement) = register_marketplace orig account entitlement"
| "nft_dispatch T now orig (CreateCollectionCall name r) = create_collection orig name r"
| "nft_dispatch T now orig (MintSeries c q owner scheme r) = mint_series orig c q owner scheme r"
| "nft_dispatch T now orig (MintAdditional c e q owner) = mint_additional orig c e q owner"
| "nft_dispatch T now orig (NftTransfer t who) = nft_transfer T orig t who"
| "nft_dispatch T now orig (TransferBatch c e ns who) = transfer_batch T orig c e ns who"
| "nft_dispatch T now orig (NftBurn t) = nft_burn orig t"
| "nft_dispatch T now orig (BurnBatch c e ns) = burn_batch orig c e ns"
| "nft_dispatch T now orig (Sell t buyer a price d m) = sell T now orig t buyer a price d m"
| "nft_dispatch T now orig (SellBundle ts buyer a price d m) = sell_bundle T now orig ts buyer a price d m"
| "nft_dispatch T now orig (Buy l) = buy T orig l"
| "nft_dispatch T now orig (AuctionCall t a price d m) = auction T now orig t a price d m"
| "nft_dispatch T now orig (AuctionBundle ts a price d m) = auction_bundle T now orig ts a price d m"
| "nft_dispatch T now orig (BidCall l amount) = bid T now orig l amount"
| "nft_dispatch T now orig (CancelSale l) = cancel_sale orig l"
| "nft_dispatch T now orig (UpdateFixedPrice l price) = update_fixed_price orig l price"
| "nft_dispatch T now orig (MakeSimpleOffer t amount a m) = make_simple_offer T orig t amount a m"
| "nft_dispatch T now orig (CancelOffer f) = cancel_offer T orig f"
| "nft_dispatch T now orig (AcceptOffer f) = accept_offer T orig f"
| "nft_dispatch T now orig (UpdateTokenBalance c e) = update_token_balance orig c e"

inductive nft_reachable :: "('l, 'h) nft_config \<Rightarrow> ('l, 'h) nft_state \<Rightarrow> bool" for T where
  Genesis: "nft_reachable T (nft_genesis l h)"
| Call: "nft_reachable T s \<Longrightarrow> nft_dispatch T now orig c s = (r, s') \<Longrightarrow> r \<noteq> Inl Panic \<Longrightarrow> nft_reachable T s'"
| Block: "nft_reachable T s \<Longrightarrow> close_listings_at T now s = Some (n, s') \<Longrightarrow> nft_reachable T s'"
| Elsewhere: "nft_reachable T s \<Longrightarrow> nft_reachable T (s\<lparr>NftLedger := l, Subscriber := h\<rparr>)"

end
