(* ===== verification/Nft_Inv.thy ===== *)
theory Nft_Inv
  imports Nft_Chain
begin

text \<open>
  The invariant of the NFT pallet that keeps its \<open>unwrap\<close>s and index accesses from panicking: listings
  have tokens, and every offer is in the sorted list of offers on its token.
\<close>

section \<open>Rules for calls\<close>

declare preserves_option_case [preserves_rules] preserves_list_case [preserves_rules] preserves_prod_case [preserves_rules]

lemma preserves_listing_case [preserves_rules]:
  "(\<And>x. v = FixedPrice x \<Longrightarrow> preserves P (f x)) \<Longrightarrow> (\<And>y. v = Auction y \<Longrightarrow> preserves P (g y)) \<Longrightarrow>
     preserves P (case v of FixedPrice x \<Rightarrow> f x | Auction y \<Rightarrow> g y)"
  by (cases v) auto

lemma preserves_offer_case [preserves_rules]:
  "(\<And>x. v = Simple x \<Longrightarrow> preserves P (f x)) \<Longrightarrow> preserves P (case v of Simple x \<Rightarrow> f x)"
  by (cases v) auto

lemma preserves_same_case [preserves_rules]:
  "(\<And>x. preserves P (f x)) \<Longrightarrow> (\<And>y. preserves P (g y)) \<Longrightarrow> preserves P (case v of Same x \<Rightarrow> f x | Other y \<Rightarrow> g y)"
  by (cases v) auto

lemma preserves_pay: "(\<And>s l. P s \<Longrightarrow> P (s\<lparr>NftLedger := l\<rparr>)) \<Longrightarrow> preserves P (pay m)"
  by (rule preservesI) (auto simp: pay_def split: prod.splits)

section \<open>The invariant\<close>

fun listing_tokens :: "listing \<Rightarrow> token_id list" where
  "listing_tokens (FixedPrice fp) = fp_tokens fp"
| "listing_tokens (Auction al) = al_tokens al"

definition listings_ok :: "(listing_id \<rightharpoonup> listing) \<Rightarrow> bool" where
  "listings_ok L \<longleftrightarrow> (\<forall>l x. L l = Some x \<longrightarrow> listing_tokens x \<noteq> [])"

definition offers_ok :: "(offer_id \<rightharpoonup> offer_type) \<Rightarrow> (token_id \<rightharpoonup> offer_id list) \<Rightarrow> offer_id \<Rightarrow> bool" where
  "offers_ok F K n \<longleftrightarrow>
     (\<forall>f so. F f = Some (Simple so) \<longrightarrow> f \<in> set (storage_get [] K (so_token_id so))) \<and>
     (\<forall>t. sorted_wrt (<) (storage_get [] K t) \<and> (\<forall>f \<in> set (storage_get [] K t). f < n))"

definition nft_inv :: "('l, 'h) nft_state \<Rightarrow> bool" where
  "nft_inv s \<longleftrightarrow> listings_ok (Listings s) \<and> offers_ok (Offers s) (TokenOffers s) (NextOfferId s)"

lemma listings_ok_upd: "listings_ok L \<Longrightarrow> listing_tokens x \<noteq> [] \<Longrightarrow> listings_ok (L(l \<mapsto> x))"
  by (simp add: listings_ok_def)

lemma listings_ok_del: "listings_ok L \<Longrightarrow> listings_ok (L(l := None))"
  by (simp add: listings_ok_def)

lemma offers_okI:
  assumes "\<And>f so. F f = Some (Simple so) \<Longrightarrow> f \<in> set (storage_get [] K (so_token_id so))"
    and "\<And>t. sorted_wrt (<) (storage_get [] K t)" and "\<And>t f. f \<in> set (storage_get [] K t) \<Longrightarrow> f < n"
  shows "offers_ok F K n"
  using assms unfolding offers_ok_def by blast

lemma offers_okD:
  assumes "offers_ok F K n"
  shows "F f = Some (Simple so) \<Longrightarrow> f \<in> set (storage_get [] K (so_token_id so))"
    and "sorted_wrt (<) (storage_get [] K t)" and "f \<in> set (storage_get [] K t) \<Longrightarrow> f < n"
  using assms unfolding offers_ok_def by blast+

lemma offers_ok_add:
  assumes "offers_ok F K n" and "checked_add n 1 \<noteq> None" and "so_token_id so = t"
  shows "offers_ok (F(n \<mapsto> Simple so)) (storage_mutate [] (\<lambda>fs. fs @ [n]) t K) (n + 1)"
proof -
  have less: "n < n + 1" using assms(2) checked_succ_less [of n] by auto
  then have less': "f < n + 1" if "f < n" for f using that by (rule less_trans [rotated])
  note ok = offers_okD [OF assms(1)]
  show ?thesis
  proof (rule offers_okI)
    show "sorted_wrt (<) (storage_get [] (storage_mutate [] (\<lambda>fs. fs @ [n]) t K) t')" for t'
      using ok(2,3) by (auto simp: sorted_wrt_append)
    show "f < n + 1" if "f \<in> set (storage_get [] (storage_mutate [] (\<lambda>fs. fs @ [n]) t K) t')" for t' f
      using that ok(3) [of f t] ok(3) [of f t'] less less' by (auto split: if_splits)
    show "f \<in> set (storage_get [] (storage_mutate [] (\<lambda>fs. fs @ [n]) t K) (so_token_id so'))"
      if "(F(n \<mapsto> Simple so)) f = Some (Simple so')" for f so'
      using that ok(1) [of f so'] assms(3) by (auto split: if_splits)
  qed
qed

lemma offers_ok_remove:
  assumes "offers_ok F K n" and "binary_search (storage_get [] K t) f = Found i"
  shows "offers_ok (F(f := None)) (K(t \<mapsto> remove_at i (storage_get [] K t))) n"
proof -
  let ?fs = "storage_get [] K t"
  note ok = offers_okD [OF assms(1)]
  have set: "set (remove_at i ?fs) = set ?fs - {f}"
    using binary_search_Found [OF assms(2)] set_remove_at [of i ?fs] ok(2) [of t] by (simp add: strict_sorted_iff)
  show ?thesis
  proof (rule offers_okI)
    show "sorted_wrt (<) (storage_get [] (K(t \<mapsto> remove_at i ?fs)) t')" for t'
      using ok(2) remove_at_sorted [OF ok(2)] by simp
    show "g < n" if "g \<in> set (storage_get [] (K(t \<mapsto> remove_at i ?fs)) t')" for t' g
      using that ok(3) [of g t] ok(3) [of g t'] set by (auto split: if_splits)
    show "g \<in> set (storage_get [] (K(t \<mapsto> remove_at i ?fs)) (so_token_id so))"
      if "(F(f := None)) g = Some (Simple so)" for g so
      using that ok(1) [of g so] set by (auto split: if_splits)
  qed
qed

lemma offers_ok_found:
  assumes "offers_ok F K n" and "F f = Some (Simple so)"
  obtains i where "binary_search (storage_get [] K (so_token_id so)) f = Found i"
  using offers_okD(1,2) [OF assms(1)] assms(2) binary_search_member by metis

subsection \<open>Helpers keep it\<close>

lemma nft_event_fields [simp]:
  "Listings (nft_deposit_event e s) = Listings s" "Offers (nft_deposit_event e s) = Offers s"
  "TokenOffers (nft_deposit_event e s) = TokenOffers s" "NextOfferId (nft_deposit_event e s) = NextOfferId s"
  "TokenOwner (nft_deposit_event e s) = TokenOwner s" "TokenLocks (nft_deposit_event e s) = TokenLocks s"
  "Subscriber (nft_deposit_event e s) = Subscriber s" "TokenBalance (nft_deposit_event e s) = TokenBalance s"
  by (simp_all add: nft_deposit_event_def)

lemma unlock_tokens_fields [simp]:
  "Listings (unlock_tokens ts s) = Listings s" "Offers (unlock_tokens ts s) = Offers s"
  "TokenOffers (unlock_tokens ts s) = TokenOffers s" "NextOfferId (unlock_tokens ts s) = NextOfferId s"
  "TokenOwner (unlock_tokens ts s) = TokenOwner s" "Subscriber (unlock_tokens ts s) = Subscriber s"
  "ListingWinningBid (unlock_tokens ts s) = ListingWinningBid s"
  by (induction ts arbitrary: s) (simp_all add: unlock_tokens_def)

lemma move_tokens_fields [simp]:
  "Listings (fold (move_token T c e who) ns s) = Listings s" "Offers (fold (move_token T c e who) ns s) = Offers s"
  "TokenOffers (fold (move_token T c e who) ns s) = TokenOffers s"
  "NextOfferId (fold (move_token T c e who) ns s) = NextOfferId s"
  "TokenBalance (fold (move_token T c e who) ns s) = TokenBalance s"
  "TokenLocks (fold (move_token T c e who) ns s) = TokenLocks s"
  by (induction ns arbitrary: s) (simp_all add: move_token_def)

lemma sub_token_balance_fields [simp]:
  "Listings (snd (sub_token_balance who k q s)) = Listings s" "Offers (snd (sub_token_balance who k q s)) = Offers s"
  "TokenOffers (snd (sub_token_balance who k q s)) = TokenOffers s"
  "NextOfferId (snd (sub_token_balance who k q s)) = NextOfferId s"
  "TokenOwner (snd (sub_token_balance who k q s)) = TokenOwner s"
  "TokenLocks (snd (sub_token_balance who k q s)) = TokenLocks s"
  "Subscriber (snd (sub_token_balance who k q s)) = Subscriber s"
  by (auto simp: sub_token_balance_def call_defs Let_def split: option.splits)

lemma add_token_balance_fields [simp]:
  "Listings (add_token_balance who k q s) = Listings s" "Offers (add_token_balance who k q s) = Offers s"
  "TokenOffers (add_token_balance who k q s) = TokenOffers s"
  "NextOfferId (add_token_balance who k q s) = NextOfferId s"
  "TokenOwner (add_token_balance who k q s) = TokenOwner s" "TokenLocks (add_token_balance who k q s) = TokenLocks s"
  "Subscriber (add_token_balance who k q s) = Subscriber s"
  by (simp_all add: add_token_balance_def)

lemma do_transfer_fields [simp]:
  "Listings (do_transfer_unchecked T c e ns a b s) = Listings s" "Offers (do_transfer_unchecked T c e ns a b s) = Offers s"
  "TokenOffers (do_transfer_unchecked T c e ns a b s) = TokenOffers s"
  "NextOfferId (do_transfer_unchecked T c e ns a b s) = NextOfferId s"
  "TokenLocks (do_transfer_unchecked T c e ns a b s) = TokenLocks s"
  by (simp_all add: do_transfer_unchecked_def Let_def)

lemma do_mint_fields [simp]:
  "Listings (do_mint who c e n q s) = Listings s" "Offers (do_mint who c e n q s) = Offers s"
  "TokenOffers (do_mint who c e n q s) = TokenOffers s" "NextOfferId (do_mint who c e n q s) = NextOfferId s"
  by (simp_all add: do_mint_def Let_def)

lemma remove_issuance_fields [simp]:
  "Listings (remove_issuance c e q s) = Listings s" "Offers (remove_issuance c e q s) = Offers s"
  "TokenOffers (remove_issuance c e q s) = TokenOffers s" "NextOfferId (remove_issuance c e q s) = NextOfferId s"
  "TokenOwner (remove_issuance c e q s) = TokenOwner s" "Subscriber (remove_issuance c e q s) = Subscriber s"
  by (simp_all add: remove_issuance_def)

lemma unreserve_funds_fields [simp]:
  "Listings (unreserve_funds T who a v s) = Listings s" "Offers (unreserve_funds T who a v s) = Offers s"
  "TokenOffers (unreserve_funds T who a v s) = TokenOffers s" "NextOfferId (unreserve_funds T who a v s) = NextOfferId s"
  "TokenOwner (unreserve_funds T who a v s) = TokenOwner s" "Subscriber (unreserve_funds T who a v s) = Subscriber s"
  by (simp_all add: unreserve_funds_def)

lemmas nft_inv_market = nft_inv_def listings_ok_upd listings_ok_del

lemma nft_inv_ledger: "nft_inv s \<Longrightarrow> nft_inv (s\<lparr>NftLedger := l\<rparr>)"
  by (simp add: nft_inv_def)

lemma nft_inv_simps [simp]:
  "nft_inv (nft_deposit_event e s) = nft_inv s" "nft_inv (unreserve_funds T who a v s) = nft_inv s"
  "nft_inv (s\<lparr>ListingWinningBid := x\<rparr>) = nft_inv s" "nft_inv (s\<lparr>OpenCollectionListings := y\<rparr>) = nft_inv s"
  "nft_inv (unlock_tokens ts s) = nft_inv s"
  by (simp_all add: nft_inv_def)

subsection \<open>Calls keep it\<close>

lemma ensure_collection_owner_inv: "preserves P (ensure_collection_owner c who)"
  unfolding ensure_collection_owner_def by (intro preserves_rules)

lemma collection_calls_inv:
  "preserves nft_inv (migrate_to_metadata_scheme orig c e scheme)"
  "preserves nft_inv (set_owner orig c who)"
  "preserves nft_inv (set_series_name orig c e name)"
  "preserves nft_inv (register_marketplace orig account entitlement)"
  "preserves nft_inv (create_collection orig name r)"
  unfolding migrate_to_metadata_scheme_def set_owner_def set_series_name_def register_marketplace_def
    create_collection_def name_valid_def signed_def Let_def
  by (intro preserves_rules ensure_collection_owner_inv; simp add: nft_inv_def)+

lemma mint_calls_inv:
  "preserves nft_inv (mint_series orig c q owner scheme r)"
  "preserves nft_inv (mint_additional orig c e q owner)"
  unfolding mint_series_def do_mint_series_def mint_additional_def signed_def Let_def
  by (intro preserves_rules ensure_collection_owner_inv; simp add: nft_inv_def)+

lemma transfer_calls_inv:
  "preserves nft_inv (transfer_batch T orig c e ns who)" "preserves nft_inv (nft_transfer T orig t who)"
  unfolding nft_transfer_def transfer_batch_def signed_def
  by (intro preserves_rules; simp add: nft_inv_def)+

lemma burn_tokens_inv: "preserves nft_inv (burn_tokens who c e ns)"
  by (induction ns) (simp_all, (intro preserves_rules; simp add: nft_inv_def)+)

lemma sub_token_balance_inv: "preserves nft_inv (sub_token_balance who k q)"
  by (simp add: preserves_def nft_inv_def)

lemma burn_calls_inv: "preserves nft_inv (burn_batch orig c e ns)" "preserves nft_inv (nft_burn orig t)"
  unfolding nft_burn_def burn_batch_def signed_def Let_def
  by (intro preserves_rules burn_tokens_inv sub_token_balance_inv; simp add: nft_inv_def)+

lemma lock_tokens_inv: "preserves nft_inv (lock_tokens who l ts)"
  by (induction ts) (simp_all, (intro preserves_rules; simp add: nft_inv_def)+)

lemma open_listing_inv:
  assumes "\<And>r b w. tokens \<noteq> [] \<Longrightarrow> listing_tokens (mk r b w) \<noteq> []"
  shows "preserves nft_inv (open_listing T now orig tokens d m mk event)"
  unfolding open_listing_def signed_def Let_def
  by (intro preserves_transactional preserves_bind [OF preserves_try_result] preserves_ensure_bind
      preserves_bind [OF preserves_gets] preserves_bind [OF lock_tokens_inv] preserves_bind [OF preserves_modify]
      preserves_modify) (auto simp: nft_inv_market assms)

lemma listing_calls_inv:
  "preserves nft_inv (sell_bundle T now orig ts buyer a price d m)"
  "preserves nft_inv (sell T now orig t buyer a price d m)"
  "preserves nft_inv (auction_bundle T now orig ts a price d m)"
  "preserves nft_inv (auction T now orig t a price d m)"
  unfolding sell_def sell_bundle_def auction_def auction_bundle_def
  by (intro preserves_transactional open_listing_inv; simp)+

text \<open>Payments change nothing but the ledger.\<close>

lemma payments_keep:
  assumes ledger: "\<And>s l. P s \<Longrightarrow> P (s\<lparr>NftLedger := l\<rparr>)"
  shows "preserves P (pay_royalties T a price es v i)" and "preserves P (pay_fixed_price T who fp)"
    and "preserves P (reserve_funds T who a v)" and "preserves P (repatriate_royalties T buyer a price es v)"
proof -
  show royalties: "preserves P (pay_royalties T a price es v i)" for a price es v i
    by (induction es arbitrary: v i) (auto simp: Let_def intro!: preserves_rules preserves_pay ledger)
  show "preserves P (pay_fixed_price T who fp)"
    unfolding pay_fixed_price_def by (intro preserves_rules preserves_pay ledger royalties) auto
  show "preserves P (reserve_funds T who a v)"
    unfolding reserve_funds_def by (intro preserves_rules preserves_pay ledger)
  show "preserves P (repatriate_royalties T buyer a price es v)"
    by (induction es arbitrary: v) (auto simp: Let_def intro!: preserves_rules preserves_pay ledger)
qed

lemmas payments_inv = payments_keep [of nft_inv, OF nft_inv_ledger]

lemma remove_fixed_price_listing_fields [simp]:
  "Listings (remove_fixed_price_listing l s) = (Listings s)(l := None)"
  "Offers (remove_fixed_price_listing l s) = Offers s" "TokenOffers (remove_fixed_price_listing l s) = TokenOffers s"
  "NextOfferId (remove_fixed_price_listing l s) = NextOfferId s"
  "TokenOwner (remove_fixed_price_listing l s) = TokenOwner s"
  "Subscriber (remove_fixed_price_listing l s) = Subscriber s"
  by (auto simp: remove_fixed_price_listing_def Let_def split: option.splits listing.splits)

lemma buy_inv: "preserves nft_inv (buy T orig l)"
  unfolding buy_def signed_def Let_def
  by (intro preserves_rules payments_inv; simp add: nft_inv_market)

text \<open>A listing that was read has tokens.\<close>

definition found_ok :: "listing option \<Rightarrow> bool" where
  "found_ok found \<longleftrightarrow> (\<forall>x. found = Some x \<longrightarrow> listing_tokens x \<noteq> [])"

lemma nft_inv_found: "nft_inv s \<Longrightarrow> found_ok (Listings s l)"
  by (simp add: nft_inv_def listings_ok_def found_ok_def)

lemma update_fixed_price_inv: "preserves nft_inv (update_fixed_price orig l price)"
  unfolding update_fixed_price_def signed_def
  by (intro preserves_bind [OF preserves_try_result] preserves_gets_bind [where Q = found_ok] nft_inv_found
      preserves_rules; simp add: nft_inv_market found_ok_def)

lemma replace_bid_fields [simp]:
  "Listings (replace_bid T l a who v s) = Listings s" "Offers (replace_bid T l a who v s) = Offers s"
  "TokenOffers (replace_bid T l a who v s) = TokenOffers s" "NextOfferId (replace_bid T l a who v s) = NextOfferId s"
  "TokenOwner (replace_bid T l a who v s) = TokenOwner s" "Subscriber (replace_bid T l a who v s) = Subscriber s"
  by (auto simp: replace_bid_def Let_def split: option.splits)

lemma extend_auction_fields [simp]:
  "Offers (extend_auction now l al s) = Offers s" "TokenOffers (extend_auction now l al s) = TokenOffers s"
  "NextOfferId (extend_auction now l al s) = NextOfferId s" "TokenOwner (extend_auction now l al s) = TokenOwner s"
  "Subscriber (extend_auction now l al s) = Subscriber s"
  by (simp_all add: extend_auction_def Let_def)

lemma extend_auction_inv: "nft_inv s \<Longrightarrow> al_tokens al \<noteq> [] \<Longrightarrow> nft_inv (extend_auction now l al s)"
  by (simp add: nft_inv_market extend_auction_def Let_def)

lemma bid_inv: "preserves nft_inv (bid T now orig l amount)"
  unfolding bid_def signed_def
  by (intro preserves_transactional preserves_bind [OF preserves_try_result]
      preserves_gets_bind [where Q = found_ok] nft_inv_found preserves_rules payments_inv;
      simp add: extend_auction_inv found_ok_def; simp add: nft_inv_def)

lemma close_listing_inv: "preserves nft_inv (close_listing l b ts event)"
  unfolding close_listing_def by (intro preserves_rules; simp add: nft_inv_market)

lemma cancel_sale_inv: "preserves nft_inv (cancel_sale orig l)"
  unfolding cancel_sale_def signed_def by (intro preserves_rules close_listing_inv)

lemma process_payment_inv: "preserves nft_inv (process_payment_and_transfer T b w a ts v r)"
  unfolding process_payment_and_transfer_def Let_def
  by (intro preserves_rules payments_inv preserves_pay nft_inv_ledger; simp add: nft_inv_def)

lemma settle_auction_inv: "nft_inv s \<Longrightarrow> nft_inv (settle_auction T l c al s)"
proof -
  assume inv: "nft_inv s"
  have "nft_inv s1" if "process_payment_and_transfer T b w a ts v r (s\<lparr>ListingWinningBid := x\<rparr>) = (res, s1)"
    for b w a ts v r x res s1
    by (rule preservesD [OF process_payment_inv _ that]) (simp add: inv)
  then show ?thesis
    using inv unfolding settle_auction_def
    by (auto split: option.splits prod.splits sum.splits)
qed

lemma expire_listing_inv: "nft_inv s \<Longrightarrow> \<exists>s'. expire_listing T now l s = Some s' \<and> nft_inv s'"
proof -
  assume inv: "nft_inv s"
  let ?s1 = "s\<lparr>ListingEndSchedule := (ListingEndSchedule s)((now, l) := None), Listings := (Listings s)(l := None)\<rparr>"
  have inv1: "nft_inv ?s1" using inv by (simp add: nft_inv_market)
  have release: "\<exists>s'. release_listing l ts finish ?s1 = Some s' \<and> nft_inv s'"
    if "ts \<noteq> []" and "\<And>c s. nft_inv s \<Longrightarrow> nft_inv (finish c s)" for ts finish
    using that inv1 by (cases ts) (auto simp: release_listing_def Let_def)
  have "\<exists>s'. (case Listings s l of
      Some (FixedPrice fp) \<Rightarrow> release_listing l (fp_tokens fp) (\<lambda>c. nft_deposit_event (FixedPriceSaleClosed c l)) ?s1
    | Some (Auction al) \<Rightarrow> release_listing l (al_tokens al) (\<lambda>c. settle_auction T l c al) ?s1
    | None \<Rightarrow> Some ?s1) = Some s' \<and> nft_inv s'"
    using nft_inv_found [OF inv, of l] inv1
    by (auto simp: found_ok_def intro!: release settle_auction_inv split: option.splits listing.splits)
  then show ?thesis by (simp add: expire_listing_def Let_def)
qed

lemma close_listings_at_inv: "nft_inv s \<Longrightarrow> \<exists>n s'. close_listings_at T now s = Some (n, s') \<and> nft_inv s'"
proof -
  have "nft_inv s \<Longrightarrow> \<exists>s'. expire_listings T now ls s = Some s' \<and> nft_inv s'" for ls
  proof (induction ls arbitrary: s)
    case (Cons l ls)
    obtain s1 where "expire_listing T now l s = Some s1" "nft_inv s1"
      using expire_listing_inv [OF Cons.prems] by blast
    then show ?case using Cons.IH by simp
  qed simp
  then show "nft_inv s \<Longrightarrow> \<exists>n s'. close_listings_at T now s = Some (n, s') \<and> nft_inv s'"
    by (auto simp: close_listings_at_def Let_def dest!: meta_spec)
qed

text \<open>Making and removing an offer write two maps at once.\<close>

lemma make_simple_offer_inv: "preserves nft_inv (make_simple_offer T orig t amount a m)"
proof (rule preservesI)
  fix s r s' assume inv: "nft_inv s" and run: "make_simple_offer T orig t amount a m s = (r, s')"
  show "nft_inv s'"
  proof (cases r)
    case (Inl e)
    then show ?thesis using run inv by (auto simp: make_simple_offer_def call_eqs)
  next
    case (Inr u)
    then obtain s1 who where res: "reserve_funds T who a amount s = (Inr (), s1)"
      and free: "checked_add (NextOfferId s) 1 \<noteq> None"
      and s': "s' = nft_deposit_event (OfferMade (NextOfferId s) amount a m who)
        (s1\<lparr>TokenOffers := storage_mutate [] (\<lambda>os. os @ [NextOfferId s]) t (TokenOffers s1),
            Offers := (Offers s1)(NextOfferId s \<mapsto> Simple \<lparr>so_token_id = t, so_asset_id = a, so_amount = amount,
              so_buyer = who, so_marketplace = m\<rparr>), NextOfferId := NextOfferId s1 + 1\<rparr>)"
      using run unfolding make_simple_offer_def transactional_Inr_iff bind_Inr_iff signed_iff gets_iff
      by (auto simp: call_eqs split: if_splits)
    have "nft_inv s1" using payments_inv(3) inv res by (rule preservesD)
    moreover have "NextOfferId s1 = NextOfferId s"
      using res by (auto simp: reserve_funds_def pay_def call_eqs split: option.splits prod.splits if_splits)
    ultimately show ?thesis
      using offers_ok_add [OF _ free] by (simp add: s' nft_inv_def)
  qed
qed

lemma remove_offer_ok:
  assumes "nft_inv s" and "Offers s f = Some (Simple so)"
  obtains s' where "remove_offer f (so_token_id so) s = (Inr (), s')" and "nft_inv s'"
proof -
  have ok: "offers_ok (Offers s) (TokenOffers s) (NextOfferId s)" using assms(1) by (simp add: nft_inv_def)
  obtain i where i: "binary_search (storage_get [] (TokenOffers s) (so_token_id so)) f = Found i"
    using offers_ok_found [OF ok assms(2)] .
  let ?s' = "s\<lparr>Offers := (Offers s)(f := None), TokenOffers :=
    (TokenOffers s)(so_token_id so \<mapsto> remove_at i (storage_get [] (TokenOffers s) (so_token_id so)))\<rparr>"
  have "remove_offer f (so_token_id so) s = (Inr (), ?s')"
    using i by (simp add: remove_offer_def call_defs token_offers_def)
  moreover have "nft_inv ?s'" using assms(1) offers_ok_remove [OF ok i] by (simp add: nft_inv_def)
  ultimately show thesis by (rule that)
qed

lemma cancel_offer_cases:
  assumes "nft_inv s" and "cancel_offer T orig f s = (r, s')"
  shows "nft_inv s'" and "r \<noteq> Inl Panic"
proof -
  have "nft_inv s' \<and> r \<noteq> Inl Panic"
  proof (cases "\<exists>so. Offers s f = Some (Simple so) \<and> orig = Signed (so_buyer so)")
    case True
    then obtain so where so: "Offers s f = Some (Simple so)" "orig = Signed (so_buyer so)" by blast
    let ?s1 = "unreserve_funds T (so_buyer so) (so_asset_id so) (so_amount so) s"
    obtain s2 where "remove_offer f (so_token_id so) ?s1 = (Inr (), s2)" "nft_inv s2"
      using remove_offer_ok [of ?s1 f so] assms(1) so by auto
    then show ?thesis
      using assms(2) so by (auto simp: cancel_offer_def call_defs ensure_signed_def)
  next
    case False
    show ?thesis
    proof (cases "Offers s f")
      case None
      then show ?thesis
        using assms by (cases orig) (auto simp: cancel_offer_def call_defs ensure_signed_def nft_err_def)
    next
      case (Some y)
      then obtain so where "Offers s f = Some (Simple so)" by (cases y) auto
      then show ?thesis
        using assms False
        by (cases orig) (auto simp: cancel_offer_def call_defs ensure_signed_def nft_err_def split: if_splits)
    qed
  qed
  then show "nft_inv s'" and "r \<noteq> Inl Panic" by auto
qed

lemma remove_offer_inv: "preserves nft_inv (remove_offer f t)"
proof (rule preservesI)
  fix s r s' assume inv: "nft_inv s" and run: "remove_offer f t s = (r, s')"
  have ok: "offers_ok (Offers s) (TokenOffers s) (NextOfferId s)" using inv by (simp add: nft_inv_def)
  then have gone: "offers_ok ((Offers s)(f := None)) (TokenOffers s) (NextOfferId s)"
    unfolding offers_ok_def by (metis fun_upd_apply option.distinct(1))
  show "nft_inv s'"
    using run inv gone offers_ok_remove [OF ok, of t f]
    by (auto simp: remove_offer_def call_defs token_offers_def nft_inv_def split: search_result.splits)
qed

lemma accept_offer_inv: "preserves nft_inv (accept_offer T orig f)"
  unfolding accept_offer_def signed_def
  by (intro preserves_rules process_payment_inv remove_offer_inv) simp

lemma update_token_balance_inv: "preserves nft_inv (update_token_balance orig c e)"
  unfolding update_token_balance_def signed_def by (intro preserves_rules; simp add: nft_inv_def)

section \<open>Reachable states\<close>

lemma cancel_offer_inv: "preserves nft_inv (cancel_offer T orig f)"
  by (rule preservesI) (rule cancel_offer_cases(1))

lemmas nft_calls_inv = collection_calls_inv mint_calls_inv transfer_calls_inv burn_calls_inv listing_calls_inv
  buy_inv bid_inv cancel_sale_inv update_fixed_price_inv make_simple_offer_inv cancel_offer_inv accept_offer_inv
  update_token_balance_inv

lemma nft_dispatch_inv: "preserves nft_inv (nft_dispatch T now orig c)"
  by (cases c) (simp_all add: nft_calls_inv)

lemma nft_reachable_inv: "nft_reachable T s \<Longrightarrow> nft_inv s"
proof (induction rule: nft_reachable.induct)
  case (Genesis l h)
  then show ?case by (simp add: nft_inv_def nft_genesis_def listings_ok_def offers_ok_def)
next
  case (Call s now orig c r s')
  then show ?case using preservesD [OF nft_dispatch_inv] by blast
next
  case (Block s now n s')
  then show ?case using close_listings_at_inv [OF Block.IH, of T now] by auto
next
  case (Elsewhere s l h)
  then show ?case by (simp add: nft_inv_def)
qed

text \<open>The calls that only the invariant keeps from panicking.\<close>

lemma close_listing_result: "ts \<noteq> [] \<Longrightarrow> \<exists>s'. close_listing l b ts event s = (Inr (), s')"
  by (cases ts) (simp_all add: close_listing_def call_defs)

lemma cancel_sale_no_panic:
  assumes "nft_inv s"
  shows "fst (cancel_sale orig l s) \<noteq> Inl Panic"
proof (cases "Listings s l")
  case None
  then show ?thesis by (cases orig) (simp_all add: cancel_sale_def call_defs ensure_signed_def)
next
  case (Some x)
  then have "listing_tokens x \<noteq> []" using nft_inv_found [OF assms, of l] by (simp add: found_ok_def)
  then show ?thesis
  proof (cases x)
    case (FixedPrice fp)
    obtain s' where "close_listing l (fp_close fp) (fp_tokens fp) (\<lambda>c. FixedPriceSaleClosed c l) s = (Inr (), s')"
      using close_listing_result \<open>listing_tokens x \<noteq> []\<close> FixedPrice by fastforce
    then show ?thesis
      using Some FixedPrice by (cases orig) (simp_all add: cancel_sale_def call_defs ensure_signed_def nft_err_def)
  next
    case (Auction al)
    obtain s' where "close_listing l (al_close al) (al_tokens al) (\<lambda>c. AuctionClosed c l VendorCancelled) s = (Inr (), s')"
      using close_listing_result \<open>listing_tokens x \<noteq> []\<close> Auction by fastforce
    then show ?thesis
      using Some Auction by (cases orig) (simp_all add: cancel_sale_def call_defs ensure_signed_def nft_err_def)
  qed
qed

lemma update_fixed_price_no_panic:
  assumes "nft_inv s"
  shows "fst (update_fixed_price orig l price s) \<noteq> Inl Panic"
proof (cases "\<exists>fp. Listings s l = Some (FixedPrice fp)")
  case True
  then obtain fp where fp: "Listings s l = Some (FixedPrice fp)" by blast
  then obtain t ts where "fp_tokens fp = t # ts"
    using nft_inv_found [OF assms, of l] by (cases "fp_tokens fp") (auto simp: found_ok_def)
  with fp show ?thesis
    by (cases orig) (simp_all add: update_fixed_price_def call_defs ensure_signed_def nft_err_def)
next
  case False
  then consider "Listings s l = None" | al where "Listings s l = Some (Auction al)"
    by (metis listing.exhaust option.exhaust)
  then show ?thesis
    by cases (cases orig; simp add: update_fixed_price_def call_defs ensure_signed_def nft_err_def)+
qed

end
