(* ===== verification/Evm_Address.thy ===== *)
theory Evm_Address
  imports Bytes Utf8
begin

unbundle bit_operations_syntax

text \<open>
  Helpers of \<open>crml/support/src/lib.rs\<close> for the EVM: amounts in wei brought to four decimal places, and
  the mapping between Ethereum addresses and accounts. An account is the number whose 32 bytes, most
  significant first, are those of the \<open>AccountId32\<close>; an \<open>H160\<close> likewise with 20 bytes.
\<close>

type_synonym h160 = "160 word"

section \<open>Definitions\<close>

definition CPAY_UNIT_VALUE :: u128 where "CPAY_UNIT_VALUE = 10 ^ 14"

definition scale_wei_to_4dp :: "u128 \<Rightarrow> u128" where
  "scale_wei_to_4dp v =
     (let quotient = v div CPAY_UNIT_VALUE; remainder = v mod CPAY_UNIT_VALUE
      in if remainder = 0 then quotient else quotient + 1)"

text \<open>\<open>b"cvm:"\<close> and seven zero bytes.\<close>

definition cvm_prefix :: bytes where
  "cvm_prefix = ascii ''cvm:'' @ replicate 7 0"

definition into_account_id :: "h160 \<Rightarrow> account_id" where
  "into_account_id address =
     (let raw = cvm_prefix @ to_be_bytes 20 address;
          checksum = fold (\<lambda>byte sum. sum XOR byte) (tl raw) (hd raw)
      in from_be_bytes (raw @ [checksum]))"

definition from_account_id :: "account_id \<Rightarrow> h160" where
  "from_account_id address =
     (let raw_account = to_be_bytes 32 address
      in if take 11 raw_account = cvm_prefix then from_be_bytes (take 20 (drop 11 raw_account))
         else if raw_account = replicate 32 0 then 0
         else from_be_bytes (ascii ''crt:'' @ replicate 16 0))"

section \<open>Facts\<close>

lemma length_cvm_prefix [simp]: "length cvm_prefix = 11"
  by (simp add: cvm_prefix_def ascii_def)

lemma into_account_id_bytes:
  "\<exists>checksum. to_be_bytes 32 (into_account_id a) = cvm_prefix @ to_be_bytes 20 a @ [checksum]"
proof -
  obtain checksum where "into_account_id a = from_be_bytes ((cvm_prefix @ to_be_bytes 20 a) @ [checksum])"
    by (simp add: into_account_id_def Let_def)
  then show ?thesis by (auto simp: to_be_bytes_from_be_bytes)
qed

lemma from_into_account_id: "from_account_id (into_account_id a) = a"
proof -
  obtain checksum where raw: "to_be_bytes 32 (into_account_id a) = cvm_prefix @ to_be_bytes 20 a @ [checksum]"
    using into_account_id_bytes by blast
  show ?thesis by (simp add: from_account_id_def raw from_be_bytes_to_be_bytes)
qed

lemma ceil_div:
  fixes d n :: nat
  assumes "0 < d"
  shows "(n + (d - 1)) div d = n div d + (if n mod d = 0 then 0 else 1)"
proof (cases "n mod d = 0")
  case True
  then have "n + (d - 1) = n div d * d + (d - 1)" using div_mult_mod_eq [of n d] by linarith
  then have "(n + (d - 1)) div d = n div d + (d - 1) div d" using assms by (metis div_mult_self3 not_gr_zero)
  then show ?thesis using True assms by simp
next
  case False
  moreover have "(n div d + 1) * d = n div d * d + d" by simp
  ultimately have "n + (d - 1) = (n div d + 1) * d + (n mod d - 1)"
    using div_mult_mod_eq [of n d] assms by linarith
  then have "(n + (d - 1)) div d = n div d + 1 + (n mod d - 1) div d"
    using assms by (metis div_mult_self3 not_gr_zero)
  moreover have "(n mod d - 1) div d = 0" using mod_less_divisor [OF assms, of n] by simp
  ultimately show ?thesis using False by simp
qed

lemma unat_scale_wei: "unat (scale_wei_to_4dp v) = (unat v + (10 ^ 14 - 1)) div 10 ^ 14"
proof -
  have unit: "unat CPAY_UNIT_VALUE = 10 ^ 14" by (simp add: CPAY_UNIT_VALUE_def)
  have q: "unat (v div CPAY_UNIT_VALUE) = unat v div 10 ^ 14"
    and r: "unat (v mod CPAY_UNIT_VALUE) = unat v mod 10 ^ 14"
    by (simp_all only: unat_div unat_mod unit)
  have r0: "v mod CPAY_UNIT_VALUE = 0 \<longleftrightarrow> unat v mod 10 ^ 14 = 0"
    unfolding r [symmetric] by (rule unat_eq_zero [symmetric])
  have "unat v div 10 ^ 14 \<le> (2 ^ 128 - 1) div 10 ^ 14"
    using unat_less_pow [of v] by (intro div_le_mono) simp
  then have "unat v div 10 ^ 14 + 1 < 2 ^ LENGTH(128)" by simp
  then have q1: "unat (v div CPAY_UNIT_VALUE + 1) = unat v div 10 ^ 14 + 1"
    using unat_add_fits [of "v div CPAY_UNIT_VALUE" 1] by (simp only: q unat_1)
  have "unat (scale_wei_to_4dp v) = unat v div 10 ^ 14 + (if unat v mod 10 ^ 14 = 0 then 0 else 1)"
    unfolding scale_wei_to_4dp_def Let_def r0 using q q1 by simp
  then show ?thesis using ceil_div [of "10 ^ 14" "unat v"] by simp
qed

end
