(* ===== verification/Token_Approvals.thy ===== *)
theory Token_Approvals
  imports Nft_Types Evm_Address
begin

text \<open>
  The token-approvals pallet (\<open>crml/token-approvals/src/lib.rs\<close>): ERC-721 and ERC-20 approvals by
  Ethereum address. Ownership of a token (\<open>IsTokenOwner\<close>) is asked of the caller of the model.
\<close>

record approvals_state =
  ERC721Approvals :: "token_id \<rightharpoonup> h160"
  ERC721ApprovalsForAll :: "h160 \<times> (collection_id \<times> series_id) \<rightharpoonup> h160 list"
  ERC20Approvals :: "(h160 \<times> asset_id) \<times> h160 \<rightharpoonup> balance"

definition approvals_genesis :: approvals_state where
  "approvals_genesis =
     \<lparr>ERC721Approvals = Map.empty, ERC721ApprovalsForAll = Map.empty, ERC20Approvals = Map.empty\<rparr>"

definition ensure_none :: "origin \<Rightarrow> ('s, unit) dispatch" where
  [call_defs]: "ensure_none orig = ensure (orig = Unsigned) BadOrigin"

lemma ensure_none_iff [call_eqs]: "ensure_none orig s = (Inr u, s') \<longleftrightarrow> orig = Unsigned \<and> s' = s"
  by (cases orig) (auto simp: ensure_none_def call_defs)

definition erc721_approval ::
  "(account_id \<Rightarrow> token_id \<Rightarrow> bool) \<Rightarrow> origin \<Rightarrow> h160 \<Rightarrow> h160 \<Rightarrow> token_id \<Rightarrow> (approvals_state, unit) dispatch" where
  "erc721_approval is_owner orig caller operator_account t =
     bind (ensure_none orig) (\<lambda>_.
     bind (ensure (caller \<noteq> operator_account) (TokenApprovals_Error CallerNotOperator)) (\<lambda>_.
     bind (ensure (is_owner (into_account_id caller) t) (TokenApprovals_Error NotTokenOwner)) (\<lambda>_.
     modify (\<lambda>s. s\<lparr>ERC721Approvals := (ERC721Approvals s)(t \<mapsto> operator_account)\<rparr>))))"

definition erc20_approval ::
  "origin \<Rightarrow> h160 \<Rightarrow> h160 \<Rightarrow> asset_id \<Rightarrow> balance \<Rightarrow> (approvals_state, unit) dispatch" where
  "erc20_approval orig caller spender asset amount =
     bind (ensure_none orig) (\<lambda>_.
     bind (ensure (caller \<noteq> spender) (TokenApprovals_Error CallerNotOperator)) (\<lambda>_.
     modify (\<lambda>s. s\<lparr>ERC20Approvals := (ERC20Approvals s)(((caller, asset), spender) \<mapsto> amount)\<rparr>)))"

definition erc20_remove_approval ::
  "origin \<Rightarrow> h160 \<Rightarrow> h160 \<Rightarrow> asset_id \<Rightarrow> (approvals_state, unit) dispatch" where
  "erc20_remove_approval orig caller spender asset =
     bind (ensure_none orig) (\<lambda>_.
     modify (\<lambda>s. s\<lparr>ERC20Approvals := (ERC20Approvals s)(((caller, asset), spender) := None)\<rparr>))"

definition remove_erc721_approval :: "token_id \<Rightarrow> approvals_state \<Rightarrow> approvals_state" where
  "remove_erc721_approval t s = s\<lparr>ERC721Approvals := (ERC721Approvals s)(t := None)\<rparr>"

text \<open>\<open>OnTransferSubscriber\<close>: a transfer of the token ends its approval.\<close>

definition approvals_on_nft_transfer :: "token_id \<Rightarrow> approvals_state \<Rightarrow> approvals_state" where
  "approvals_on_nft_transfer t s = remove_erc721_approval t s"

end
