(* ===== verification/Nft_Own.thy ===== *)
theory Nft_Own
  imports Nft_Inv Token_Approvals
begin

text \<open>
  Who owns which token after a call of the NFT pallet, how many tokens an account is said to have, and
  what becomes of approvals when tokens move.
\<close>

section \<open>Moving tokens\<close>

definition reassigned ::
  "collection_id \<Rightarrow> series_id \<Rightarrow> serial_number set \<Rightarrow> account_id \<Rightarrow>
    ((collection_id \<times> series_id) \<times> serial_number \<rightharpoonup> account_id) \<Rightarrow>
    ((collection_id \<times> series_id) \<times> serial_number \<rightharpoonup> account_id)" where
  "reassigned c e N b owner = (\<lambda>k. if fst k = (c, e) \<and> snd k \<in> N then Some b else owner k)"

lemma TokenOwner_moved [simp]:
  "TokenOwner (do_transfer_unchecked T c e ns a b s) = reassigned c e (set ns) b (TokenOwner s)"
proof -
  have "TokenOwner (fold (move_token T c e b) ns s) = reassigned c e (set ns) b (TokenOwner s)"
    by (induction ns arbitrary: s) (auto simp: move_token_def fun_eq_iff reassigned_def)
  then show ?thesis by (simp add: do_transfer_unchecked_def Let_def)
qed

abbreviation serial_of :: "token_id \<Rightarrow> serial_number" where
  "serial_of t \<equiv> (case t of (_, _, n) \<Rightarrow> n)"

lemma Subscriber_moved:
  "Subscriber (do_transfer_unchecked T c e ns a b s) = fold (\<lambda>n. on_nft_transfer T (c, e, n)) ns (Subscriber s)"
proof -
  have "Subscriber (fold (move_token T c e b) ns s) = fold (\<lambda>n. on_nft_transfer T (c, e, n)) ns (Subscriber s)"
    by (induction ns arbitrary: s) (auto simp: move_token_def)
  then show ?thesis by (simp add: do_transfer_unchecked_def Let_def)
qed

lemma buy_Inr:
  assumes run: "buy T (Signed who) l s = (Inr (), s')" and fp: "Listings s l = Some (FixedPrice fp)"
    and tokens: "fp_tokens fp = (c, e, n) # ts"
  shows "TokenOwner s' = reassigned c e (serial_of ` set (fp_tokens fp)) who (TokenOwner s)"
proof -
  obtain s1 where "pay_fixed_price T who fp s = (Inr (), s1)"
    and s': "TokenOwner s' = reassigned c e (serial_of ` set (fp_tokens fp)) who (TokenOwner s1)"
    using run unfolding buy_def transactional_Inr_iff bind_Inr_iff signed_iff gets_iff
    by (auto simp: fp tokens call_eqs ensure_signed_def Let_def split: option.splits if_splits)
  have keep: "preserves (\<lambda>t. TokenOwner t = TokenOwner s) (pay_fixed_price T who fp)"
    by (rule payments_keep) simp
  have "TokenOwner s1 = TokenOwner s"
    by (rule preservesD [OF keep refl \<open>pay_fixed_price T who fp s = (Inr (), s1)\<close>])
  then show ?thesis using s' by simp
qed

lemma process_payment_Inr:
  assumes "process_payment_and_transfer T buyer seller a ((c, e, n) # ts) v r s = (Inr (), s')"
  shows "TokenOwner s' = reassigned c e (serial_of ` set ((c, e, n) # ts)) buyer (TokenOwner s)"
    and "Listings s' = Listings s" and "TokenLocks s' = TokenLocks s"
proof -
  let ?P = "\<lambda>t. TokenOwner t = TokenOwner s \<and> Listings t = Listings s \<and> TokenLocks t = TokenLocks s"
  let ?m = "bind (if permill_mul T (calculate_total_entitlement r) v \<noteq> 0
      then repatriate_royalties T buyer a v (entitlements r) v else ret v) (\<lambda>for_seller.
    bind (gets (\<lambda>s. mc_free_balance (nft_currency T) seller a (NftLedger s))) (\<lambda>seller_balance.
    bind (pay (mc_repatriate_reserved (nft_currency T) buyer a seller for_seller)) (\<lambda>_.
    bind (gets (\<lambda>s. mc_free_balance (nft_currency T) seller a (NftLedger s))) (\<lambda>new_balance.
    ensure (saturating_add seller_balance for_seller \<le> new_balance) (nft_err InternalPayment)))))"
  have keep: "preserves ?P ?m"
    by (intro preserves_rules payments_keep preserves_pay) auto
  obtain s1 where "?m s = (Inr (), s1)"
    and s': "s' = do_transfer_unchecked T c e (map serial_of ((c, e, n) # ts)) seller buyer s1"
    using assms unfolding process_payment_and_transfer_def Let_def transactional_Inr_iff bind_Inr_iff
    by (auto simp: modify_iff)
  then have "?P s1" using preservesD [OF keep] by blast
  then show "TokenOwner s' = reassigned c e (serial_of ` set ((c, e, n) # ts)) buyer (TokenOwner s)"
    "Listings s' = Listings s" "TokenLocks s' = TokenLocks s"
    by (simp_all add: s')
qed

lemma remove_offer_frame:
  "remove_offer f t s = (r, s') \<Longrightarrow> TokenOwner s' = TokenOwner s \<and> Listings s' = Listings s \<and> TokenLocks s' = TokenLocks s"
  by (cases "binary_search (token_offers t s) f")
    (auto simp: remove_offer_def call_defs token_offers_def)

lemma accept_offer_Inr:
  assumes "accept_offer T (Signed who) f s = (Inr (), s')" and "Offers s f = Some (Simple so)"
    and "so_token_id so = (c, e, n)"
  shows "token_owner (c, e) n s = who" and "TokenOwner s' = reassigned c e {n} (so_buyer so) (TokenOwner s)"
    and "Listings s' = Listings s" and "TokenLocks s' = TokenLocks s"
proof -
  obtain r s1 s2 where owner: "check_ownership who (c, e, n) s"
    and pay: "process_payment_and_transfer T (so_buyer so) who (so_asset_id so) [(c, e, n)] (so_amount so) r s = (Inr (), s1)"
    and remove: "remove_offer f (c, e, n) s1 = (Inr (), s2)" and s': "s' = nft_deposit_event (OfferAccepted f) s2"
    using assms unfolding accept_offer_def transactional_Inr_iff bind_Inr_iff signed_iff gets_iff
    by (auto simp: call_eqs ensure_signed_def split: if_splits)
  show "token_owner (c, e) n s = who" using owner by (simp add: check_ownership_def)
  show "TokenOwner s' = reassigned c e {n} (so_buyer so) (TokenOwner s)" "Listings s' = Listings s"
    "TokenLocks s' = TokenLocks s"
    using process_payment_Inr [OF pay] remove_offer_frame [OF remove] by (simp_all add: s')
qed

section \<open>Counting tokens\<close>

definition owned :: "collection_id \<times> series_id \<Rightarrow> account_id \<Rightarrow> ('l, 'h) nft_state \<Rightarrow> nat" where
  "owned k who s = card {n. TokenOwner s (k, n) = Some who}"

definition recorded :: "collection_id \<times> series_id \<Rightarrow> account_id \<Rightarrow> ('l, 'h) nft_state \<Rightarrow> nat" where
  "recorded k who s = unat (storage_get 0 (token_balance who s) k)"

lemma token_balance_add:
  "token_balance w (add_token_balance who k q s) =
     (if w = who then (token_balance w s)(k \<mapsto> storage_get 0 (token_balance w s) k + q) else token_balance w s)"
  by (simp add: token_balance_def add_token_balance_def)

lemma token_balance_sub:
  "w \<noteq> who \<Longrightarrow> token_balance w (snd (sub_token_balance who k q s)) = token_balance w s"
  by (auto simp: token_balance_def sub_token_balance_def call_defs Let_def split: option.splits)

lemma recorded_received:
  assumes "a \<noteq> b" and "recorded (c, e) b s + length ns < 2 ^ 32"
  shows "recorded (c, e) b (do_transfer_unchecked T c e ns a b s) = recorded (c, e) b s + length ns"
proof -
  let ?m = "fold (move_token T c e b) ns s"
  have "token_balance b ?m = token_balance b s" by (simp add: token_balance_def)
  moreover have "unat (word_of_nat (length ns) :: token_count) = length ns"
    using assms(2) by (intro unat_word_of_nat_less) simp
  ultimately show ?thesis
    using assms by (simp add: recorded_def do_transfer_unchecked_def Let_def token_balance_add token_balance_sub
        unat_add_fits)
qed

lemma owned_received:
  assumes "\<And>n. n \<in> set ns \<Longrightarrow> TokenOwner s ((c, e), n) \<noteq> Some b"
  shows "owned (c, e) b (do_transfer_unchecked T c e ns a b s) = owned (c, e) b s + card (set ns)"
proof -
  have "{n. TokenOwner (do_transfer_unchecked T c e ns a b s) ((c, e), n) = Some b} =
      {n. TokenOwner s ((c, e), n) = Some b} \<union> set ns" (is "?L = ?A \<union> ?B")
    by (auto simp: reassigned_def)
  moreover have "?A \<inter> ?B = {}" using assms by auto
  ultimately show ?thesis by (simp add: owned_def card_Un_disjoint)
qed

lemma ensure_movable_owner: "ensure_movable who c e ns s = Inr u \<Longrightarrow> n \<in> set ns \<Longrightarrow> token_owner (c, e) n s = who"
  by (induction ns) (auto simp: call_eqs)

lemma transfer_batch_Inr:
  assumes "transfer_batch T (Signed who) c e ns b s = (Inr (), s')"
  shows "ensure_movable who c e ns s = Inr ()"
    and "s' = nft_deposit_event (TokensTransfer who c e ns b) (do_transfer_unchecked T c e ns who b s)"
  using assms unfolding transfer_batch_def transactional_Inr_iff bind_Inr_iff signed_iff
  by (auto simp: call_eqs ensure_signed_def)

section \<open>Approvals\<close>

text \<open>
  \<open>approvals_kept s0 s\<close>: whoever is still approved for a token was approved in \<open>s0\<close>, and the token has the
  owner it had then, or none.
\<close>

definition approvals_kept :: "('l, approvals_state) nft_state \<Rightarrow> ('l, approvals_state) nft_state \<Rightarrow> bool" where
  "approvals_kept s0 s \<longleftrightarrow> (\<forall>c e n operator.
     ERC721Approvals (Subscriber s) (c, e, n) = Some operator \<longrightarrow>
     ERC721Approvals (Subscriber s0) (c, e, n) = Some operator \<and>
     (TokenOwner s ((c, e), n) = TokenOwner s0 ((c, e), n) \<or> TokenOwner s ((c, e), n) = None))"

lemma approvals_removed:
  "ERC721Approvals (fold (\<lambda>n. approvals_on_nft_transfer (c, e, n)) ns h) (c', e', n') =
     (if (c', e') = (c, e) \<and> n' \<in> set ns then None else ERC721Approvals h (c', e', n'))"
  by (induction ns arbitrary: h) (auto simp: approvals_on_nft_transfer_def remove_erc721_approval_def)

lemma keptD:
  assumes "approvals_kept s0 s" and "ERC721Approvals (Subscriber s) (c, e, n) = Some operator"
  shows "ERC721Approvals (Subscriber s0) (c, e, n) = Some operator"
    and "TokenOwner s ((c, e), n) = TokenOwner s0 ((c, e), n) \<or> TokenOwner s ((c, e), n) = None"
  using assms(1) [unfolded approvals_kept_def, rule_format, OF assms(2)] by simp_all

lemma kept_moved:
  assumes "on_nft_transfer T = approvals_on_nft_transfer" and "approvals_kept s0 s"
  shows "approvals_kept s0 (do_transfer_unchecked T c e ns a b s)"
  unfolding approvals_kept_def Subscriber_moved assms(1) approvals_removed TokenOwner_moved reassigned_def
proof (intro allI impI)
  fix c' e' n' operator
  assume "(if (c', e') = (c, e) \<and> n' \<in> set ns then None else ERC721Approvals (Subscriber s) (c', e', n')) = Some operator"
  then have "\<not> ((c', e') = (c, e) \<and> n' \<in> set ns)" and "ERC721Approvals (Subscriber s) (c', e', n') = Some operator"
    by (auto split: if_splits)
  then show "ERC721Approvals (Subscriber s0) (c', e', n') = Some operator \<and>
    ((if fst ((c', e'), n') = (c, e) \<and> snd ((c', e'), n') \<in> set ns then Some b else TokenOwner s ((c', e'), n')) =
      TokenOwner s0 ((c', e'), n') \<or>
     (if fst ((c', e'), n') = (c, e) \<and> snd ((c', e'), n') \<in> set ns then Some b else TokenOwner s ((c', e'), n')) = None)"
    using keptD [OF assms(2)] by auto
qed

lemma kept_burned:
  assumes "approvals_kept s0 s"
  shows "approvals_kept s0 (s\<lparr>TokenOwner := (TokenOwner s)(k := None)\<rparr>)"
  unfolding approvals_kept_def
proof (intro allI impI)
  fix c e n operator
  assume "ERC721Approvals (Subscriber (s\<lparr>TokenOwner := (TokenOwner s)(k := None)\<rparr>)) (c, e, n) = Some operator"
  then have "ERC721Approvals (Subscriber s) (c, e, n) = Some operator" by simp
  from keptD [OF assms this] show "ERC721Approvals (Subscriber s0) (c, e, n) = Some operator \<and>
    (TokenOwner (s\<lparr>TokenOwner := (TokenOwner s)(k := None)\<rparr>) ((c, e), n) = TokenOwner s0 ((c, e), n) \<or>
     TokenOwner (s\<lparr>TokenOwner := (TokenOwner s)(k := None)\<rparr>) ((c, e), n) = None)"
    by simp
qed

lemma kept_congI:
  "approvals_kept s0 s \<Longrightarrow> TokenOwner s' = TokenOwner s \<Longrightarrow> Subscriber s' = Subscriber s \<Longrightarrow> approvals_kept s0 s'"
  by (simp add: approvals_kept_def)

lemma kept_ledger: "approvals_kept s0 s \<Longrightarrow> approvals_kept s0 (s\<lparr>NftLedger := l\<rparr>)"
  by (erule kept_congI) simp_all

lemmas payments_kept = payments_keep [of "approvals_kept s0", OF kept_ledger] for s0

lemma collection_calls_kept:
  "preserves (approvals_kept s0) (migrate_to_metadata_scheme orig c e scheme)"
  "preserves (approvals_kept s0) (set_owner orig c who)"
  "preserves (approvals_kept s0) (set_series_name orig c e name)"
  "preserves (approvals_kept s0) (register_marketplace orig account entitlement)"
  "preserves (approvals_kept s0) (create_collection orig name r)"
  "preserves (approvals_kept s0) (update_token_balance orig c e)"
  unfolding migrate_to_metadata_scheme_def set_owner_def set_series_name_def register_marketplace_def
    create_collection_def name_valid_def update_token_balance_def signed_def Let_def
  by (intro preserves_rules ensure_collection_owner_inv; erule kept_congI; simp)+

lemma burn_tokens_kept: "preserves (approvals_kept s0) (burn_tokens who c e ns)"
  by (induction ns) (simp_all, (intro preserves_rules kept_burned; simp)+)

lemma sub_token_balance_kept: "preserves (approvals_kept s0) (sub_token_balance who k q)"
  unfolding preserves_def by (auto elim: kept_congI)

lemma burn_calls_kept:
  "preserves (approvals_kept s0) (burn_batch orig c e ns)" "preserves (approvals_kept s0) (nft_burn orig t)"
  unfolding nft_burn_def burn_batch_def signed_def Let_def
  by (intro preserves_rules burn_tokens_kept sub_token_balance_kept; erule kept_congI; simp)+

lemma lock_tokens_kept: "preserves (approvals_kept s0) (lock_tokens who l ts)"
proof (induction ts)
  case (Cons t ts)
  then show ?case
    unfolding lock_tokens.simps by (intro preserves_rules) (auto elim: kept_congI)
qed (simp add: preserves_ret)

lemma listing_calls_kept:
  "preserves (approvals_kept s0) (sell_bundle T now orig ts buyer a price d m)"
  "preserves (approvals_kept s0) (sell T now orig t buyer a price d m)"
  "preserves (approvals_kept s0) (auction_bundle T now orig ts a price d m)"
  "preserves (approvals_kept s0) (auction T now orig t a price d m)"
  unfolding sell_def sell_bundle_def auction_def auction_bundle_def open_listing_def signed_def Let_def
  by (intro preserves_rules lock_tokens_kept; erule kept_congI; simp)+

lemma offer_calls_kept:
  "preserves (approvals_kept s0) (make_simple_offer T orig t amount a m)"
  "preserves (approvals_kept s0) (cancel_offer T orig f)"
  "preserves (approvals_kept s0) (remove_offer f t)"
  unfolding make_simple_offer_def cancel_offer_def remove_offer_def signed_def Let_def
  by (intro preserves_rules preserves_search payments_kept; erule kept_congI; simp)+

lemma close_listing_kept: "preserves (approvals_kept s0) (close_listing l b ts event)"
  unfolding close_listing_def by (intro preserves_rules; erule kept_congI; simp)

lemma sale_calls_kept:
  "preserves (approvals_kept s0) (update_fixed_price orig l price)"
  "preserves (approvals_kept s0) (bid T now orig l amount)"
  "preserves (approvals_kept s0) (cancel_sale orig l)"
  unfolding update_fixed_price_def bid_def cancel_sale_def signed_def
  by (intro preserves_rules payments_kept close_listing_kept; erule kept_congI; simp)+

text \<open>Calls and blocks that move tokens, with approvals told of every transfer.\<close>

lemma process_payment_kept:
  assumes "on_nft_transfer T = approvals_on_nft_transfer"
  shows "preserves (approvals_kept s0) (process_payment_and_transfer T b w a ts v r)"
  unfolding process_payment_and_transfer_def Let_def
  by (intro preserves_rules payments_kept preserves_pay kept_ledger kept_moved [OF assms])

lemma moving_calls_kept:
  assumes "on_nft_transfer T = approvals_on_nft_transfer"
  shows "preserves (approvals_kept s0) (transfer_batch T orig c e ns who)"
    and "preserves (approvals_kept s0) (nft_transfer T orig t who)"
    and "preserves (approvals_kept s0) (buy T orig l)"
    and "preserves (approvals_kept s0) (accept_offer T orig f)"
proof -
  have event: "approvals_kept s0 (nft_deposit_event ev s)" if "approvals_kept s0 s" for ev s
    using that by (rule kept_congI) simp_all
  show batch: "preserves (approvals_kept s0) (transfer_batch T orig c e ns who)" for c e ns
    unfolding transfer_batch_def signed_def by (intro preserves_rules kept_moved [OF assms] event)
  show "preserves (approvals_kept s0) (nft_transfer T orig t who)"
    unfolding nft_transfer_def by (intro preserves_rules batch)
  show "preserves (approvals_kept s0) (buy T orig l)"
    unfolding buy_def signed_def Let_def
    by (intro preserves_rules payments_kept kept_moved [OF assms] event) (erule kept_congI; simp)+
  show "preserves (approvals_kept s0) (accept_offer T orig f)"
    unfolding accept_offer_def signed_def
    by (intro preserves_rules process_payment_kept [OF assms] offer_calls_kept event)
qed

definition is_mint :: "nft_call \<Rightarrow> bool" where
  "is_mint call = (case call of MintSeries _ _ _ _ _ \<Rightarrow> True | MintAdditional _ _ _ _ \<Rightarrow> True | _ \<Rightarrow> False)"

lemma nft_dispatch_kept:
  assumes "on_nft_transfer T = approvals_on_nft_transfer" and "\<not> is_mint call"
  shows "preserves (approvals_kept s0) (nft_dispatch T now orig call)"
  using assms(2) by (cases call) (simp_all add: is_mint_def collection_calls_kept burn_calls_kept
      listing_calls_kept offer_calls_kept sale_calls_kept moving_calls_kept [OF assms(1)])

lemma settle_auction_kept:
  assumes "on_nft_transfer T = approvals_on_nft_transfer" and "approvals_kept s0 s"
  shows "approvals_kept s0 (settle_auction T l c al s)"
proof (cases "ListingWinningBid s l")
  case None
  then show ?thesis using assms(2) by (auto simp: settle_auction_def elim: kept_congI)
next
  case (Some bid)
  obtain winner price where bid: "bid = (winner, price)" by (cases bid)
  let ?m = "process_payment_and_transfer T winner (al_seller al) (al_payment_asset al) (al_tokens al) price
    (al_royalties al)" and ?s = "s\<lparr>ListingWinningBid := (ListingWinningBid s)(l := None)\<rparr>"
  have "approvals_kept s0 ?s" using assms(2) by (rule kept_congI) simp_all
  then have "approvals_kept s0 (snd (?m ?s))" using process_payment_kept [OF assms(1)] by (simp add: preserves_def)
  then show ?thesis
    by (cases "?m ?s"; cases "fst (?m ?s)") (auto simp: settle_auction_def Some bid elim: kept_congI)
qed

lemma close_listings_at_kept:
  assumes "on_nft_transfer T = approvals_on_nft_transfer" and "approvals_kept s0 s"
    and "close_listings_at T now s = Some (n, s')"
  shows "approvals_kept s0 s'"
proof -
  have release: "approvals_kept s0 t'"
    if "approvals_kept s0 t" "release_listing l ts finish t = Some t'"
      "\<And>c t. approvals_kept s0 t \<Longrightarrow> approvals_kept s0 (finish c t)" for l ts finish t t'
    using that(1,2) unfolding release_listing_def Let_def
    by (cases ts) (auto intro!: that(3) elim: kept_congI)
  have expire: "approvals_kept s0 t'" if "approvals_kept s0 t" "expire_listing T now l t = Some t'" for l t t'
  proof -
    let ?t = "t\<lparr>ListingEndSchedule := (ListingEndSchedule t)((now, l) := None), Listings := (Listings t)(l := None)\<rparr>"
    have kept: "approvals_kept s0 ?t" using that(1) by (rule kept_congI) simp_all
    have event: "approvals_kept s0 (nft_deposit_event ev u)" if "approvals_kept s0 u" for ev u
      using that by (rule kept_congI) simp_all
    show ?thesis
      using that(2) kept release [OF kept] settle_auction_kept [OF assms(1)] event
      by (auto simp: expire_listing_def Let_def split: option.splits listing.splits)
  qed
  have "approvals_kept s0 t'" if "approvals_kept s0 t" "expire_listings T now ls t = Some t'" for ls t t'
    using that by (induction ls arbitrary: t) (auto simp: bind_eq_Some_conv intro: expire)
  then show ?thesis using assms(2,3) by (auto simp: close_listings_at_def Let_def)
qed

end
