(* ===== verification/Nft_Sched.thy ===== *)
theory Nft_Sched
  imports Nft_Own
begin

text \<open>
  Every open listing is scheduled at the block where it closes, and the start of that block closes it:
  the listing is gone and its tokens are unlocked.
\<close>

section \<open>The schedule\<close>

fun listing_close :: "listing \<Rightarrow> block_number" where
  "listing_close (FixedPrice fp) = fp_close fp"
| "listing_close (Auction al) = al_close al"

definition scheduled :: "('l, 'h) nft_state \<Rightarrow> bool" where
  "scheduled s \<longleftrightarrow> (\<forall>l x. Listings s l = Some x \<longrightarrow> ListingEndSchedule s (listing_close x, l) \<noteq> None)"

lemma scheduledD: "scheduled s \<Longrightarrow> Listings s l = Some x \<Longrightarrow> ListingEndSchedule s (listing_close x, l) \<noteq> None"
  by (simp add: scheduled_def)

lemma scheduled_congI:
  "scheduled s \<Longrightarrow> Listings s' = Listings s \<Longrightarrow> ListingEndSchedule s' = ListingEndSchedule s \<Longrightarrow> scheduled s'"
  by (simp add: scheduled_def)

lemma scheduled_openI:
  assumes "scheduled s" and "Listings s' = (Listings s)(l \<mapsto> x)"
    and "ListingEndSchedule s' (listing_close x, l) \<noteq> None"
    and "\<And>b k. k \<noteq> l \<Longrightarrow> ListingEndSchedule s' (b, k) = ListingEndSchedule s (b, k)"
  shows "scheduled s'"
  using assms unfolding scheduled_def by auto

lemma scheduled_closeI:
  assumes "scheduled s" and "Listings s' = (Listings s)(l := None)"
    and "\<And>b k. k \<noteq> l \<Longrightarrow> ListingEndSchedule s' (b, k) = ListingEndSchedule s (b, k)"
  shows "scheduled s'"
  using assms unfolding scheduled_def by auto

lemma nft_event_schedule [simp]: "ListingEndSchedule (nft_deposit_event e s) = ListingEndSchedule s"
  by (simp add: nft_deposit_event_def)

lemma unlock_tokens_schedule [simp]:
  "ListingEndSchedule (unlock_tokens ts s) = ListingEndSchedule s"
  "OpenCollectionListings (unlock_tokens ts s) = OpenCollectionListings s"
  "TokenLocks (unlock_tokens ts s) t = (if t \<in> set ts then None else TokenLocks s t)"
  by (induction ts arbitrary: s) (simp_all add: unlock_tokens_def)

lemma token_schedule [simp]:
  "ListingEndSchedule (add_token_balance who k q s) = ListingEndSchedule s"
  "ListingEndSchedule (snd (sub_token_balance who k q s)) = ListingEndSchedule s"
  "ListingEndSchedule (do_mint who c e n q s) = ListingEndSchedule s"
  "ListingEndSchedule (remove_issuance c e q s) = ListingEndSchedule s"
  by (auto simp: add_token_balance_def sub_token_balance_def do_mint_def remove_issuance_def call_defs Let_def
      split: option.splits)

lemma do_transfer_schedule [simp]:
  "ListingEndSchedule (do_transfer_unchecked T c e ns a b s) = ListingEndSchedule s"
proof -
  have "ListingEndSchedule (fold (move_token T c e b) ns s) = ListingEndSchedule s"
    by (induction ns arbitrary: s) (simp_all add: move_token_def)
  then show ?thesis by (simp add: do_transfer_unchecked_def Let_def)
qed

lemma funds_schedule [simp]:
  "ListingEndSchedule (unreserve_funds T who a v s) = ListingEndSchedule s"
  "TokenLocks (unreserve_funds T who a v s) = TokenLocks s"
  "ListingEndSchedule (replace_bid T l a who v s) = ListingEndSchedule s"
  by (auto simp: unreserve_funds_def replace_bid_def Let_def split: option.splits)

section \<open>Calls keep listings scheduled\<close>

lemma scheduled_ledger: "scheduled s \<Longrightarrow> scheduled (s\<lparr>NftLedger := l\<rparr>)"
  by (erule scheduled_congI) simp_all

lemmas payments_scheduled = payments_keep [of scheduled, OF scheduled_ledger]

lemma scheduled_event: "scheduled s \<Longrightarrow> scheduled (nft_deposit_event ev s)"
  by (erule scheduled_congI) simp_all

lemma collection_calls_scheduled:
  "preserves scheduled (migrate_to_metadata_scheme orig c e scheme)"
  "preserves scheduled (set_owner orig c who)"
  "preserves scheduled (set_series_name orig c e name)"
  "preserves scheduled (register_marketplace orig account entitlement)"
  "preserves scheduled (create_collection orig name r)"
  "preserves scheduled (update_token_balance orig c e)"
  "preserves scheduled (mint_series orig c q owner scheme r)"
  "preserves scheduled (mint_additional orig c e q owner)"
  "preserves scheduled (transfer_batch T orig c e ns who)"
  "preserves scheduled (nft_transfer T orig t who)"
  unfolding migrate_to_metadata_scheme_def set_owner_def set_series_name_def register_marketplace_def
    create_collection_def name_valid_def update_token_balance_def mint_series_def do_mint_series_def
    mint_additional_def nft_transfer_def transfer_batch_def signed_def Let_def
  by (intro preserves_rules ensure_collection_owner_inv; erule scheduled_congI; simp)+

lemma burn_tokens_scheduled: "preserves scheduled (burn_tokens who c e ns)"
  by (induction ns) (simp_all, (intro preserves_rules; simp add: scheduled_def)+)

lemma sub_token_balance_scheduled: "preserves scheduled (sub_token_balance who k q)"
  by (simp add: preserves_def scheduled_def)

lemma burn_calls_scheduled: "preserves scheduled (burn_batch orig c e ns)" "preserves scheduled (nft_burn orig t)"
  unfolding nft_burn_def burn_batch_def signed_def Let_def
  by (intro preserves_rules burn_tokens_scheduled sub_token_balance_scheduled; simp add: scheduled_def)+

lemma lock_tokens_scheduled: "preserves scheduled (lock_tokens who l ts)"
  by (induction ts) (simp_all, (intro preserves_rules; simp add: scheduled_def)+)

lemma open_listing_scheduled:
  assumes "\<And>r b w. listing_close (mk r b w) = b"
  shows "preserves scheduled (open_listing T now orig tokens d m mk event)"
  unfolding open_listing_def signed_def Let_def
  by (intro preserves_rules lock_tokens_scheduled scheduled_event)
    (auto elim!: scheduled_openI simp: assms)

lemma listing_calls_scheduled:
  "preserves scheduled (sell_bundle T now orig ts buyer a price d m)"
  "preserves scheduled (sell T now orig t buyer a price d m)"
  "preserves scheduled (auction_bundle T now orig ts a price d m)"
  "preserves scheduled (auction T now orig t a price d m)"
  unfolding sell_def sell_bundle_def auction_def auction_bundle_def
  by (intro preserves_transactional open_listing_scheduled; simp)+

lemma scheduled_remove_listing: "scheduled s \<Longrightarrow> scheduled (remove_fixed_price_listing l s)"
  by (erule scheduled_closeI)
    (auto simp: remove_fixed_price_listing_def Let_def split: option.splits listing.splits)

lemma buy_scheduled: "preserves scheduled (buy T orig l)"
  unfolding buy_def signed_def Let_def
  by (intro preserves_rules payments_scheduled scheduled_remove_listing scheduled_event;
      erule scheduled_congI; simp)

lemma update_fixed_price_scheduled: "preserves scheduled (update_fixed_price orig l price)"
proof (rule preservesI)
  fix s r s' assume "scheduled s" and "update_fixed_price orig l price s = (r, s')"
  then show "scheduled s'"
    unfolding update_fixed_price_def
    by (cases orig; cases "Listings s l")
      (auto simp: call_defs ensure_signed_def split: listing.splits list.splits if_splits
        intro!: scheduled_event scheduled_openI [where s = s] dest: scheduledD)
qed

lemma extend_auction_scheduled: "scheduled s \<Longrightarrow> scheduled (extend_auction now l al s)"
  unfolding extend_auction_def Let_def by (auto elim!: scheduled_openI)

lemma bid_scheduled: "preserves scheduled (bid T now orig l amount)"
  unfolding bid_def signed_def
  by (intro preserves_rules payments_scheduled extend_auction_scheduled scheduled_event;
      erule scheduled_congI; simp)

lemma close_listing_scheduled: "preserves scheduled (close_listing l b ts event)"
  unfolding close_listing_def
  by (intro preserves_rules scheduled_event; (erule scheduled_congI; simp; fail)?)
    (erule scheduled_closeI; auto)

lemma cancel_sale_scheduled: "preserves scheduled (cancel_sale orig l)"
  unfolding cancel_sale_def signed_def by (intro preserves_rules close_listing_scheduled)

lemma process_payment_keeps:
  assumes "\<And>s l. P s \<Longrightarrow> P (s\<lparr>NftLedger := l\<rparr>)" and "\<And>c e ns s. P s \<Longrightarrow> P (do_transfer_unchecked T c e ns w b s)"
  shows "preserves P (process_payment_and_transfer T b w a ts v r)"
  unfolding process_payment_and_transfer_def Let_def
  by (intro preserves_rules payments_keep preserves_pay assms)

lemma offer_calls_scheduled:
  "preserves scheduled (make_simple_offer T orig t amount a m)"
  "preserves scheduled (cancel_offer T orig f)"
  "preserves scheduled (remove_offer f t)"
  unfolding make_simple_offer_def cancel_offer_def remove_offer_def signed_def Let_def
  by (intro preserves_rules preserves_search payments_scheduled; erule scheduled_congI; simp)+

lemma accept_offer_scheduled: "preserves scheduled (accept_offer T orig f)"
  unfolding accept_offer_def signed_def
  by (intro preserves_rules process_payment_keeps offer_calls_scheduled scheduled_event scheduled_ledger;
      erule scheduled_congI; simp)

lemma nft_dispatch_scheduled: "preserves scheduled (nft_dispatch T now orig call)"
  by (cases call) (simp_all add: collection_calls_scheduled burn_calls_scheduled listing_calls_scheduled
      buy_scheduled bid_scheduled cancel_sale_scheduled update_fixed_price_scheduled offer_calls_scheduled
      accept_offer_scheduled)

section \<open>The start of a block closes what is due\<close>

lemma settle_auction_fields [simp]:
  "Listings (settle_auction T l c al s) = Listings s"
  "ListingEndSchedule (settle_auction T l c al s) = ListingEndSchedule s"
  "TokenLocks (settle_auction T l c al s) = TokenLocks s"
proof -
  let ?P = "\<lambda>t. Listings t = Listings s \<and> ListingEndSchedule t = ListingEndSchedule s \<and> TokenLocks t = TokenLocks s"
  have "?P (snd (process_payment_and_transfer T b w a ts v r (s\<lparr>ListingWinningBid := x\<rparr>)))" for b w a ts v r x
    using process_payment_keeps [of ?P T w b a ts v r] by (simp add: preserves_def)
  then have "?P (settle_auction T l c al s)"
    unfolding settle_auction_def
    by (auto split: option.splits prod.splits sum.splits) (metis snd_conv)+
  then show "Listings (settle_auction T l c al s) = Listings s"
    "ListingEndSchedule (settle_auction T l c al s) = ListingEndSchedule s"
    "TokenLocks (settle_auction T l c al s) = TokenLocks s" by simp_all
qed

lemma expire_listing_fields:
  assumes "expire_listing T now l s = Some s'"
  shows "Listings s' = (Listings s)(l := None)" and "ListingEndSchedule s' = (ListingEndSchedule s)((now, l) := None)"
    and "TokenLocks s' t = (if \<exists>x. Listings s l = Some x \<and> t \<in> set (listing_tokens x) then None else TokenLocks s t)"
  using assms
  by (auto simp: expire_listing_def release_listing_def Let_def split: option.splits listing.splits list.splits)

lemma expire_listings_fields:
  assumes "expire_listings T now ls s = Some s'"
  shows "Listings s' l = (if l \<in> set ls then None else Listings s l)"
    and "ListingEndSchedule s' (b, l) = (if b = now \<and> l \<in> set ls then None else ListingEndSchedule s (b, l))"
  using assms
  by (induction ls arbitrary: s) (auto simp: bind_eq_Some_conv expire_listing_fields(1,2))

lemma expire_listings_unlocked:
  "expire_listings T now ls s = Some s' \<Longrightarrow> TokenLocks s t = None \<Longrightarrow> TokenLocks s' t = None"
  by (induction ls arbitrary: s) (auto simp: bind_eq_Some_conv expire_listing_fields(3))

lemma expire_listings_unlock:
  assumes "expire_listings T now ls s = Some s'" and "l \<in> set ls" and "Listings s l = Some x"
    and "t \<in> set (listing_tokens x)"
  shows "TokenLocks s' t = None"
  using assms
proof (induction ls arbitrary: s)
  case (Cons k ls)
  then obtain s1 where first: "expire_listing T now k s = Some s1" and rest: "expire_listings T now ls s1 = Some s'"
    by (auto simp: bind_eq_Some_conv)
  show ?case
  proof (cases "l = k")
    case True
    then have "TokenLocks s1 t = None" using expire_listing_fields(3) [OF first] Cons.prems(3,4) by auto
    then show ?thesis by (rule expire_listings_unlocked [OF rest])
  next
    case False
    then show ?thesis
      using Cons.IH [OF rest] Cons.prems expire_listing_fields(1) [OF first] by simp
  qed
qed simp

lemma close_listings_at_scheduled:
  assumes "scheduled s" and "close_listings_at T now s = Some (n, s')"
  shows "scheduled s'"
proof -
  obtain ls where "expire_listings T now ls s = Some s'"
    using assms(2) by (auto simp: close_listings_at_def Let_def)
  note fields = expire_listings_fields(1,2) [OF this]
  show ?thesis using assms(1) unfolding scheduled_def fields by auto
qed

lemma nft_reachable_scheduled: "nft_reachable T s \<Longrightarrow> scheduled s"
proof (induction rule: nft_reachable.induct)
  case (Genesis l h)
  then show ?case by (simp add: scheduled_def nft_genesis_def)
next
  case (Call s now orig c r s')
  then show ?case using preservesD [OF nft_dispatch_scheduled] by blast
next
  case (Block s now n s')
  then show ?case using close_listings_at_scheduled by blast
next
  case (Elsewhere s l h)
  then show ?case by (auto elim: scheduled_congI)
qed

end
