(* ===== verification/Nft_Props.thy ===== *)
theory Nft_Props
  imports Nft_Sched GA_Props GA_Bonds
begin

text \<open>
  The properties of the NFT and token-approvals pallets and of the address mapping, with a small chain
  (\<open>nft_demo_config\<close>, \<open>nft_demo\<close>) on which they are evaluated: payments in the generic-asset pallet,
  transfers reported to the approvals.
\<close>

section \<open>A small chain\<close>

definition nft_demo_config :: "(ga_state, approvals_state) nft_config" where
  "nft_demo_config =
     \<lparr>nft_currency = ga_currency demo_config, default_listing_duration = 100,
      permill_mul = (\<lambda>p v. word_of_nat (unat p * unat v div 1000000)),
      on_nft_transfer = approvals_on_nft_transfer,
      drain_end_schedule = (\<lambda>m b. filter (\<lambda>l. m (b, l) \<noteq> None) [0, 1, 2])\<rparr>"

definition demo_listing :: "token_id list \<Rightarrow> balance \<Rightarrow> fixed_price_listing" where
  "demo_listing tokens price =
     \<lparr>fp_payment_asset = 1, fp_fixed_price = price, fp_close = 50, fp_buyer = None, fp_seller = 1,
      fp_tokens = tokens, fp_royalties = default_royalties, fp_marketplace = None\<rparr>"

text \<open>
  Account 1 owns token 0 of the first series and token 1 of the second, account 3 token 1 of the first
  series; account 1 has listed its two tokens as a bundle.
\<close>

definition nft_demo :: "(ga_state, approvals_state) nft_state" where
  "nft_demo = (nft_genesis demo_state (approvals_genesis\<lparr>ERC721Approvals := [(0, 0, 0) \<mapsto> 77]\<rparr>))
     \<lparr>TokenOwner := [((0, 0), 0) \<mapsto> 1, ((0, 0), 1) \<mapsto> 3, ((0, 1), 1) \<mapsto> 1],
      TokenBalance := [1 \<mapsto> [(0, 0) \<mapsto> 1, (0, 1) \<mapsto> 1], 3 \<mapsto> [(0, 0) \<mapsto> 1]],
      Listings := [0 \<mapsto> FixedPrice (demo_listing [(0, 0, 0), (0, 1, 1)] 30)],
      ListingEndSchedule := [(50, 0) \<mapsto> True]\<rparr>"

lemma nft_demo_fields:
  "TokenOwner nft_demo = [((0, 0), 0) \<mapsto> 1, ((0, 0), 1) \<mapsto> 3, ((0, 1), 1) \<mapsto> 1]"
  "Listings nft_demo = [0 \<mapsto> FixedPrice (demo_listing [(0, 0, 0), (0, 1, 1)] 30)]"
  "NftLedger nft_demo = demo_state" "TokenLocks nft_demo = Map.empty" "Offers nft_demo = Map.empty"
  "TokenOffers nft_demo = Map.empty" "NextOfferId nft_demo = 0" "ListingEndSchedule nft_demo = [(50, 0) \<mapsto> True]"
  "TokenBalance nft_demo = [1 \<mapsto> [(0, 0) \<mapsto> 1, (0, 1) \<mapsto> 1], 3 \<mapsto> [(0, 0) \<mapsto> 1]]"
  "Subscriber nft_demo = approvals_genesis\<lparr>ERC721Approvals := [(0, 0, 0) \<mapsto> 77]\<rparr>"
  by (simp_all add: nft_demo_def nft_genesis_def)

lemma demo_listing_fields [simp]:
  "fp_tokens (demo_listing ts v) = ts" "fp_seller (demo_listing ts v) = 1" "fp_buyer (demo_listing ts v) = None"
  "fp_fixed_price (demo_listing ts v) = v" "fp_payment_asset (demo_listing ts v) = 1"
  "fp_royalties (demo_listing ts v) = default_royalties"
  by (simp_all add: demo_listing_def)

lemma no_royalties: "calculate_total_entitlement default_royalties = 0"
  by (simp add: calculate_total_entitlement_def validate_def default_royalties_def)

lemma demo_payment:
  "\<exists>l. mc_transfer (nft_currency nft_demo_config) 2 1 1 30 AllowDeath demo_state = (Inr (), l)"
  by (simp add: nft_demo_config_def ga_currency_def ga_transfer_def make_transfer_Inr_iff demo_free demo_unlocked
      demo_minimum)

section \<open>Sales\<close>

text \<open>
  C28. A bundle may hold tokens of several series, but a sale moves the serial numbers of the bundle in the
  series of its first token only. So a token of another series stays where it was, and the token of the
  first series with its serial number goes to the buyer, whoever owned it.
\<close>
theorem bundle_sale_moves_other_token:
  assumes "buy T (Signed who) l s = (Inr (), s')" and "Listings s l = Some (FixedPrice fp)"
    and "fp_tokens fp = (c, e, n) # ts" and "(c', e', n') \<in> set ts" and "(c', e') \<noteq> (c, e)"
  shows "TokenOwner s' ((c', e'), n') = TokenOwner s ((c', e'), n') \<and> TokenOwner s' ((c, e), n') = Some who"
proof -
  have "n' \<in> serial_of ` set (fp_tokens fp)"
    using assms(3,4) by (intro image_eqI [where x = "(c', e', n')"]) simp_all
  then show ?thesis using buy_Inr [OF assms(1-3)] assms(5) by (auto simp: reassigned_def)
qed

theorem bundle_sale_moves_other_token_witness:
  "\<exists>s'. buy nft_demo_config (Signed 2) 0 nft_demo = (Inr (), s') \<and>
     TokenOwner nft_demo ((0, 0), 1) = Some 3 \<and> TokenOwner s' ((0, 0), 1) = Some 2 \<and>
     TokenOwner s' ((0, 1), 1) = Some 1"
proof -
  have fp: "Listings nft_demo 0 = Some (FixedPrice (demo_listing [(0, 0, 0), (0, 1, 1)] 30))"
    by (simp add: nft_demo_fields)
  obtain l where "mc_transfer (nft_currency nft_demo_config) 2 1 1 30 AllowDeath demo_state = (Inr (), l)"
    using demo_payment by blast
  then have "\<exists>s'. buy nft_demo_config (Signed 2) 0 nft_demo = (Inr (), s')"
    by (simp add: buy_def call_defs ensure_signed_def fp pay_fixed_price_def no_royalties pay_def nft_demo_fields)
  then obtain s' where run: "buy nft_demo_config (Signed 2) 0 nft_demo = (Inr (), s')" ..
  from bundle_sale_moves_other_token [OF run fp, of 0 0 0 "[(0, 1, 1)]" 0 1 1] run show ?thesis
    by (simp add: nft_demo_fields)
qed


definition nft_offered :: "(ga_state, approvals_state) nft_state" where
  "nft_offered = nft_demo
     \<lparr>NftLedger := reserved_state demo_config 1 2 10 demo_state,
      Listings := [0 \<mapsto> FixedPrice (demo_listing [(0, 0, 0)] 0)], TokenLocks := [(0, 0, 0) \<mapsto> Listed 0],
      Offers := [0 \<mapsto> Simple \<lparr>so_token_id = (0, 0, 0), so_asset_id = 1, so_amount = 10, so_buyer = 2,
        so_marketplace = None\<rparr>],
      TokenOffers := [(0, 0, 0) \<mapsto> [0]], NextOfferId := 1\<rparr>"

lemma nft_offered_fields:
  "Offers nft_offered 0 = Some (Simple \<lparr>so_token_id = (0, 0, 0), so_asset_id = 1, so_amount = 10, so_buyer = 2,
     so_marketplace = None\<rparr>)"
  "Listings nft_offered 0 = Some (FixedPrice (demo_listing [(0, 0, 0)] 0))"
  "NftLedger nft_offered = reserved_state demo_config 1 2 10 demo_state"
  "TokenOwner nft_offered = TokenOwner nft_demo" "TokenOffers nft_offered = [(0, 0, 0) \<mapsto> [0]]"
  "SeriesRoyalties nft_offered = Map.empty" "CollectionRoyalties nft_offered = Map.empty"
  by (simp_all add: nft_offered_def) (simp_all add: nft_demo_def nft_genesis_def)

lemma nft_offered_accepted: "\<exists>s1. accept_offer nft_demo_config (Signed 1) 0 nft_offered = (Inr (), s1)"
proof -
  let ?l = "reserved_state demo_config 1 2 10 demo_state"
  have bal: "free_balance 1 1 ?l = 100" "reserved_balance 1 2 ?l = 10"
    by (simp_all add: reserved_state_reserved demo_reserved)
      (simp add: reserved_state_def Let_def demo_free demo_minimum ga_simps)
  obtain l where l: "ga_repatriate_reserved 2 1 1 10 ?l = (Inr 0, l)" "free_balance 1 1 l = 110"
    using bal by (simp add: ga_repatriate_reserved_def repatriate_reserved_def run_def Let_def ga_simps)
  have royalties: "check_bundle_royalties [(0, 0, 0)] None nft_offered = Inr default_royalties"
    by (simp add: check_bundle_royalties_def result_defs nft_offered_fields)
  have search: "binary_search [0 :: offer_id] 0 = Found 0"
    by (simp add: binary_search_def binary_search_loop.simps Let_def)
  have "\<exists>s1. process_payment_and_transfer nft_demo_config 2 1 1 [(0, 0, 0)] 10 default_royalties nft_offered =
      (Inr (), s1) \<and> TokenOffers s1 = TokenOffers nft_offered"
    using l by (simp add: process_payment_and_transfer_def no_royalties nft_demo_config_def ga_currency_def
        call_defs pay_def nft_offered_fields bal saturating_add_def)
  then obtain s1 where "process_payment_and_transfer nft_demo_config 2 1 1 [(0, 0, 0)] 10 default_royalties
      nft_offered = (Inr (), s1)" "TokenOffers s1 = TokenOffers nft_offered" by blast
  then show ?thesis
    by (simp add: accept_offer_def call_defs ensure_signed_def nft_offered_fields royalties check_ownership_def
        token_owner_def storage_get_def nft_demo_fields remove_offer_def token_offers_def search)
qed


text \<open>
  C30. In every reachable state the accesses that would panic are safe: cancelling an offer or a sale and
  changing a price never panic, and the listings due at a block can be closed.
\<close>
theorem sales_never_panic:
  assumes "nft_reachable T s"
  shows "fst (cancel_offer T orig f s) \<noteq> Inl Panic \<and> fst (cancel_sale orig l s) \<noteq> Inl Panic \<and>
    fst (update_fixed_price orig l price s) \<noteq> Inl Panic \<and> (\<exists>n s'. close_listings_at T now s = Some (n, s'))"
proof -
  have inv: "nft_inv s" using nft_reachable_inv [OF assms] .
  show ?thesis
    using cancel_offer_cases(2) [OF inv prod.collapse [symmetric]] cancel_sale_no_panic [OF inv]
      update_fixed_price_no_panic [OF inv] close_listings_at_inv [OF inv, of T now] by blast
qed

theorem sales_never_panic_witness:
  "fst (cancel_offer nft_demo_config (Signed 1) 0 (nft_genesis demo_state approvals_genesis)) \<noteq> Inl Panic"
  using sales_never_panic [OF nft_reachable.Genesis [of nft_demo_config demo_state approvals_genesis],
      of "Signed 1" 0 0 0 0] by blast

text \<open>
  C31. An open listing does not outlive its closing block: in every reachable state, when the end schedule
  yields what was stored in it for a block, the start of the listing's closing block closes the listing
  and unlocks its tokens.
\<close>
theorem listing_closes:
  assumes "nft_reachable T s" and "Listings s l = Some x"
    and "set (drain_end_schedule T (ListingEndSchedule s) (listing_close x)) =
      {k. ListingEndSchedule s (listing_close x, k) \<noteq> None}"
  shows "\<exists>n s'. close_listings_at T (listing_close x) s = Some (n, s') \<and> Listings s' l = None \<and>
    (\<forall>t \<in> set (listing_tokens x). TokenLocks s' t = None)"
proof -
  obtain n s' where run: "close_listings_at T (listing_close x) s = Some (n, s')"
    using close_listings_at_inv [OF nft_reachable_inv [OF assms(1)]] by blast
  let ?ls = "drain_end_schedule T (ListingEndSchedule s) (listing_close x)"
  have due: "l \<in> set ?ls"
    using assms(3) scheduledD [OF nft_reachable_scheduled [OF assms(1)] assms(2)] by simp
  have close: "expire_listings T (listing_close x) ?ls s = Some s'"
    using run by (auto simp: close_listings_at_def Let_def)
  show ?thesis
    using run due expire_listings_fields(1) [OF close, of l] expire_listings_unlock [OF close due assms(2)] by auto
qed

text \<open>Account 1 creates a collection, mints a token in it and lists the token for ten blocks.\<close>

lemma demo_sale:
  "\<exists>s. nft_reachable nft_demo_config s \<and>
     Listings s = [0 \<mapsto> FixedPrice (demo_listing [(0, 0, 0)] 30)] \<and> ListingEndSchedule s = [(50, 0) \<mapsto> True]"
proof -
  let ?g = "nft_genesis demo_state approvals_genesis"
  let ?create = "CreateCollectionCall [65] None" and ?mint = "MintSeries 0 1 None (Https [65]) None"
    and ?sell = "Sell (0, 0, 0) None 1 30 (Some 10) None"
  have chars: "utf8_chars [65] = Some [[65]]"
    by (simp add: utf8_width_def)
  then have name: "is_utf8 [65]" by (simp add: is_utf8_def)
  have path: "sanitize (Https [65]) = Some (Https [65])"
    by (simp add: sanitize_def sanitize_path_def chars trim_chars_def is_whitespace_def utf8_width_def
        ends_with_def starts_with_def ascii_def Let_def)
  obtain s1 where s1: "nft_dispatch nft_demo_config 40 (Signed 1) ?create ?g = (Inr (), s1)"
    "CollectionOwner s1 = [0 \<mapsto> 1]" "NextSeriesId s1 = Map.empty" "TokenLocks s1 = Map.empty" "NextListingId s1 = 0" "SeriesRoyalties s1 = Map.empty"
    "CollectionRoyalties s1 = Map.empty" "Listings s1 = Map.empty" "ListingEndSchedule s1 = Map.empty"
    by (simp add: create_collection_def call_defs ensure_signed_def name_valid_def name nft_genesis_def
        checked_add_def MAX_COLLECTION_NAME_LENGTH_def nft_deposit_event_def)
  obtain s2 where s2: "nft_dispatch nft_demo_config 40 (Signed 1) ?mint s1 = (Inr (), s2)"
    "token_owner (0, 0) 0 s2 = 1" "TokenLocks s2 = Map.empty" "NextListingId s2 = 0" "SeriesRoyalties s2 = Map.empty"
    "CollectionRoyalties s2 = Map.empty" "Listings s2 = Map.empty" "ListingEndSchedule s2 = Map.empty"
    using s1(2-) by (simp add: mint_series_def do_mint_series_def ensure_collection_owner_def call_defs
        ensure_signed_def path nft_genesis_def checked_add_def nft_deposit_event_def do_mint_def Let_def
        add_token_balance_def token_owner_def storage_get_def)
  obtain s3 where s3: "nft_dispatch nft_demo_config 40 (Signed 1) ?sell s2 = (Inr (), s3)"
    "Listings s3 = [0 \<mapsto> FixedPrice (demo_listing [(0, 0, 0)] 30)]" "ListingEndSchedule s3 = [(50, 0) \<mapsto> True]"
    using s2(2-) by (simp add: sell_def sell_bundle_def open_listing_def call_defs ensure_signed_def result_defs
        check_bundle_royalties_def checked_add_def check_ownership_def saturating_add_def demo_listing_def)
  have "nft_reachable nft_demo_config s3"
    by (intro nft_reachable.Call [OF nft_reachable.Call [OF nft_reachable.Call [OF nft_reachable.Genesis s1(1)] s2(1)] s3(1)])
      simp_all
  then show ?thesis using s3(2,3) by blast
qed

theorem listing_closes_witness:
  "\<exists>s n s'. nft_reachable nft_demo_config s \<and> close_listings_at nft_demo_config 50 s = Some (n, s') \<and>
     Listings s 0 \<noteq> None \<and> Listings s' 0 = None \<and> TokenLocks s' (0, 0, 0) = None"
proof -
  obtain s where s: "nft_reachable nft_demo_config s" "Listings s = [0 \<mapsto> FixedPrice (demo_listing [(0, 0, 0)] 30)]"
    "ListingEndSchedule s = [(50, 0) \<mapsto> True]" using demo_sale by blast
  have close: "listing_close (FixedPrice (demo_listing [(0, 0, 0)] 30)) = 50" by (simp add: demo_listing_def)
  have found: "Listings s 0 = Some (FixedPrice (demo_listing [(0, 0, 0)] 30))" by (simp add: s(2))
  have drained: "set (drain_end_schedule nft_demo_config (ListingEndSchedule s) 50) =
      {k. ListingEndSchedule s (50, k) \<noteq> None}"
    by (auto simp: s(3) nft_demo_config_def)
  from listing_closes [OF s(1) found, unfolded close, OF drained] s(1) found show ?thesis by auto
qed

text \<open>
  C32. A batch transfer may name a serial number twice. The new owner then owns each token once, but the
  balance recorded for it grows by the length of the batch: the two agree only for distinct numbers.
\<close>
theorem transfer_batch_counts:
  assumes "transfer_batch T (Signed who) c e ns new s = (Inr (), s')" and "who \<noteq> new"
    and "recorded (c, e) new s + length ns < 2 ^ 32"
  shows "recorded (c, e) new s' = recorded (c, e) new s + length ns \<and>
    owned (c, e) new s' = owned (c, e) new s + card (set ns)"
proof -
  note moved = transfer_batch_Inr [OF assms(1)]
  have "TokenOwner s ((c, e), n) \<noteq> Some new" if "n \<in> set ns" for n
    using ensure_movable_owner [OF moved(1) that] assms(2) by (auto simp: token_owner_def storage_get_def)
  then have "owned (c, e) new s' = owned (c, e) new s + card (set ns)"
    using owned_received [of ns s c e new T who] by (simp add: moved(2) owned_def)
  moreover have "recorded (c, e) new s' = recorded (c, e) new s + length ns"
    using recorded_received [OF assms(2,3), of T] by (simp add: moved(2) recorded_def token_balance_def)
  ultimately show ?thesis by simp
qed

theorem transfer_batch_counts_witness:
  "\<exists>s'. transfer_batch nft_demo_config (Signed 3) 0 0 [1, 1] 2 nft_demo = (Inr (), s') \<and>
     recorded (0, 0) 2 s' = 2 \<and> owned (0, 0) 2 s' = 1"
proof -
  have "\<exists>s'. transfer_batch nft_demo_config (Signed 3) 0 0 [1, 1] 2 nft_demo = (Inr (), s')"
    by (simp add: transfer_batch_def call_defs ensure_signed_def nft_demo_fields token_owner_def storage_get_def
        result_defs)
  then obtain s' where run: "transfer_batch nft_demo_config (Signed 3) 0 0 [1, 1] 2 nft_demo = (Inr (), s')" ..
  have none: "recorded (0, 0) 2 nft_demo = 0" "owned (0, 0) 2 nft_demo = 0"
    by (simp_all add: recorded_def owned_def token_balance_def nft_demo_fields storage_get_def)
  from transfer_batch_counts [OF run] run show ?thesis by (simp add: none)
qed

section \<open>Approvals\<close>

text \<open>
  C33. With the approvals pallet subscribed to transfers, no call but a mint and no start of a block gives an
  operator rights over a token of a new owner: an operator approved afterwards was approved before, and
  the token has the same owner or has been burned.
\<close>
theorem approvals_end_with_ownership:
  assumes "on_nft_transfer T = approvals_on_nft_transfer"
    and "nft_dispatch T now orig call s = (r, s') \<and> \<not> is_mint call \<or> close_listings_at T now s = Some (m, s')"
    and "ERC721Approvals (Subscriber s') (c, e, n) = Some operator"
  shows "ERC721Approvals (Subscriber s) (c, e, n) = Some operator \<and>
    (TokenOwner s' ((c, e), n) = TokenOwner s ((c, e), n) \<or> TokenOwner s' ((c, e), n) = None)"
proof -
  have "approvals_kept s s" by (simp add: approvals_kept_def)
  then have "approvals_kept s s'"
    using assms(2) preservesD [OF nft_dispatch_kept [OF assms(1)]] close_listings_at_kept [OF assms(1)] by blast
  from keptD [OF this assms(3)] show ?thesis by simp
qed

theorem approvals_end_with_ownership_witness:
  "\<exists>s'. nft_dispatch nft_demo_config 0 (Signed 3) (TransferBatch 0 0 [1] 2) nft_demo = (Inr (), s') \<and>
     ERC721Approvals (Subscriber s') (0, 0, 0) = Some 77 \<and> TokenOwner s' ((0, 0), 0) = Some 1"
proof -
  have "\<exists>s'. nft_dispatch nft_demo_config 0 (Signed 3) (TransferBatch 0 0 [1] 2) nft_demo = (Inr (), s') \<and>
      ERC721Approvals (Subscriber s') (0, 0, 0) = Some 77 \<and> TokenOwner s' ((0, 0), 0) \<noteq> None"
    by (simp add: transfer_batch_def call_defs ensure_signed_def nft_demo_fields token_owner_def storage_get_def
        result_defs Subscriber_moved nft_demo_config_def approvals_on_nft_transfer_def remove_erc721_approval_def
        reassigned_def)
  then obtain s' where run: "nft_dispatch nft_demo_config 0 (Signed 3) (TransferBatch 0 0 [1] 2) nft_demo = (Inr (), s')"
    and left: "ERC721Approvals (Subscriber s') (0, 0, 0) = Some 77" "TokenOwner s' ((0, 0), 0) \<noteq> None" by blast
  have "on_nft_transfer nft_demo_config = approvals_on_nft_transfer" by (simp add: nft_demo_config_def)
  from approvals_end_with_ownership [OF this _ left(1), where call = "TransferBatch 0 0 [1] 2" and s = nft_demo] run left
  show ?thesis by (auto simp: is_mint_def nft_demo_fields)
qed

section \<open>Addresses\<close>

text \<open>
  An Ethereum address that is embedded in an account of the chain is recovered from it, so distinct
  addresses have distinct accounts.
\<close>
theorem address_roundtrip: "from_account_id (into_account_id a) = a"
  by (rule from_into_account_id)

end
