(* ===== verification/Eth_Types.thy ===== *)
theory Eth_Types
  imports Errors Evm_Address "HOL-Library.AList" "HOL-Library.List_Lexorder" "HOL-Library.Product_Lexorder"
begin

text \<open>
  The data of the Ethereum bridge (\<open>crml/eth-bridge/src/types.rs\<close>): event claims, notarizations and
  what the pallet reads of the answers of an Ethereum node. An \<open>EthyId\<close> is the byte string of a public
  key; \<open>H256\<close> and \<open>U256\<close> are 256-bit words.
\<close>

type_synonym h256 = "256 word"
type_synonym eth_address = h160
type_synonym eth_hash = h256
type_synonym ethy_id = bytes
type_synonym eth_call_id = u64
type_synonym event_claim_id = u64
type_synonym event_type_id = u32
type_synonym event_proof_id = u64

text \<open>\<open>SaturatedConversion\<close> to \<open>u64\<close>.\<close>

definition saturated_u64 :: "'a::len word \<Rightarrow> u64" where
  "saturated_u64 w = (if unat w < 2 ^ 64 then word_of_nat (unat w) else - 1)"

section \<open>ABI words\<close>

text \<open>\<open>EthAbiCodec\<close> of \<open>U256\<close> and \<open>u64\<close>: one 32-byte word.\<close>

definition encode_u256 :: "u256 \<Rightarrow> bytes" where
  "encode_u256 w = to_be_bytes 32 w"

definition encode_u64 :: "u64 \<Rightarrow> bytes" where
  "encode_u64 w = to_be_bytes 32 (ucast w :: u256)"

section \<open>Checked calls\<close>

record checked_eth_call_request =
  cr_input :: bytes
  cr_target :: eth_address
  cr_timestamp :: u64
  cr_max_block_look_behind :: u64
  cr_try_block_number :: u64
  cr_check_timestamp :: u64

datatype checked_eth_call_result =
    CallOk bytes u64 u64
  | ReturnDataExceedsLimit
  | ReturnDataEmpty
  | CallDataProviderErr
  | InvalidEthBlock
  | InvalidTimestamp

datatype eth_call_failure = FailedReturnDataExceedsLimit | FailedReturnDataEmpty | FailedInternal

text \<open>The derived order: first by variant, then by fields.\<close>

fun call_result_key :: "checked_eth_call_result \<Rightarrow> nat \<times> bytes \<times> u64 \<times> u64" where
  "call_result_key (CallOk return_data block timestamp) = (0, return_data, block, timestamp)"
| "call_result_key ReturnDataExceedsLimit = (1, [], 0, 0)"
| "call_result_key ReturnDataEmpty = (2, [], 0, 0)"
| "call_result_key CallDataProviderErr = (3, [], 0, 0)"
| "call_result_key InvalidEthBlock = (4, [], 0, 0)"
| "call_result_key InvalidTimestamp = (5, [], 0, 0)"

lemma call_result_key_inject: "call_result_key a = call_result_key b \<Longrightarrow> a = b"
  by (cases a; cases b) simp_all

instantiation checked_eth_call_result :: linorder
begin

definition less_eq_checked_eth_call_result :: "checked_eth_call_result \<Rightarrow> checked_eth_call_result \<Rightarrow> bool" where
  "a \<le> b \<longleftrightarrow> call_result_key a \<le> call_result_key b"

definition less_checked_eth_call_result :: "checked_eth_call_result \<Rightarrow> checked_eth_call_result \<Rightarrow> bool" where
  "a < b \<longleftrightarrow> call_result_key a < call_result_key b"

instance
  by standard
    (auto simp: less_eq_checked_eth_call_result_def less_checked_eth_call_result_def
      intro: call_result_key_inject)

end

section \<open>Event claims\<close>

record event_claim =
  ec_tx_hash :: eth_hash
  ec_data :: bytes
  ec_contract_address :: eth_address
  ec_event_signature :: h256

datatype event_claim_result =
    Valid
  | DataProviderErr
  | TxStatusFailed
  | UnexpectedContractAddress
  | NoTxLogs
  | NotEnoughConfirmations
  | UnexpectedData
  | Expired

datatype notarization_payload =
    CallPayload eth_call_id "16 word" checked_eth_call_result
  | EventPayload event_claim_id "16 word" event_claim_result

fun payload_type_id :: "notarization_payload \<Rightarrow> u64" where
  "payload_type_id (CallPayload _ _ _) = 0"
| "payload_type_id (EventPayload _ _ _) = 1"

fun authority_index :: "notarization_payload \<Rightarrow> 16 word" where
  "authority_index (CallPayload _ index _) = index"
| "authority_index (EventPayload _ index _) = index"

fun payload_id :: "notarization_payload \<Rightarrow> u64" where
  "payload_id (CallPayload call_id _ _) = call_id"
| "payload_id (EventPayload claim_id _ _) = claim_id"

section \<open>Answers of an Ethereum node\<close>

text \<open>The fields of a log, a receipt and a block that the pallet reads.\<close>

record eth_log =
  log_address :: eth_address
  log_topics :: "h256 list"
  log_data :: bytes
  log_transaction_hash :: "h256 option"

record transaction_receipt =
  tr_block_number :: u64
  tr_logs :: "eth_log list"
  tr_status :: "u64 option"
  tr_to :: "eth_address option"

record eth_block =
  eb_number :: "u64 option"
  eb_timestamp :: u256

datatype bridge_rpc_error = RpcHttpFetch | RpcInvalidJSON | RpcOcwConfig

datatype latest_or_number = Latest | Number u64

text \<open>\<open>BridgeEthereumRpcApi\<close>: the node is a parameter.\<close>

record bridge_rpc =
  get_block_by_number :: "latest_or_number \<Rightarrow> bridge_rpc_error + eth_block option"
  get_transaction_receipt :: "eth_hash \<Rightarrow> bridge_rpc_error + transaction_receipt option"
  eth_call :: "eth_address \<Rightarrow> bytes \<Rightarrow> latest_or_number \<Rightarrow> bridge_rpc_error + bytes"

section \<open>Sorted maps\<close>

text \<open>A \<open>BTreeMap\<close> is the list of its entries in the order of the keys; \<open>btree_entry\<close> is \<open>entry\<close> with a default.\<close>

fun btree_entry :: "'k::linorder \<Rightarrow> 'v \<Rightarrow> ('v \<Rightarrow> 'v) \<Rightarrow> ('k \<times> 'v) list \<Rightarrow> ('k \<times> 'v) list" where
  "btree_entry k d f [] = [(k, f d)]"
| "btree_entry k d f ((k', v) # m) =
     (if k < k' then (k, f d) # (k', v) # m
      else if k = k' then (k', f v) # m
      else (k', v) # btree_entry k d f m)"

lemma btree_entry_keys: "fst ` set (btree_entry k d f m) = insert k (fst ` set m)"
  by (induction m rule: btree_entry.induct [of _ k d f]) auto

lemma btree_entry_sorted: "sorted_wrt (<) (map fst m) \<Longrightarrow> sorted_wrt (<) (map fst (btree_entry k d f m))"
proof (induction m)
  case (Cons kv m)
  obtain k' v where kv: "kv = (k', v)" by (cases kv)
  have "fst ` set (btree_entry k d f m) = insert k (fst ` set m)" by (rule btree_entry_keys)
  then have "k'' \<in> set (map fst (btree_entry k d f m)) \<Longrightarrow> k'' = k \<or> k'' \<in> set (map fst m)" for k''
    by auto
  with Cons kv show ?case by (fastforce simp: not_less_iff_gr_or_eq)
qed simp

lemma btree_entry_lookup:
  "sorted_wrt (<) (map fst m) \<Longrightarrow> map_of (btree_entry k d f m) k = Some (f (case map_of m k of Some v \<Rightarrow> v | None \<Rightarrow> d))"
proof (induction m)
  case (Cons kv m)
  obtain k' v where kv: "kv = (k', v)" by (cases kv)
  show ?case
  proof (cases "k < k'")
    case True
    then have "k \<notin> fst ` set m" using Cons.prems kv by (auto simp: not_less)
    then have "map_of m k = None" by (simp add: map_of_eq_None_iff)
    then show ?thesis using True kv by auto
  next
    case False
    then show ?thesis using Cons kv by auto
  qed
qed simp

lemma btree_entry_other: "k' \<noteq> k \<Longrightarrow> map_of (btree_entry k d f m) k' = map_of m k'"
  by (induction m rule: btree_entry.induct [of _ k d f]) auto

end
