(* ===== verification/Eth_Bridge.thy ===== *)
theory Eth_Bridge
  imports Eth_Types Token_Approvals
begin

text \<open>
  The Ethereum bridge pallet (\<open>crml/eth-bridge/src/lib.rs\<close>) on chain: event claims and their
  notarization, checked calls, event proofs, pruning of processed transactions and the change of the
  notary set. The other pallets it talks to (subscribers, session, time, rewards) share the storage \<open>'w\<close>
  and come with the configuration, as do \<open>Percent::from_rational\<close> and the order in which storage maps are
  iterated. A subscriber may panic, which is \<open>None\<close>.
\<close>

section \<open>Configuration and storage\<close>

definition UNSIGNED_TXS_PRIORITY :: u64 where "UNSIGNED_TXS_PRIORITY = 100"
definition CLAIMS_PER_BLOCK :: nat where "CLAIMS_PER_BLOCK = 1"
definition CALLS_PER_BLOCK :: nat where "CALLS_PER_BLOCK = 1"
definition BUCKET_FACTOR_S :: u64 where "BUCKET_FACTOR_S = 3600"
definition CLAIM_PRUNING_INTERVAL :: block_number where "CLAIM_PRUNING_INTERVAL = 720"

record 'w bridge_config =
  notarization_threshold :: u8
  percent_from_rational :: "nat \<Rightarrow> nat \<Rightarrow> u8"
  validators :: "'w \<Rightarrow> account_id list"
  unix_now :: "'w \<Rightarrow> u64"
  is_next_session_final :: "'w \<Rightarrow> bool \<times> bool"
  is_active_session_final :: "'w \<Rightarrow> bool"
  reward_notary :: "account_id \<Rightarrow> 'w \<Rightarrow> 'w"
  claim_on_success :: "event_claim_id \<Rightarrow> eth_address \<Rightarrow> h256 \<Rightarrow> bytes \<Rightarrow> 'w \<Rightarrow> 'w option"
  claim_on_failure :: "event_claim_id \<Rightarrow> eth_address \<Rightarrow> h256 \<Rightarrow> bytes \<Rightarrow> 'w \<Rightarrow> 'w option"
  on_eth_call_complete :: "eth_call_id \<Rightarrow> bytes \<Rightarrow> u64 \<Rightarrow> u64 \<Rightarrow> 'w \<Rightarrow> 'w option"
  on_eth_call_failed :: "eth_call_id \<Rightarrow> eth_call_failure \<Rightarrow> 'w \<Rightarrow> 'w option"
  iter_delayed_proofs :: "(event_proof_id \<rightharpoonup> bytes) \<Rightarrow> (event_proof_id \<times> bytes) list"

datatype bridge_event =
    Verified event_claim_id
  | Invalid event_claim_id
  | AuthoritySetChange event_proof_id u64
  | ProofDelayed event_proof_id

datatype consensus_log =
    OpaqueSigningRequest bytes event_proof_id
  | PendingAuthoritiesChange "ethy_id list" u64 event_proof_id

record 'w bridge_state =
  BridgeWorld :: 'w
  ActivationThreshold :: u8
  EventClaims :: "event_claim_id \<rightharpoonup> eth_hash \<times> event_type_id"
  EventData :: "event_claim_id \<rightharpoonup> bytes"
  DelayedEventProofs :: "event_proof_id \<rightharpoonup> bytes"
  EventNotarizations :: "event_claim_id \<Rightarrow> (ethy_id \<times> event_claim_result) list"
  EventTypeToTypeId :: "eth_address \<times> eth_hash \<rightharpoonup> event_type_id"
  TypeIdToEventType :: "event_type_id \<rightharpoonup> eth_address \<times> eth_hash"
  NextEventClaimId :: event_claim_id
  NextEventTypeId :: event_type_id
  NextProofId :: event_proof_id
  NotaryKeys :: "ethy_id list option"
  NextNotaryKeys :: "ethy_id list"
  ProcessedTxBuckets :: "u64 \<Rightarrow> eth_hash list"
  ProcessedTxHashes :: "eth_hash \<rightharpoonup> unit"
  PendingTxHashes :: "eth_hash \<rightharpoonup> event_claim_id"
  NotarySetId :: u64
  NotarySetProofId :: event_proof_id
  BridgePaused :: bool
  EventConfirmations :: u64
  DelayedEventProofsPerBlock :: u8
  EventDeadlineSeconds :: u64
  NextEthCallId :: eth_call_id
  EthCallRequests :: "eth_call_id list"
  EthCallNotarizations :: "eth_call_id \<Rightarrow> (ethy_id \<times> checked_eth_call_result) list"
  EthCallNotarizationsAggregated :: "eth_call_id \<rightharpoonup> (checked_eth_call_result \<times> u32) list"
  EthCallRequestInfo :: "eth_call_id \<rightharpoonup> checked_eth_call_request"
  BridgeEvents :: "bridge_event list"
  BridgeLogs :: "consensus_log list"

definition bridge_genesis :: "'w \<Rightarrow> u8 \<Rightarrow> 'w bridge_state" where
  "bridge_genesis w threshold =
     \<lparr>BridgeWorld = w, ActivationThreshold = threshold, EventClaims = Map.empty, EventData = Map.empty,
      DelayedEventProofs = Map.empty, EventNotarizations = (\<lambda>_. []), EventTypeToTypeId = Map.empty,
      TypeIdToEventType = Map.empty, NextEventClaimId = 0, NextEventTypeId = 0, NextProofId = 0,
      NotaryKeys = None, NextNotaryKeys = [], ProcessedTxBuckets = (\<lambda>_. []),
      ProcessedTxHashes = Map.empty, PendingTxHashes = Map.empty, NotarySetId = 0, NotarySetProofId = 0,
      BridgePaused = False, EventConfirmations = 3, DelayedEventProofsPerBlock = 5,
      EventDeadlineSeconds = 604800, NextEthCallId = 0, EthCallRequests = [],
      EthCallNotarizations = (\<lambda>_. []), EthCallNotarizationsAggregated = Map.empty,
      EthCallRequestInfo = Map.empty, BridgeEvents = [], BridgeLogs = []\<rparr>"

definition bridge_deposit_event :: "bridge_event \<Rightarrow> 'w bridge_state \<Rightarrow> 'w bridge_state" where
  "bridge_deposit_event e s = s\<lparr>BridgeEvents := BridgeEvents s @ [e]\<rparr>"

definition deposit_log :: "consensus_log \<Rightarrow> 'w bridge_state \<Rightarrow> 'w bridge_state" where
  "deposit_log l s = s\<lparr>BridgeLogs := BridgeLogs s @ [l]\<rparr>"

definition notary_keys :: "'w bridge_state \<Rightarrow> ethy_id list" where
  "notary_keys s = (case NotaryKeys s of Some keys \<Rightarrow> keys | None \<Rightarrow> [])"

definition bridge_err :: "eth_bridge_error \<Rightarrow> dispatch_error" where
  [call_defs]: "bridge_err e = EthBridge_Error e"

text \<open>A call to another pallet.\<close>

definition on_world :: "('w \<Rightarrow> 'w option) \<Rightarrow> ('w bridge_state, unit) dispatch" where
  "on_world f s = (case f (BridgeWorld s) of
     Some w \<Rightarrow> (Inr (), s\<lparr>BridgeWorld := w\<rparr>)
   | None \<Rightarrow> (Inl Panic, s))"

section \<open>The start of a block\<close>

definition do_generate_event_proof :: "event_proof_id \<Rightarrow> bytes \<Rightarrow> 'w bridge_state \<Rightarrow> 'w bridge_state" where
  "do_generate_event_proof i packed s = deposit_log (OpaqueSigningRequest packed i) s"

text \<open>The remainder by a deadline of zero panics: \<open>None\<close>.\<close>

definition prune_claims :: "'w bridge_config \<Rightarrow> 'w bridge_state \<Rightarrow> 'w bridge_state option" where
  "prune_claims T s =
     (if EventDeadlineSeconds s = 0 then None
      else
        let expired_bucket_index = (unix_now T (BridgeWorld s) mod EventDeadlineSeconds s) div BUCKET_FACTOR_S;
            s1 = fold (\<lambda>tx_hash s. s\<lparr>ProcessedTxHashes := (ProcessedTxHashes s)(tx_hash := None)\<rparr>)
                   (ProcessedTxBuckets s expired_bucket_index) s
        in Some (s1\<lparr>ProcessedTxBuckets := (ProcessedTxBuckets s1)(expired_bucket_index := [])\<rparr>))"

definition process_delayed_proofs :: "'w bridge_config \<Rightarrow> 'w bridge_state \<Rightarrow> 'w bridge_state" where
  "process_delayed_proofs T s =
     fold (\<lambda>(i, packed) s.
         (do_generate_event_proof i packed s)\<lparr>DelayedEventProofs := (DelayedEventProofs s)(i := None)\<rparr>)
       (take (unat (DelayedEventProofsPerBlock s)) (iter_delayed_proofs T (DelayedEventProofs s))) s"

definition bridge_on_initialize ::
  "'w bridge_config \<Rightarrow> block_number \<Rightarrow> 'w bridge_state \<Rightarrow> 'w bridge_state option" where
  "bridge_on_initialize T block_number s =
     map_option (\<lambda>s1.
         if iter_delayed_proofs T (DelayedEventProofs s1) \<noteq> [] \<and> \<not> BridgePaused s1
         then process_delayed_proofs T s1
         else s1)
       (if block_number mod CLAIM_PRUNING_INTERVAL = 0 then prune_claims T s else Some s)"

section \<open>Settings\<close>

definition set_event_confirmations :: "origin \<Rightarrow> u64 \<Rightarrow> ('w bridge_state, unit) dispatch" where
  "set_event_confirmations orig confirmations =
     bind (rooted orig) (\<lambda>_. modify (\<lambda>s. s\<lparr>EventConfirmations := confirmations\<rparr>))"

definition set_event_deadline :: "origin \<Rightarrow> u64 \<Rightarrow> ('w bridge_state, unit) dispatch" where
  "set_event_deadline orig seconds =
     bind (rooted orig) (\<lambda>_. modify (\<lambda>s. s\<lparr>EventDeadlineSeconds := seconds\<rparr>))"

definition set_delayed_event_proofs_per_block :: "origin \<Rightarrow> u8 \<Rightarrow> ('w bridge_state, unit) dispatch" where
  "set_delayed_event_proofs_per_block orig count =
     bind (rooted orig) (\<lambda>_. modify (\<lambda>s. s\<lparr>DelayedEventProofsPerBlock := count\<rparr>))"

section \<open>Event claims\<close>

definition event_type_id_for ::
  "eth_address \<Rightarrow> h256 \<Rightarrow> ('w bridge_state, event_type_id) dispatch" where
  "event_type_id_for contract_address event_signature =
     bind (gets (\<lambda>s. EventTypeToTypeId s (contract_address, event_signature))) (\<lambda>known.
     case known of
       None \<Rightarrow>
         bind (gets NextEventTypeId) (\<lambda>next.
         bind (modify (\<lambda>s. s
           \<lparr>EventTypeToTypeId := (EventTypeToTypeId s)((contract_address, event_signature) \<mapsto> next),
            TypeIdToEventType := (TypeIdToEventType s)(next \<mapsto> (contract_address, event_signature)),
            NextEventTypeId := next + 1\<rparr>)) (\<lambda>_.
         ret next))
     | Some i \<Rightarrow> ret i)"

definition submit_event_claim ::
  "eth_address \<Rightarrow> h256 \<Rightarrow> h256 \<Rightarrow> bytes \<Rightarrow> ('w bridge_state, event_claim_id) dispatch" where
  "submit_event_claim contract_address event_signature tx_hash event_data =
     bind (gets (\<lambda>s. ProcessedTxHashes s tx_hash)) (\<lambda>processed.
     bind (ensure (processed = None) (bridge_err AlreadyNotarized)) (\<lambda>_.
     bind (gets (\<lambda>s. PendingTxHashes s tx_hash)) (\<lambda>pending.
     bind (ensure (pending = None) (bridge_err DuplicateClaim)) (\<lambda>_.
     bind (event_type_id_for contract_address event_signature) (\<lambda>type_id.
     bind (gets NextEventClaimId) (\<lambda>claim_id.
     bind (modify (\<lambda>s. s
       \<lparr>EventData := (EventData s)(claim_id \<mapsto> event_data),
        EventClaims := (EventClaims s)(claim_id \<mapsto> (tx_hash, type_id)),
        NextEventClaimId := claim_id + 1,
        PendingTxHashes := (PendingTxHashes s)(tx_hash \<mapsto> claim_id)\<rparr>)) (\<lambda>_.
     ret claim_id)))))))"

text \<open>The event comes as its ABI encoding.\<close>

definition generate_event_proof :: "bytes \<Rightarrow> ('w bridge_state, event_proof_id) dispatch" where
  "generate_event_proof event =
     bind (gets NextProofId) (\<lambda>i.
     bind (modify (\<lambda>s. s\<lparr>NextProofId := i + 1\<rparr>)) (\<lambda>_.
     bind (gets (\<lambda>s. event @ encode_u64 (NotarySetId s) @ encode_u64 i)) (\<lambda>packed.
     bind (gets BridgePaused) (\<lambda>paused.
     bind (if paused
           then modify (\<lambda>s. bridge_deposit_event (ProofDelayed i)
                  (s\<lparr>DelayedEventProofs := (DelayedEventProofs s)(i \<mapsto> packed)\<rparr>))
           else modify (do_generate_event_proof i packed)) (\<lambda>_.
     ret i)))))"

section \<open>Notarizations\<close>

definition vote_counts :: "(ethy_id \<times> event_claim_result) list \<Rightarrow> u32 \<times> u32" where
  "vote_counts votes =
     (word_of_nat (length (filter (\<lambda>(_, r). r = Valid) votes)),
      word_of_nat (length (filter (\<lambda>(_, r). r \<noteq> Valid) votes)))"

text \<open>
  Both outcomes remove the claim. \<open>take\<close> of the event data fails with \<open>InvalidClaim\<close> when there is none;
  the reads of \<open>EventClaims\<close> and \<open>TypeIdToEventType\<close> have defaults.
\<close>

definition close_claim ::
  "event_claim_id \<Rightarrow> ('w bridge_state, eth_hash \<times> (eth_address \<times> eth_hash) \<times> bytes) dispatch" where
  "close_claim claim_id =
     bind (gets (\<lambda>s. EventData s claim_id)) (\<lambda>data.
     bind (modify (\<lambda>s. s\<lparr>EventData := (EventData s)(claim_id := None)\<rparr>)) (\<lambda>_.
     bind (ok_or data (bridge_err InvalidClaim)) (\<lambda>event_data.
     bind (modify (\<lambda>s. s\<lparr>EventNotarizations := (EventNotarizations s)(claim_id := [])\<rparr>)) (\<lambda>_.
     bind (gets (\<lambda>s. storage_get (0, 0) (EventClaims s) claim_id)) (\<lambda>(tx_hash, type_id).
     bind (modify (\<lambda>s. s\<lparr>EventClaims := (EventClaims s)(claim_id := None)\<rparr>)) (\<lambda>_.
     bind (gets (\<lambda>s. storage_get (0, 0) (TypeIdToEventType s) type_id)) (\<lambda>event_type.
     ret (tx_hash, event_type, event_data))))))))"

definition processed_bucket :: "u64 \<Rightarrow> u64 \<Rightarrow> u64 option" where
  "processed_bucket now ttl = (if ttl = 0 then None else Some (((now + ttl) mod ttl) div BUCKET_FACTOR_S))"

definition reject_claim :: "'w bridge_config \<Rightarrow> event_claim_id \<Rightarrow> ('w bridge_state, unit) dispatch" where
  "reject_claim T claim_id =
     bind (close_claim claim_id) (\<lambda>(tx_hash, (contract_address, event_signature), event_data).
     bind (modify (\<lambda>s. bridge_deposit_event (Invalid claim_id)
       (s\<lparr>PendingTxHashes := (PendingTxHashes s)(tx_hash := None)\<rparr>))) (\<lambda>_.
     on_world (claim_on_failure T claim_id contract_address event_signature event_data)))"

definition verify_claim :: "'w bridge_config \<Rightarrow> event_claim_id \<Rightarrow> ('w bridge_state, unit) dispatch" where
  "verify_claim T claim_id =
     bind (close_claim claim_id) (\<lambda>(tx_hash, (contract_address, event_signature), event_data).
     bind (gets (\<lambda>s. processed_bucket (unix_now T (BridgeWorld s)) (EventDeadlineSeconds s))) (\<lambda>bucket.
     bind (ok_or bucket Panic) (\<lambda>bucket_index.
     bind (modify (\<lambda>s. bridge_deposit_event (Verified claim_id)
       (s\<lparr>ProcessedTxBuckets := (ProcessedTxBuckets s)
            (bucket_index := List.insert tx_hash (ProcessedTxBuckets s bucket_index)),
          ProcessedTxHashes := (ProcessedTxHashes s)(tx_hash \<mapsto> ()),
          PendingTxHashes := (PendingTxHashes s)(tx_hash := None)\<rparr>))) (\<lambda>_.
     on_world (claim_on_success T claim_id contract_address event_signature event_data)))))"

definition handle_event_notarization ::
  "'w bridge_config \<Rightarrow> event_claim_id \<Rightarrow> event_claim_result \<Rightarrow> ethy_id \<Rightarrow> ('w bridge_state, unit) dispatch" where
  "handle_event_notarization T claim_id result notary_id =
     bind (gets (\<lambda>s. EventClaims s claim_id)) (\<lambda>claim.
     bind (ensure (claim \<noteq> None) (bridge_err InvalidClaim)) (\<lambda>_.
     bind (modify (\<lambda>s. s\<lparr>EventNotarizations := (EventNotarizations s)
       (claim_id := AList.update notary_id result (EventNotarizations s claim_id))\<rparr>)) (\<lambda>_.
     bind (gets (\<lambda>s. word_of_nat (length (validators T (BridgeWorld s))) :: u32)) (\<lambda>notary_count.
     bind (gets (\<lambda>s. vote_counts (EventNotarizations s claim_id))) (\<lambda>(yay_count, nay_count).
     if 100 - notarization_threshold T < percent_from_rational T (unat nay_count) (unat notary_count) then
       reject_claim T claim_id
     else if notarization_threshold T \<le> percent_from_rational T (unat yay_count) (unat notary_count) then
       verify_claim T claim_id
     else ret ())))))"

definition call_callback ::
  "'w bridge_config \<Rightarrow> eth_call_id \<Rightarrow> checked_eth_call_result \<Rightarrow> 'w \<Rightarrow> 'w option" where
  "call_callback T call_id result =
     (case result of
        CallOk return_data block timestamp \<Rightarrow> on_eth_call_complete T call_id return_data block timestamp
      | ReturnDataEmpty \<Rightarrow> on_eth_call_failed T call_id FailedReturnDataEmpty
      | ReturnDataExceedsLimit \<Rightarrow> on_eth_call_failed T call_id FailedReturnDataExceedsLimit
      | _ \<Rightarrow> on_eth_call_failed T call_id FailedInternal)"

definition do_callback_and_clean_up ::
  "'w bridge_config \<Rightarrow> eth_call_id \<Rightarrow> checked_eth_call_result \<Rightarrow> ('w bridge_state, unit) dispatch" where
  "do_callback_and_clean_up T call_id result =
     bind (on_world (call_callback T call_id result)) (\<lambda>_.
     modify (\<lambda>s. s
       \<lparr>EthCallNotarizations := (EthCallNotarizations s)(call_id := []),
        EthCallNotarizationsAggregated := (EthCallNotarizationsAggregated s)(call_id := None),
        EthCallRequestInfo := (EthCallRequestInfo s)(call_id := None),
        EthCallRequests := remove1 call_id (EthCallRequests s)\<rparr>))"

definition handle_call_notarization ::
  "'w bridge_config \<Rightarrow> eth_call_id \<Rightarrow> checked_eth_call_result \<Rightarrow> ethy_id \<Rightarrow> ('w bridge_state, unit) dispatch" where
  "handle_call_notarization T call_id result notary_id =
     bind (gets (\<lambda>s. EthCallRequestInfo s call_id)) (\<lambda>info.
     bind (ensure (info \<noteq> None) (bridge_err InvalidClaim)) (\<lambda>_.
     bind (modify (\<lambda>s. s\<lparr>EthCallNotarizations := (EthCallNotarizations s)
       (call_id := AList.update notary_id result (EthCallNotarizations s call_id))\<rparr>)) (\<lambda>_.
     bind (gets (\<lambda>s. btree_entry result 0 (\<lambda>n. n + 1)
       (storage_get [] (EthCallNotarizationsAggregated s) call_id))) (\<lambda>notarizations.
     bind (gets (\<lambda>s. word_of_nat (length (validators T (BridgeWorld s))) :: u32)) (\<lambda>notary_count.
     let reaches = (\<lambda>count :: u32. notarization_threshold T \<le> percent_from_rational T (unat count) (unat notary_count));
         total_count = sum_list (map snd notarizations);
         outstanding_count = saturating_sub notary_count total_count
     in case find (\<lambda>(_, count). reaches count) notarizations of
          Some (agreed, _) \<Rightarrow> do_callback_and_clean_up T call_id agreed
        | None \<Rightarrow>
            if total_count = notary_count \<or> \<not> (\<exists>(_, count) \<in> set notarizations. reaches (count + outstanding_count))
            then do_callback_and_clean_up T call_id result
            else modify (\<lambda>s. s\<lparr>EthCallNotarizationsAggregated :=
                   (EthCallNotarizationsAggregated s)(call_id \<mapsto> notarizations)\<rparr>))))))"

definition submit_notarization ::
  "'w bridge_config \<Rightarrow> origin \<Rightarrow> notarization_payload \<Rightarrow> ('w bridge_state, unit) dispatch" where
  "submit_notarization T orig payload =
     transactional (
     bind (ensure_none orig) (\<lambda>_.
     let index = unat (authority_index payload) in
     bind (gets notary_keys) (\<lambda>keys.
     bind (ensure (index < length keys) (bridge_err InvalidNotarization)) (\<lambda>_.
     bind (case payload of
             CallPayload call_id _ result \<Rightarrow> handle_call_notarization T call_id result (keys ! index)
           | EventPayload claim_id _ result \<Rightarrow> handle_event_notarization T claim_id result (keys ! index)) (\<lambda>_.
     modify (\<lambda>s.
       let vs = validators T (BridgeWorld s)
       in if index < length vs then s\<lparr>BridgeWorld := reward_notary T (vs ! index) (BridgeWorld s)\<rparr> else s))))))"

section \<open>Validation of unsigned transactions\<close>

text \<open>
  The signature scheme is a parameter: \<open>verify\<close> says whether the signature of a public key on the payload is
  right. A valid transaction has its tags.
\<close>

datatype transaction_validity = BadProof | ValidTransaction "bytes list"

definition validate_unsigned ::
  "(ethy_id \<Rightarrow> notarization_payload \<Rightarrow> 'sig \<Rightarrow> bool) \<Rightarrow> notarization_payload \<Rightarrow> 'sig \<Rightarrow>
    'w bridge_state \<Rightarrow> transaction_validity" where
  "validate_unsigned verify payload signature s =
     (let keys = notary_keys s; index = unat (authority_index payload)
      in if \<not> index < length keys then BadProof
         else if map_of (EventNotarizations s (payload_id payload)) (keys ! index) \<noteq> None then BadProof
         else if \<not> verify (keys ! index) payload signature then BadProof
         else ValidTransaction
           [ascii ''notarize'', to_be_bytes 8 (payload_type_id payload), to_be_bytes 8 (payload_id payload),
            to_be_bytes 8 (ucast (authority_index payload) :: u64)])"

section \<open>The notary set\<close>

definition log_notary_change :: "ethy_id list \<Rightarrow> 'w bridge_state \<Rightarrow> 'w bridge_state" where
  "log_notary_change next_keys s =
     (let i = NextProofId s;
          next_validator_set_id = NotarySetId s + 1;
          s1 = bridge_deposit_event (AuthoritySetChange i next_validator_set_id) (s\<lparr>NextNotaryKeys := next_keys\<rparr>)
      in deposit_log (PendingAuthoritiesChange next_keys next_validator_set_id i)
           (s1\<lparr>NotarySetProofId := i, NextProofId := i + 1\<rparr>))"

definition handle_authorities_change ::
  "'w bridge_config \<Rightarrow> ethy_id list \<Rightarrow> ethy_id list \<Rightarrow> 'w bridge_state \<Rightarrow> 'w bridge_state" where
  "handle_authorities_change T new queued s =
     (if fst (is_next_session_final T (BridgeWorld s)) then log_notary_change queued s
      else if is_active_session_final T (BridgeWorld s) then
        let s1 = s\<lparr>BridgePaused := True\<rparr>
        in if NextNotaryKeys s1 = [] then log_notary_change new s1 else s1
      else s)"

text \<open>\<open>None\<close>: the assertion that the keys are not initialized fails.\<close>

definition on_genesis_session :: "ethy_id list \<Rightarrow> 'w bridge_state \<Rightarrow> 'w bridge_state option" where
  "on_genesis_session keys s =
     (if keys = [] then Some s
      else if NotaryKeys s = None then Some (s\<lparr>NotaryKeys := Some keys\<rparr>)
      else None)"

definition on_new_session ::
  "'w bridge_config \<Rightarrow> ethy_id list \<Rightarrow> ethy_id list \<Rightarrow> 'w bridge_state \<Rightarrow> 'w bridge_state" where
  "on_new_session T keys queued_keys s =
     (if fst (is_next_session_final T (BridgeWorld s)) \<or> is_active_session_final T (BridgeWorld s)
      then handle_authorities_change T keys queued_keys s
      else s)"

definition on_before_session_ending :: "'w bridge_config \<Rightarrow> 'w bridge_state \<Rightarrow> 'w bridge_state" where
  "on_before_session_ending T s =
     (if is_active_session_final T (BridgeWorld s)
      then s\<lparr>BridgePaused := False, NotaryKeys := Some (NextNotaryKeys s), NextNotaryKeys := [],
             NotarySetId := NotarySetId s + 1\<rparr>
      else s)"

section \<open>The call oracle\<close>

definition checked_eth_call ::
  "'w bridge_config \<Rightarrow> eth_address \<Rightarrow> bytes \<Rightarrow> u64 \<Rightarrow> u64 \<Rightarrow> u64 \<Rightarrow> 'w bridge_state \<Rightarrow> eth_call_id \<times> 'w bridge_state" where
  "checked_eth_call T target input timestamp try_block_number max_block_look_behind s =
     (let call_id = NextEthCallId s
      in (call_id, s
        \<lparr>EthCallRequestInfo := (EthCallRequestInfo s)(call_id \<mapsto>
           \<lparr>cr_input = input, cr_target = target, cr_timestamp = timestamp,
            cr_max_block_look_behind = max_block_look_behind, cr_try_block_number = try_block_number,
            cr_check_timestamp = unix_now T (BridgeWorld s)\<rparr>),
         EthCallRequests := EthCallRequests s @ [call_id],
         NextEthCallId := call_id + 1\<rparr>))"

end
