(* ===== verification/Eth_Offchain.thy ===== *)
theory Eth_Offchain
  imports Eth_Bridge
begin

text \<open>
  The off-chain worker of the Ethereum bridge (\<open>crml/eth-bridge/src/lib.rs\<close>): what a validator answers about
  a claim or a call after it asked an Ethereum node, and the notarizations it sends for a block. The
  node, the local keys and the clock are arguments; signing and sending the transactions are not modelled, the
  functions return the payloads.
\<close>

section \<open>Verifying an event\<close>

definition offchain_try_notarize_event ::
  "bridge_rpc \<Rightarrow> u64 \<Rightarrow> event_claim \<Rightarrow> 'w bridge_state \<Rightarrow> event_claim_result" where
  "offchain_try_notarize_event rpc now claim s =
     (case get_transaction_receipt rpc (ec_tx_hash claim) of
        Inl _ \<Rightarrow> DataProviderErr
      | Inr None \<Rightarrow> NoTxLogs
      | Inr (Some receipt) \<Rightarrow>
          if (case tr_status receipt of Some status \<Rightarrow> status | None \<Rightarrow> 0) = 0 then TxStatusFailed
          else if tr_to receipt \<noteq> Some (ec_contract_address claim) then UnexpectedContractAddress
          else case find (\<lambda>log. log_transaction_hash log = Some (ec_tx_hash claim) \<and>
                   ec_event_signature claim \<in> set (log_topics log)) (tr_logs receipt) of
            None \<Rightarrow> NoTxLogs
          | Some log \<Rightarrow>
              if log_data log \<noteq> ec_data claim then UnexpectedData
              else if log_address log \<noteq> ec_contract_address claim then UnexpectedContractAddress
              else case get_block_by_number rpc Latest of
                Inr None \<Rightarrow> DataProviderErr
              | Inl _ \<Rightarrow> DataProviderErr
              | Inr (Some latest) \<Rightarrow>
                  let latest_number = (case eb_number latest of Some n \<Rightarrow> n | None \<Rightarrow> 0);
                      block_confirmations = saturating_sub latest_number (tr_block_number receipt)
                  in if block_confirmations < EventConfirmations s then NotEnoughConfirmations
                     else if EventDeadlineSeconds s < block_confirmations * 14 then Expired
                     else case get_block_by_number rpc (Number (tr_block_number receipt)) of
                       Inr None \<Rightarrow> DataProviderErr
                     | Inl _ \<Rightarrow> DataProviderErr
                     | Inr (Some observed) \<Rightarrow>
                         if EventDeadlineSeconds s < saturating_sub now (saturated_u64 (eb_timestamp observed))
                         then Expired else Valid)"

section \<open>Checking a call\<close>

text \<open>The block of the call: the one asked for when it is recent enough, the latest one otherwise.\<close>

definition call_target_block ::
  "bridge_rpc \<Rightarrow> u64 \<Rightarrow> checked_eth_call_request \<Rightarrow> u64 \<Rightarrow> u64 \<Rightarrow> (u64 \<times> u64) option" where
  "call_target_block rpc now request latest_number latest_timestamp =
     (let check_delay = saturating_sub now (cr_check_timestamp request);
          extra_look_behind = check_delay div 12;
          oldest = saturating_sub (saturating_sub latest_number (cr_max_block_look_behind request)) extra_look_behind
      in if oldest \<le> cr_try_block_number request \<and> cr_try_block_number request < latest_number then
           (case get_block_by_number rpc (Number (cr_try_block_number request)) of
              Inr (Some block) \<Rightarrow> Some (cr_try_block_number request, saturated_u64 (eb_timestamp block))
            | _ \<Rightarrow> None)
         else Some (latest_number, latest_timestamp))"

definition offchain_try_eth_call ::
  "bridge_rpc \<Rightarrow> u64 \<Rightarrow> checked_eth_call_request \<Rightarrow> checked_eth_call_result" where
  "offchain_try_eth_call rpc now request =
     (case get_block_by_number rpc Latest of
        Inr None \<Rightarrow> CallDataProviderErr
      | Inl _ \<Rightarrow> CallDataProviderErr
      | Inr (Some latest) \<Rightarrow>
          let latest_timestamp = saturated_u64 (eb_timestamp latest)
          in if latest_timestamp = - 1 then InvalidTimestamp
             else if latest_timestamp < cr_timestamp request then InvalidTimestamp
             else case eb_number latest of
               None \<Rightarrow> InvalidEthBlock
             | Some number \<Rightarrow>
                 if number = 0 \<or> number = - 1 then InvalidEthBlock
                 else case call_target_block rpc now request number latest_timestamp of
                   None \<Rightarrow> CallDataProviderErr
                 | Some (target_number, target_timestamp) \<Rightarrow>
                     (case eth_call rpc (cr_target request) (cr_input request) (Number target_number) of
                        Inl _ \<Rightarrow> CallDataProviderErr
                      | Inr return_data \<Rightarrow>
                          if return_data = [] then ReturnDataEmpty
                          else if length return_data = 32 then CallOk return_data target_number target_timestamp
                          else ReturnDataExceedsLimit))"

section \<open>The worker\<close>

text \<open>The first local key that is a notary key, with its place among the notary keys.\<close>

fun find_active_ethy_key :: "ethy_id list \<Rightarrow> ethy_id list \<Rightarrow> (ethy_id \<times> 16 word) option" where
  "find_active_ethy_key keys [] = None"
| "find_active_ethy_key keys (key # local_keys) =
     (if key \<in> set keys then Some (key, word_of_nat (length (takeWhile (\<lambda>k. k \<noteq> key) keys)))
      else find_active_ethy_key keys local_keys)"

text \<open>\<open>claims\<close> are the entries of \<open>EventClaims\<close> in the order of the storage iteration.\<close>

definition do_event_notarization_ocw ::
  "bridge_rpc \<Rightarrow> u64 \<Rightarrow> (event_claim_id \<times> eth_hash \<times> event_type_id) list \<Rightarrow> ethy_id \<Rightarrow> 16 word \<Rightarrow>
    'w bridge_state \<Rightarrow> notarization_payload list" where
  "do_event_notarization_ocw rpc now claims active_key index s =
     (if BridgePaused s then []
      else List.map_filter (\<lambda>(claim_id, tx_hash, type_id).
        if map_of (EventNotarizations s claim_id) active_key \<noteq> None then None
        else case EventData s claim_id of
          None \<Rightarrow> None
        | Some event_data \<Rightarrow>
            let event_type = storage_get (0, 0) (TypeIdToEventType s) type_id;
                claim = \<lparr>ec_tx_hash = tx_hash, ec_data = event_data, ec_contract_address = fst event_type,
                  ec_event_signature = snd event_type\<rparr>
            in Some (EventPayload claim_id index (offchain_try_notarize_event rpc now claim s)))
       (take CLAIMS_PER_BLOCK claims))"

definition do_call_notarization_ocw ::
  "bridge_rpc \<Rightarrow> u64 \<Rightarrow> ethy_id \<Rightarrow> 16 word \<Rightarrow> 'w bridge_state \<Rightarrow> notarization_payload list" where
  "do_call_notarization_ocw rpc now active_key index s =
     List.map_filter (\<lambda>call_id.
       if map_of (EthCallNotarizations s call_id) active_key \<noteq> None then None
       else case EthCallRequestInfo s call_id of
         None \<Rightarrow> None
       | Some request \<Rightarrow> Some (CallPayload call_id index (offchain_try_eth_call rpc now request)))
      (take CALLS_PER_BLOCK (EthCallRequests s))"

definition offchain_worker ::
  "'w bridge_config \<Rightarrow> bridge_rpc \<Rightarrow> bool \<Rightarrow> ethy_id list \<Rightarrow>
    (event_claim_id \<times> eth_hash \<times> event_type_id) list \<Rightarrow> 'w bridge_state \<Rightarrow> notarization_payload list" where
  "offchain_worker T rpc is_validator local_keys claims s =
     (if \<not> is_validator then []
      else case find_active_ethy_key (notary_keys s) local_keys of
        None \<Rightarrow> []
      | Some (active_key, index) \<Rightarrow>
          let supports = length (notary_keys s); now = unix_now T (BridgeWorld s)
          in if percent_from_rational T supports (length (validators T (BridgeWorld s))) < ActivationThreshold s then []
             else do_event_notarization_ocw rpc now claims active_key index s @
                  do_call_notarization_ocw rpc now active_key index s)"

end
