(* ===== verification/Eth_Bridge_Inv.thy ===== *)
theory Eth_Bridge_Inv
  imports Eth_Bridge
begin

text \<open>
  Histories of the bridge and what holds in all of them: every claim that waits for notarization has its data and
  is the only one for its transaction, and a transaction that was processed is recorded in exactly one bucket.
\<close>

section \<open>Histories\<close>

text \<open>
  A step is a call of the bridge that did not panic, the start of a block, a change of session, or a change of the
  storage of the other pallets. The identifiers of claims have 64 bits; a history uses fewer.
\<close>

inductive bridge_step :: "'w bridge_config \<Rightarrow> 'w bridge_state \<Rightarrow> 'w bridge_state \<Rightarrow> bool" for T where
  step_claim: "submit_event_claim contract sig tx data s = (r, s') \<Longrightarrow> NextEventClaimId s \<noteq> - 1 \<Longrightarrow>
    bridge_step T s s'"
| step_proof: "generate_event_proof event s = (r, s') \<Longrightarrow> bridge_step T s s'"
| step_notarize: "submit_notarization T orig payload s = (r, s') \<Longrightarrow> r \<noteq> Inl Panic \<Longrightarrow> bridge_step T s s'"
| step_confirmations: "set_event_confirmations orig n s = (r, s') \<Longrightarrow> bridge_step T s s'"
| step_deadline: "set_event_deadline orig n s = (r, s') \<Longrightarrow> bridge_step T s s'"
| step_per_block: "set_delayed_event_proofs_per_block orig k s = (r, s') \<Longrightarrow> bridge_step T s s'"
| step_block: "bridge_on_initialize T n s = Some s' \<Longrightarrow> bridge_step T s s'"
| step_genesis_session: "on_genesis_session keys s = Some s' \<Longrightarrow> bridge_step T s s'"
| step_new_session: "bridge_step T s (on_new_session T keys queued s)"
| step_session_ending: "bridge_step T s (on_before_session_ending T s)"
| step_call: "checked_eth_call T target inp timestamp try behind s = (i, s') \<Longrightarrow> bridge_step T s s'"
| step_elsewhere: "bridge_step T s (s\<lparr>BridgeWorld := w\<rparr>)"

inductive bridge_reachable :: "'w bridge_config \<Rightarrow> 'w bridge_state \<Rightarrow> bool" for T where
  bridge_start: "bridge_reachable T (bridge_genesis w threshold)"
| bridge_more: "bridge_reachable T s \<Longrightarrow> bridge_step T s s' \<Longrightarrow> bridge_reachable T s'"

declare preserves_option_case [preserves_rules] preserves_prod_case [preserves_rules]

section \<open>The invariant\<close>

definition claims_ok :: "'w bridge_state \<Rightarrow> bool" where
  "claims_ok s \<longleftrightarrow> (\<forall>i tx ty. EventClaims s i = Some (tx, ty) \<longrightarrow>
     i < NextEventClaimId s \<and> EventData s i \<noteq> None \<and> PendingTxHashes s tx = Some i)"

lemma claims_okD:
  assumes "claims_ok s" and "EventClaims s i = Some (tx, ty)"
  shows "i < NextEventClaimId s" and "EventData s i \<noteq> None" and "PendingTxHashes s tx = Some i"
  using assms unfolding claims_ok_def by blast+

definition pending_ok :: "'w bridge_state \<Rightarrow> bool" where
  "pending_ok s \<longleftrightarrow> (\<forall>tx i. PendingTxHashes s tx = Some i \<longrightarrow> (\<exists>ty. EventClaims s i = Some (tx, ty)))"

definition processed_ok :: "'w bridge_state \<Rightarrow> bool" where
  "processed_ok s \<longleftrightarrow>
     (\<forall>tx. ProcessedTxHashes s tx \<noteq> None \<longleftrightarrow> (\<exists>b. tx \<in> set (ProcessedTxBuckets s b))) \<and>
     (\<forall>tx b c. tx \<in> set (ProcessedTxBuckets s b) \<longrightarrow> tx \<in> set (ProcessedTxBuckets s c) \<longrightarrow> b = c) \<and>
     (\<forall>tx. ProcessedTxHashes s tx \<noteq> None \<longrightarrow> PendingTxHashes s tx = None)"

definition bridge_inv :: "'w bridge_state \<Rightarrow> bool" where
  "bridge_inv s \<longleftrightarrow> claims_ok s \<and> pending_ok s \<and> processed_ok s"

lemmas bridge_inv_defs = bridge_inv_def claims_ok_def pending_ok_def processed_ok_def

text \<open>The invariant depends on the storage of claims and processed transactions only.\<close>

lemma bridge_inv_frame [simp]:
  "bridge_inv (s\<lparr>BridgeWorld := x0\<rparr>) = bridge_inv s"
  "bridge_inv (s\<lparr>ActivationThreshold := x1\<rparr>) = bridge_inv s"
  "bridge_inv (s\<lparr>DelayedEventProofs := x2\<rparr>) = bridge_inv s"
  "bridge_inv (s\<lparr>EventNotarizations := x3\<rparr>) = bridge_inv s"
  "bridge_inv (s\<lparr>EventTypeToTypeId := x4\<rparr>) = bridge_inv s"
  "bridge_inv (s\<lparr>TypeIdToEventType := x5\<rparr>) = bridge_inv s"
  "bridge_inv (s\<lparr>NextEventTypeId := x6\<rparr>) = bridge_inv s"
  "bridge_inv (s\<lparr>NextProofId := x7\<rparr>) = bridge_inv s"
  "bridge_inv (s\<lparr>NotaryKeys := x8\<rparr>) = bridge_inv s"
  "bridge_inv (s\<lparr>NextNotaryKeys := x9\<rparr>) = bridge_inv s"
  "bridge_inv (s\<lparr>NotarySetId := x10\<rparr>) = bridge_inv s"
  "bridge_inv (s\<lparr>NotarySetProofId := x11\<rparr>) = bridge_inv s"
  "bridge_inv (s\<lparr>BridgePaused := x12\<rparr>) = bridge_inv s"
  "bridge_inv (s\<lparr>EventConfirmations := x13\<rparr>) = bridge_inv s"
  "bridge_inv (s\<lparr>DelayedEventProofsPerBlock := x14\<rparr>) = bridge_inv s"
  "bridge_inv (s\<lparr>EventDeadlineSeconds := x15\<rparr>) = bridge_inv s"
  "bridge_inv (s\<lparr>NextEthCallId := x16\<rparr>) = bridge_inv s"
  "bridge_inv (s\<lparr>EthCallRequests := x17\<rparr>) = bridge_inv s"
  "bridge_inv (s\<lparr>EthCallNotarizations := x18\<rparr>) = bridge_inv s"
  "bridge_inv (s\<lparr>EthCallNotarizationsAggregated := x19\<rparr>) = bridge_inv s"
  "bridge_inv (s\<lparr>EthCallRequestInfo := x20\<rparr>) = bridge_inv s"
  "bridge_inv (s\<lparr>BridgeEvents := x21\<rparr>) = bridge_inv s"
  "bridge_inv (s\<lparr>BridgeLogs := x22\<rparr>) = bridge_inv s"
  by (simp_all add: bridge_inv_defs)

lemma bridge_inv_events [simp]:
  "bridge_inv (bridge_deposit_event e s) = bridge_inv s"
  "bridge_inv (deposit_log l s) = bridge_inv s"
  "bridge_inv (do_generate_event_proof i packed s) = bridge_inv s"
  by (simp_all add: bridge_deposit_event_def deposit_log_def do_generate_event_proof_def)

lemma pending_okI:
  "(\<And>tx i. PendingTxHashes s tx = Some i \<Longrightarrow> \<exists>ty. EventClaims s i = Some (tx, ty)) \<Longrightarrow> pending_ok s"
  by (simp add: pending_ok_def)

lemma pending_okD: "pending_ok s \<Longrightarrow> PendingTxHashes s tx = Some i \<Longrightarrow> \<exists>ty. EventClaims s i = Some (tx, ty)"
  by (simp add: pending_ok_def)

lemma not_processed: "processed_ok s \<Longrightarrow> ProcessedTxHashes s tx = None \<Longrightarrow> tx \<notin> set (ProcessedTxBuckets s b)"
  unfolding processed_ok_def by fastforce

lemma processed_okD:
  assumes "processed_ok s"
  shows "ProcessedTxHashes s tx \<noteq> None \<longleftrightarrow> (\<exists>b. tx \<in> set (ProcessedTxBuckets s b))"
    and "tx \<in> set (ProcessedTxBuckets s b) \<Longrightarrow> tx \<in> set (ProcessedTxBuckets s c) \<Longrightarrow> b = c"
    and "ProcessedTxHashes s tx \<noteq> None \<Longrightarrow> PendingTxHashes s tx = None"
proof -
  note ok = assms [unfolded processed_ok_def]
  show "ProcessedTxHashes s tx \<noteq> None \<longleftrightarrow> (\<exists>b. tx \<in> set (ProcessedTxBuckets s b))"
    by (rule spec [OF conjunct1 [OF ok]])
  show "tx \<in> set (ProcessedTxBuckets s b) \<Longrightarrow> tx \<in> set (ProcessedTxBuckets s c) \<Longrightarrow> b = c"
    using conjunct1 [OF conjunct2 [OF ok]] by blast
  show "ProcessedTxHashes s tx \<noteq> None \<Longrightarrow> PendingTxHashes s tx = None"
    using conjunct2 [OF conjunct2 [OF ok]] by blast
qed

lemma processed_okI:
  assumes "\<And>tx. ProcessedTxHashes s tx \<noteq> None \<longleftrightarrow> (\<exists>b. tx \<in> set (ProcessedTxBuckets s b))"
    and "\<And>tx b c. tx \<in> set (ProcessedTxBuckets s b) \<Longrightarrow> tx \<in> set (ProcessedTxBuckets s c) \<Longrightarrow> b = c"
    and "\<And>tx. ProcessedTxHashes s tx \<noteq> None \<Longrightarrow> PendingTxHashes s tx = None"
  shows "processed_ok s"
  unfolding processed_ok_def using assms(2,3) by (intro conjI allI impI assms(1)) blast+

lemma pending_not_processed: "processed_ok s \<Longrightarrow> PendingTxHashes s tx = Some i \<Longrightarrow> ProcessedTxHashes s tx = None"
  by (cases "ProcessedTxHashes s tx") (auto simp: processed_ok_def simp del: not_None_eq)

lemma bridge_inv_start: "bridge_inv (bridge_genesis w threshold)"
  by (simp add: bridge_inv_defs bridge_genesis_def)

section \<open>Claims\<close>

lemma event_type_id_for_iff:
  "event_type_id_for contract sig s = (r, s') \<longleftrightarrow>
     (case EventTypeToTypeId s (contract, sig) of
        Some i \<Rightarrow> r = Inr i \<and> s' = s
      | None \<Rightarrow> r = Inr (NextEventTypeId s) \<and>
          s' = s\<lparr>EventTypeToTypeId := (EventTypeToTypeId s)((contract, sig) \<mapsto> NextEventTypeId s),
                TypeIdToEventType := (TypeIdToEventType s)(NextEventTypeId s \<mapsto> (contract, sig)),
                NextEventTypeId := NextEventTypeId s + 1\<rparr>)"
  by (auto simp: event_type_id_for_def call_defs split: option.splits)

lemma submit_event_claim_fields:
  assumes "submit_event_claim contract sig tx data s = (Inr i, s')"
  shows "ProcessedTxHashes s tx = None" and "PendingTxHashes s tx = None" and "i = NextEventClaimId s"
    and "NextEventClaimId s' = i + 1" and "EventData s' = (EventData s)(i \<mapsto> data)"
    and "\<exists>ty. EventClaims s' = (EventClaims s)(i \<mapsto> (tx, ty))"
    and "PendingTxHashes s' = (PendingTxHashes s)(tx \<mapsto> i)"
    and "ProcessedTxHashes s' = ProcessedTxHashes s" and "ProcessedTxBuckets s' = ProcessedTxBuckets s"
  using assms
  by (auto simp: submit_event_claim_def call_eqs event_type_id_for_iff split: option.splits if_splits)

lemma submit_event_claim_error:
  "submit_event_claim contract sig tx data s = (Inl e, s') \<Longrightarrow>
     s' = s \<and> (ProcessedTxHashes s tx \<noteq> None \<or> PendingTxHashes s tx \<noteq> None)"
  by (auto simp: submit_event_claim_def call_eqs event_type_id_for_iff split: option.splits if_splits)

lemma submit_event_claim_accepts:
  "ProcessedTxHashes s tx = None \<Longrightarrow> PendingTxHashes s tx = None \<Longrightarrow>
     \<exists>s'. submit_event_claim contract sig tx data s = (Inr (NextEventClaimId s), s')"
  by (cases "submit_event_claim contract sig tx data s"; cases "fst (submit_event_claim contract sig tx data s)")
    (auto dest: submit_event_claim_error submit_event_claim_fields(3))

lemma claim_inv:
  assumes "bridge_inv s" and "submit_event_claim contract sig tx data s = (r, s')" and "NextEventClaimId s \<noteq> - 1"
  shows "bridge_inv s'"
proof (cases r)
  case (Inl e)
  with assms submit_event_claim_error show ?thesis by blast
next
  case (Inr i)
  note f = submit_event_claim_fields [OF assms(2) [unfolded Inr]]
  obtain ty where claims: "EventClaims s' = (EventClaims s)(i \<mapsto> (tx, ty))"
    using f(6) by blast
  have c: "claims_ok s" and p: "pending_ok s" and q: "processed_ok s"
    using assms(1) by (simp_all add: bridge_inv_def)
  have fresh: "EventClaims s i = None"
    using c f(3) by (cases "EventClaims s i") (auto simp: claims_ok_def)
  have new: "EventClaims s j \<noteq> Some (tx, ty')" for j ty'
    using c f(2) unfolding claims_ok_def by fastforce
  have "claims_ok s'"
    using c new less_next [OF assms(3)] by (auto simp: claims_ok_def claims f(3,4,5,7))
  moreover have "pending_ok s'"
    using fresh by (intro pending_okI) (auto simp: claims f(7) split: if_splits dest!: pending_okD [OF p])
  moreover have "processed_ok s'"
    using q f(1) not_processed [OF q f(1)] unfolding processed_ok_def f(7-9) by (auto simp del: not_None_eq)
  ultimately show ?thesis
    by (simp add: bridge_inv_def)
qed

section \<open>Notarizations\<close>

lemma close_claim_iff:
  "close_claim i s = (Inr (tx, et, data), s') \<longleftrightarrow>
     EventData s i = Some data \<and>
     (\<exists>ty. storage_get (0, 0) (EventClaims s) i = (tx, ty) \<and> et = storage_get (0, 0) (TypeIdToEventType s) ty) \<and>
     s' = s\<lparr>EventData := (EventData s)(i := None), EventNotarizations := (EventNotarizations s)(i := []),
           EventClaims := (EventClaims s)(i := None)\<rparr>"
  by (cases "storage_get (0, 0) (EventClaims s) i") (auto simp: close_claim_def call_eqs)

lemma on_world_Inr_iff [call_eqs]:
  "on_world f s = (Inr u, s') \<longleftrightarrow> (\<exists>w. f (BridgeWorld s) = Some w \<and> s' = s\<lparr>BridgeWorld := w\<rparr>)"
  by (auto simp: on_world_def split: option.splits)

text \<open>What the storage of claims is after a claim was found invalid, and after it was verified.\<close>

definition claim_closed :: "event_claim_id \<Rightarrow> eth_hash \<Rightarrow> 'w bridge_state \<Rightarrow> 'w bridge_state \<Rightarrow> bool" where
  "claim_closed i tx s s' \<longleftrightarrow>
     EventClaims s' = (EventClaims s)(i := None) \<and> EventData s' = (EventData s)(i := None) \<and>
     PendingTxHashes s' = (PendingTxHashes s)(tx := None) \<and> NextEventClaimId s' = NextEventClaimId s"

definition tx_processed :: "u64 \<Rightarrow> eth_hash \<Rightarrow> 'w bridge_state \<Rightarrow> 'w bridge_state \<Rightarrow> bool" where
  "tx_processed b tx s s' \<longleftrightarrow>
     ProcessedTxHashes s' = (ProcessedTxHashes s)(tx \<mapsto> ()) \<and>
     ProcessedTxBuckets s' = (ProcessedTxBuckets s)(b := List.insert tx (ProcessedTxBuckets s b))"

definition processed_same :: "'w bridge_state \<Rightarrow> 'w bridge_state \<Rightarrow> bool" where
  "processed_same s s' \<longleftrightarrow>
     ProcessedTxHashes s' = ProcessedTxHashes s \<and> ProcessedTxBuckets s' = ProcessedTxBuckets s"

definition claims_same :: "'w bridge_state \<Rightarrow> 'w bridge_state \<Rightarrow> bool" where
  "claims_same s s' \<longleftrightarrow>
     EventClaims s' = EventClaims s \<and> EventData s' = EventData s \<and>
     PendingTxHashes s' = PendingTxHashes s \<and> NextEventClaimId s' = NextEventClaimId s"

lemmas claim_change_defs = claim_closed_def tx_processed_def processed_same_def claims_same_def

lemma reject_claim_fields:
  assumes "reject_claim T i s = (Inr u, s')" and "EventClaims s i = Some (tx, ty)"
  shows "claim_closed i tx s s'" and "processed_same s s'"
  using assms
  by (auto simp: reject_claim_def call_eqs close_claim_iff claim_change_defs bridge_deposit_event_def storage_get_def)

lemma verify_claim_fields:
  assumes "verify_claim T i s = (Inr u, s')" and "EventClaims s i = Some (tx, ty)"
  shows "claim_closed i tx s s'"
    and "\<exists>b. processed_bucket (unix_now T (BridgeWorld s)) (EventDeadlineSeconds s) = Some b \<and> tx_processed b tx s s'"
    and "EventDeadlineSeconds s' = EventDeadlineSeconds s"
  using assms
  by (auto simp: verify_claim_def call_eqs close_claim_iff claim_change_defs bridge_deposit_event_def storage_get_def)

text \<open>The state in which the vote of a notary is counted.\<close>

definition vote_cast :: "event_claim_id \<Rightarrow> event_claim_result \<Rightarrow> ethy_id \<Rightarrow> 'w bridge_state \<Rightarrow> 'w bridge_state" where
  "vote_cast i result key s =
     s\<lparr>EventNotarizations := (EventNotarizations s)(i := AList.update key result (EventNotarizations s i))\<rparr>"

lemma event_notarization_cases:
  assumes "handle_event_notarization T i result key s = (Inr u, s')"
  obtains (waits) "s' = vote_cast i result key s"
  | (rejected) "reject_claim T i (vote_cast i result key s) = (Inr (), s')"
  | (verified) "verify_claim T i (vote_cast i result key s) = (Inr (), s')"
  using assms
  by (simp add: handle_event_notarization_def call_eqs split_beta vote_cast_def split: if_splits)

lemma event_notarization_claim:
  "handle_event_notarization T i result key s = (Inr u, s') \<Longrightarrow> \<exists>tx ty. EventClaims s i = Some (tx, ty)"
  by (simp add: handle_event_notarization_def call_eqs split: if_splits)

lemma vote_cast_inv: "bridge_inv s \<Longrightarrow> bridge_inv (vote_cast i result key s)"
  by (simp add: vote_cast_def)

lemma closed_inv:
  assumes "bridge_inv s" and claim: "EventClaims s i = Some (tx, ty)" and closed: "claim_closed i tx s s'"
  shows "claims_ok s'" and "pending_ok s'"
proof -
  have c: "claims_ok s" and p: "pending_ok s"
    using assms(1) by (simp_all add: bridge_inv_def)
  have other: "tx' \<noteq> tx" if "EventClaims s j = Some (tx', ty')" "j \<noteq> i" for j tx' ty'
  proof -
    have "PendingTxHashes s tx' = Some j" "PendingTxHashes s tx = Some i"
      using c claim that(1) unfolding claims_ok_def by blast+
    then show ?thesis
      using that(2) by auto
  qed
  show "claims_ok s'"
    using c closed by (auto simp: claims_ok_def claim_closed_def dest: other)
  show "pending_ok s'"
    using closed claim
    by (intro pending_okI) (auto simp: claim_closed_def split: if_splits dest!: pending_okD [OF p])
qed

lemma processed_same_inv:
  "processed_ok s \<Longrightarrow> processed_same s s' \<Longrightarrow> (\<And>t. PendingTxHashes s t = None \<Longrightarrow> PendingTxHashes s' t = None) \<Longrightarrow>
     processed_ok s'"
  by (simp add: processed_ok_def processed_same_def)

lemma tx_processed_inv:
  assumes "processed_ok s" and new: "ProcessedTxHashes s tx = None" and "tx_processed b tx s s'"
    and pend: "PendingTxHashes s' = (PendingTxHashes s)(tx := None)"
  shows "processed_ok s'"
proof -
  have none: "tx \<notin> set (ProcessedTxBuckets s c)" for c
    by (rule not_processed [OF assms(1) new])
  have buckets: "t \<in> set (ProcessedTxBuckets s' c) \<longleftrightarrow> t \<in> set (ProcessedTxBuckets s c) \<or> t = tx \<and> c = b" for t c
    using assms(3) by (auto simp: tx_processed_def)
  have hashes: "ProcessedTxHashes s' t \<noteq> None \<longleftrightarrow> ProcessedTxHashes s t \<noteq> None \<or> t = tx" for t
    using assms(3) by (auto simp: tx_processed_def)
  show ?thesis
    unfolding processed_ok_def buckets hashes pend
    using assms(1) none unfolding processed_ok_def by (auto simp del: not_None_eq)
qed

lemma rejected_inv:
  assumes "bridge_inv s" and "EventClaims s i = Some (tx, ty)" and "reject_claim T i s = (Inr u, s')"
  shows "bridge_inv s'"
proof -
  note f = reject_claim_fields [OF assms(3,2)]
  have "processed_ok s"
    using assms(1) by (simp add: bridge_inv_def)
  then have "processed_ok s'"
    by (rule processed_same_inv [OF _ f(2)]) (use f(1) in \<open>simp add: claim_closed_def\<close>)
  then show ?thesis
    using closed_inv [OF assms(1,2) f(1)] by (simp add: bridge_inv_def)
qed

lemma verified_inv:
  assumes "bridge_inv s" and "EventClaims s i = Some (tx, ty)" and "verify_claim T i s = (Inr u, s')"
  shows "bridge_inv s'"
proof -
  note f = verify_claim_fields [OF assms(3,2)]
  have p: "processed_ok s" "PendingTxHashes s tx = Some i"
    using assms(1,2) by (auto simp: bridge_inv_def claims_ok_def)
  then have new: "ProcessedTxHashes s tx = None"
    by (rule pending_not_processed)
  obtain b where b: "tx_processed b tx s s'"
    using f(2) by blast
  have "processed_ok s'"
    by (rule tx_processed_inv [OF p(1) new b]) (use f(1) in \<open>simp add: claim_closed_def\<close>)
  then show ?thesis
    using closed_inv [OF assms(1,2) f(1)] by (simp add: bridge_inv_def)
qed

lemma event_notarization_inv:
  assumes "bridge_inv s" and run: "handle_event_notarization T i result key s = (Inr u, s')"
  shows "bridge_inv s'"
proof -
  obtain tx ty where "EventClaims (vote_cast i result key s) i = Some (tx, ty)"
    using event_notarization_claim [OF run] by (auto simp: vote_cast_def)
  note keep = rejected_inv [OF vote_cast_inv [OF assms(1)] this] verified_inv [OF vote_cast_inv [OF assms(1)] this]
  from run show ?thesis
  proof (cases rule: event_notarization_cases)
    case waits
    then show ?thesis
      by (simp only: vote_cast_inv [OF assms(1)])
  next
    case rejected
    then show ?thesis
      by (rule keep(1))
  next
    case verified
    then show ?thesis
      by (rule keep(2))
  qed
qed

section \<open>The other steps\<close>

lemma fold_hashes:
  "fold (\<lambda>tx s. s\<lparr>ProcessedTxHashes := (ProcessedTxHashes s)(tx := None)\<rparr>) txs s =
     s\<lparr>ProcessedTxHashes := (\<lambda>tx. if tx \<in> set txs then None else ProcessedTxHashes s tx)\<rparr>"
  by (induction txs arbitrary: s) (simp, auto intro!: bridge_state.fold_congs simp: fun_eq_iff)

definition pruned_bucket :: "'w bridge_config \<Rightarrow> 'w bridge_state \<Rightarrow> u64" where
  "pruned_bucket T s = unix_now T (BridgeWorld s) mod EventDeadlineSeconds s div BUCKET_FACTOR_S"

lemma prune_claims_fields:
  assumes "prune_claims T s = Some s'"
  shows "claims_same s s'"
    and "ProcessedTxHashes s' =
      (\<lambda>tx. if tx \<in> set (ProcessedTxBuckets s (pruned_bucket T s)) then None else ProcessedTxHashes s tx)"
    and "ProcessedTxBuckets s' = (ProcessedTxBuckets s)(pruned_bucket T s := [])"
  using assms by (auto simp: prune_claims_def fold_hashes claims_same_def Let_def pruned_bucket_def split: if_splits)

lemma claims_same_ok:
  assumes "claims_same s s'"
  shows "claims_ok s' = claims_ok s" and "pending_ok s' = pending_ok s" and "PendingTxHashes s' = PendingTxHashes s"
  using assms unfolding claims_same_def claims_ok_def pending_ok_def by (elim conjE; simp only:)+

lemma prune_claims_inv:
  assumes "bridge_inv s" and "prune_claims T s = Some s'"
  shows "bridge_inv s'"
proof -
  define b where "b = pruned_bucket T s"
  note h = prune_claims_fields(2) [OF assms(2), folded b_def]
    and k = prune_claims_fields(3) [OF assms(2), folded b_def]
  have c: "claims_ok s'" "pending_ok s'" and p: "PendingTxHashes s' = PendingTxHashes s"
    using claims_same_ok [OF prune_claims_fields(1) [OF assms(2)]] assms(1) by (simp_all only: bridge_inv_def)
  have q: "processed_ok s"
    using assms(1) by (simp add: bridge_inv_def)
  have hashes: "ProcessedTxHashes s' tx \<noteq> None \<longleftrightarrow>
      ProcessedTxHashes s tx \<noteq> None \<and> tx \<notin> set (ProcessedTxBuckets s b)" for tx
    by (simp add: h)
  have buckets: "tx \<in> set (ProcessedTxBuckets s' c) \<longleftrightarrow> tx \<in> set (ProcessedTxBuckets s c) \<and> c \<noteq> b" for tx c
    by (simp add: k)
  have "processed_ok s'"
  proof (rule processed_okI, unfold hashes buckets p)
    show "(ProcessedTxHashes s tx \<noteq> None \<and> tx \<notin> set (ProcessedTxBuckets s b)) =
        (\<exists>c. tx \<in> set (ProcessedTxBuckets s c) \<and> c \<noteq> b)" for tx
      unfolding processed_okD(1) [OF q] using processed_okD(2) [OF q, of tx] by blast
  qed (use processed_okD(2,3) [OF q] in blast)+
  with c show ?thesis
    by (simp add: bridge_inv_def)
qed

lemma process_delayed_proofs_inv: "bridge_inv s \<Longrightarrow> bridge_inv (process_delayed_proofs T s)"
proof -
  have "bridge_inv (fold (\<lambda>(i, packed) s. (do_generate_event_proof i packed s)
      \<lparr>DelayedEventProofs := (DelayedEventProofs s)(i := None)\<rparr>) ps s) = bridge_inv s" for ps
    by (induction ps arbitrary: s) (simp_all add: split_beta)
  then show "bridge_inv s \<Longrightarrow> ?thesis"
    by (simp add: process_delayed_proofs_def)
qed

lemma on_initialize_inv:
  "bridge_inv s \<Longrightarrow> bridge_on_initialize T n s = Some s' \<Longrightarrow> bridge_inv s'"
  by (auto simp: bridge_on_initialize_def intro: process_delayed_proofs_inv dest: prune_claims_inv split: if_splits)

lemma preserves_on_world [preserves_rules]:
  "(\<And>s w. P s \<Longrightarrow> P (s\<lparr>BridgeWorld := w\<rparr>)) \<Longrightarrow> preserves P (on_world f)"
  by (auto simp: preserves_def on_world_def split: option.splits)

lemma clean_up_inv: "preserves bridge_inv (do_callback_and_clean_up T i result)"
  unfolding do_callback_and_clean_up_def by (intro preserves_rules; simp)

lemma call_notarization_inv: "preserves bridge_inv (handle_call_notarization T i result key)"
  unfolding handle_call_notarization_def Let_def
  by (intro preserves_rules clean_up_inv; simp)

lemma generate_event_proof_inv: "preserves bridge_inv (generate_event_proof event)"
  unfolding generate_event_proof_def by (intro preserves_rules; simp)

lemma submit_notarization_cases:
  assumes "submit_notarization T orig payload s = (Inr u, s')"
  obtains (call) i index result t where "payload = CallPayload i index result"
      "handle_call_notarization T i result (notary_keys s ! unat index) s = (Inr (), t)"
      "s' = t \<or> (\<exists>w. s' = t\<lparr>BridgeWorld := w\<rparr>)"
  | (event) i index result t where "payload = EventPayload i index result"
      "handle_event_notarization T i result (notary_keys s ! unat index) s = (Inr (), t)"
      "s' = t \<or> (\<exists>w. s' = t\<lparr>BridgeWorld := w\<rparr>)"
proof (cases payload)
  case (CallPayload i index result)
  then obtain t where "handle_call_notarization T i result (notary_keys s ! unat index) s = (Inr (), t)"
      "s' = t \<or> (\<exists>w. s' = t\<lparr>BridgeWorld := w\<rparr>)"
    using assms by (auto simp: submit_notarization_def call_eqs Let_def split: if_splits)
  with CallPayload call show ?thesis by blast
next
  case (EventPayload i index result)
  then obtain t where "handle_event_notarization T i result (notary_keys s ! unat index) s = (Inr (), t)"
      "s' = t \<or> (\<exists>w. s' = t\<lparr>BridgeWorld := w\<rparr>)"
    using assms by (auto simp: submit_notarization_def call_eqs Let_def split: if_splits)
  with EventPayload event show ?thesis by blast
qed

lemma notarize_inv:
  assumes "bridge_inv s" and "submit_notarization T orig payload s = (r, s')"
  shows "bridge_inv s'"
proof (cases r)
  case (Inl e)
  with assms show ?thesis
    by (simp add: submit_notarization_def call_eqs)
next
  case (Inr u)
  from assms(2) [unfolded Inr] show ?thesis
  proof (cases rule: submit_notarization_cases)
    case (call i index result t)
    have "bridge_inv t"
      by (rule preservesD [OF call_notarization_inv assms(1) call(2)])
    with call(3) show ?thesis by auto
  next
    case (event i index result t)
    have "bridge_inv t"
      by (rule event_notarization_inv [OF assms(1) event(2)])
    with event(3) show ?thesis by auto
  qed
qed

lemma session_inv:
  "bridge_inv s \<Longrightarrow> on_genesis_session keys s = Some s' \<Longrightarrow> bridge_inv s'"
  "bridge_inv s \<Longrightarrow> bridge_inv (on_new_session T keys queued s)"
  "bridge_inv s \<Longrightarrow> bridge_inv (on_before_session_ending T s)"
  by (auto simp: on_genesis_session_def on_new_session_def on_before_session_ending_def handle_authorities_change_def
      log_notary_change_def Let_def split: if_splits)

lemma setting_inv:
  "preserves bridge_inv (set_event_confirmations orig n)"
  "preserves bridge_inv (set_event_deadline orig m)"
  "preserves bridge_inv (set_delayed_event_proofs_per_block orig k)"
  unfolding set_event_confirmations_def set_event_deadline_def set_delayed_event_proofs_per_block_def rooted_def
  by (intro preserves_rules; simp)+

lemma checked_call_inv: "bridge_inv s \<Longrightarrow> checked_eth_call T target inp t b m s = (i, s') \<Longrightarrow> bridge_inv s'"
  by (auto simp: checked_eth_call_def Let_def)

lemma bridge_step_inv:
  assumes "bridge_step T s s'" and "bridge_inv s"
  shows "bridge_inv s'"
  using assms
proof cases
  case step_claim
  then show ?thesis by (blast intro: claim_inv [OF assms(2)])
next
  case step_proof
  then show ?thesis by (blast intro: preservesD [OF generate_event_proof_inv assms(2)])
next
  case step_notarize
  then show ?thesis by (blast intro: notarize_inv [OF assms(2)])
next
  case step_confirmations
  then show ?thesis by (blast intro: preservesD [OF setting_inv(1) assms(2)])
next
  case step_deadline
  then show ?thesis by (blast intro: preservesD [OF setting_inv(2) assms(2)])
next
  case step_per_block
  then show ?thesis by (blast intro: preservesD [OF setting_inv(3) assms(2)])
next
  case step_block
  then show ?thesis by (blast intro: on_initialize_inv [OF assms(2)])
next
  case step_genesis_session
  then show ?thesis by (blast intro: session_inv(1) [OF assms(2)])
next
  case step_new_session
  then show ?thesis by (simp only: session_inv(2) [OF assms(2)])
next
  case step_session_ending
  then show ?thesis by (simp only: session_inv(3) [OF assms(2)])
next
  case step_call
  then show ?thesis by (blast intro: checked_call_inv [OF assms(2)])
next
  case step_elsewhere
  then show ?thesis using assms(2) by simp
qed

theorem bridge_reachable_inv: "bridge_reachable T s \<Longrightarrow> bridge_inv s"
  by (induction rule: bridge_reachable.induct) (auto intro: bridge_inv_start bridge_step_inv)

end
