(* ===== verification/Eth_Props.thy ===== *)
theory Eth_Props
  imports Eth_Bridge_Inv
begin

text \<open>
  Properties of the Ethereum bridge: which transactions can be claimed, what pruning forgets, and how a checked call
  is decided.
\<close>

section \<open>A bridge with three notaries\<close>

text \<open>The storage of the other pallets is the present time; half of the notaries decide.\<close>

definition demo_bridge :: "u64 bridge_config" where
  "demo_bridge = \<lparr>notarization_threshold = 51,
     percent_from_rational = (\<lambda>p q. word_of_nat (100 * p div q)),
     validators = (\<lambda>_. [1, 2, 3]), unix_now = (\<lambda>w. w),
     is_next_session_final = (\<lambda>_. (False, False)), is_active_session_final = (\<lambda>_. False),
     reward_notary = (\<lambda>_ w. w), claim_on_success = (\<lambda>_ _ _ _ w. Some w),
     claim_on_failure = (\<lambda>_ _ _ _ w. Some w), on_eth_call_complete = (\<lambda>_ _ _ _ w. Some w),
     on_eth_call_failed = (\<lambda>_ _ w. Some w), iter_delayed_proofs = (\<lambda>_. [])\<rparr>"

definition demo_notaries :: "u64 bridge_state" where
  "demo_notaries = (bridge_genesis 7200 66)\<lparr>NotaryKeys := Some [[1], [2], [3]]\<rparr>"

text \<open>A transaction was claimed, and one of the notaries has found it valid.\<close>

definition demo_claimed :: "u64 bridge_state" where
  "demo_claimed = snd (submit_event_claim 9 8 77 [5] demo_notaries)"

definition demo_voted :: "u64 bridge_state" where
  "demo_voted = snd (submit_notarization demo_bridge Unsigned (EventPayload 0 0 Valid) demo_claimed)"

lemma demo_notaries_reachable: "bridge_reachable demo_bridge demo_notaries"
proof -
  have "on_genesis_session [[1], [2], [3]] (bridge_genesis (7200 :: u64) 66) = Some demo_notaries"
    by (simp add: on_genesis_session_def demo_notaries_def bridge_genesis_def)
  then show ?thesis
    by (rule bridge_more [OF bridge_start step_genesis_session])
qed

lemmas demo_eval = demo_bridge_def demo_notaries_def bridge_genesis_def submit_event_claim_def event_type_id_for_def
  call_defs submit_notarization_def handle_event_notarization_def notary_keys_def vote_counts_def verify_claim_def
  close_claim_def processed_bucket_def on_world_def bridge_deposit_event_def BUCKET_FACTOR_S_def storage_get_def

lemma demo_claimed_eq: "submit_event_claim 9 8 77 [5] demo_notaries = (Inr 0, demo_claimed)"
  by (simp add: demo_claimed_def demo_eval)

lemma demo_claimed_fields:
  "EventClaims demo_claimed = [0 \<mapsto> (77, 0)]" "EventData demo_claimed = [0 \<mapsto> [5]]"
  "NotaryKeys demo_claimed = Some [[1], [2], [3]]" "EventNotarizations demo_claimed = (\<lambda>_. [])"
  "BridgeWorld demo_claimed = 7200" "TypeIdToEventType demo_claimed = [0 \<mapsto> (9, 8)]"
  "EventDeadlineSeconds demo_claimed = 604800" "ProcessedTxBuckets demo_claimed = (\<lambda>_. [])"
  by (simp_all add: demo_claimed_def demo_eval)

lemma demo_claimed_reachable: "bridge_reachable demo_bridge demo_claimed"
  by (rule bridge_more [OF demo_notaries_reachable step_claim [OF demo_claimed_eq]])
    (simp add: demo_notaries_def bridge_genesis_def)

lemma demo_voted_eq:
  "submit_notarization demo_bridge Unsigned (EventPayload 0 0 Valid) demo_claimed = (Inr (), demo_voted)"
  by (simp add: demo_voted_def demo_bridge_def submit_notarization_def call_defs handle_event_notarization_def
      notary_keys_def vote_counts_def demo_claimed_fields)

lemma demo_voted_fields:
  "EventClaims demo_voted = [0 \<mapsto> (77, 0)]" "EventData demo_voted = [0 \<mapsto> [5]]"
  "NotaryKeys demo_voted = Some [[1], [2], [3]]" "EventNotarizations demo_voted 0 = [([1], Valid)]"
  "BridgeWorld demo_voted = 7200" "TypeIdToEventType demo_voted = [0 \<mapsto> (9, 8)]"
  "EventDeadlineSeconds demo_voted = 604800" "ProcessedTxBuckets demo_voted = (\<lambda>_. [])"
  by (simp_all add: demo_voted_def demo_bridge_def submit_notarization_def call_defs handle_event_notarization_def
      notary_keys_def vote_counts_def demo_claimed_fields)

lemma demo_voted_reachable: "bridge_reachable demo_bridge demo_voted"
  by (rule bridge_more [OF demo_claimed_reachable step_notarize [OF demo_voted_eq]]) simp

lemma demo_verified:
  assumes "submit_notarization demo_bridge Unsigned (EventPayload 0 1 Valid) demo_voted = (r, s)"
  shows "r = Inr ()" and "ProcessedTxHashes s 77 = Some ()"
  using assms
  by (auto simp: demo_bridge_def submit_notarization_def call_defs handle_event_notarization_def
      notary_keys_def vote_counts_def demo_voted_fields verify_claim_def
      close_claim_def processed_bucket_def on_world_def bridge_deposit_event_def storage_get_def)

section \<open>Claims\<close>

text \<open>C34. In every history of the bridge a transaction can be claimed exactly when no pending claim is for it and it is
  in no bucket of processed transactions; a transaction has at most one pending claim, whose data is stored.\<close>

theorem claim_accepted_iff:
  assumes "bridge_reachable T s"
  shows "((\<exists>j s'. submit_event_claim contract sig tx data s = (Inr j, s')) \<longleftrightarrow>
      (\<forall>i ty. EventClaims s i \<noteq> Some (tx, ty)) \<and> (\<forall>b. tx \<notin> set (ProcessedTxBuckets s b))) \<and>
    (\<forall>i j ty ty'. EventClaims s i = Some (tx, ty) \<and> EventClaims s j = Some (tx, ty') \<longrightarrow>
      i = j \<and> EventData s i \<noteq> None)"
proof (intro conjI allI impI)
  have inv: "bridge_inv s"
    by (rule bridge_reachable_inv [OF assms])
  then have c: "claims_ok s" and p: "pending_ok s" and q: "processed_ok s"
    by (simp_all add: bridge_inv_def)
  have pending: "PendingTxHashes s tx = None \<longleftrightarrow> (\<forall>i ty. EventClaims s i \<noteq> Some (tx, ty))"
  proof
    assume "PendingTxHashes s tx = None"
    then show "\<forall>i ty. EventClaims s i \<noteq> Some (tx, ty)"
      using c unfolding claims_ok_def by fastforce
  next
    assume "\<forall>i ty. EventClaims s i \<noteq> Some (tx, ty)"
    then show "PendingTxHashes s tx = None"
      using pending_okD [OF p, of tx] by (cases "PendingTxHashes s tx") fastforce+
  qed
  have processed: "ProcessedTxHashes s tx = None \<longleftrightarrow> (\<forall>b. tx \<notin> set (ProcessedTxBuckets s b))"
    using processed_okD(1) [OF q, of tx] by blast
  show "(\<exists>j s'. submit_event_claim contract sig tx data s = (Inr j, s')) \<longleftrightarrow>
      (\<forall>i ty. EventClaims s i \<noteq> Some (tx, ty)) \<and> (\<forall>b. tx \<notin> set (ProcessedTxBuckets s b))"
    unfolding pending [symmetric] processed [symmetric]
    using submit_event_claim_accepts [of s tx contract sig data]
    by (auto dest: submit_event_claim_fields(1,2) simp del: not_None_eq)
  fix i j ty ty'
  assume both: "EventClaims s i = Some (tx, ty) \<and> EventClaims s j = Some (tx, ty')"
  show "i = j"
    using claims_okD(3) [OF c conjunct1 [OF both]] claims_okD(3) [OF c conjunct2 [OF both]] by simp
  show "EventData s i \<noteq> None"
    by (rule claims_okD(2) [OF c conjunct1 [OF both]])
qed

theorem claim_accepted_iff_witness:
  "bridge_reachable demo_bridge demo_claimed \<and>
    \<not> (\<exists>j s'. submit_event_claim 9 8 77 [5] demo_claimed = (Inr j, s')) \<and>
    (\<exists>j s'. submit_event_claim 9 8 78 [5] demo_claimed = (Inr j, s'))"
  unfolding conjunct1 [OF claim_accepted_iff [OF demo_claimed_reachable]]
  by (intro conjI demo_claimed_reachable) (simp_all add: demo_claimed_fields)

section \<open>Pruning\<close>

lemma mod_add_ttl:
  fixes now ttl :: u64
  assumes "unat now + unat ttl < 2 ^ 64"
  shows "(now + ttl) mod ttl = now mod ttl"
proof -
  have "unat ((now + ttl) mod ttl) = unat (now mod ttl)"
    using assms by (simp add: unat_mod_distrib unat_add_fits)
  then show ?thesis
    by (simp add: word_unat_eq_iff)
qed

lemma processed_bucket_slot:
  "unat now + unat ttl < 2 ^ 64 \<Longrightarrow> processed_bucket now ttl = Some b \<Longrightarrow> b = now mod ttl div BUCKET_FACTOR_S"
  by (simp add: processed_bucket_def mod_add_ttl split: if_splits)

text \<open>What remains of a transaction after its claim was verified.\<close>

lemma notarized_as_processed:
  assumes "bridge_inv s" and claim: "EventClaims s i = Some (tx, ty)"
    and run: "submit_notarization T Unsigned (EventPayload i index result) s = (Inr (), s')"
    and processed: "ProcessedTxHashes s' tx \<noteq> None"
  obtains b where "processed_bucket (unix_now T (BridgeWorld s)) (EventDeadlineSeconds s) = Some b"
    and "tx \<in> set (ProcessedTxBuckets s' b)" and "PendingTxHashes s' tx = None"
    and "EventDeadlineSeconds s' = EventDeadlineSeconds s"
proof -
  from run obtain t where h: "handle_event_notarization T i result (notary_keys s ! unat index) s = (Inr (), t)"
      and t: "s' = t \<or> (\<exists>w. s' = t\<lparr>BridgeWorld := w\<rparr>)"
    by (cases rule: submit_notarization_cases) auto
  define u where "u = vote_cast i result (notary_keys s ! unat index) s"
  have u: "EventClaims u i = Some (tx, ty)" "ProcessedTxHashes u = ProcessedTxHashes s" "BridgeWorld u = BridgeWorld s"
      "EventDeadlineSeconds u = EventDeadlineSeconds s"
    using claim by (simp_all add: u_def vote_cast_def)
  have new: "ProcessedTxHashes s tx = None"
    using assms(1) claim by (auto simp: bridge_inv_def claims_ok_def intro: pending_not_processed)
  have pt: "ProcessedTxHashes t tx \<noteq> None"
    using t processed by auto
  from h have "verify_claim T i u = (Inr (), t)"
  proof (cases rule: event_notarization_cases)
    case waits
    then show ?thesis
      using pt new by (simp add: vote_cast_def)
  next
    case rejected
    have "processed_same u t"
      by (rule reject_claim_fields(2) [OF rejected [folded u_def] u(1)])
    then show ?thesis
      using pt new u(2) by (simp add: processed_same_def)
  qed (simp add: u_def)
  note f = verify_claim_fields [OF this u(1)]
  obtain b where "processed_bucket (unix_now T (BridgeWorld s)) (EventDeadlineSeconds s) = Some b"
      and b: "tx_processed b tx u t"
    using f(2) u(3,4) by auto
  moreover have "tx \<in> set (ProcessedTxBuckets s' b)"
    using b t by (auto simp: tx_processed_def)
  moreover have "PendingTxHashes s' tx = None" "EventDeadlineSeconds s' = EventDeadlineSeconds s"
    using f(1,3) t u(4) by (auto simp: claim_closed_def)
  ultimately show ?thesis
    using that by blast
qed

lemma process_delayed_proofs_fields:
  "ProcessedTxHashes (process_delayed_proofs T s) = ProcessedTxHashes s"
  "PendingTxHashes (process_delayed_proofs T s) = PendingTxHashes s"
proof -
  define step where "step = (\<lambda>(i, packed) u :: 'a bridge_state. (do_generate_event_proof i packed u)
      \<lparr>DelayedEventProofs := (DelayedEventProofs u)(i := None)\<rparr>)"
  have "ProcessedTxHashes (fold step ps u) = ProcessedTxHashes u" "PendingTxHashes (fold step ps u) = PendingTxHashes u"
    for ps u
    by (induction ps arbitrary: u) (simp_all add: step_def split_beta do_generate_event_proof_def deposit_log_def)
  then show "ProcessedTxHashes (process_delayed_proofs T s) = ProcessedTxHashes s"
      "PendingTxHashes (process_delayed_proofs T s) = PendingTxHashes s"
    unfolding process_delayed_proofs_def step_def by blast+
qed

lemma initialize_pruned:
  assumes "EventDeadlineSeconds s \<noteq> 0" and "n mod CLAIM_PRUNING_INTERVAL = 0"
  obtains s' where "bridge_on_initialize T n s = Some s'" and "PendingTxHashes s' = PendingTxHashes s"
    and "\<And>tx. tx \<in> set (ProcessedTxBuckets s (pruned_bucket T s)) \<Longrightarrow> ProcessedTxHashes s' tx = None"
proof -
  obtain u where u: "prune_claims T s = Some u"
    using assms(1) by (auto simp: prune_claims_def Let_def)
  note f = prune_claims_fields [OF u]
  let ?s' = "if iter_delayed_proofs T (DelayedEventProofs u) \<noteq> [] \<and> \<not> BridgePaused u
    then process_delayed_proofs T u else u"
  have "bridge_on_initialize T n s = Some ?s'"
    using u assms(2) by (simp add: bridge_on_initialize_def)
  moreover have "PendingTxHashes ?s' = PendingTxHashes s" "ProcessedTxHashes ?s' = ProcessedTxHashes u"
    using claims_same_ok(3) [OF f(1)] by (simp_all add: process_delayed_proofs_fields)
  ultimately show ?thesis
    using that f(2) by simp
qed

text \<open>C35. A transaction that the bridge has processed can be claimed again as soon as the bucket of the same hour is
  pruned: the bucket a transaction is put in is the one that is removed at the next multiple of 720 blocks that falls in
  the same hour slot, long before the deadline after which notaries reject it.\<close>

theorem processed_tx_claimed_again:
  assumes "bridge_reachable T s" and "EventClaims s i = Some (tx, ty)"
    and "submit_notarization T Unsigned (EventPayload i index result) s = (Inr (), s1)"
    and "ProcessedTxHashes s1 tx \<noteq> None"
    and "unat (unix_now T (BridgeWorld s)) + unat (EventDeadlineSeconds s) < 2 ^ 64"
    and "unix_now T w mod EventDeadlineSeconds s div BUCKET_FACTOR_S =
      unix_now T (BridgeWorld s) mod EventDeadlineSeconds s div BUCKET_FACTOR_S"
    and "n mod CLAIM_PRUNING_INTERVAL = 0"
  shows "\<exists>s2 j s3. bridge_on_initialize T n (s1\<lparr>BridgeWorld := w\<rparr>) = Some s2 \<and>
    submit_event_claim contract sig tx data s2 = (Inr j, s3)"
proof -
  obtain b where b: "processed_bucket (unix_now T (BridgeWorld s)) (EventDeadlineSeconds s) = Some b"
      "tx \<in> set (ProcessedTxBuckets s1 b)" "PendingTxHashes s1 tx = None"
      "EventDeadlineSeconds s1 = EventDeadlineSeconds s"
    using notarized_as_processed [OF bridge_reachable_inv [OF assms(1)] assms(2-4)] .
  let ?t = "s1\<lparr>BridgeWorld := w\<rparr>"
  have "EventDeadlineSeconds ?t \<noteq> 0"
    using b(1,4) by (simp add: processed_bucket_def split: if_splits)
  then obtain s2 where s2: "bridge_on_initialize T n ?t = Some s2" "PendingTxHashes s2 = PendingTxHashes ?t"
      "\<And>tx. tx \<in> set (ProcessedTxBuckets ?t (pruned_bucket T ?t)) \<Longrightarrow> ProcessedTxHashes s2 tx = None"
    using initialize_pruned [OF _ assms(7)] by blast
  have "pruned_bucket T ?t = b"
    using processed_bucket_slot [OF assms(5) b(1)] assms(6) b(4) by (simp add: pruned_bucket_def)
  then have "ProcessedTxHashes s2 tx = None" "PendingTxHashes s2 tx = None"
    using s2(2,3) b(2,3) by simp_all
  then show ?thesis
    using submit_event_claim_accepts s2(1) by blast
qed

theorem processed_tx_claimed_again_witness:
  "\<exists>s1 s2 j s3. submit_notarization demo_bridge Unsigned (EventPayload 0 1 Valid) demo_voted = (Inr (), s1) \<and>
    bridge_on_initialize demo_bridge 1440 (s1\<lparr>BridgeWorld := 10000\<rparr>) = Some s2 \<and>
    submit_event_claim 9 8 77 [5] s2 = (Inr j, s3)"
proof -
  obtain r s1 where run: "submit_notarization demo_bridge Unsigned (EventPayload 0 1 Valid) demo_voted = (r, s1)"
    by fastforce
  note v = demo_verified [OF run]
  have "\<exists>s2 j s3. bridge_on_initialize demo_bridge 1440 (s1\<lparr>BridgeWorld := 10000\<rparr>) = Some s2 \<and>
      submit_event_claim 9 8 77 [5] s2 = (Inr j, s3)"
    by (rule processed_tx_claimed_again [OF demo_voted_reachable _ run [unfolded v(1)]])
      (simp_all add: demo_voted_fields v(2) demo_bridge_def BUCKET_FACTOR_S_def CLAIM_PRUNING_INTERVAL_def)
  then show ?thesis
    using run v(1) by blast
qed

section \<open>Checked calls\<close>

text \<open>The same unsigned transaction, validated and applied a number of times.\<close>

fun submit_times ::
  "'w bridge_config \<Rightarrow> (ethy_id \<Rightarrow> notarization_payload \<Rightarrow> 'sig \<Rightarrow> bool) \<Rightarrow> notarization_payload \<Rightarrow> 'sig \<Rightarrow> nat \<Rightarrow>
    'w bridge_state \<Rightarrow> 'w bridge_state option" where
  "submit_times T verify payload sig 0 s = Some s"
| "submit_times T verify payload sig (Suc n) s =
     (case submit_times T verify payload sig n s of
        None \<Rightarrow> None
      | Some t \<Rightarrow>
          if validate_unsigned verify payload sig t = BadProof then None
          else case submit_notarization T Unsigned payload t of
                 (Inr _, t') \<Rightarrow> Some t'
               | (Inl _, _) \<Rightarrow> None)"

text \<open>What the repeated transaction leaves as it was, and the count it has reached.\<close>

definition call_counted :: "eth_call_id \<Rightarrow> checked_eth_call_result \<Rightarrow> nat \<Rightarrow> 'w bridge_state \<Rightarrow> 'w bridge_state \<Rightarrow> bool" where
  "call_counted i result n s t \<longleftrightarrow>
     EthCallRequestInfo t = EthCallRequestInfo s \<and> EventNotarizations t = EventNotarizations s \<and>
     NotaryKeys t = NotaryKeys s \<and>
     storage_get [] (EthCallNotarizationsAggregated t) i = (if n = 0 then [] else [(result, word_of_nat n)])"

definition percent_reached :: "'w bridge_config \<Rightarrow> nat \<Rightarrow> nat \<Rightarrow> bool" where
  "percent_reached T n m \<longleftrightarrow> notarization_threshold T \<le> percent_from_rational T n m"

lemma count_entry:
  assumes "call_counted i result n s t" and "Suc n \<le> m" and "m < 2 ^ 32"
  shows "btree_entry result 0 (\<lambda>c. c + 1) (storage_get [] (EthCallNotarizationsAggregated t) i) =
      [(result, word_of_nat (Suc n))]"
    and "unat (word_of_nat (Suc n) :: u32) = Suc n" and "unat (word_of_nat m :: u32) = m"
proof -
  show "btree_entry result 0 (\<lambda>c. c + 1) (storage_get [] (EthCallNotarizationsAggregated t) i) =
      [(result, word_of_nat (Suc n))]"
    using assms(1) by (simp add: call_counted_def add.commute)
  show "unat (word_of_nat (Suc n) :: u32) = Suc n" and "unat (word_of_nat m :: u32) = m"
    by (rule unat_word_of_nat_less, use assms(2,3) in simp)+
qed

lemma count_waits:
  assumes counted: "call_counted i result n s t" and info: "EthCallRequestInfo s i \<noteq> None"
    and m: "length (validators T (BridgeWorld t)) = m" "Suc n < m" "m < 2 ^ 32"
    and few: "\<not> percent_reached T (Suc n) m" and all: "percent_reached T m m"
  shows "\<exists>t'. handle_call_notarization T i result key t = (Inr (), t') \<and> call_counted i result (Suc n) s t' \<and>
    BridgeWorld t' = BridgeWorld t"
proof -
  note e = count_entry [OF counted less_imp_le [OF m(2)] m(3)]
  let ?count = "word_of_nat (Suc n) :: u32" and ?m = "word_of_nat m :: u32"
  have le: "?count \<le> ?m" "?count \<noteq> ?m"
    using m(2) e(2,3) by (auto simp: word_le_nat_alt)
  then have rest: "?count + saturating_sub ?m ?count = ?m"
    by (simp add: saturating_sub_def)
  define t1 where "t1 = t\<lparr>EthCallNotarizations := (EthCallNotarizations t)
    (i := AList.update key result (EthCallNotarizations t i))\<rparr>"
  define t2 where "t2 = t1\<lparr>EthCallNotarizationsAggregated := (EthCallNotarizationsAggregated t1)(i \<mapsto> [(result, ?count)])\<rparr>"
  have "handle_call_notarization T i result key t = (Inr (), t2)"
    using counted info m(1) e le rest few all
    by (simp add: handle_call_notarization_def call_defs Let_def t1_def t2_def call_counted_def percent_reached_def)
  moreover have "call_counted i result (Suc n) s t2" "BridgeWorld t2 = BridgeWorld t"
    using counted by (simp_all add: call_counted_def t1_def t2_def storage_get_def)
  ultimately show ?thesis
    by blast
qed

lemma count_decides:
  assumes counted: "call_counted i result n s t" and info: "EthCallRequestInfo s i \<noteq> None"
    and m: "length (validators T (BridgeWorld t)) = m" "Suc n \<le> m" "m < 2 ^ 32"
    and enough: "percent_reached T (Suc n) m" and cb: "call_callback T i result (BridgeWorld t) = Some w"
  shows "\<exists>t'. handle_call_notarization T i result key t = (Inr (), t') \<and> EthCallRequestInfo t' i = None \<and>
    NotaryKeys t' = NotaryKeys s \<and> BridgeWorld t' = w"
proof -
  note e = count_entry [OF counted m(2,3)]
  show ?thesis
    using counted info m(1) e enough cb
    by (simp add: handle_call_notarization_def call_defs Let_def call_counted_def percent_reached_def
        do_callback_and_clean_up_def on_world_def)
qed

lemma submit_call_step:
  assumes "handle_call_notarization T i result (notary_keys t ! unat index) t = (Inr (), t')"
    and "unat index < length (notary_keys t)" and "\<And>w. validators T w = vs" and "unat index < length vs"
  shows "submit_notarization T Unsigned (CallPayload i index result) t =
    (Inr (), t'\<lparr>BridgeWorld := reward_notary T (vs ! unat index) (BridgeWorld t')\<rparr>)"
  using assms by (simp add: submit_notarization_def call_defs Let_def)

lemma counted_world: "call_counted i result n s (t\<lparr>BridgeWorld := w\<rparr>) = call_counted i result n s t"
  by (simp add: call_counted_def)

lemma counted_keys: "call_counted i result n s t \<Longrightarrow> notary_keys t = notary_keys s"
  by (simp add: call_counted_def notary_keys_def)

lemma counted_accepted:
  assumes "call_counted i result n s t" and "unat index < length (notary_keys s)"
    and "verify (notary_keys s ! unat index) (CallPayload i index result) sig"
    and "map_of (EventNotarizations s i) (notary_keys s ! unat index) = None"
  shows "validate_unsigned verify (CallPayload i index result) sig t \<noteq> BadProof"
  using assms counted_keys [OF assms(1)] by (simp add: validate_unsigned_def Let_def call_counted_def)


text \<open>Notary 1 of three decides call 0 with two copies of one transaction.\<close>

definition demo_call :: "u64 bridge_state" where
  "demo_call = snd (checked_eth_call demo_bridge 9 [1] 7200 100 3 demo_notaries)"


end
