(* ===== verification/Erc20_Peg.thy ===== *)
theory Erc20_Peg
  imports Eth_Types Currency_Spec
begin

text \<open>
  The ERC-20 peg pallet (\<open>crml/erc20-peg/src/lib.rs\<close>, \<open>types.rs\<close>): deposits claimed from Ethereum, withdrawals to
  Ethereum, and claims that are delayed. The pallet works on its own storage, the ledger \<open>'l\<close> of its
  \<open>MultiCurrency\<close> among it, and on the storage \<open>'b\<close> of the bridge (\<open>EventClaimVerifier\<close>). The hash of
  a withdrawal and the weights of storage accesses come with the configuration.
\<close>

section \<open>Types\<close>

type_synonym claim_id = u64

datatype withdraw_call_origin = Runtime | Evm

record erc20_deposit_event =
  de_token_address :: eth_address
  de_amount :: u256
  de_beneficiary :: h256

record withdraw_message =
  wm_token_address :: eth_address
  wm_amount :: u256
  wm_beneficiary :: eth_address

datatype pending_claim = Deposit erc20_deposit_event h256 | Withdrawal withdraw_message

definition encode_withdraw_message :: "withdraw_message \<Rightarrow> bytes" where
  "encode_withdraw_message m =
     replicate 12 0 @ to_be_bytes 20 (wm_token_address m) @ to_be_bytes 32 (wm_amount m) @
     replicate 12 0 @ to_be_bytes 20 (wm_beneficiary m)"

definition encode_deposit_event :: "erc20_deposit_event \<Rightarrow> bytes" where
  "encode_deposit_event e =
     replicate 12 0 @ to_be_bytes 20 (de_token_address e) @ to_be_bytes 32 (de_amount e) @
     to_be_bytes 32 (de_beneficiary e)"

definition decode_deposit_event :: "bytes \<Rightarrow> erc20_deposit_event option" where
  "decode_deposit_event data =
     (if length data \<noteq> 3 * 32 then None
      else Some \<lparr>de_token_address = from_be_bytes (take 20 (drop 12 data)),
                 de_amount = from_be_bytes (take 32 (drop 32 data)),
                 de_beneficiary = from_be_bytes (take 32 (drop 64 data))\<rparr>)"

text \<open>An \<open>AccountId32\<close> is decoded from 32 bytes, which cannot fail; \<open>U256::as_u128\<close> panics on a larger value.\<close>

definition decode_account :: "h256 \<Rightarrow> account_id option" where
  "decode_account b = Some b"

definition as_u128 :: "u256 \<Rightarrow> u128 option" where
  "as_u128 v = (if unat v < 2 ^ 128 then Some (ucast v) else None)"

section \<open>Configuration and storage\<close>

record 'b claim_verifier =
  cv_submit_event_claim :: "eth_address \<Rightarrow> h256 \<Rightarrow> h256 \<Rightarrow> bytes \<Rightarrow> ('b, u64) dispatch"
  cv_generate_event_proof :: "bytes \<Rightarrow> ('b, u64) dispatch"

record ('l, 'b) peg_config =
  peg_account :: account_id
  deposit_event_signature :: h256
  eth_bridge :: "'b claim_verifier"
  peg_currency :: "'l multi_currency"
  withdrawal_hash :: "withdraw_message \<Rightarrow> u64 \<Rightarrow> h256"
  db_reads :: "u64 \<Rightarrow> u64"
  db_writes :: "u64 \<Rightarrow> u64"

datatype peg_event =
    Erc20Claim u64 account_id
  | Erc20DepositDelayed claim_id block_number balance account_id
  | Erc20WithdrawalDelayed claim_id block_number balance eth_address
  | DelayedErc20DepositFailed h256 account_id
  | DelayedErc20WithdrawalFailed asset_id eth_address
  | Erc20Deposit u64 asset_id balance account_id
  | Erc20Withdraw u64 asset_id balance eth_address
  | Erc20DepositFail u64
  | SetContractAddress eth_address
  | CENNZDepositsActivated
  | ClaimDelaySet asset_id balance block_number
  | NoAvailableClaimIds

record 'l peg_state =
  PegLedger :: 'l
  DepositsActive :: bool
  WithdrawalsActive :: bool
  Erc20ToAssetId :: "eth_address \<rightharpoonup> asset_id"
  AssetIdToErc20 :: "asset_id \<rightharpoonup> eth_address"
  Erc20Meta :: "eth_address \<rightharpoonup> bytes \<times> u8"
  ClaimDelay :: "asset_id \<rightharpoonup> balance \<times> block_number"
  DelayedClaims :: "claim_id \<rightharpoonup> pending_claim"
  DelayedClaimSchedule :: "block_number \<rightharpoonup> claim_id list"
  ReadyBlocks :: "block_number list"
  NextDelayedClaimId :: claim_id
  WithdrawalDigests :: "u64 \<rightharpoonup> h256"
  ContractAddress :: eth_address
  CENNZDepositsActive :: bool
  PegEvents :: "peg_event list"

definition peg_genesis ::
  "('l, 'b) peg_config \<Rightarrow> (eth_address \<times> bytes \<times> u8) list \<Rightarrow> 'l \<Rightarrow> 'l peg_state" where
  "peg_genesis T erc20s l =
     fold (\<lambda>(address, symbol, decimals) s.
         (if symbol = ascii ''CENNZ''
          then s\<lparr>Erc20ToAssetId := (Erc20ToAssetId s)(address \<mapsto> mc_staking_currency (peg_currency T) l)\<rparr>
          else s)\<lparr>Erc20Meta := (Erc20Meta s)(address \<mapsto> (symbol, decimals))\<rparr>)
       erc20s
       \<lparr>PegLedger = l, DepositsActive = False, WithdrawalsActive = False, Erc20ToAssetId = Map.empty,
        AssetIdToErc20 = Map.empty, Erc20Meta = Map.empty, ClaimDelay = Map.empty,
        DelayedClaims = Map.empty, DelayedClaimSchedule = Map.empty, ReadyBlocks = [],
        NextDelayedClaimId = 0, WithdrawalDigests = Map.empty, ContractAddress = 0,
        CENNZDepositsActive = False, PegEvents = []\<rparr>"

text \<open>The parts of the state \<open>('l peg_state \<times> 'b)\<close>: the pallet, its ledger, the bridge.\<close>

type_synonym ('l, 'b, 'a) peg_call = "('l peg_state \<times> 'b, 'a) dispatch"

definition peg_gets :: "('l peg_state \<Rightarrow> 'a) \<Rightarrow> ('l, 'b, 'a) peg_call" where
  [call_defs]: "peg_gets f = gets (\<lambda>(p, _). f p)"

definition peg_modify :: "('l peg_state \<Rightarrow> 'l peg_state) \<Rightarrow> ('l, 'b, unit) peg_call" where
  [call_defs]: "peg_modify f = modify (\<lambda>(p, b). (f p, b))"

definition on_bridge :: "('b, 'a) dispatch \<Rightarrow> ('l, 'b, 'a) peg_call" where
  "on_bridge m = (\<lambda>(p, b). case m b of (r, b') \<Rightarrow> (r, (p, b')))"

definition on_peg_ledger :: "('l, 'a) dispatch \<Rightarrow> ('l, 'b, 'a) peg_call" where
  "on_peg_ledger m = (\<lambda>(p, b). case m (PegLedger p) of (r, l) \<Rightarrow> (r, (p\<lparr>PegLedger := l\<rparr>, b)))"

definition peg_deposit_event :: "peg_event \<Rightarrow> 'l peg_state \<Rightarrow> 'l peg_state" where
  "peg_deposit_event e p = p\<lparr>PegEvents := PegEvents p @ [e]\<rparr>"

definition peg_err :: "erc20_peg_error \<Rightarrow> dispatch_error" where
  [call_defs]: "peg_err e = Erc20Peg_Error e"

text \<open>The result of a call as a value; a panic is none.\<close>

definition attempt :: "('s, 'a) dispatch \<Rightarrow> ('s, dispatch_error + 'a) dispatch" where
  [call_defs]: "attempt m s = (case m s of (r, s') \<Rightarrow> (if r = Inl Panic then Inl Panic else Inr r, s'))"

section \<open>Claims\<close>

definition process_deposit_claim ::
  "('l, 'b) peg_config \<Rightarrow> erc20_deposit_event \<Rightarrow> h256 \<Rightarrow> ('l, 'b, unit) peg_call" where
  "process_deposit_claim T claim tx_hash =
     bind (peg_gets ContractAddress) (\<lambda>contract.
     bind (attempt (on_bridge (cv_submit_event_claim (eth_bridge T) contract (deposit_event_signature T) tx_hash
       (encode_deposit_event claim)))) (\<lambda>event_claim_id.
     bind (ok_or (decode_account (de_beneficiary claim)) Panic) (\<lambda>beneficiary.
     case event_claim_id of
       Inr claim_id \<Rightarrow> peg_modify (peg_deposit_event (Erc20Claim claim_id beneficiary))
     | Inl _ \<Rightarrow> peg_modify (peg_deposit_event (DelayedErc20DepositFailed tx_hash beneficiary)))))"

definition process_withdrawal ::
  "('l, 'b) peg_config \<Rightarrow> withdraw_message \<Rightarrow> asset_id \<Rightarrow> ('l, 'b, u64) peg_call" where
  "process_withdrawal T message asset =
     bind (ok_or (as_u128 (wm_amount message)) Panic) (\<lambda>amount.
     bind (attempt (on_bridge (cv_generate_event_proof (eth_bridge T) (encode_withdraw_message message))))
       (\<lambda>event_proof_id.
     case event_proof_id of
       Inr proof_id \<Rightarrow>
         bind (peg_modify (\<lambda>p. peg_deposit_event (Erc20Withdraw proof_id asset amount (wm_beneficiary message))
           (p\<lparr>WithdrawalDigests := (WithdrawalDigests p)(proof_id \<mapsto> withdrawal_hash T message proof_id)\<rparr>))) (\<lambda>_.
         ret proof_id)
     | Inl e \<Rightarrow>
         bind (peg_modify (peg_deposit_event (DelayedErc20WithdrawalFailed asset (wm_beneficiary message)))) (\<lambda>_.
         throw e)))"

definition process_claim :: "('l, 'b) peg_config \<Rightarrow> claim_id \<Rightarrow> ('l, 'b, unit) peg_call" where
  "process_claim T claim_id =
     bind (peg_gets (\<lambda>p. DelayedClaims p claim_id)) (\<lambda>found.
     bind (peg_modify (\<lambda>p. p\<lparr>DelayedClaims := (DelayedClaims p)(claim_id := None)\<rparr>)) (\<lambda>_.
     case found of
       Some (Deposit claim tx_hash) \<Rightarrow> process_deposit_claim T claim tx_hash
     | Some (Withdrawal message) \<Rightarrow>
         bind (peg_gets (\<lambda>p. Erc20ToAssetId p (wm_token_address message))) (\<lambda>asset.
         case asset of
           Some a \<Rightarrow> bind (attempt (process_withdrawal T message a)) (\<lambda>_. ret ())
         | None \<Rightarrow> ret ())
     | None \<Rightarrow> ret ()))"

definition delay_claim ::
  "block_number \<Rightarrow> block_number \<Rightarrow> pending_claim \<Rightarrow> ('l, 'b, unit) peg_call" where
  "delay_claim now delay claim =
     bind (peg_gets NextDelayedClaimId) (\<lambda>claim_id.
     if checked_add claim_id 1 = None then peg_modify (peg_deposit_event NoAvailableClaimIds)
     else
       let claim_block = saturating_add now delay in
       bind (peg_modify (\<lambda>p. p
         \<lparr>DelayedClaims := (DelayedClaims p)(claim_id \<mapsto> claim),
          DelayedClaimSchedule := storage_mutate [] (\<lambda>ids. ids @ [claim_id]) claim_block (DelayedClaimSchedule p),
          NextDelayedClaimId := claim_id + 1\<rparr>)) (\<lambda>_.
       case claim of
         Withdrawal message \<Rightarrow>
           bind (ok_or (as_u128 (wm_amount message)) Panic) (\<lambda>amount.
           peg_modify (peg_deposit_event (Erc20WithdrawalDelayed claim_id claim_block amount (wm_beneficiary message))))
       | Deposit event _ \<Rightarrow>
           bind (ok_or (decode_account (de_beneficiary event)) Panic) (\<lambda>beneficiary.
           bind (ok_or (as_u128 (de_amount event)) Panic) (\<lambda>amount.
           peg_modify (peg_deposit_event (Erc20DepositDelayed claim_id claim_block amount beneficiary))))))"

section \<open>The start and the idle end of a block\<close>

definition peg_on_initialize :: "block_number \<Rightarrow> 'l peg_state \<Rightarrow> 'l peg_state" where
  "peg_on_initialize now p =
     (if DelayedClaimSchedule p now \<noteq> None then p\<lparr>ReadyBlocks := ReadyBlocks p @ [now]\<rparr> else p)"

fun process_claims :: "('l, 'b) peg_config \<Rightarrow> claim_id list \<Rightarrow> ('l, 'b, unit) peg_call" where
  "process_claims T [] = ret ()"
| "process_claims T (i # ids) = bind (process_claim T i) (\<lambda>_. process_claims T ids)"

fun process_blocks ::
  "('l, 'b) peg_config \<Rightarrow> u8 \<Rightarrow> block_number list \<Rightarrow> u8 \<Rightarrow> u8 \<Rightarrow> ('l, 'b, u8 \<times> u8) peg_call" where
  "process_blocks T max_claims [] claim_count block_count = ret (claim_count, block_count)"
| "process_blocks T max_claims (block # blocks) claim_count block_count =
     bind (peg_gets (\<lambda>p. storage_get [] (DelayedClaimSchedule p) block)) (\<lambda>claim_ids.
     let remaining = unat (max_claims - claim_count);
         partial = remaining < length claim_ids;
         now_ids = (if partial then take remaining claim_ids else claim_ids);
         claim_count' = claim_count + word_of_nat (length now_ids);
         block_count' = (if partial then block_count else block_count + 1) in
     bind (peg_modify (\<lambda>p. p\<lparr>DelayedClaimSchedule := (DelayedClaimSchedule p)
       (block := (if partial then Some (drop remaining claim_ids) else None))\<rparr>)) (\<lambda>_.
     bind (process_claims T now_ids) (\<lambda>_.
     if max_claims \<le> claim_count' then ret (claim_count', block_count')
     else process_blocks T max_claims blocks claim_count' block_count')))"

definition saturated_u8 :: "u64 \<Rightarrow> u8" where
  "saturated_u8 w = (if unat w < 2 ^ 8 then word_of_nat (unat w) else - 1)"

definition peg_on_idle :: "('l, 'b) peg_config \<Rightarrow> u64 \<Rightarrow> ('l, 'b, u64) peg_call" where
  "peg_on_idle T remaining_weight =
     (let initial_read_cost = db_reads T 1 in
      if remaining_weight \<le> initial_read_cost then ret 0
      else
        bind (peg_gets ReadyBlocks) (\<lambda>ready_blocks.
        if ready_blocks = [] then ret 0
        else
          let weight_each = saturating_add (db_reads T 8) (db_writes T 10);
              max_claims = saturated_u8 ((remaining_weight - initial_read_cost) div weight_each) in
          bind (process_blocks T max_claims ready_blocks 0 0) (\<lambda>(claim_count, block_count).
          bind (peg_modify (\<lambda>p. p\<lparr>ReadyBlocks := drop (unat block_count) ready_blocks\<rparr>)) (\<lambda>_.
          ret (initial_read_cost + weight_each * ucast claim_count)))))"

section \<open>Dispatchables\<close>

definition activate_deposits :: "origin \<Rightarrow> bool \<Rightarrow> ('l, 'b, unit) peg_call" where
  "activate_deposits orig activate = bind (rooted orig) (\<lambda>_. peg_modify (\<lambda>p. p\<lparr>DepositsActive := activate\<rparr>))"

definition activate_withdrawals :: "origin \<Rightarrow> bool \<Rightarrow> ('l, 'b, unit) peg_call" where
  "activate_withdrawals orig activate = bind (rooted orig) (\<lambda>_. peg_modify (\<lambda>p. p\<lparr>WithdrawalsActive := activate\<rparr>))"

definition deposit_claim ::
  "('l, 'b) peg_config \<Rightarrow> block_number \<Rightarrow> origin \<Rightarrow> h256 \<Rightarrow> erc20_deposit_event \<Rightarrow> ('l, 'b, unit) peg_call" where
  "deposit_claim T now orig tx_hash claim =
     transactional (
     bind (signed orig) (\<lambda>_.
     bind (peg_gets DepositsActive) (\<lambda>active.
     bind (ensure active (peg_err DepositsPaused)) (\<lambda>_.
     bind (ensure (unat (de_amount claim) < unat (- 1 :: u128)) (peg_err InvalidAmount)) (\<lambda>_.
     bind (ensure (decode_account (de_beneficiary claim) \<noteq> None) (peg_err InvalidAddress)) (\<lambda>_.
     bind (peg_gets (\<lambda>p. Option.bind (Erc20ToAssetId p (de_token_address claim)) (ClaimDelay p))) (\<lambda>claim_delay.
     case claim_delay of
       Some (min_amount, delay) \<Rightarrow>
         if unat min_amount \<le> unat (de_amount claim) then delay_claim now delay (Deposit claim tx_hash)
         else process_deposit_claim T claim tx_hash
     | None \<Rightarrow> process_deposit_claim T claim tx_hash)))))))"

definition process_withdrawal_payment ::
  "('l, 'b) peg_config \<Rightarrow> account_id \<Rightarrow> asset_id \<Rightarrow> balance \<Rightarrow> ('l, 'b, unit) peg_call" where
  "process_withdrawal_payment T who asset amount =
     bind (peg_gets (\<lambda>p. mc_staking_currency (peg_currency T) (PegLedger p))) (\<lambda>staking.
     if asset = staking then
       on_peg_ledger (mc_transfer (peg_currency T) who (peg_account T) asset amount KeepAlive)
     else
       bind (on_peg_ledger (mc_withdraw (peg_currency T) who asset amount {TRANSFER} KeepAlive)) (\<lambda>imbalance.
       on_peg_ledger (modify (mc_drop_negative (peg_currency T) imbalance))))"

definition do_withdrawal ::
  "('l, 'b) peg_config \<Rightarrow> block_number \<Rightarrow> account_id \<Rightarrow> asset_id \<Rightarrow> balance \<Rightarrow> eth_address \<Rightarrow>
    withdraw_call_origin \<Rightarrow> ('l, 'b, u64) peg_call" where
  "do_withdrawal T now who asset amount beneficiary call_origin =
     bind (peg_gets WithdrawalsActive) (\<lambda>active.
     bind (ensure active (peg_err WithdrawalsPaused)) (\<lambda>_.
     bind (peg_gets (\<lambda>p. AssetIdToErc20 p asset)) (\<lambda>token.
     bind (ok_or token (peg_err UnsupportedAsset)) (\<lambda>token_address.
     let message = \<lparr>wm_token_address = token_address, wm_amount = ucast amount, wm_beneficiary = beneficiary\<rparr>;
         immediate =
           bind (process_withdrawal_payment T who asset amount) (\<lambda>_.
           process_withdrawal T message asset) in
     bind (peg_gets (\<lambda>p. ClaimDelay p asset)) (\<lambda>claim_delay.
     case claim_delay of
       Some (min_amount, delay) \<Rightarrow>
         if min_amount \<le> amount then
           (case call_origin of
              Runtime \<Rightarrow>
                bind (process_withdrawal_payment T who asset amount) (\<lambda>_.
                bind (delay_claim now delay (Withdrawal message)) (\<lambda>_.
                ret 0))
            | Evm \<Rightarrow> throw (peg_err EvmWithdrawalFailed))
         else immediate
     | None \<Rightarrow> immediate)))))"

definition peg_withdraw ::
  "('l, 'b) peg_config \<Rightarrow> block_number \<Rightarrow> origin \<Rightarrow> asset_id \<Rightarrow> balance \<Rightarrow> eth_address \<Rightarrow> ('l, 'b, unit) peg_call" where
  "peg_withdraw T now orig asset amount beneficiary =
     transactional (
     bind (signed orig) (\<lambda>who.
     bind (do_withdrawal T now who asset amount beneficiary Runtime) (\<lambda>_.
     ret ())))"

definition set_contract_address :: "origin \<Rightarrow> eth_address \<Rightarrow> ('l, 'b, unit) peg_call" where
  "set_contract_address orig address =
     transactional (
     bind (rooted orig) (\<lambda>_.
     peg_modify (\<lambda>p. peg_deposit_event (SetContractAddress address) (p\<lparr>ContractAddress := address\<rparr>))))"

definition activate_cennz_deposits :: "origin \<Rightarrow> ('l, 'b, unit) peg_call" where
  "activate_cennz_deposits orig =
     transactional (
     bind (rooted orig) (\<lambda>_.
     peg_modify (\<lambda>p. peg_deposit_event CENNZDepositsActivated (p\<lparr>CENNZDepositsActive := True\<rparr>))))"

definition set_erc20_meta :: "origin \<Rightarrow> (eth_address \<times> bytes \<times> u8) list \<Rightarrow> ('l, 'b, unit) peg_call" where
  "set_erc20_meta orig details =
     bind (rooted orig) (\<lambda>_.
     peg_modify (fold (\<lambda>(address, symbol, decimals) p.
       p\<lparr>Erc20Meta := (Erc20Meta p)(address \<mapsto> (symbol, decimals))\<rparr>) details))"

definition set_claim_delay :: "origin \<Rightarrow> asset_id \<Rightarrow> balance \<Rightarrow> block_number \<Rightarrow> ('l, 'b, unit) peg_call" where
  "set_claim_delay orig asset min_balance delay =
     bind (rooted orig) (\<lambda>_.
     peg_modify (\<lambda>p. peg_deposit_event (ClaimDelaySet asset min_balance delay)
       (p\<lparr>ClaimDelay := (ClaimDelay p)(asset \<mapsto> (min_balance, delay))\<rparr>)))"

section \<open>Verified deposits\<close>

text \<open>
  The subscriber of the bridge does not call the bridge: it works on the pallet's own storage. The result of
  the transfer of the staking asset is dropped.
\<close>

definition on_ledger_of_peg :: "('l, 'a) dispatch \<Rightarrow> ('l peg_state, 'a) dispatch" where
  "on_ledger_of_peg m p = (case m (PegLedger p) of (r, l) \<Rightarrow> (r, p\<lparr>PegLedger := l\<rparr>))"

definition asset_for_token ::
  "('l, 'b) peg_config \<Rightarrow> eth_address \<Rightarrow> ('l peg_state, asset_id) dispatch" where
  "asset_for_token T token =
     bind (gets (\<lambda>p. Erc20ToAssetId p token)) (\<lambda>known.
     case known of
       Some asset \<Rightarrow> ret asset
     | None \<Rightarrow>
         bind (gets (\<lambda>p. storage_get ([], 18) (Erc20Meta p) token)) (\<lambda>(symbol, decimals).
         bind (attempt (on_ledger_of_peg (mc_create (peg_currency T) (peg_account T) 0 decimals 1 symbol))) (\<lambda>created.
         case created of
           Inl _ \<Rightarrow> throw (peg_err CreateAssetFailed)
         | Inr asset \<Rightarrow>
             bind (modify (\<lambda>p. p\<lparr>Erc20ToAssetId := (Erc20ToAssetId p)(token \<mapsto> asset),
               AssetIdToErc20 := (AssetIdToErc20 p)(asset \<mapsto> token)\<rparr>)) (\<lambda>_.
             ret asset))))"

definition pay_deposit ::
  "('l, 'b) peg_config \<Rightarrow> asset_id \<Rightarrow> balance \<Rightarrow> account_id \<Rightarrow> ('l peg_state, unit) dispatch" where
  "pay_deposit T asset amount beneficiary =
     bind (gets (\<lambda>p. asset = mc_staking_currency (peg_currency T) (PegLedger p) \<and> CENNZDepositsActive p)) (\<lambda>special.
     if special then
       bind (attempt (on_ledger_of_peg
         (mc_transfer (peg_currency T) (peg_account T) beneficiary asset amount KeepAlive))) (\<lambda>_.
       ret ())
     else
       bind (on_ledger_of_peg (run (mc_deposit_creating (peg_currency T) beneficiary asset amount))) (\<lambda>imbalance.
       on_ledger_of_peg (modify (mc_drop_positive (peg_currency T) imbalance))))"

definition do_deposit ::
  "('l, 'b) peg_config \<Rightarrow> erc20_deposit_event \<Rightarrow> ('l peg_state, asset_id \<times> balance \<times> account_id) dispatch" where
  "do_deposit T event =
     bind (asset_for_token T (de_token_address event)) (\<lambda>asset.
     bind (ok_or (decode_account (de_beneficiary event)) Panic) (\<lambda>beneficiary.
     bind (ok_or (as_u128 (de_amount event)) Panic) (\<lambda>amount.
     bind (pay_deposit T asset amount beneficiary) (\<lambda>_.
     ret (asset, amount, beneficiary)))))"

definition peg_on_success ::
  "('l, 'b) peg_config \<Rightarrow> u64 \<Rightarrow> eth_address \<Rightarrow> h256 \<Rightarrow> bytes \<Rightarrow> 'l peg_state \<Rightarrow> 'l peg_state option" where
  "peg_on_success T claim_id contract event_type event_data p =
     (if contract = ContractAddress p \<and> event_type = deposit_event_signature T then
        (case decode_deposit_event event_data of
           Some event \<Rightarrow>
             (case do_deposit T event p of
                (Inr (asset, amount, beneficiary), p') \<Rightarrow>
                  Some (peg_deposit_event (Erc20Deposit claim_id asset amount beneficiary) p')
              | (Inl e, p') \<Rightarrow> if e = Panic then None else Some (peg_deposit_event (Erc20DepositFail claim_id) p'))
         | None \<Rightarrow> Some p)
      else Some p)"

definition peg_on_failure ::
  "('l, 'b) peg_config \<Rightarrow> u64 \<Rightarrow> eth_address \<Rightarrow> h256 \<Rightarrow> bytes \<Rightarrow> 'l peg_state \<Rightarrow> 'l peg_state option" where
  "peg_on_failure T claim_id contract event_type event_data p =
     (if contract = ContractAddress p \<and> event_type = deposit_event_signature T
      then Some (peg_deposit_event (Erc20DepositFail claim_id) p)
      else Some p)"

end
