(* ===== verification/Peg_Claims.thy ===== *)
theory Peg_Claims
  imports Erc20_Peg Eth_Bridge_Inv
begin

text \<open>
  The interface between the peg and the bridge, the \<open>EventClaimVerifier\<close> trait of \<open>crml/support/src/lib.rs\<close>: the
  locale \<open>event_claim_verifier\<close> has what the peg may rely on and what follows for claims that were delayed. The
  bridge pallet is the provider.
\<close>

section \<open>The laws\<close>

locale event_claim_verifier =
  fixes V :: "'b claim_verifier" and claimed :: "h256 \<Rightarrow> 'b \<Rightarrow> bool"
  assumes submit_claims: "cv_submit_event_claim V contract sig tx data b = (Inr i, b') \<Longrightarrow>
      \<not> claimed tx b \<and> claimed tx b'"
    and submit_keeps: "cv_submit_event_claim V contract sig tx data b = (Inr i, b') \<Longrightarrow> claimed t b \<Longrightarrow> claimed t b'"
    and submit_refuses: "cv_submit_event_claim V contract sig tx data b = (Inl e, b') \<Longrightarrow>
      claimed tx b \<and> b' = b \<and> e \<noteq> Panic"
    and proof_given: "\<exists>i b'. cv_generate_event_proof V message b = (Inr i, b') \<and> (\<forall>t. claimed t b' = claimed t b)"

section \<open>Delayed claims\<close>

text \<open>The amounts of delayed withdrawals fit a balance.\<close>

definition small_withdrawals :: "'l peg_state \<Rightarrow> bool" where
  "small_withdrawals p \<longleftrightarrow>
     (\<forall>i m. DelayedClaims p i = Some (Withdrawal m) \<longrightarrow> unat (wm_amount m) < 2 ^ 128)"

text \<open>What the processing of claims leaves as it was.\<close>

definition same_schedule :: "'l peg_state \<Rightarrow> 'l peg_state \<Rightarrow> bool" where
  "same_schedule p p' \<longleftrightarrow> PegLedger p' = PegLedger p \<and> DelayedClaimSchedule p' = DelayedClaimSchedule p \<and>
     ReadyBlocks p' = ReadyBlocks p \<and> Erc20ToAssetId p' = Erc20ToAssetId p"

lemma same_schedule_refl: "same_schedule p p"
  by (simp add: same_schedule_def)

lemma same_schedule_trans: "same_schedule p q \<Longrightarrow> same_schedule q r \<Longrightarrow> same_schedule p r"
  by (simp add: same_schedule_def)

text \<open>
  The claims \<open>ids\<close> are settled: they are no longer delayed, the transactions of the deposits among them are claimed at
  the verifier, and nothing that was claimed is forgotten.
\<close>

definition settled ::
  "(h256 \<Rightarrow> 'b \<Rightarrow> bool) \<Rightarrow> claim_id list \<Rightarrow> 'l peg_state \<times> 'b \<Rightarrow> 'l peg_state \<times> 'b \<Rightarrow> bool" where
  "settled claimed ids s s' \<longleftrightarrow>
     (\<forall>i. DelayedClaims (fst s') i = (if i \<in> set ids then None else DelayedClaims (fst s) i)) \<and>
     (\<forall>t. claimed t (snd s) \<longrightarrow> claimed t (snd s')) \<and>
     (\<forall>i c tx. i \<in> set ids \<longrightarrow> DelayedClaims (fst s) i = Some (Deposit c tx) \<longrightarrow> claimed tx (snd s'))"

lemma settled_none: "settled claimed [] s s"
  by (simp add: settled_def)

lemma settled_append:
  assumes "settled claimed xs s s1" and "settled claimed ys s1 s2"
  shows "settled claimed (xs @ ys) s s2"
  unfolding settled_def
proof (intro conjI allI impI)
  show "DelayedClaims (fst s2) i = (if i \<in> set (xs @ ys) then None else DelayedClaims (fst s) i)" for i
    using assms by (simp add: settled_def)
  show "claimed t (snd s2)" if "claimed t (snd s)" for t
    using assms that by (simp add: settled_def)
  fix i c tx
  assume i: "i \<in> set (xs @ ys)" and d: "DelayedClaims (fst s) i = Some (Deposit c tx)"
  show "claimed tx (snd s2)"
  proof (cases "i \<in> set xs")
    case True
    then show ?thesis
      using d assms unfolding settled_def by blast
  next
    case False
    then have "i \<in> set ys" "DelayedClaims (fst s1) i = Some (Deposit c tx)"
      using i d assms(1) by (simp_all add: settled_def)
    then show ?thesis
      using assms(2) unfolding settled_def by blast
  qed
qed

lemma settled_small: "settled claimed ids (p, b) (p', b') \<Longrightarrow> small_withdrawals p \<Longrightarrow> small_withdrawals p'"
  by (simp add: settled_def small_withdrawals_def)

lemma settled_schedule:
  "settled claimed ids (p\<lparr>DelayedClaimSchedule := m\<rparr>, b) s' = settled claimed ids (p, b) s'"
  by (simp add: settled_def)

text \<open>The claims that are due at a block of the schedule.\<close>

abbreviation due :: "'l peg_state \<Rightarrow> block_number \<Rightarrow> claim_id list" where
  "due p block \<equiv> storage_get [] (DelayedClaimSchedule p) block"

lemma attempt_iff [call_eqs]:
  "attempt m s = (r, s') \<longleftrightarrow> (\<exists>x. m s = (x, s') \<and> r = (if x = Inl Panic then Inl Panic else Inr x))"
  by (auto simp: attempt_def split: prod.splits)

lemma on_bridge_iff [call_eqs]:
  "on_bridge m (p, b) = (r, (p', b')) \<longleftrightarrow> m b = (r, b') \<and> p' = p"
  by (auto simp: on_bridge_def split: prod.splits)

context event_claim_verifier
begin

lemma deposit_processed:
  assumes V: "eth_bridge T = V"
  shows "\<exists>p' b'. process_deposit_claim T claim tx (p, b) = (Inr (), (p', b')) \<and> same_schedule p p' \<and>
    DelayedClaims p' = DelayedClaims p \<and> claimed tx b' \<and> (\<forall>t. claimed t b \<longrightarrow> claimed t b')"
proof -
  let ?submit = "cv_submit_event_claim V (ContractAddress p) (deposit_event_signature T) tx (encode_deposit_event claim) b"
  obtain r b' where run: "?submit = (r, b')"
    by fastforce
  show ?thesis
  proof (cases r)
    case (Inl e)
    note submit_refuses [OF run [unfolded Inl]]
    with run Inl V show ?thesis
      by (simp add: process_deposit_claim_def call_defs on_bridge_def decode_account_def peg_deposit_event_def
          same_schedule_def)
  next
    case (Inr i)
    note submit_claims [OF run [unfolded Inr]] submit_keeps [OF run [unfolded Inr]]
    with run Inr V show ?thesis
      by (simp add: process_deposit_claim_def call_defs on_bridge_def decode_account_def peg_deposit_event_def
          same_schedule_def)
  qed
qed

lemma withdrawal_processed:
  assumes V: "eth_bridge T = V" and small: "unat (wm_amount message) < 2 ^ 128"
  shows "\<exists>i p' b'. process_withdrawal T message asset (p, b) = (Inr i, (p', b')) \<and> same_schedule p p' \<and>
    DelayedClaims p' = DelayedClaims p \<and> (\<forall>t. claimed t b \<longrightarrow> claimed t b')"
proof -
  obtain i b' where "cv_generate_event_proof V (encode_withdraw_message message) b = (Inr i, b')"
      "\<forall>t. claimed t b' = claimed t b"
    using proof_given by blast
  with V small show ?thesis
    by (simp add: process_withdrawal_def call_defs on_bridge_def as_u128_def peg_deposit_event_def same_schedule_def)
qed

lemma claim_processed:
  assumes V: "eth_bridge T = V" and small: "small_withdrawals p"
  shows "\<exists>p' b'. process_claim T i (p, b) = (Inr (), (p', b')) \<and> same_schedule p p' \<and>
    settled claimed [i] (p, b) (p', b')"
proof -
  let ?q = "p\<lparr>DelayedClaims := (DelayedClaims p)(i := None)\<rparr>"
  consider "DelayedClaims p i = None" | c tx where "DelayedClaims p i = Some (Deposit c tx)"
    | m where "DelayedClaims p i = Some (Withdrawal m)"
    by (metis not_None_eq pending_claim.exhaust)
  then show ?thesis
  proof cases
    case 1
    then show ?thesis
      by (simp add: process_claim_def call_defs same_schedule_def settled_def)
  next
    case (2 c tx)
    obtain p' b' where "process_deposit_claim T c tx (?q, b) = (Inr (), (p', b'))" "same_schedule ?q p'"
        "DelayedClaims p' = DelayedClaims ?q" "claimed tx b'" "\<forall>t. claimed t b \<longrightarrow> claimed t b'"
      using deposit_processed [OF V] by blast
    with 2 show ?thesis
      by (simp add: process_claim_def call_defs same_schedule_def settled_def)
  next
    case (3 m)
    show ?thesis
    proof (cases "Erc20ToAssetId p (wm_token_address m)")
      case None
      with 3 show ?thesis
        by (simp add: process_claim_def call_defs same_schedule_def settled_def)
    next
      case (Some a)
      have "unat (wm_amount m) < 2 ^ 128"
        using small 3 by (simp add: small_withdrawals_def)
      then obtain j p' b' where "process_withdrawal T m a (?q, b) = (Inr j, (p', b'))" "same_schedule ?q p'"
          "DelayedClaims p' = DelayedClaims ?q" "\<forall>t. claimed t b \<longrightarrow> claimed t b'"
        using withdrawal_processed [OF V] by blast
      with 3 Some show ?thesis
        by (simp add: process_claim_def call_defs same_schedule_def settled_def)
    qed
  qed
qed

lemma claims_processed:
  assumes V: "eth_bridge T = V" and "small_withdrawals p"
  shows "\<exists>p' b'. process_claims T ids (p, b) = (Inr (), (p', b')) \<and> same_schedule p p' \<and>
    settled claimed ids (p, b) (p', b')"
  using assms(2)
proof (induction ids arbitrary: p b)
  case Nil
  then show ?case
    by (simp add: ret_def same_schedule_refl settled_none)
next
  case (Cons i ids)
  obtain p1 b1 where one: "process_claim T i (p, b) = (Inr (), (p1, b1))" "same_schedule p p1"
      "settled claimed [i] (p, b) (p1, b1)"
    using claim_processed [OF V Cons.prems] by blast
  from Cons.IH [OF settled_small [OF one(3) Cons.prems], of b1]
  obtain p' b' where more: "process_claims T ids (p1, b1) = (Inr (), (p', b'))" "same_schedule p1 p'"
      "settled claimed ids (p1, b1) (p', b')"
    by blast
  have "process_claims T (i # ids) (p, b) = (Inr (), (p', b'))"
    using one(1) more(1) by (simp add: bind_def)
  then show ?case
    using settled_append [OF one(3) more(3)] same_schedule_trans [OF one(2) more(2)] by auto
qed

text \<open>One block of the loop, when all of its claims fit the budget.\<close>

lemma block_processed:
  assumes V: "eth_bridge T = V" and small: "small_withdrawals p"
    and fits: "unat count + length (due p block) \<le> unat budget"
  obtains q c where "same_schedule (p\<lparr>DelayedClaimSchedule := (DelayedClaimSchedule p)(block := None)\<rparr>) q"
    and "settled claimed (due p block) (p, b) (q, c)"
    and "unat (count + word_of_nat (length (due p block))) = unat count + length (due p block)"
    and "process_blocks T budget (block # blocks) count n (p, b) =
      (if budget \<le> count + word_of_nat (length (due p block))
       then (Inr (count + word_of_nat (length (due p block)), n + 1), (q, c))
       else process_blocks T budget blocks (count + word_of_nat (length (due p block))) (n + 1) (q, c))"
proof -
  let ?p = "p\<lparr>DelayedClaimSchedule := (DelayedClaimSchedule p)(block := None)\<rparr>"
  have "small_withdrawals ?p"
    using small by (simp add: small_withdrawals_def)
  then obtain q c where run: "process_claims T (due p block) (?p, b) = (Inr (), (q, c))" "same_schedule ?p q"
      "settled claimed (due p block) (p, b) (q, c)"
    using claims_processed [OF V] by (metis settled_schedule)
  have "length (due p block) < 2 ^ LENGTH(8)"
    using fits unat_less_pow [of budget] by simp
  then have "unat (word_of_nat (length (due p block)) :: u8) = length (due p block)"
    by (rule unat_word_of_nat_less)
  then have total: "unat (count + word_of_nat (length (due p block))) = unat count + length (due p block)"
    using fits unat_less_pow [of budget] by (simp add: unat_add_fits)
  have "unat (budget - count) = unat budget - unat count"
    using fits by (intro unat_sub_fits) (simp add: word_le_nat_alt)
  then have "\<not> unat (budget - count) < length (due p block)"
    using fits by simp
  then have "process_blocks T budget (block # blocks) count n (p, b) =
      (if budget \<le> count + word_of_nat (length (due p block))
       then (Inr (count + word_of_nat (length (due p block)), n + 1), (q, c))
       else process_blocks T budget blocks (count + word_of_nat (length (due p block))) (n + 1) (q, c))"
    using run(1) by (simp add: call_defs Let_def)
  with run(2,3) total show ?thesis
    by (rule that)
qed

lemma blocks_processed:
  assumes V: "eth_bridge T = V" and "small_withdrawals p" and "distinct blocks"
    and "\<forall>block \<in> set blocks. due p block \<noteq> []"
    and "unat count + length (concat (map (due p) blocks)) \<le> unat budget"
  shows "\<exists>k p' b'. process_blocks T budget blocks count n (p, b) =
      (Inr (k, n + word_of_nat (length blocks)), (p', b')) \<and>
    settled claimed (concat (map (due p) blocks)) (p, b) (p', b') \<and>
    (\<forall>block. DelayedClaimSchedule p' block = (if block \<in> set blocks then None else DelayedClaimSchedule p block))"
  using assms(2-)
proof (induction blocks arbitrary: p b count n)
  case Nil
  then show ?case
    by (simp add: ret_def settled_none)
next
  case (Cons block blocks)
  have fits: "unat count + length (due p block) \<le> unat budget"
    using Cons.prems(4) by simp
  let ?count = "count + word_of_nat (length (due p block)) :: u8"
  obtain q c where q: "same_schedule (p\<lparr>DelayedClaimSchedule := (DelayedClaimSchedule p)(block := None)\<rparr>) q"
      "settled claimed (due p block) (p, b) (q, c)"
    and total: "unat ?count = unat count + length (due p block)"
    and loop: "process_blocks T budget (block # blocks) count n (p, b) =
      (if budget \<le> ?count then (Inr (?count, n + 1), (q, c))
       else process_blocks T budget blocks ?count (n + 1) (q, c))"
    using block_processed [OF V Cons.prems(1) fits] .
  have sched: "DelayedClaimSchedule q = (DelayedClaimSchedule p)(block := None)"
    using q(1) by (simp add: same_schedule_def)
  have rest: "due q x = due p x" if "x \<in> set blocks" for x
    using that Cons.prems(2) sched by (auto simp: storage_get_def)
  then have same: "map (due q) blocks = map (due p) blocks"
    by simp
  show ?case
  proof (cases "blocks = []")
    case True
    then show ?thesis
      using loop q(2) sched by (auto simp: ret_def)
  next
    case False
    then have "0 < length (concat (map (due p) blocks))"
      using Cons.prems(3) by (cases blocks) auto
    moreover have "unat ?count + length (concat (map (due p) blocks)) \<le> unat budget"
      using total Cons.prems(4) by simp
    ultimately have "unat ?count < unat budget"
      by linarith
    then have more: "\<not> budget \<le> ?count"
      by (simp add: word_le_nat_alt)
    have "unat ?count + length (concat (map (due q) blocks)) \<le> unat budget"
      unfolding same using total Cons.prems(4) by simp
    moreover have "\<forall>x \<in> set blocks. due q x \<noteq> []"
      using Cons.prems(3) rest by simp
    ultimately obtain k p' b' where more': "process_blocks T budget blocks ?count (n + 1) (q, c) =
        (Inr (k, n + 1 + word_of_nat (length blocks)), (p', b'))"
        "settled claimed (concat (map (due q) blocks)) (q, c) (p', b')"
        "\<forall>x. DelayedClaimSchedule p' x = (if x \<in> set blocks then None else DelayedClaimSchedule q x)"
      using Cons.IH [OF settled_small [OF q(2) Cons.prems(1)]] Cons.prems(2) by fastforce
    have "settled claimed (concat (map (due p) (block # blocks))) (p, b) (p', b')"
      using settled_append [OF q(2) more'(2) [unfolded same]] by simp
    moreover have "process_blocks T budget (block # blocks) count n (p, b) =
        (Inr (k, n + word_of_nat (length (block # blocks))), (p', b'))"
      using loop more more'(1) by (simp add: add.assoc)
    ultimately show ?thesis
      using more'(3) sched by auto
  qed
qed

end

section \<open>The bridge as the verifier\<close>

definition bridge_verifier :: "'w bridge_state claim_verifier" where
  "bridge_verifier = \<lparr>cv_submit_event_claim = submit_event_claim, cv_generate_event_proof = generate_event_proof\<rparr>"

definition tx_claimed :: "h256 \<Rightarrow> 'w bridge_state \<Rightarrow> bool" where
  "tx_claimed tx s \<longleftrightarrow> ProcessedTxHashes s tx \<noteq> None \<or> PendingTxHashes s tx \<noteq> None"

lemma submit_event_claim_no_panic: "submit_event_claim contract sig tx data s \<noteq> (Inl Panic, s')"
  by (auto simp: submit_event_claim_def call_eqs event_type_id_for_iff bridge_err_def split: option.splits if_splits)

lemma generate_event_proof_total:
  "\<exists>i s'. generate_event_proof event s = (Inr i, s') \<and> PendingTxHashes s' = PendingTxHashes s \<and>
    ProcessedTxHashes s' = ProcessedTxHashes s"
  by (simp add: generate_event_proof_def call_defs bridge_deposit_event_def do_generate_event_proof_def deposit_log_def)

interpretation ecv: event_claim_verifier bridge_verifier tx_claimed
proof
  fix contract sig tx data b i b' t
  assume run: "cv_submit_event_claim bridge_verifier contract sig tx data b = (Inr i, b')"
  note f = submit_event_claim_fields [OF run [unfolded bridge_verifier_def claim_verifier.simps]]
  show "\<not> tx_claimed tx b \<and> tx_claimed tx b'"
    using f(1,2,7) by (simp add: tx_claimed_def)
  show "tx_claimed t b'" if "tx_claimed t b"
    using that f(7,8) by (auto simp: tx_claimed_def)
next
  fix contract sig tx data b e b'
  assume run: "cv_submit_event_claim bridge_verifier contract sig tx data b = (Inl e, b')"
  then have run': "submit_event_claim contract sig tx data b = (Inl e, b')"
    by (simp add: bridge_verifier_def)
  then have "e \<noteq> Panic"
    using submit_event_claim_no_panic by blast
  then show "tx_claimed tx b \<and> b' = b \<and> e \<noteq> Panic"
    using submit_event_claim_error [OF run'] by (simp add: tx_claimed_def)
next
  fix message b
  show "\<exists>i b'. cv_generate_event_proof bridge_verifier message b = (Inr i, b') \<and>
      (\<forall>t. tx_claimed t b' = tx_claimed t b)"
    using generate_event_proof_total [of message b] by (auto simp: bridge_verifier_def tx_claimed_def)
qed

end
