(* ===== verification/Peg_Inv.thy ===== *)
theory Peg_Inv
  imports Peg_Claims
begin

text \<open>
  Histories of the peg: the schedule of delayed claims has no empty entry, the blocks that are ready are different
  blocks of the past that still have claims, and delayed withdrawals are balances.
\<close>

section \<open>Rules for calls\<close>

lemma preserves_peg_gets [preserves_rules]: "preserves P (peg_gets f)"
  unfolding peg_gets_def by (rule preserves_gets)

lemma preserves_peg_modify [preserves_rules]:
  "(\<And>p b. P (p, b) \<Longrightarrow> P (f p, b)) \<Longrightarrow> preserves P (peg_modify f)"
  unfolding peg_modify_def by (rule preserves_modify) auto

lemma preserves_attempt [preserves_rules]: "preserves P m \<Longrightarrow> preserves P (attempt m)"
  by (simp add: preserves_def attempt_def split_beta)

lemma preserves_on_bridge [preserves_rules]:
  "(\<And>p b b'. P (p, b) \<Longrightarrow> P (p, b')) \<Longrightarrow> preserves P (on_bridge m)"
  by (auto simp: preserves_def on_bridge_def split: prod.splits)

lemma preserves_on_peg_ledger [preserves_rules]:
  "(\<And>p b l. P (p, b) \<Longrightarrow> P (p\<lparr>PegLedger := l\<rparr>, b)) \<Longrightarrow> preserves P (on_peg_ledger m)"
  by (auto simp: preserves_def on_peg_ledger_def split: prod.splits)

lemma preserves_on_ledger_of_peg [preserves_rules]:
  "(\<And>p l. P p \<Longrightarrow> P (p\<lparr>PegLedger := l\<rparr>)) \<Longrightarrow> preserves P (on_ledger_of_peg m)"
  by (auto simp: preserves_def on_ledger_of_peg_def split: prod.splits)

lemma preserves_sum_case:
  "(\<And>x. preserves P (f x)) \<Longrightarrow> (\<And>y. preserves P (g y)) \<Longrightarrow> preserves P (case v of Inl x \<Rightarrow> f x | Inr y \<Rightarrow> g y)"
  by (cases v) auto

lemma preserves_claim_case:
  "(\<And>c tx. preserves P (f c tx)) \<Longrightarrow> (\<And>m. preserves P (g m)) \<Longrightarrow>
     preserves P (case v of Deposit c tx \<Rightarrow> f c tx | Withdrawal m \<Rightarrow> g m)"
  by (cases v) auto

section \<open>The invariant\<close>

definition peg_inv :: "block_number \<Rightarrow> 'l peg_state \<Rightarrow> bool" where
  "peg_inv now p \<longleftrightarrow>
     small_withdrawals p \<and> (\<forall>x. DelayedClaimSchedule p x \<noteq> Some []) \<and> distinct (ReadyBlocks p) \<and>
     (\<forall>x \<in> set (ReadyBlocks p). x \<le> now \<and> DelayedClaimSchedule p x \<noteq> None)"

lemma peg_inv_frame [simp]:
  "peg_inv now (p\<lparr>PegLedger := l\<rparr>) = peg_inv now p"
  "peg_inv now (p\<lparr>DepositsActive := x1\<rparr>) = peg_inv now p"
  "peg_inv now (p\<lparr>WithdrawalsActive := x2\<rparr>) = peg_inv now p"
  "peg_inv now (p\<lparr>Erc20ToAssetId := x3\<rparr>) = peg_inv now p"
  "peg_inv now (p\<lparr>AssetIdToErc20 := x4\<rparr>) = peg_inv now p"
  "peg_inv now (p\<lparr>Erc20Meta := x5\<rparr>) = peg_inv now p"
  "peg_inv now (p\<lparr>ClaimDelay := x6\<rparr>) = peg_inv now p"
  "peg_inv now (p\<lparr>NextDelayedClaimId := x7\<rparr>) = peg_inv now p"
  "peg_inv now (p\<lparr>WithdrawalDigests := x8\<rparr>) = peg_inv now p"
  "peg_inv now (p\<lparr>ContractAddress := x9\<rparr>) = peg_inv now p"
  "peg_inv now (p\<lparr>CENNZDepositsActive := x10\<rparr>) = peg_inv now p"
  "peg_inv now (p\<lparr>PegEvents := x11\<rparr>) = peg_inv now p"
  "peg_inv now (peg_deposit_event e p) = peg_inv now p"
  by (simp_all add: peg_inv_def small_withdrawals_def peg_deposit_event_def)

lemma peg_inv_taken [simp]: "peg_inv now p \<Longrightarrow> peg_inv now (p\<lparr>DelayedClaims := (DelayedClaims p)(i := None)\<rparr>)"
  by (simp add: peg_inv_def small_withdrawals_def)

text \<open>The calls work on the pallet and the bridge; the invariant is about the pallet.\<close>

abbreviation keeps_peg :: "block_number \<Rightarrow> ('l, 'b, 'a) peg_call \<Rightarrow> bool" where
  "keeps_peg now \<equiv> preserves (\<lambda>s. peg_inv now (fst s))"

lemmas keeps_rules = preserves_rules preserves_option_case preserves_prod_case preserves_sum_case
  preserves_claim_case

lemma process_deposit_claim_keeps: "keeps_peg now (process_deposit_claim T claim tx)"
  unfolding process_deposit_claim_def by (intro keeps_rules; simp)

lemma process_withdrawal_keeps: "keeps_peg now (process_withdrawal T message asset)"
  unfolding process_withdrawal_def by (intro keeps_rules; simp)

definition small_claim :: "pending_claim \<Rightarrow> bool" where
  "small_claim c \<longleftrightarrow> (case c of Withdrawal m \<Rightarrow> unat (wm_amount m) < 2 ^ 128 | Deposit _ _ \<Rightarrow> True)"

lemma scheduled_inv:
  assumes "peg_inv now p" and "small_claim claim"
  shows "peg_inv now (p\<lparr>DelayedClaims := (DelayedClaims p)(i \<mapsto> claim),
    DelayedClaimSchedule := storage_mutate [] (\<lambda>ids. ids @ [i]) block (DelayedClaimSchedule p)\<rparr>)"
  using assms by (auto simp: peg_inv_def small_withdrawals_def small_claim_def storage_mutate_def)

lemma delay_claim_keeps:
  assumes "small_claim claim"
  shows "keeps_peg now (delay_claim now' delay claim)"
  unfolding delay_claim_def Let_def
  by (intro keeps_rules; simp add: scheduled_inv assms)

lemma deposit_claim_keeps: "keeps_peg now (deposit_claim T now' orig tx claim)"
  unfolding deposit_claim_def signed_def
  by (intro keeps_rules process_deposit_claim_keeps delay_claim_keeps; simp add: small_claim_def)

lemma withdrawal_payment_keeps: "keeps_peg now (process_withdrawal_payment T who asset amount)"
  unfolding process_withdrawal_payment_def by (intro keeps_rules; simp)

lemma unat_ucast_balance: "unat (ucast (amount :: balance) :: u256) = unat amount"
proof -
  have "unat amount < 2 ^ 256"
    using unat_less_pow [of amount] by simp
  then show ?thesis
    by (simp add: unsigned_ucast_eq take_bit_nat_eq_self)
qed

lemma peg_withdraw_keeps: "keeps_peg now (peg_withdraw T now' orig asset amount beneficiary)"
  unfolding peg_withdraw_def do_withdrawal_def signed_def Let_def withdraw_call_origin.case
  by (intro keeps_rules withdrawal_payment_keeps process_withdrawal_keeps delay_claim_keeps;
      use unat_less_pow [of amount] in \<open>simp add: small_claim_def unat_ucast_balance\<close>)

lemma peg_settings_keep:
  "keeps_peg now (activate_deposits orig a)" "keeps_peg now (activate_withdrawals orig a)"
  "keeps_peg now (set_contract_address orig address)" "keeps_peg now (activate_cennz_deposits orig)"
  "keeps_peg now (set_claim_delay orig asset m delay)"
  unfolding activate_deposits_def activate_withdrawals_def set_contract_address_def activate_cennz_deposits_def
    set_claim_delay_def rooted_def
  by (intro keeps_rules; simp)+

lemma peg_inv_meta: "peg_inv now (fold (\<lambda>(address, symbol, decimals) p.
    p\<lparr>Erc20Meta := (Erc20Meta p)(address \<mapsto> (symbol, decimals))\<rparr>) details p) = peg_inv now p"
  by (induction details arbitrary: p) (simp_all add: split_beta)

lemma set_erc20_meta_keeps: "keeps_peg now (set_erc20_meta orig details)"
  unfolding set_erc20_meta_def rooted_def by (intro keeps_rules; simp add: peg_inv_meta)

lemma subscriber_keeps:
  "peg_inv now p \<Longrightarrow> peg_on_success T i contract sig data p = Some p' \<Longrightarrow> peg_inv now p'"
  "peg_inv now p \<Longrightarrow> peg_on_failure T i contract sig data p = Some p' \<Longrightarrow> peg_inv now p'"
proof -
  have deposit: "preserves (peg_inv now) (do_deposit T event)" for event
    unfolding do_deposit_def asset_for_token_def pay_deposit_def by (intro keeps_rules; simp)
  show "peg_inv now p \<Longrightarrow> peg_on_success T i contract sig data p = Some p' \<Longrightarrow> peg_inv now p'"
    by (auto simp: peg_on_success_def split: if_splits option.splits prod.splits sum.splits
        dest: preservesD [OF deposit])
  show "peg_inv now p \<Longrightarrow> peg_on_failure T i contract sig data p = Some p' \<Longrightarrow> peg_inv now p'"
    by (auto simp: peg_on_failure_def split: if_splits)
qed

section \<open>Idle blocks\<close>

text \<open>Claims are processed outside the schedule.\<close>

definition schedule_is :: "(block_number \<rightharpoonup> claim_id list) \<Rightarrow> 'l peg_state \<times> 'b \<Rightarrow> bool" where
  "schedule_is m s \<longleftrightarrow> small_withdrawals (fst s) \<and> DelayedClaimSchedule (fst s) = m"

lemma process_claim_schedule: "preserves (schedule_is m) (process_claim T i)"
  unfolding process_claim_def process_deposit_claim_def process_withdrawal_def
  by (intro keeps_rules; simp add: schedule_is_def small_withdrawals_def peg_deposit_event_def)

lemma process_claims_schedule: "preserves (schedule_is m) (process_claims T ids)"
proof (induction ids)
  case (Cons i ids)
  then show ?case
    unfolding process_claims.simps by (intro preserves_bind process_claim_schedule)
qed (simp add: preserves_ret)

lemma block_step:
  assumes run: "process_blocks T budget (block # blocks) count n (p, b) = (Inr (k, n'), (p', b'))"
    and le: "count \<le> budget" and small: "small_withdrawals p"
  defines "ids \<equiv> due p block" and "left \<equiv> unat budget - unat count"
  shows "left < length ids \<Longrightarrow> n' = n \<and> small_withdrawals p' \<and>
      DelayedClaimSchedule p' = (DelayedClaimSchedule p)(block \<mapsto> drop left ids)"
    and "length ids \<le> left \<Longrightarrow> \<exists>q c. small_withdrawals q \<and>
      DelayedClaimSchedule q = (DelayedClaimSchedule p)(block := None) \<and>
      (if unat budget \<le> unat count + length ids then n' = n + 1 \<and> (p', b') = (q, c)
       else process_blocks T budget blocks (count + word_of_nat (length ids)) (n + 1) (q, c) = (Inr (k, n'), (p', b')))"
proof -
  have left: "unat (budget - count) = left"
    using unat_sub_fits [OF le] by (simp add: left_def)
  show "n' = n \<and> small_withdrawals p' \<and> DelayedClaimSchedule p' = (DelayedClaimSchedule p)(block \<mapsto> drop left ids)"
    if partial: "left < length ids"
  proof -
    let ?p = "p\<lparr>DelayedClaimSchedule := (DelayedClaimSchedule p)(block := Some (drop left ids))\<rparr>"
    have "count + word_of_nat left = budget"
      unfolding left [symmetric] by simp
    then have stop: "budget \<le> count + word_of_nat (length (take left ids))"
      using partial by simp
    have claims: "process_claims T (take left ids) (?p, b) = (Inr (), (p', b'))" "n' = n"
      using run partial stop by (auto simp: call_eqs Let_def peg_gets_def peg_modify_def left ids_def [symmetric])
    have "schedule_is (DelayedClaimSchedule ?p) (?p, b)"
      using small by (simp add: schedule_is_def small_withdrawals_def)
    from preservesD [OF process_claims_schedule this claims(1)] show ?thesis
      using claims(2) by (simp add: schedule_is_def fun_upd_def)
  qed
  show "\<exists>q c. small_withdrawals q \<and> DelayedClaimSchedule q = (DelayedClaimSchedule p)(block := None) \<and>
      (if unat budget \<le> unat count + length ids then n' = n + 1 \<and> (p', b') = (q, c)
       else process_blocks T budget blocks (count + word_of_nat (length ids)) (n + 1) (q, c) = (Inr (k, n'), (p', b')))"
    if full: "length ids \<le> left"
  proof -
    let ?p = "p\<lparr>DelayedClaimSchedule := (DelayedClaimSchedule p)(block := None)\<rparr>"
    have "unat (word_of_nat (length ids) :: u8) = length ids"
      using full unat_less_pow [of budget] by (intro unat_word_of_nat_less) (simp add: left_def)
    then have total: "unat (count + word_of_nat (length ids)) = unat count + length ids"
      using full le unat_less_pow [of budget] by (simp add: unat_add_fits left_def word_le_nat_alt)
    obtain q c where claims: "process_claims T ids (?p, b) = (Inr (), (q, c))"
      and rest: "(if budget \<le> count + word_of_nat (length ids) then n' = n + 1 \<and> (p', b') = (q, c)
       else process_blocks T budget blocks (count + word_of_nat (length ids)) (n + 1) (q, c) = (Inr (k, n'), (p', b')))"
      using run full by (auto simp: call_eqs Let_def peg_gets_def peg_modify_def left ids_def [symmetric] split: if_splits)
    have "schedule_is (DelayedClaimSchedule ?p) (?p, b)"
      using small by (simp add: schedule_is_def small_withdrawals_def)
    from preservesD [OF process_claims_schedule this claims] show ?thesis
      using rest total by (intro exI [of _ q] exI [of _ c]) (simp add: schedule_is_def fun_upd_def word_le_nat_alt)
  qed
qed

text \<open>The loop finishes a prefix of the blocks; the others keep claims.\<close>

lemma blocks_prefix:
  assumes "process_blocks T budget blocks count n (p, b) = (Inr (k, n'), (p', b'))" and "count \<le> budget"
    and "small_withdrawals p" and "distinct blocks" and "\<forall>x. DelayedClaimSchedule p x \<noteq> Some []"
    and "\<forall>x \<in> set blocks. DelayedClaimSchedule p x \<noteq> None"
  shows "\<exists>m. unat count + m \<le> unat budget \<and> n' = n + word_of_nat m \<and> small_withdrawals p' \<and>
    (\<forall>x. DelayedClaimSchedule p' x \<noteq> Some []) \<and> (\<forall>x \<in> set (drop m blocks). DelayedClaimSchedule p' x \<noteq> None) \<and>
    (\<forall>x. x \<notin> set blocks \<longrightarrow> DelayedClaimSchedule p' x = DelayedClaimSchedule p x)"
  using assms
proof (induction blocks arbitrary: p b count n)
  case Nil
  then show ?case
    by (intro exI [of _ 0]) (simp add: call_eqs word_le_nat_alt)
next
  case (Cons block blocks)
  let ?ids = "due p block" and ?left = "unat budget - unat count"
  note step = block_step [OF Cons.prems(1-3)]
  have le: "unat count \<le> unat budget"
    using Cons.prems(2) by (simp add: word_le_nat_alt)
  have some: "?ids \<noteq> []"
    using Cons.prems(5,6) by (auto simp: storage_get_def)
  show ?case
  proof (cases "?left < length ?ids")
    case True
    note stop = step(1) [OF True]
    have "DelayedClaimSchedule p' x \<noteq> None" if "x \<in> set (block # blocks)" for x
      using stop Cons.prems(6) that by auto
    moreover have "DelayedClaimSchedule p' x \<noteq> Some []" for x
      using stop Cons.prems(5) True by auto
    ultimately show ?thesis
      using stop le by (intro exI [of _ 0]) auto
  next
    case False
    then have full: "length ?ids \<le> ?left"
      by simp
    obtain q c where q: "small_withdrawals q" "DelayedClaimSchedule q = (DelayedClaimSchedule p)(block := None)"
      and rest: "if unat budget \<le> unat count + length ?ids then n' = n + 1 \<and> (p', b') = (q, c)
       else process_blocks T budget blocks (count + word_of_nat (length ?ids)) (n + 1) (q, c) = (Inr (k, n'), (p', b'))"
      using step(2) [OF full] by blast
    have one: "unat count + 1 \<le> unat budget"
      using full some le by (cases ?ids) auto
    have none: "\<forall>x. DelayedClaimSchedule q x \<noteq> Some []"
      using q(2) Cons.prems(5) by simp
    have later: "\<forall>x \<in> set blocks. DelayedClaimSchedule q x \<noteq> None"
      using q(2) Cons.prems(4,6) by auto
    show ?thesis
    proof (cases "unat budget \<le> unat count + length ?ids")
      case True
      then have "n' = n + 1" "p' = q"
        using rest by simp_all
      then show ?thesis
        using q none later one by (intro exI [of _ 1]) auto
    next
      case more: False
      have len: "unat (word_of_nat (length ?ids) :: u8) = length ?ids"
        using full unat_less_pow [of budget] by (intro unat_word_of_nat_less) simp
      have total: "unat (count + word_of_nat (length ?ids)) = unat count + length ?ids"
        using more len unat_less_pow [of budget] by (simp add: unat_add_fits)
      have "process_blocks T budget blocks (count + word_of_nat (length ?ids)) (n + 1) (q, c) = (Inr (k, n'), (p', b'))"
        using rest more by simp
      from Cons.IH [OF this _ q(1) _ none later] obtain m where m:
          "unat count + length ?ids + m \<le> unat budget" "n' = n + 1 + word_of_nat m" "small_withdrawals p'"
          "\<forall>x. DelayedClaimSchedule p' x \<noteq> Some []" "\<forall>x \<in> set (drop m blocks). DelayedClaimSchedule p' x \<noteq> None"
          "\<forall>x. x \<notin> set blocks \<longrightarrow> DelayedClaimSchedule p' x = DelayedClaimSchedule q x"
        using more total Cons.prems(4) by (auto simp: word_le_nat_alt)
      have "unat count + Suc m \<le> unat budget"
        using m(1) some by (cases ?ids) auto
      then show ?thesis
        using m q(2) by (intro exI [of _ "Suc m"]) (auto simp: add.assoc)
    qed
  qed
qed

lemma on_idle_keeps:
  assumes inv: "peg_inv now p" and run: "peg_on_idle T w (p, b) = (Inr used, (p', b'))"
  shows "peg_inv now p'"
proof -
  have idle: "p' = p \<or> (\<exists>budget k n q. process_blocks T budget (ReadyBlocks p) 0 0 (p, b) = (Inr (k, n), (q, b')) \<and>
      p' = q\<lparr>ReadyBlocks := drop (unat n) (ReadyBlocks p)\<rparr>)"
    using run by (auto simp: peg_on_idle_def call_eqs Let_def peg_gets_def peg_modify_def split: if_splits)
  show ?thesis
  proof (cases "p' = p")
    case True
    then show ?thesis
      using inv by simp
  next
    case False
    then obtain budget :: u8 and k n q where loop: "process_blocks T budget (ReadyBlocks p) 0 0 (p, b) = (Inr (k, n), (q, b'))"
      and p': "p' = q\<lparr>ReadyBlocks := drop (unat n) (ReadyBlocks p)\<rparr>"
      using idle by blast
    obtain m where m: "m \<le> unat budget" "n = word_of_nat m" "small_withdrawals q"
        "\<forall>x. DelayedClaimSchedule q x \<noteq> Some []"
        "\<forall>x \<in> set (drop m (ReadyBlocks p)). DelayedClaimSchedule q x \<noteq> None"
      using blocks_prefix [OF loop] inv by (auto simp: peg_inv_def)
    have "unat n = m"
      using m(1,2) unat_less_pow [of budget] by (simp add: unat_word_of_nat_less)
    then have "ReadyBlocks p' = drop m (ReadyBlocks p)" "DelayedClaimSchedule p' = DelayedClaimSchedule q"
        "small_withdrawals p'"
      using p' m(3) by (simp_all add: small_withdrawals_def)
    then show ?thesis
      using inv m(4,5) by (auto simp: peg_inv_def dest: in_set_dropD)
  qed
qed

section \<open>Histories\<close>

inductive peg_dispatch :: "('l, 'b) peg_config \<Rightarrow> block_number \<Rightarrow> ('l, 'b, unit) peg_call \<Rightarrow> bool" for T now where
  "peg_dispatch T now (activate_deposits orig a)"
| "peg_dispatch T now (activate_withdrawals orig a)"
| "peg_dispatch T now (deposit_claim T now orig tx claim)"
| "peg_dispatch T now (peg_withdraw T now orig asset amount beneficiary)"
| "peg_dispatch T now (set_contract_address orig address)"
| "peg_dispatch T now (activate_cennz_deposits orig)"
| "peg_dispatch T now (set_erc20_meta orig details)"
| "peg_dispatch T now (set_claim_delay orig asset m delay)"

lemma peg_dispatch_keeps: "peg_dispatch T now m \<Longrightarrow> keeps_peg now m"
  by (induction rule: peg_dispatch.induct)
    (rule peg_settings_keep deposit_claim_keeps peg_withdraw_keeps set_erc20_meta_keeps)+

text \<open>A history runs calls, idle ends of blocks, starts of blocks and the subscriber; the ledger and the bridge also
  change by themselves.\<close>

inductive peg_reachable :: "('l, 'b) peg_config \<Rightarrow> block_number \<Rightarrow> 'l peg_state \<Rightarrow> 'b \<Rightarrow> bool" for T where
  peg_start: "peg_reachable T 0 (peg_genesis T erc20s l) b"
| peg_called: "peg_reachable T now p b \<Longrightarrow> peg_dispatch T now m \<Longrightarrow> m (p, b) = (r, (p', b')) \<Longrightarrow> r \<noteq> Inl Panic \<Longrightarrow>
    peg_reachable T now p' b'"
| peg_idle: "peg_reachable T now p b \<Longrightarrow> peg_on_idle T w (p, b) = (Inr used, (p', b')) \<Longrightarrow> peg_reachable T now p' b'"
| peg_block: "peg_reachable T now p b \<Longrightarrow> now \<noteq> - 1 \<Longrightarrow> peg_reachable T (now + 1) (peg_on_initialize (now + 1) p) b"
| peg_success: "peg_reachable T now p b \<Longrightarrow> peg_on_success T i contract sig data p = Some p' \<Longrightarrow> peg_reachable T now p' b"
| peg_failure: "peg_reachable T now p b \<Longrightarrow> peg_on_failure T i contract sig data p = Some p' \<Longrightarrow> peg_reachable T now p' b"
| peg_elsewhere: "peg_reachable T now p b \<Longrightarrow> peg_reachable T now (p\<lparr>PegLedger := l\<rparr>) b'"

lemma peg_genesis_inv: "peg_inv 0 (peg_genesis T erc20s l)"
proof -
  define step where "step = (\<lambda>(address, symbol, decimals) s.
      (if symbol = ascii ''CENNZ''
       then s\<lparr>Erc20ToAssetId := (Erc20ToAssetId s)(address \<mapsto> mc_staking_currency (peg_currency T) l)\<rparr>
       else s :: 'a peg_state)\<lparr>Erc20Meta := (Erc20Meta s)(address \<mapsto> (symbol, decimals :: u8))\<rparr>)"
  have "peg_inv 0 (fold step xs p) = peg_inv 0 p" for xs p
    by (induction xs arbitrary: p) (simp_all add: step_def split_beta)
  then show ?thesis
    unfolding peg_genesis_def step_def [symmetric] by (simp add: peg_inv_def small_withdrawals_def)
qed

lemma initialize_inv:
  assumes "peg_inv now p" and "now \<noteq> - 1"
  shows "peg_inv (now + 1) (peg_on_initialize (now + 1) p)"
proof -
  have later: "x \<le> now + 1" if "x \<in> set (ReadyBlocks p)" for x
    using assms(1) that less_next(1) [OF assms(2)] by (auto simp: peg_inv_def)
  have "now + 1 \<notin> set (ReadyBlocks p)"
    using assms(1) less_next(1) [OF assms(2)] by (auto simp: peg_inv_def)
  then show ?thesis
    using assms(1) later
    by (auto simp: peg_inv_def peg_on_initialize_def small_withdrawals_def)
qed

theorem peg_reachable_inv: "peg_reachable T now p b \<Longrightarrow> peg_inv now p"
proof (induction rule: peg_reachable.induct)
  case (peg_called now p b m r p' b')
  from preservesD [OF peg_dispatch_keeps [OF peg_called.hyps(2)] _ peg_called.hyps(3)] peg_called.IH
  show ?case by simp
next
  case (peg_idle now p b w used p' b')
  then show ?case by (blast intro: on_idle_keeps)
next
  case (peg_block now p b)
  then show ?case by (blast intro: initialize_inv)
next
  case (peg_success now p b i contract sig data p')
  then show ?case by (blast intro: subscriber_keeps(1))
next
  case (peg_failure now p b i contract sig data p')
  then show ?case by (blast intro: subscriber_keeps(2))
qed (simp_all add: peg_genesis_inv)

end
