(* ===== verification/Peg_Props.thy ===== *)
theory Peg_Props
  imports Peg_Inv GA_Props
begin

text \<open>
  Properties of the ERC-20 peg, over the bridge as its verifier and the generic-asset pallet as its ledger.
\<close>

section \<open>Deposit events\<close>

lemma decode_encode_deposit: "decode_deposit_event (encode_deposit_event e) = Some e"
proof -
  have t: "from_be_bytes (to_be_bytes 20 (de_token_address e)) = de_token_address e"
    by (rule from_be_bytes_to_be_bytes) simp
  have "from_be_bytes (to_be_bytes 32 (w :: 256 word)) = w" for w
    by (rule from_be_bytes_to_be_bytes) simp
  with t show ?thesis
    by (simp add: decode_deposit_event_def encode_deposit_event_def)
qed

lemma encode_decode_deposit:
  assumes "decode_deposit_event d = Some e"
  shows "length d = 96" and "encode_deposit_event e = replicate 12 0 @ drop 12 d"
proof -
  show len: "length d = 96"
    using assms by (simp add: decode_deposit_event_def split: if_splits)
  have e: "e = \<lparr>de_token_address = from_be_bytes (take 20 (drop 12 d)), de_amount = from_be_bytes (take 32 (drop 32 d)),
      de_beneficiary = from_be_bytes (take 32 (drop 64 d))\<rparr>"
    using assms by (simp add: decode_deposit_event_def split: if_splits)
  have token: "to_be_bytes 20 (from_be_bytes (take 20 (drop 12 d)) :: h160) = take 20 (drop 12 d)"
    by (rule to_be_bytes_from_be_bytes) (simp_all add: len)
  have word: "to_be_bytes 32 (from_be_bytes (take 32 (drop k d)) :: 256 word) = take 32 (drop k d)" if "k \<le> 64" for k
    using that by (intro to_be_bytes_from_be_bytes) (simp_all add: len)
  have split: "take n (drop m d) @ drop (n + m) d = drop m d" for n m
    using append_take_drop_id [of n "drop m d"] by (simp only: drop_drop)
  have "drop 12 d = take 20 (drop 12 d) @ take 32 (drop 32 d) @ take 32 (drop 64 d)"
    using split [of 20 12] split [of 32 32] len by simp
  then show "encode_deposit_event e = replicate 12 0 @ drop 12 d"
    using token word [of 32] word [of 64] by (simp add: e encode_deposit_event_def)
qed

text \<open>C37. A byte string decodes to a deposit event just when it has three words and is the ABI encoding of the event, up
  to the twelve bytes before the token address, which the decoder ignores.\<close>

theorem deposit_event_roundtrip:
  "decode_deposit_event d = Some e \<longleftrightarrow> length d = 96 \<and> encode_deposit_event e = replicate 12 0 @ drop 12 d"
proof
  show "length d = 96 \<and> encode_deposit_event e = replicate 12 0 @ drop 12 d" if "decode_deposit_event d = Some e"
    using encode_decode_deposit [OF that] by blast
next
  assume d: "length d = 96 \<and> encode_deposit_event e = replicate 12 0 @ drop 12 d"
  obtain e' where e': "decode_deposit_event d = Some e'"
    using conjunct1 [OF d] by (simp add: decode_deposit_event_def)
  have "encode_deposit_event e' = encode_deposit_event e"
    using encode_decode_deposit(2) [OF e'] conjunct2 [OF d] by (simp only:)
  then have "Some e' = Some e"
    using decode_encode_deposit [of e'] decode_encode_deposit [of e] by (simp only:)
  then show "decode_deposit_event d = Some e"
    using e' by (simp only:)
qed

section \<open>Delayed claims\<close>

text \<open>The number of claims an idle block may process.\<close>

definition claim_budget :: "('l, 'b) peg_config \<Rightarrow> u64 \<Rightarrow> u8" where
  "claim_budget T w = saturated_u8 ((w - db_reads T 1) div saturating_add (db_reads T 8) (db_writes T 10))"

lemma length_blocks_le: "(\<forall>x \<in> set xs. f x \<noteq> []) \<Longrightarrow> length xs \<le> length (concat (map f xs))"
  by (induction xs) (auto simp: Suc_le_eq add_strict_increasing)


text \<open>A claim that is delayed by one block.\<close>

definition demo_peg :: "(ga_state, unit bridge_state) peg_config" where
  "demo_peg = \<lparr>peg_account = 50, deposit_event_signature = 8, eth_bridge = bridge_verifier,
     peg_currency = ga_currency demo_config, withdrawal_hash = (\<lambda>_ _. 0), db_reads = (\<lambda>n. n), db_writes = (\<lambda>n. n)\<rparr>"

definition demo_deposit :: erc20_deposit_event where
  "demo_deposit = \<lparr>de_token_address = 7, de_amount = 50, de_beneficiary = 3\<rparr>"

definition demo_peg_set :: "ga_state peg_state" where
  "demo_peg_set = peg_deposit_event (ClaimDelaySet 1 10 1)
     ((peg_genesis demo_peg [(7, ascii ''CENNZ'', 4)] demo_state)\<lparr>DepositsActive := True, ClaimDelay := [1 \<mapsto> (10, 1)]\<rparr>)"

definition demo_peg_ready :: "ga_state peg_state" where
  "demo_peg_ready = peg_on_initialize 1
     (fst (snd (deposit_claim demo_peg 0 (Signed 1) 77 demo_deposit (demo_peg_set, bridge_genesis () 66))))"

lemma demo_peg_genesis:
  "peg_genesis demo_peg [(7, ascii ''CENNZ'', 4)] demo_state =
     \<lparr>PegLedger = demo_state, DepositsActive = False, WithdrawalsActive = False, Erc20ToAssetId = [7 \<mapsto> 1],
      AssetIdToErc20 = Map.empty, Erc20Meta = [7 \<mapsto> (ascii ''CENNZ'', 4)], ClaimDelay = Map.empty,
      DelayedClaims = Map.empty, DelayedClaimSchedule = Map.empty, ReadyBlocks = [],
      NextDelayedClaimId = 0, WithdrawalDigests = Map.empty, ContractAddress = 0,
      CENNZDepositsActive = False, PegEvents = []\<rparr>"
  by (simp add: peg_genesis_def demo_peg_def ga_currency_def demo_fields)

lemma demo_peg_set_reachable: "peg_reachable demo_peg 0 demo_peg_set (bridge_genesis () 66)"
proof -
  let ?g = "peg_genesis demo_peg [(7, ascii ''CENNZ'', 4)] demo_state" and ?b = "bridge_genesis () 66"
  have one: "activate_deposits Root True (?g, ?b) = (Inr (), (?g\<lparr>DepositsActive := True\<rparr>, ?b))"
    by (simp add: activate_deposits_def call_defs ensure_root_def)
  have two: "set_claim_delay Root 1 10 1 (?g\<lparr>DepositsActive := True\<rparr>, ?b) = (Inr (), (demo_peg_set, ?b))"
    by (simp add: set_claim_delay_def call_defs ensure_root_def demo_peg_set_def demo_peg_genesis)
  have "peg_reachable demo_peg 0 (?g\<lparr>DepositsActive := True\<rparr>) ?b"
    by (rule peg_called [OF peg_start peg_dispatch.intros(1) one]) simp
  then show ?thesis
    by (rule peg_called [OF _ peg_dispatch.intros(8) two]) simp
qed

lemma demo_delayed:
  "deposit_claim demo_peg 0 (Signed 1) 77 demo_deposit (demo_peg_set, b) =
     (Inr (), (peg_deposit_event (Erc20DepositDelayed 0 1 50 3) (demo_peg_set
       \<lparr>DelayedClaims := [0 \<mapsto> Deposit demo_deposit 77], DelayedClaimSchedule := [1 \<mapsto> [0]], NextDelayedClaimId := 1\<rparr>), b))"
  by (simp add: deposit_claim_def delay_claim_def call_defs ensure_signed_def demo_peg_set_def demo_peg_genesis
      demo_deposit_def peg_deposit_event_def decode_account_def as_u128_def storage_mutate_def storage_get_def
      checked_add_def saturating_add_def Let_def unat_max)

lemma demo_peg_ready_reachable: "peg_reachable demo_peg 1 demo_peg_ready (bridge_genesis () 66)"
proof -
  have "peg_reachable demo_peg 0
      (fst (snd (deposit_claim demo_peg 0 (Signed 1) 77 demo_deposit (demo_peg_set, bridge_genesis () 66))))
      (bridge_genesis () 66)"
    unfolding demo_delayed fst_conv snd_conv
    by (rule peg_called [OF demo_peg_set_reachable peg_dispatch.intros(3) demo_delayed]) simp
  from peg_block [OF this] show ?thesis
    by (simp add: demo_peg_ready_def)
qed

lemma demo_peg_ready_fields:
  "ReadyBlocks demo_peg_ready = [1]" "DelayedClaimSchedule demo_peg_ready = [1 \<mapsto> [0]]"
  "DelayedClaims demo_peg_ready = [0 \<mapsto> Deposit demo_deposit 77]"
  "PegLedger demo_peg_ready = demo_state" "Erc20ToAssetId demo_peg_ready = [7 \<mapsto> 1]"
  "CENNZDepositsActive demo_peg_ready = False"
  unfolding demo_peg_ready_def demo_delayed
  by (simp_all add: peg_on_initialize_def peg_deposit_event_def demo_peg_set_def demo_peg_genesis)


section \<open>Verified deposits\<close>

lemma deposit_creating_pays:
  assumes "backed l" and fits: "circulating a l + unat v < 2 ^ 128"
    and l'_def: "l' = (case ga_deposit_creating G who a v l of (i, m) \<Rightarrow> drop_positive i m)"
  shows "unat (free_balance a who l') = unat (free_balance a who l) + unat v"
    and "unat (total_issuance a l') = unat (total_issuance a l) + unat v"
    and "w \<noteq> who \<or> x \<noteq> a \<Longrightarrow> free_balance x w l' = free_balance x w l"
    and "backed l'"
proof -
  have issued: "unat (total_issuance a l) = circulating a l"
    using assms(1) by (simp add: backed_def)
  have free: "unat (free_balance a who l) + unat v < 2 ^ 128"
    using free_le_circulating [of a who l] fits by simp
  have eq: "v \<noteq> 0 \<Longrightarrow> ga_deposit_creating G who a v l =
      (PositiveImbalance v a, set_free_balance G a who (free_balance a who l + v) l)"
    using free by (simp add: ga_deposit_creating_def ga_make_free_balance_be_def Let_def word_le_nat_alt unat_add_fits)
  show "unat (free_balance a who l') = unat (free_balance a who l) + unat v"
    using free eq by (cases "v = 0") (simp_all add: l'_def ga_deposit_creating_def ga_simps unat_add_fits)
  show "unat (total_issuance a l') = unat (total_issuance a l) + unat v"
    using fits issued eq
    by (cases "v = 0")
      (auto simp: l'_def ga_deposit_creating_def ga_simps positive_zero_def saturating_add_def unat_add_fits)
  show "w \<noteq> who \<or> x \<noteq> a \<Longrightarrow> free_balance x w l' = free_balance x w l"
    using eq by (cases "v = 0") (auto simp: l'_def ga_deposit_creating_def ga_simps)
  show "backed l'"
    using ga_deposit_creating_drop_backed [OF assms(1) fits] by (auto simp: l'_def split: prod.splits)
qed

text \<open>C39. A verified deposit of a token that the ledger issues pays its beneficiary the deposited amount and issues just
  that much: the free balance and the total issuance grow by the amount, no other balance changes, and the ledger stays
  backed. The claim is reported as deposited.\<close>

theorem verified_deposit_pays:
  assumes G: "peg_currency T = ga_currency G" and backed: "backed (PegLedger p)"
    and known: "Erc20ToAssetId p (de_token_address e) = Some a"
    and issued: "a \<noteq> StakingAssetId (PegLedger p) \<or> \<not> CENNZDepositsActive p"
    and fits: "circulating a (PegLedger p) + unat (de_amount e) < 2 ^ 128"
  shows "\<exists>p'. peg_on_success T i (ContractAddress p) (deposit_event_signature T) (encode_deposit_event e) p = Some p' \<and>
    unat (free_balance a (de_beneficiary e) (PegLedger p')) =
      unat (free_balance a (de_beneficiary e) (PegLedger p)) + unat (de_amount e) \<and>
    unat (total_issuance a (PegLedger p')) = unat (total_issuance a (PegLedger p)) + unat (de_amount e) \<and>
    (\<forall>w x. w \<noteq> de_beneficiary e \<or> x \<noteq> a \<longrightarrow> free_balance x w (PegLedger p') = free_balance x w (PegLedger p)) \<and>
    backed (PegLedger p') \<and>
    PegEvents p' = PegEvents p @ [Erc20Deposit i a (ucast (de_amount e)) (de_beneficiary e)]"
proof -
  let ?v = "ucast (de_amount e) :: u128" and ?who = "de_beneficiary e"
  have v: "unat ?v = unat (de_amount e)" and amount: "as_u128 (de_amount e) = Some ?v"
    using fits by (simp_all add: as_u128_def unsigned_ucast_eq take_bit_nat_eq_self)
  define l' where "l' = (case ga_deposit_creating G ?who a ?v (PegLedger p) of (i, m) \<Rightarrow> drop_positive i m)"
  have fits': "circulating a (PegLedger p) + unat ?v < 2 ^ 128"
    using fits v by simp
  note paid = deposit_creating_pays [OF backed fits' l'_def, unfolded v]
  have "pay_deposit T a ?v ?who p = (Inr (), p\<lparr>PegLedger := l'\<rparr>)"
    using issued by (auto simp: pay_deposit_def call_defs on_ledger_of_peg_def G ga_currency_def l'_def split: prod.splits)
  then have "do_deposit T e p = (Inr (a, ?v, ?who), p\<lparr>PegLedger := l'\<rparr>)"
    by (simp add: do_deposit_def asset_for_token_def call_defs known decode_account_def amount)
  then have "peg_on_success T i (ContractAddress p) (deposit_event_signature T) (encode_deposit_event e) p =
      Some (peg_deposit_event (Erc20Deposit i a ?v ?who) (p\<lparr>PegLedger := l'\<rparr>))"
    by (simp add: peg_on_success_def decode_encode_deposit)
  then show ?thesis
    using paid by (simp add: peg_deposit_event_def)
qed

theorem verified_deposit_pays_witness:
  "\<exists>p'. peg_on_success demo_peg 0 (ContractAddress demo_peg_ready) 8 (encode_deposit_event demo_deposit) demo_peg_ready =
      Some p' \<and> unat (free_balance 1 3 (PegLedger p')) = 50"
proof -
  note f = demo_peg_ready_fields
  have sig: "deposit_event_signature demo_peg = 8"
    by (simp add: demo_peg_def)
  have "\<exists>p'. peg_on_success demo_peg 0 (ContractAddress demo_peg_ready) (deposit_event_signature demo_peg)
        (encode_deposit_event demo_deposit) demo_peg_ready = Some p' \<and>
      unat (free_balance 1 (de_beneficiary demo_deposit) (PegLedger p')) =
        unat (free_balance 1 (de_beneficiary demo_deposit) (PegLedger demo_peg_ready)) + unat (de_amount demo_deposit)"
    using verified_deposit_pays [of demo_peg demo_config demo_peg_ready demo_deposit 1 0]
    by (simp add: f demo_backed demo_circulating demo_peg_def demo_deposit_def) blast
  then show ?thesis
    by (simp add: sig f demo_deposit_def demo_free)
qed

end
