(* ===== verification/Eth_State_Oracle.thy ===== *)
theory Eth_State_Oracle
  imports Eth_Types Cennzx
begin

text \<open>
  The Ethereum state oracle pallet (\<open>crml/eth-state-oracle/src/lib.rs\<close>, \<open>types.rs\<close>): requests for remote
  calls, the responses of bonded relayers, challenges, and the queue of callbacks that run in idle block space.
  A call works on the pallet's storage, the ledger \<open>'l\<close> of its \<open>MultiCurrency\<close> among it, and on the storage \<open>'b\<close>
  of the call oracle. The EVM, the exchange of fees, \<open>Permill\<close> and weights come with the configuration; a
  callback of the EVM may change any of this storage. Storage maps that the code iterates or counts
  are association lists.
\<close>

section \<open>Types\<close>

definition ETH_BLOCK_TIME_S :: u64 where "ETH_BLOCK_TIME_S = 15"

type_synonym challenge_id = u64
type_synonym request_id = u256
type_synonym weight = u64

record fee_preferences =
  fp_asset_id :: asset_id
  fp_slippage :: u32

record call_request =
  rq_destination :: eth_address
  rq_caller :: eth_address
  rq_callback_gas_limit :: u64
  rq_callback_signature :: bytes
  rq_fee_preferences :: "fee_preferences option"
  rq_bounty :: balance
  rq_timestamp :: u64
  rq_expiry_block :: block_number
  rq_input_data :: bytes

datatype return_data_claim = ReturnOk bytes | ExceedsLengthLimit

record call_response =
  rs_return_data :: return_data_claim
  rs_eth_block_number :: u64
  rs_eth_block_timestamp :: u64
  rs_relayer :: account_id

datatype oracle_event =
    NewRequest eth_address request_id
  | CallbackErr request_id dispatch_error
  | Callback request_id weight
  | RelayerBondSet account_id balance
  | ChallengerBondSet account_id balance
  | RelayerBondRemoved account_id balance
  | ChallengerBondRemoved account_id balance

section \<open>Configuration and storage\<close>

record 'l oracle_state =
  OracleLedger :: 'l
  ChallengeSubscriptions :: "challenge_id \<rightharpoonup> request_id"
  MaxResponseDrift :: u64
  NextRequestId :: request_id
  Requests :: "request_id \<rightharpoonup> call_request"
  RelayerBonds :: "(account_id \<times> balance) list"
  ChallengerBonds :: "(account_id \<times> balance) list"
  Responses :: "(request_id \<times> call_response) list"
  ResponsesChallenged :: "(request_id \<times> account_id) list"
  ResponsesValidAtBlock :: "block_number \<rightharpoonup> request_id list"
  RequestsExpiredAtBlock :: "block_number \<rightharpoonup> request_id list"
  ResponsesForCallback :: "request_id list"
  RequestsThisBlock :: u32
  OracleEvents :: "oracle_event list"

type_synonym ('l, 'b, 'a) oracle_call = "('l oracle_state \<times> 'b, 'a) dispatch"

text \<open>\<open>DispatchResultWithPostInfo\<close>: the actual weight, if known, and the error, if any.\<close>

type_synonym post_result = "(dispatch_error \<times> weight option) + weight option"

record ('l, 'b) oracle_config =
  oracle_address_mapping :: "eth_address \<Rightarrow> account_id"
  challenge_period :: block_number
  contract_execute ::
    "eth_address \<Rightarrow> eth_address \<Rightarrow> bytes \<Rightarrow> u64 \<Rightarrow> u256 \<Rightarrow> u256 \<Rightarrow> 'l oracle_state \<times> 'b \<Rightarrow>
      post_result \<times> ('l oracle_state \<times> 'b)"
  state_oracle_precompile :: eth_address
  call_oracle :: "eth_address \<Rightarrow> bytes \<Rightarrow> u64 \<Rightarrow> u64 \<Rightarrow> u64 \<Rightarrow> 'b \<Rightarrow> challenge_id \<times> 'b"
  oracle_currency :: "'l multi_currency"
  min_gas_price :: u64
  gas_to_weight :: "u64 \<Rightarrow> weight"
  weight_to_gas :: "weight \<Rightarrow> u64"
  oracle_buy_fee_asset :: "account_id \<Rightarrow> balance \<Rightarrow> fee_exchange \<Rightarrow> ('l, balance) dispatch"
  permill_mul :: "u32 \<Rightarrow> balance \<Rightarrow> balance"
  relayer_bond_amount :: balance
  max_requests_per_block :: u32
  max_relayer_count :: u32
  oracle_reads :: "u64 \<Rightarrow> weight"
  oracle_writes :: "u64 \<Rightarrow> weight"

definition oracle_genesis :: "'l \<Rightarrow> 'l oracle_state" where
  "oracle_genesis l =
     \<lparr>OracleLedger = l, ChallengeSubscriptions = Map.empty, MaxResponseDrift = 2, NextRequestId = 0,
      Requests = Map.empty, RelayerBonds = [], ChallengerBonds = [], Responses = [],
      ResponsesChallenged = [], ResponsesValidAtBlock = Map.empty, RequestsExpiredAtBlock = Map.empty,
      ResponsesForCallback = [], RequestsThisBlock = 0, OracleEvents = []\<rparr>"

definition oracle_gets :: "('l oracle_state \<Rightarrow> 'a) \<Rightarrow> ('l, 'b, 'a) oracle_call" where
  [call_defs]: "oracle_gets f = gets (\<lambda>(p, _). f p)"

definition oracle_modify :: "('l oracle_state \<Rightarrow> 'l oracle_state) \<Rightarrow> ('l, 'b, unit) oracle_call" where
  [call_defs]: "oracle_modify f = modify (\<lambda>(p, b). (f p, b))"

definition on_oracle_ledger :: "('l, 'a) dispatch \<Rightarrow> ('l, 'b, 'a) oracle_call" where
  "on_oracle_ledger m = (\<lambda>(p, b). case m (OracleLedger p) of (r, l) \<Rightarrow> (r, (p\<lparr>OracleLedger := l\<rparr>, b)))"

definition oracle_deposit_event :: "oracle_event \<Rightarrow> 'l oracle_state \<Rightarrow> 'l oracle_state" where
  "oracle_deposit_event e p = p\<lparr>OracleEvents := OracleEvents p @ [e]\<rparr>"

definition oracle_err :: "state_oracle_error \<Rightarrow> dispatch_error" where
  [call_defs]: "oracle_err e = EthStateOracle_Error e"

definition bond_of :: "(account_id \<times> balance) list \<Rightarrow> account_id \<Rightarrow> balance" where
  "bond_of bonds who = (case map_of bonds who of Some b \<Rightarrow> b | None \<Rightarrow> 0)"

section \<open>Callbacks\<close>

text \<open>The errors of the callback carry no weight before the EVM runs.\<close>

definition callback_fee :: "('l, 'b) oracle_config \<Rightarrow> call_request \<Rightarrow> balance" where
  "callback_fee T request =
     scale_wei_to_4dp (ucast (ucast (min_gas_price T) * ucast (rq_callback_gas_limit request) + 1 :: u256))"

definition exchange_callback_fee ::
  "('l, 'b) oracle_config \<Rightarrow> account_id \<Rightarrow> call_request \<Rightarrow> balance \<Rightarrow> ('l, 'b, unit) oracle_call" where
  "exchange_callback_fee T caller request total_fee =
     (case rq_fee_preferences request of
        None \<Rightarrow> ret ()
      | Some preferences \<Rightarrow>
          let exchange_total = rq_bounty request + total_fee;
              max_payment = saturating_add exchange_total (permill_mul T (fp_slippage preferences) exchange_total)
          in bind (on_oracle_ledger (oracle_buy_fee_asset T caller exchange_total
               \<lparr>fe_asset_id = fp_asset_id preferences, fe_max_payment = max_payment\<rparr>)) (\<lambda>_. ret ()))"

definition pay_from_caller ::
  "('l, 'b) oracle_config \<Rightarrow> account_id \<Rightarrow> account_id \<Rightarrow> balance \<Rightarrow> state_oracle_error \<Rightarrow> ('l, 'b, unit) oracle_call" where
  "pay_from_caller T from to amount err s =
     (let (p, _) = s in
      case on_oracle_ledger (mc_transfer (oracle_currency T) from to
             (mc_fee_currency (oracle_currency T) (OracleLedger p)) amount AllowDeath) s of
        (Inl e, s') \<Rightarrow> (Inl (if e = Panic then Panic else oracle_err err), s')
      | (Inr u, s') \<Rightarrow> (Inr u, s'))"

definition callback_input :: "request_id \<Rightarrow> call_request \<Rightarrow> call_response \<Rightarrow> bytes \<Rightarrow> bytes" where
  "callback_input i request response return_data =
     rq_callback_signature request @ encode_u256 i @ encode_u64 (rs_eth_block_timestamp response) @ return_data"

definition prepare_callback ::
  "('l, 'b) oracle_config \<Rightarrow> call_request \<Rightarrow> call_response \<Rightarrow> ('l, 'b, bytes) oracle_call" where
  "prepare_callback T request response =
     (case rs_return_data response of
        ExceedsLengthLimit \<Rightarrow> throw (oracle_err ReturnDataExceedsLength)
      | ReturnOk return_data \<Rightarrow>
          let caller = oracle_address_mapping T (rq_caller request);
              total_fee = callback_fee T request in
          bind (exchange_callback_fee T caller request total_fee) (\<lambda>_.
          bind (pay_from_caller T caller (rs_relayer response) (rq_bounty request) InsufficientFundsBounty) (\<lambda>_.
          bind (pay_from_caller T caller (oracle_address_mapping T (state_oracle_precompile T)) total_fee
            InsufficientFundsGas) (\<lambda>_.
          ret return_data))))"

definition try_callback ::
  "('l, 'b) oracle_config \<Rightarrow> request_id \<Rightarrow> call_request \<Rightarrow> call_response \<Rightarrow> ('l, 'b, post_result) oracle_call" where
  "try_callback T i request response s =
     (case prepare_callback T request response s of
        (Inl e, s') \<Rightarrow> (if e = Panic then Inl Panic else Inr (Inl (e, None)), s')
      | (Inr return_data, s') \<Rightarrow>
          (case contract_execute T (state_oracle_precompile T) (rq_caller request)
                  (callback_input i request response return_data) (rq_callback_gas_limit request)
                  (ucast (min_gas_price T)) 1 s' of
             (r, s'') \<Rightarrow> (Inr r, s'')))"

definition per_callback_weight :: "('l, 'b) oracle_config \<Rightarrow> weight" where
  "per_callback_weight T =
     oracle_writes T 3 + oracle_reads T 4 +
     saturating_add (saturating_add (2 * 203000000) (oracle_reads T 8)) (oracle_writes T 5)"

definition weight_or_0 :: "weight option \<Rightarrow> weight" where
  "weight_or_0 w = (case w of Some x \<Rightarrow> x | None \<Rightarrow> 0)"

definition run_callback ::
  "('l, 'b) oracle_config \<Rightarrow> request_id \<Rightarrow> call_request \<Rightarrow> ('l, 'b, weight) oracle_call" where
  "run_callback T i request =
     bind (oracle_modify (\<lambda>p. p\<lparr>Requests := (Requests p)(i := None)\<rparr>)) (\<lambda>_.
     bind (oracle_gets (\<lambda>p. map_of (Responses p) i)) (\<lambda>found.
     bind (oracle_modify (\<lambda>p. p\<lparr>Responses := AList.delete i (Responses p)\<rparr>)) (\<lambda>_.
     bind (ok_or found Panic) (\<lambda>response.
     bind (try_callback T i request response) (\<lambda>outcome.
     case outcome of
       Inr w \<Rightarrow> bind (oracle_modify (oracle_deposit_event (Callback i (weight_or_0 w)))) (\<lambda>_. ret (weight_or_0 w))
     | Inl (e, w) \<Rightarrow> bind (oracle_modify (oracle_deposit_event (CallbackErr i e))) (\<lambda>_. ret (weight_or_0 w)))))))"

fun run_callbacks ::
  "('l, 'b) oracle_config \<Rightarrow> weight \<Rightarrow> request_id list \<Rightarrow> weight \<Rightarrow> nat \<Rightarrow> ('l, 'b, weight \<times> nat) oracle_call" where
  "run_callbacks T remaining [] consumed processed = ret (consumed, processed)"
| "run_callbacks T remaining (i # callbacks) consumed processed =
     bind (oracle_gets (\<lambda>p. map_of (ResponsesChallenged p) i)) (\<lambda>challenger.
     if challenger \<noteq> None then run_callbacks T remaining callbacks consumed processed
     else
       bind (oracle_gets (\<lambda>p. Requests p i)) (\<lambda>found.
       bind (ok_or found Panic) (\<lambda>request.
       let limit = gas_to_weight T (rq_callback_gas_limit request) in
       if remaining < saturating_add (saturating_add consumed (per_callback_weight T)) limit
       then ret (consumed, processed)
       else
         bind (run_callback T i request) (\<lambda>w.
         run_callbacks T remaining callbacks
           (saturating_add (saturating_add consumed (per_callback_weight T)) w) (processed + 1)))))"

section \<open>The start and the idle end of a block\<close>

text \<open>The weight \<open>on_initialize\<close> reports is not modelled.\<close>

definition oracle_on_initialize :: "block_number \<Rightarrow> 'l oracle_state \<Rightarrow> 'l oracle_state" where
  "oracle_on_initialize now p =
     (let p0 = p\<lparr>RequestsThisBlock := 0\<rparr>;
          p1 = (case ResponsesValidAtBlock p0 now of
                  Some ids \<Rightarrow> p0\<lparr>ResponsesValidAtBlock := (ResponsesValidAtBlock p0)(now := None),
                                 ResponsesForCallback := ResponsesForCallback p0 @ ids\<rparr>
                | None \<Rightarrow> p0)
      in case RequestsExpiredAtBlock p1 now of
           Some ids \<Rightarrow>
             fold (\<lambda>i p. oracle_deposit_event (CallbackErr i (oracle_err RequestExpired))
                     (p\<lparr>Requests := (Requests p)(i := None)\<rparr>))
               ids (p1\<lparr>RequestsExpiredAtBlock := (RequestsExpiredAtBlock p1)(now := None)\<rparr>)
         | None \<Rightarrow> p1)"

definition oracle_on_idle :: "('l, 'b) oracle_config \<Rightarrow> weight \<Rightarrow> ('l, 'b, weight) oracle_call" where
  "oracle_on_idle T remaining_weight =
     bind (oracle_gets ResponsesForCallback) (\<lambda>callbacks.
     if callbacks = [] then ret (oracle_reads T 1)
     else
       bind (run_callbacks T remaining_weight callbacks (oracle_reads T 2 + oracle_writes T 1) 0)
         (\<lambda>(consumed, processed).
       bind (oracle_modify (\<lambda>p. p\<lparr>ResponsesForCallback := drop processed callbacks\<rparr>)) (\<lambda>_.
       ret consumed)))"

section \<open>Dispatchables\<close>

definition reserve_bond :: "('l, 'b) oracle_config \<Rightarrow> account_id \<Rightarrow> ('l, 'b, unit) oracle_call" where
  "reserve_bond T who =
     bind (oracle_gets (\<lambda>p. mc_fee_currency (oracle_currency T) (OracleLedger p))) (\<lambda>cpay.
     on_oracle_ledger (mc_reserve (oracle_currency T) who cpay (relayer_bond_amount T)))"

definition unreserve_bond :: "('l, 'b) oracle_config \<Rightarrow> account_id \<Rightarrow> balance \<Rightarrow> ('l, 'b, unit) oracle_call" where
  "unreserve_bond T who amount =
     bind (oracle_gets (\<lambda>p. mc_fee_currency (oracle_currency T) (OracleLedger p))) (\<lambda>cpay.
     bind (on_oracle_ledger (run (mc_unreserve (oracle_currency T) who cpay amount))) (\<lambda>_.
     ret ()))"

definition bond_relayer :: "('l, 'b) oracle_config \<Rightarrow> origin \<Rightarrow> ('l, 'b, unit) oracle_call" where
  "bond_relayer T orig =
     bind (signed orig) (\<lambda>who.
     bind (oracle_gets (\<lambda>p. bond_of (RelayerBonds p) who)) (\<lambda>bonded.
     bind (ensure (bonded = 0) (oracle_err AlreadyBonded)) (\<lambda>_.
     bind (oracle_gets (\<lambda>p. length (RelayerBonds p))) (\<lambda>current_relayer_count.
     bind (ensure (current_relayer_count < unat (max_relayer_count T)) (oracle_err MaxRelayersReached)) (\<lambda>_.
     bind (reserve_bond T who) (\<lambda>_.
     oracle_modify (\<lambda>p. oracle_deposit_event (RelayerBondSet who (relayer_bond_amount T))
       (p\<lparr>RelayerBonds := AList.update who (relayer_bond_amount T) (RelayerBonds p)\<rparr>))))))))"

definition unbond_relayer :: "('l, 'b) oracle_config \<Rightarrow> origin \<Rightarrow> ('l, 'b, unit) oracle_call" where
  "unbond_relayer T orig =
     bind (signed orig) (\<lambda>who.
     bind (oracle_gets (\<lambda>p. bond_of (RelayerBonds p) who)) (\<lambda>bonded_amount.
     bind (ensure (bonded_amount \<noteq> 0) (oracle_err NotEnoughBonded)) (\<lambda>_.
     bind (oracle_gets (\<lambda>p. list_ex (\<lambda>(_, response). rs_relayer response = who) (Responses p))) (\<lambda>active.
     bind (ensure (\<not> active) (oracle_err CantUnbond)) (\<lambda>_.
     bind (unreserve_bond T who bonded_amount) (\<lambda>_.
     oracle_modify (\<lambda>p. oracle_deposit_event (RelayerBondRemoved who bonded_amount)
       (p\<lparr>RelayerBonds := AList.delete who (RelayerBonds p)\<rparr>))))))))"

definition set_max_response_drift :: "origin \<Rightarrow> u64 \<Rightarrow> ('l, 'b, unit) oracle_call" where
  "set_max_response_drift orig n =
     bind (rooted orig) (\<lambda>_. oracle_modify (\<lambda>p. p\<lparr>MaxResponseDrift := n\<rparr>))"

definition submit_call_response ::
  "('l, 'b) oracle_config \<Rightarrow> block_number \<Rightarrow> origin \<Rightarrow> request_id \<Rightarrow> return_data_claim \<Rightarrow> u64 \<Rightarrow> u64 \<Rightarrow>
    ('l, 'b, unit) oracle_call" where
  "submit_call_response T now orig i return_data eth_block_number eth_block_timestamp =
     bind (signed orig) (\<lambda>who.
     bind (oracle_gets (\<lambda>p. bond_of (RelayerBonds p) who)) (\<lambda>bonded.
     bind (ensure (relayer_bond_amount T \<le> bonded) (oracle_err NotEnoughBonded)) (\<lambda>_.
     bind (oracle_gets (\<lambda>p. Requests p i)) (\<lambda>found.
     bind (ok_or found (oracle_err NoRequest)) (\<lambda>request.
     bind (oracle_gets (\<lambda>p. map_of (Responses p) i)) (\<lambda>known.
     bind (ensure (known = None) (oracle_err ResponseExists)) (\<lambda>_.
     bind (oracle_gets (\<lambda>p. ETH_BLOCK_TIME_S * MaxResponseDrift p)) (\<lambda>drift.
     bind (ensure (saturating_sub (rq_timestamp request) drift \<le> eth_block_timestamp \<and>
                   eth_block_timestamp \<le> saturating_add (rq_timestamp request) drift)
       (oracle_err InvalidResponseTimestamp)) (\<lambda>_.
     oracle_modify (\<lambda>p. p
       \<lparr>Responses := AList.update i \<lparr>rs_return_data = return_data, rs_eth_block_number = eth_block_number,
            rs_eth_block_timestamp = eth_block_timestamp, rs_relayer = who\<rparr> (Responses p),
        ResponsesValidAtBlock :=
          storage_mutate [] (\<lambda>ids. ids @ [i]) (now + challenge_period T) (ResponsesValidAtBlock p),
        RequestsExpiredAtBlock :=
          storage_mutate [] (filter (\<lambda>x. x \<noteq> i)) (rq_expiry_block request) (RequestsExpiredAtBlock p)\<rparr>))))))))))"

definition bond_challenger :: "('l, 'b) oracle_config \<Rightarrow> origin \<Rightarrow> ('l, 'b, unit) oracle_call" where
  "bond_challenger T orig =
     bind (signed orig) (\<lambda>who.
     bind (oracle_gets (\<lambda>p. bond_of (ChallengerBonds p) who)) (\<lambda>bonded.
     bind (ensure (bonded = 0) (oracle_err AlreadyBonded)) (\<lambda>_.
     bind (reserve_bond T who) (\<lambda>_.
     oracle_modify (\<lambda>p. oracle_deposit_event (ChallengerBondSet who (relayer_bond_amount T))
       (p\<lparr>ChallengerBonds := AList.update who (relayer_bond_amount T) (ChallengerBonds p)\<rparr>))))))"

definition unbond_challenger :: "('l, 'b) oracle_config \<Rightarrow> origin \<Rightarrow> ('l, 'b, unit) oracle_call" where
  "unbond_challenger T orig =
     bind (signed orig) (\<lambda>who.
     bind (oracle_gets (\<lambda>p. bond_of (ChallengerBonds p) who)) (\<lambda>bonded_amount.
     bind (ensure (bonded_amount \<noteq> 0) (oracle_err NotEnoughBonded)) (\<lambda>_.
     bind (oracle_gets (\<lambda>p. list_ex (\<lambda>(_, challenger). challenger = who) (ResponsesChallenged p))) (\<lambda>active.
     bind (ensure (\<not> active) (oracle_err ActiveChallenger)) (\<lambda>_.
     bind (unreserve_bond T who bonded_amount) (\<lambda>_.
     oracle_modify (\<lambda>p. oracle_deposit_event (ChallengerBondRemoved who bonded_amount)
       (p\<lparr>ChallengerBonds := AList.delete who (ChallengerBonds p)\<rparr>))))))))"

text \<open>The time since the request is the timestamp minus the present time, at 64 bits.\<close>

definition submit_response_challenge ::
  "('l, 'b) oracle_config \<Rightarrow> u64 \<Rightarrow> origin \<Rightarrow> request_id \<Rightarrow> ('l, 'b, unit) oracle_call" where
  "submit_response_challenge T unix_time orig i =
     bind (signed orig) (\<lambda>who.
     bind (oracle_gets (\<lambda>p. Requests p i)) (\<lambda>found.
     bind (ok_or found (oracle_err NoRequest)) (\<lambda>request.
     bind (oracle_gets (\<lambda>p. map_of (ResponsesChallenged p) i)) (\<lambda>challenged.
     bind (ensure (challenged = None) (oracle_err DuplicateChallenge)) (\<lambda>_.
     bind (oracle_gets (\<lambda>p. bond_of (ChallengerBonds p) who)) (\<lambda>bonded.
     bind (ensure (relayer_bond_amount T \<le> bonded) (oracle_err NotEnoughBonded)) (\<lambda>_.
     bind (oracle_gets (\<lambda>p. map_of (Responses p) i)) (\<lambda>answer.
     bind (ok_or answer (oracle_err NoResponse)) (\<lambda>response.
     let time_since_request = rq_timestamp request - unix_time in
     bind (run (\<lambda>(p, b).
       case call_oracle T (rq_destination request) (rq_input_data request) (rq_timestamp request)
              (rs_eth_block_number response) (max 3 (time_since_request div ETH_BLOCK_TIME_S)) b of
         (c, b') \<Rightarrow> (c, (p, b')))) (\<lambda>challenge.
     oracle_modify (\<lambda>p. p
       \<lparr>ResponsesChallenged := AList.update i who (ResponsesChallenged p),
        ChallengeSubscriptions := (ChallengeSubscriptions p)(challenge \<mapsto> i)\<rparr>)))))))))))"

section \<open>The subscriber of the call oracle and the request interface\<close>

text \<open>Both callbacks are \<open>unimplemented!()\<close>: they panic.\<close>

definition oracle_on_eth_call_complete ::
  "eth_call_id \<Rightarrow> bytes \<Rightarrow> u64 \<Rightarrow> u64 \<Rightarrow> 'l oracle_state \<Rightarrow> 'l oracle_state option" where
  "oracle_on_eth_call_complete call_id return_data block timestamp p = None"

definition oracle_on_eth_call_failed ::
  "eth_call_id \<Rightarrow> eth_call_failure \<Rightarrow> 'l oracle_state \<Rightarrow> 'l oracle_state option" where
  "oracle_on_eth_call_failed call_id reason p = None"

text \<open>The addition of 256-bit numbers panics on overflow.\<close>

definition new_request ::
  "('l, 'b) oracle_config \<Rightarrow> block_number \<Rightarrow> u64 \<Rightarrow> eth_address \<Rightarrow> eth_address \<Rightarrow> bytes \<Rightarrow> bytes \<Rightarrow> u64 \<Rightarrow>
    fee_preferences option \<Rightarrow> balance \<Rightarrow> ('l, 'b, request_id) oracle_call" where
  "new_request T now unix_time caller destination input_data callback_signature callback_gas_limit
     preferences bounty =
     bind (oracle_gets RequestsThisBlock) (\<lambda>count.
     bind (ensure (count < max_requests_per_block T) (oracle_err NoAvailableResponses)) (\<lambda>_.
     bind (oracle_gets ChallengerBonds) (\<lambda>challengers.
     bind (ensure (challengers \<noteq> []) (oracle_err NoChallengers)) (\<lambda>_.
     bind (oracle_gets NextRequestId) (\<lambda>i.
     let expiry_block = now + challenge_period T in
     bind (oracle_modify (\<lambda>p. p\<lparr>Requests := (Requests p)(i \<mapsto>
       \<lparr>rq_destination = destination, rq_caller = caller, rq_callback_gas_limit = callback_gas_limit,
        rq_callback_signature = callback_signature, rq_fee_preferences = preferences, rq_bounty = bounty,
        rq_timestamp = unix_time, rq_expiry_block = expiry_block, rq_input_data = input_data\<rparr>)\<rparr>)) (\<lambda>_.
     bind (ok_or (checked_add i 1) Panic) (\<lambda>next.
     bind (oracle_modify (\<lambda>p. p
       \<lparr>NextRequestId := next,
        RequestsThisBlock := RequestsThisBlock p + 1,
        RequestsExpiredAtBlock :=
          storage_mutate [] (\<lambda>ids. ids @ [i]) expiry_block (RequestsExpiredAtBlock p)\<rparr>)) (\<lambda>_.
     ret i))))))))"

definition new_request_fee :: "('l, 'b) oracle_config \<Rightarrow> u64" where
  "new_request_fee T = weight_to_gas T (saturating_add (oracle_writes T 15) (oracle_reads T 15))"

end
