(* ===== verification/Oracle_Props.thy ===== *)
theory Oracle_Props
  imports Eth_State_Oracle GA_Props
begin

text \<open>
  Properties of the Ethereum state oracle: the queue of callbacks.
\<close>

section \<open>Callbacks\<close>

text \<open>What a callback must leave as it was: the requests and the challenges.\<close>

definition oracle_core_is ::
  "(request_id \<rightharpoonup> call_request) \<Rightarrow> (request_id \<times> account_id) list \<Rightarrow> 'l oracle_state \<times> 'b \<Rightarrow> bool" where
  "oracle_core_is requests challenged s \<longleftrightarrow>
     Requests (fst s) = requests \<and> ResponsesChallenged (fst s) = challenged"

lemma on_oracle_ledger_core: "preserves (oracle_core_is rq ch) (on_oracle_ledger m)"
  by (auto simp: preserves_def on_oracle_ledger_def oracle_core_is_def split: prod.splits)

lemma pay_from_caller_core: "preserves (oracle_core_is rq ch) (pay_from_caller T from to amount err)"
  unfolding pay_from_caller_def
  by (rule preservesI) (auto split: prod.splits sum.splits dest: preservesD [OF on_oracle_ledger_core])

lemma prepare_callback_core: "preserves (oracle_core_is rq ch) (prepare_callback T request response)"
  unfolding prepare_callback_def exchange_callback_fee_def Let_def
  by (cases "rs_return_data response"; cases "rq_fee_preferences request"; simp;
      intro preserves_rules pay_from_caller_core on_oracle_ledger_core)

text \<open>Callbacks of the EVM that make no new request of the oracle.\<close>

definition evm_keeps_oracle :: "('l, 'b) oracle_config \<Rightarrow> bool" where
  "evm_keeps_oracle T \<longleftrightarrow> (\<forall>caller target inp gas fee tip s.
     Requests (fst (snd (contract_execute T caller target inp gas fee tip s))) = Requests (fst s) \<and>
     ResponsesChallenged (fst (snd (contract_execute T caller target inp gas fee tip s))) = ResponsesChallenged (fst s))"

lemma try_callback_core:
  assumes "evm_keeps_oracle T" and "try_callback T i request response s = (r, s')" and "oracle_core_is rq ch s"
  shows "oracle_core_is rq ch s'"
proof -
  obtain x t where prep: "prepare_callback T request response s = (x, t)"
    by (metis prod.exhaust)
  have t: "oracle_core_is rq ch t"
    by (rule preservesD [OF prepare_callback_core assms(3) prep])
  show ?thesis
  proof (cases x)
    case (Inl e)
    then show ?thesis
      using assms(2) prep t by (simp add: try_callback_def)
  next
    case (Inr d)
    then have "s' = snd (contract_execute T (state_oracle_precompile T) (rq_caller request)
        (callback_input i request response d) (rq_callback_gas_limit request) (ucast (min_gas_price T)) 1 t)"
      using assms(2) prep by (auto simp: try_callback_def split: prod.splits)
    then show ?thesis
      using assms(1) t by (simp add: evm_keeps_oracle_def oracle_core_is_def del: split_paired_All)
  qed
qed

lemma run_callback_done:
  assumes evm: "evm_keeps_oracle T" and response: "map_of (Responses p) i = Some response"
    and no_panic: "fst (try_callback T i request response
      (p\<lparr>Requests := (Requests p)(i := None), Responses := AList.delete i (Responses p)\<rparr>, b)) \<noteq> Inl Panic"
  shows "\<exists>w s'. run_callback T i request (p, b) = (Inr w, s') \<and>
    oracle_core_is ((Requests p)(i := None)) (ResponsesChallenged p) s'"
proof -
  let ?q = "p\<lparr>Requests := (Requests p)(i := None), Responses := AList.delete i (Responses p)\<rparr>"
  obtain r q' b' where run: "try_callback T i request response (?q, b) = (r, (q', b'))"
    by (metis prod.exhaust)
  have core: "oracle_core_is ((Requests p)(i := None)) (ResponsesChallenged p) (q', b')"
    by (rule try_callback_core [OF evm run]) (simp add: oracle_core_is_def)
  have "r \<noteq> Inl e" for e
  proof
    assume "r = Inl e"
    then have "e = Panic"
      using run by (auto simp: try_callback_def split: prod.splits sum.splits if_splits)
    then show False
      using \<open>r = Inl e\<close> run no_panic by simp
  qed
  then obtain outcome where r: "r = Inr outcome"
    by (cases r) auto
  show ?thesis
    using run r response core
    by (cases outcome) (auto simp: run_callback_def call_defs oracle_core_is_def oracle_deposit_event_def)
qed


text \<open>Two responses are due, and the first is challenged.\<close>

definition demo_oracle :: "(ga_state, unit) oracle_config" where
  "demo_oracle = \<lparr>oracle_address_mapping = into_account_id, challenge_period = 10,
     contract_execute = (\<lambda>_ _ _ _ _ _ s. (Inr (Some 5), s)), state_oracle_precompile = 27572,
     call_oracle = (\<lambda>_ _ _ _ _ b. (0, b)), oracle_currency = ga_currency demo_config, min_gas_price = 1,
     gas_to_weight = (\<lambda>g. g), weight_to_gas = (\<lambda>w. w), oracle_buy_fee_asset = (\<lambda>_ _ _. throw (oracle_err FeeExchangeFailed)),
     permill_mul = (\<lambda>_ x. x), relayer_bond_amount = 10, max_requests_per_block = 100, max_relayer_count = 1,
     oracle_reads = (\<lambda>n. n), oracle_writes = (\<lambda>n. n)\<rparr>"

definition demo_request :: call_request where
  "demo_request = \<lparr>rq_destination = 5, rq_caller = 6, rq_callback_gas_limit = 100, rq_callback_signature = [1, 2, 3, 4],
     rq_fee_preferences = None, rq_bounty = 0, rq_timestamp = 1000, rq_expiry_block = 10, rq_input_data = []\<rparr>"

definition demo_response :: call_response where
  "demo_response = \<lparr>rs_return_data = ExceedsLengthLimit, rs_eth_block_number = 3, rs_eth_block_timestamp = 1000,
     rs_relayer = 1\<rparr>"

definition demo_queue :: "ga_state oracle_state" where
  "demo_queue = (oracle_genesis demo_state)
     \<lparr>Requests := [0 \<mapsto> demo_request, 1 \<mapsto> demo_request], Responses := [(0, demo_response), (1, demo_response)],
      ResponsesChallenged := [(0, 2)], ResponsesForCallback := [0, 1]\<rparr>"


end
