(* ===== verification/Staking_Types.thy ===== *)
theory Staking_Types
  imports GA_Types Vec_Lib
begin

text \<open>
  The data of the staking pallet (\<open>crml/staking/src/lib.rs\<close>): the ledger of a stash with its chunks of
  unlocking funds and the functions on it, exposures, elections, eras and pending slashes, and the storage.
  The arithmetic of \<open>Perbill\<close> is that of a library: the operations are a parameter, a fraction is its number
  of parts in a billion.
\<close>

section \<open>Fractions\<close>

type_synonym perbill = u32

record perbill_ops =
  pb_mul :: "perbill \<Rightarrow> nat \<Rightarrow> nat"
  pb_from_rational :: "nat \<Rightarrow> nat \<Rightarrow> perbill"
  pb_from_percent :: "u32 \<Rightarrow> perbill"
  pb_one :: perbill

definition perbill_mul :: "perbill_ops \<Rightarrow> perbill \<Rightarrow> 'a::len word \<Rightarrow> 'a word" where
  "perbill_mul P p x = word_of_nat (pb_mul P p (unat x))"

text \<open>
  What the library documents: a fraction of a number is rounded to the nearest number, and the fraction of a
  ratio of numbers that need no scaling is rounded down.
\<close>

definition perbill_laws :: "perbill_ops \<Rightarrow> bool" where
  "perbill_laws P \<longleftrightarrow> pb_one P = 1000000000 \<and> pb_from_percent P 50 = 500000000 \<and>
     (\<forall>p x. p \<le> pb_one P \<longrightarrow>
       2 * (1000000000 * pb_mul P p x) \<le> 2 * (unat p * x) + 1000000000 \<and>
       2 * (unat p * x) \<le> 2 * (1000000000 * pb_mul P p x) + 1000000000) \<and>
     (\<forall>n d. 0 < d \<and> d \<le> 1000000000 \<and> n \<le> d \<longrightarrow> unat (pb_from_rational P n d) = 1000000000 * n div d)"

section \<open>The ledger of a stash\<close>

type_synonym era_index = u32
type_synonym session_index = u32

definition STAKING_ID :: lock_identifier where
  "STAKING_ID = 0x7374616B696E6720"

definition MAX_UNLOCKING_CHUNKS :: nat where "MAX_UNLOCKING_CHUNKS = 32"
definition MAX_NOMINATIONS :: nat where "MAX_NOMINATIONS = 16"
definition MAX_VALIDATORS :: nat where "MAX_VALIDATORS = 2 ^ 16 - 1"
definition MAX_NOMINATORS :: nat where "MAX_NOMINATORS = 2 ^ 32 - 1"

datatype reward_destination = Stash | Controller | Account account_id

record validator_prefs =
  commission :: perbill

record unlock_chunk =
  chunk_value :: balance
  chunk_era :: era_index

record staking_ledger =
  sl_stash :: account_id
  sl_total :: balance
  sl_active :: balance
  sl_unlocking :: "unlock_chunk list"

text \<open>\<open>consolidate_unlocked\<close> drops the chunks that have become free and lowers the total by each of them.\<close>

definition consolidate_unlocked :: "era_index \<Rightarrow> staking_ledger \<Rightarrow> staking_ledger" where
  "consolidate_unlocked current_era l =
     l\<lparr>sl_total := fold (\<lambda>c funds. if current_era < chunk_era c then funds else saturating_sub funds (chunk_value c))
         (sl_unlocking l) (sl_total l),
       sl_unlocking := filter (\<lambda>c. current_era < chunk_era c) (sl_unlocking l)\<rparr>"

text \<open>
  The loop of \<open>rebond\<close> takes chunks off the end of \<open>unlocking\<close>, here the head of the reversed list. When a
  chunk is larger than what remains, the amount is reached and the loop ends.
\<close>

fun rebond_loop :: "balance \<Rightarrow> balance \<Rightarrow> balance \<Rightarrow> unlock_chunk list \<Rightarrow> balance \<times> unlock_chunk list" where
  "rebond_loop v rebonded active [] = (active, [])"
| "rebond_loop v rebonded active (c # cs) =
     (let remaining = v - rebonded
      in if chunk_value c \<le> remaining then
           if v \<le> rebonded + chunk_value c then (active + chunk_value c, cs)
           else rebond_loop v (rebonded + chunk_value c) (active + chunk_value c) cs
         else (active + remaining, c\<lparr>chunk_value := chunk_value c - remaining\<rparr> # cs))"

definition ledger_rebond :: "balance \<Rightarrow> staking_ledger \<Rightarrow> staking_ledger" where
  "ledger_rebond v l =
     (case rebond_loop v 0 (sl_active l) (rev (sl_unlocking l)) of
        (active, chunks) \<Rightarrow> l\<lparr>sl_active := active, sl_unlocking := rev chunks\<rparr>)"

text \<open>
  Slashing a pool of funds: the total, the funds and the rest of the slash afterwards. Funds that would be
  dust go entirely.
\<close>

definition ledger_apply_slash :: "balance \<Rightarrow> balance \<Rightarrow> balance \<Rightarrow> balance \<Rightarrow> balance \<times> balance \<times> balance" where
  "ledger_apply_slash total_funds target_funds slash minimum =
     (let from_target = min slash target_funds
      in if from_target = 0 then (total_funds, target_funds, slash)
         else (let funds = saturating_sub total_funds from_target; target = target_funds - from_target
               in if target \<le> minimum then (saturating_sub funds target, 0, slash - from_target)
                  else (funds, target, slash - from_target)))"

text \<open>
  The iterator over the chunks is lazy: it slashes chunks up to the first that keeps funds, and the drained
  ones before it are removed.
\<close>

fun slash_chunks :: "balance \<Rightarrow> balance \<Rightarrow> balance \<Rightarrow> unlock_chunk list \<Rightarrow> balance \<times> unlock_chunk list" where
  "slash_chunks minimum funds v [] = (funds, [])"
| "slash_chunks minimum funds v (c # cs) =
     (case ledger_apply_slash funds (chunk_value c) v minimum of
        (funds', left, v') \<Rightarrow>
          if left = 0 then slash_chunks minimum funds' v' cs
          else (funds', c\<lparr>chunk_value := left\<rparr> # cs))"

definition ledger_slash :: "balance \<Rightarrow> balance \<Rightarrow> staking_ledger \<Rightarrow> balance \<times> staking_ledger" where
  "ledger_slash v minimum l =
     (case ledger_apply_slash (sl_total l) (sl_active l) v minimum of
        (funds, active, v') \<Rightarrow>
          (case slash_chunks minimum funds v' (sl_unlocking l) of
             (funds', chunks) \<Rightarrow>
               (saturating_sub (sl_total l) funds',
                l\<lparr>sl_total := funds', sl_active := active, sl_unlocking := chunks\<rparr>)))"

section \<open>Nominations, exposures and slashes\<close>

record nominations =
  nom_targets :: "account_id list"
  nom_submitted_in :: era_index

record individual_exposure =
  ie_who :: account_id
  ie_value :: balance

record exposure =
  exp_total :: balance
  exp_own :: balance
  exp_others :: "individual_exposure list"

definition exposure_default :: exposure where
  "exposure_default = \<lparr>exp_total = 0, exp_own = 0, exp_others = []\<rparr>"

record unapplied_slash =
  us_validator :: account_id
  us_own :: balance
  us_others :: "(account_id \<times> balance) list"
  us_reporters :: "account_id list"
  us_payout :: balance

datatype election_compute = OnChain | ComputeSigned | ComputeUnsigned

record election_result =
  elected_stashes :: "account_id list"
  er_exposures :: "(account_id \<times> exposure) list"
  er_compute :: election_compute

datatype election_status = Closed | Open block_number

fun is_open_at :: "block_number \<Rightarrow> election_status \<Rightarrow> bool" where
  "is_open_at n st \<longleftrightarrow> st = Open n"

fun is_closed :: "election_status \<Rightarrow> bool" where
  "is_closed Closed = True"
| "is_closed (Open _) = False"

record election_size =
  es_validators :: "16 word"
  es_nominators :: u32

record active_era_info =
  era_idx :: era_index
  era_start :: "u64 option"

datatype forcing = NotForcing | ForceNew | ForceNone | ForceAlways

type_synonym election_score = "u128 list"

datatype disable_strategy = Never | WhenSlashed | Always

record offence_details =
  od_offender :: "account_id \<times> exposure"
  od_reporters :: "account_id list"

section \<open>Slashing spans\<close>

type_synonym span_index = u32

record slashing_span =
  span_idx :: span_index
  span_start :: era_index
  span_length :: "era_index option"

record slashing_spans =
  ss_span_index :: span_index
  ss_last_start :: era_index
  ss_last_nonzero_slash :: era_index
  ss_prior :: "era_index list"

record span_record =
  sr_slashed :: balance
  sr_paid_out :: balance

definition span_record_default :: span_record where
  "span_record_default = \<lparr>sr_slashed = 0, sr_paid_out = 0\<rparr>"

section \<open>Storage\<close>

datatype staking_event =
    Slash_Event account_id balance
  | InvulnerableNotSlashed account_id perbill
  | SetMinimumBond balance
  | OldSlashingReportDiscarded session_index
  | StakingElection election_compute
  | SolutionStored election_compute
  | SetInvulnerables "account_id list"
  | Bonded_Event account_id balance
  | Unbonded account_id balance
  | Withdrawn account_id balance
  | Slashed account_id balance

record 'w staking_state =
  StakingWorld :: 'w
  MinimumBond :: balance
  OffendingValidators :: "(u32 \<times> bool) list"
  HistoryDepth :: u32
  ValidatorCount :: u32
  MinimumValidatorCount :: u32
  Invulnerables :: "account_id list"
  Bonded :: "account_id \<rightharpoonup> account_id"
  Ledger :: "account_id \<rightharpoonup> staking_ledger"
  Validators :: "account_id \<rightharpoonup> validator_prefs"
  Nominators :: "account_id \<rightharpoonup> nominations"
  CurrentEra :: "era_index option"
  ActiveEra :: "active_era_info option"
  ErasStartSessionIndex :: "era_index \<rightharpoonup> session_index"
  ErasStakers :: "era_index \<Rightarrow> account_id \<rightharpoonup> exposure"
  ErasStakersClipped :: "era_index \<Rightarrow> account_id \<rightharpoonup> exposure"
  ErasValidatorPrefs :: "era_index \<Rightarrow> account_id \<rightharpoonup> validator_prefs"
  ErasTotalStake :: "era_index \<rightharpoonup> balance"
  ForceEra :: forcing
  SlashRewardFraction :: perbill
  UnappliedSlashes :: "era_index \<rightharpoonup> unapplied_slash list"
  BondedEras :: "(era_index \<times> session_index) list"
  ValidatorSlashInEra :: "era_index \<Rightarrow> account_id \<rightharpoonup> perbill \<times> balance"
  NominatorSlashInEra :: "era_index \<Rightarrow> account_id \<rightharpoonup> balance"
  SlashingSpans :: "account_id \<rightharpoonup> slashing_spans"
  SpanSlash :: "account_id \<times> span_index \<rightharpoonup> span_record"
  EarliestUnappliedSlash :: "era_index option"
  SnapshotValidators :: "account_id list option"
  SnapshotNominators :: "account_id list option"
  QueuedElected :: "election_result option"
  QueuedScore :: "election_score option"
  EraElectionStatus :: election_status
  IsCurrentSessionFinal :: bool
  IsActiveSessionFinal :: bool
  WasEndEraForced :: bool
  DeferredOffences :: "(offence_details list \<times> perbill list \<times> session_index) list"
  StakingEvents :: "staking_event list"

definition staking_deposit_event :: "staking_event \<Rightarrow> 'w staking_state \<Rightarrow> 'w staking_state" where
  "staking_deposit_event e s = s\<lparr>StakingEvents := StakingEvents s @ [e]\<rparr>"

section \<open>Configuration\<close>

text \<open>
  What the pallet is configured with: the staking currency, the session pallet, the rewards pallet, time, the
  order in which storage maps keyed by accounts are iterated, and constants. The other pallets share the
  storage \<open>'w\<close>.
\<close>

record 'w stake_currency =
  sc_free_balance :: "account_id \<Rightarrow> 'w \<Rightarrow> balance"
  sc_total_balance :: "account_id \<Rightarrow> 'w \<Rightarrow> balance"
  sc_minimum_balance :: "'w \<Rightarrow> balance"
  sc_total_issuance :: "'w \<Rightarrow> balance"
  sc_set_lock :: "lock_identifier \<Rightarrow> account_id \<Rightarrow> balance \<Rightarrow> withdraw_reasons \<Rightarrow> 'w \<Rightarrow> 'w"
  sc_remove_lock :: "lock_identifier \<Rightarrow> account_id \<Rightarrow> 'w \<Rightarrow> 'w"
  sc_slash :: "account_id \<Rightarrow> balance \<Rightarrow> 'w \<Rightarrow> (negative_imbalance \<times> balance) \<times> 'w"
  sc_issue :: "balance \<Rightarrow> 'w \<Rightarrow> negative_imbalance \<times> 'w"
  sc_resolve_creating :: "account_id \<Rightarrow> negative_imbalance \<Rightarrow> 'w \<Rightarrow> 'w"

record 'w staking_config =
  stk_perbill :: perbill_ops
  stk_currency :: "'w stake_currency"
  slash_on_unbalanced :: "negative_imbalance \<Rightarrow> 'w \<Rightarrow> 'w"
  sessions_per_era :: session_index
  bonding_duration :: era_index
  slash_defer_duration :: era_index
  session_validators :: "'w \<Rightarrow> account_id list"
  disable_validator :: "u32 \<Rightarrow> 'w \<Rightarrow> 'w"
  prune_historical_up_to :: "session_index \<Rightarrow> 'w \<Rightarrow> 'w"
  rewarder_set_payee :: "account_id \<Rightarrow> account_id \<Rightarrow> 'w \<Rightarrow> 'w"
  rewarder_remove_payee :: "account_id \<Rightarrow> 'w \<Rightarrow> 'w"
  rewarder_on_end_era :: "account_id list \<Rightarrow> era_index \<Rightarrow> u64 \<Rightarrow> bool \<Rightarrow> 'w \<Rightarrow> 'w"
  rewarder_individual_reward ::
    "account_id \<Rightarrow> u64 \<Rightarrow> (account_id \<times> perbill \<times> exposure) list \<Rightarrow> 'w \<Rightarrow> balance"
  election_lookahead :: block_number
  next_new_session :: "block_number \<Rightarrow> 'w \<Rightarrow> block_number option"
  min_solution_score_bump :: perbill
  max_nominator_rewarded :: u32
  offending_validators_threshold :: perbill
  weight_soft_limit :: u64
  reads_writes :: "u64 \<Rightarrow> u64 \<Rightarrow> u64"
  unix_now_millis :: "'w \<Rightarrow> u64"
  key_order :: "account_id set \<Rightarrow> account_id list"
  to_vote :: "balance \<Rightarrow> balance \<Rightarrow> u64"
  to_currency :: "u128 \<Rightarrow> balance \<Rightarrow> balance"

definition on_staking_world :: "('w \<Rightarrow> 'w) \<Rightarrow> 'w staking_state \<Rightarrow> 'w staking_state" where
  "on_staking_world f s = s\<lparr>StakingWorld := f (StakingWorld s)\<rparr>"

end
