(* ===== verification/Slashing.thy ===== *)
theory Slashing
  imports Staking_Types
begin

text \<open>
  Slashing (\<open>crml/staking/src/slashing.rs\<close>): the spans of a staker, the slash of a validator and its nominators
  that an offence leads to, and its application. A span that is inspected carries what the source keeps behind
  mutable references (\<open>slash_of\<close>, \<open>paid_out\<close>); \<open>drop_spans\<close> is its \<open>Drop\<close> implementation.
\<close>

section \<open>Spans\<close>

definition REWARD_F1 :: "perbill_ops \<Rightarrow> perbill" where
  "REWARD_F1 P = pb_from_percent P 50"

definition contains_era :: "era_index \<Rightarrow> slashing_span \<Rightarrow> bool" where
  "contains_era era sp \<longleftrightarrow>
     span_start sp \<le> era \<and> (case span_length sp of None \<Rightarrow> True | Some l \<Rightarrow> era < span_start sp + l)"

definition spans_new :: "era_index \<Rightarrow> slashing_spans" where
  "spans_new window_start =
     \<lparr>ss_span_index = 0, ss_last_start = window_start, ss_last_nonzero_slash = 0, ss_prior = []\<rparr>"

definition spans_end_span :: "era_index \<Rightarrow> slashing_spans \<Rightarrow> bool \<times> slashing_spans" where
  "spans_end_span now ss =
     (let next_start = now + 1
      in if next_start \<le> ss_last_start ss then (False, ss)
         else (True, ss\<lparr>ss_prior := (next_start - ss_last_start ss) # ss_prior ss, ss_last_start := next_start,
                        ss_span_index := ss_span_index ss + 1\<rparr>))"

fun prior_spans :: "era_index \<Rightarrow> span_index \<Rightarrow> era_index list \<Rightarrow> slashing_span list" where
  "prior_spans last_start i [] = []"
| "prior_spans last_start i (len # lens) =
     \<lparr>span_idx = i - 1, span_start = last_start - len, span_length = Some len\<rparr> #
     prior_spans (last_start - len) (i - 1) lens"

definition spans_iter :: "slashing_spans \<Rightarrow> slashing_span list" where
  "spans_iter ss =
     \<lparr>span_idx = ss_span_index ss, span_start = ss_last_start ss, span_length = None\<rparr> #
     prior_spans (ss_last_start ss) (ss_span_index ss) (ss_prior ss)"

fun position :: "('a \<Rightarrow> bool) \<Rightarrow> 'a list \<Rightarrow> nat option" where
  "position P [] = None"
| "position P (x # xs) = (if P x then Some 0 else map_option Suc (position P xs))"

definition spans_prune :: "era_index \<Rightarrow> slashing_spans \<Rightarrow> (span_index \<times> span_index) option \<times> slashing_spans" where
  "spans_prune window_start ss =
     (let old_idx = position (\<lambda>sp. case span_length sp of None \<Rightarrow> False | Some l \<Rightarrow> span_start sp + l \<le> window_start)
            (tl (spans_iter ss));
          earliest = ss_span_index ss - word_of_nat (length (ss_prior ss));
          last_start = max (ss_last_start ss) window_start
      in case old_idx of
           None \<Rightarrow> (None, ss\<lparr>ss_last_start := last_start\<rparr>)
         | Some k \<Rightarrow>
             (let prior = take k (ss_prior ss)
              in (Some (earliest, ss_span_index ss - word_of_nat (length prior)),
                  ss\<lparr>ss_prior := prior, ss_last_start := last_start\<rparr>)))"

section \<open>Inspecting the spans of a staker\<close>

record inspecting_spans =
  is_dirty :: bool
  is_window_start :: era_index
  is_stash :: account_id
  is_spans :: slashing_spans
  is_paid_out :: balance
  is_slash_of :: balance
  is_reward_proportion :: perbill

definition fetch_spans ::
  "account_id \<Rightarrow> era_index \<Rightarrow> balance \<Rightarrow> balance \<Rightarrow> perbill \<Rightarrow> 'w staking_state \<Rightarrow>
    inspecting_spans \<times> 'w staking_state" where
  "fetch_spans stash window_start paid_out slash_of reward_proportion s =
     (let (spans, s') =
            (case SlashingSpans s stash of
               Some ss \<Rightarrow> (ss, s)
             | None \<Rightarrow> (spans_new window_start, s\<lparr>SlashingSpans := (SlashingSpans s)(stash \<mapsto> spans_new window_start)\<rparr>))
      in (\<lparr>is_dirty = False, is_window_start = window_start, is_stash = stash, is_spans = spans,
           is_paid_out = paid_out, is_slash_of = slash_of, is_reward_proportion = reward_proportion\<rparr>, s'))"

definition end_span :: "era_index \<Rightarrow> inspecting_spans \<Rightarrow> inspecting_spans" where
  "end_span now i =
     (case spans_end_span now (is_spans i) of
        (started, ss) \<Rightarrow> i\<lparr>is_spans := ss, is_dirty := started \<or> is_dirty i\<rparr>)"

definition add_slash :: "balance \<Rightarrow> era_index \<Rightarrow> inspecting_spans \<Rightarrow> inspecting_spans" where
  "add_slash amount slash_era i =
     i\<lparr>is_slash_of := is_slash_of i + amount,
       is_spans := (is_spans i)\<lparr>ss_last_nonzero_slash := max (ss_last_nonzero_slash (is_spans i)) slash_era\<rparr>\<rparr>"

definition era_span :: "era_index \<Rightarrow> inspecting_spans \<Rightarrow> slashing_span option" where
  "era_span era i = find (contains_era era) (spans_iter (is_spans i))"

text \<open>The reward for a slash of the span, beyond what was paid out.\<close>

definition span_reward :: "perbill_ops \<Rightarrow> perbill \<Rightarrow> balance \<Rightarrow> span_record \<Rightarrow> balance" where
  "span_reward P proportion slash r =
     perbill_mul P (REWARD_F1 P) (saturating_sub (perbill_mul P proportion slash) (sr_paid_out r))"

definition compare_and_update_span_slash ::
  "perbill_ops \<Rightarrow> era_index \<Rightarrow> balance \<Rightarrow> inspecting_spans \<Rightarrow> 'w staking_state \<Rightarrow>
    span_index option \<times> inspecting_spans \<times> 'w staking_state" where
  "compare_and_update_span_slash P slash_era slash i s =
     (case era_span slash_era i of
        None \<Rightarrow> (None, i, s)
      | Some target \<Rightarrow>
          (let key = (is_stash i, span_idx target);
               r = storage_get span_record_default (SpanSlash s) key;
               (reward, r', i', changed) =
                 (if sr_slashed r < slash then
                    (span_reward P (is_reward_proportion i) slash r, r\<lparr>sr_slashed := slash\<rparr>,
                     add_slash (slash - sr_slashed r) slash_era i, True)
                  else if sr_slashed r = slash then
                    (span_reward P (is_reward_proportion i) slash r, r, i, False)
                  else (0, r, i, False));
               r'' = (if reward = 0 then r' else r'\<lparr>sr_paid_out := sr_paid_out r' + reward\<rparr>);
               i'' = (if reward = 0 then i' else i'\<lparr>is_paid_out := is_paid_out i' + reward\<rparr>)
           in if changed \<or> reward \<noteq> 0 then
                (Some (span_idx target), i''\<lparr>is_dirty := True\<rparr>, s\<lparr>SpanSlash := (SpanSlash s)(key \<mapsto> r'')\<rparr>)
              else (Some (span_idx target), i'', s)))"

definition drop_spans :: "inspecting_spans \<Rightarrow> 'w staking_state \<Rightarrow> 'w staking_state" where
  "drop_spans i s =
     (if \<not> is_dirty i then s
      else case spans_prune (is_window_start i) (is_spans i) of
             (pruned, ss) \<Rightarrow>
               s\<lparr>SpanSlash := (case pruned of
                    None \<Rightarrow> SpanSlash s
                  | Some (from, to) \<Rightarrow>
                      (\<lambda>(stash, k). if stash = is_stash i \<and> from \<le> k \<and> k < to then None else SpanSlash s (stash, k))),
                 SlashingSpans := (SlashingSpans s)(is_stash i \<mapsto> ss)\<rparr>)"

section \<open>Computing a slash\<close>

record slash_params =
  sp_stash :: account_id
  sp_slash :: perbill
  sp_exposure :: exposure
  sp_slash_era :: era_index
  sp_window_start :: era_index
  sp_now :: era_index
  sp_reward_proportion :: perbill
  sp_disable_strategy :: disable_strategy

definition chill_stash :: "account_id \<Rightarrow> 'w staking_state \<Rightarrow> 'w staking_state" where
  "chill_stash stash s =
     s\<lparr>Validators := (Validators s)(stash := None), Nominators := (Nominators s)(stash := None)\<rparr>"

definition ensure_new_era :: "'w staking_state \<Rightarrow> 'w staking_state" where
  "ensure_new_era s =
     s\<lparr>ForceEra := (case ForceEra s of ForceAlways \<Rightarrow> ForceAlways | ForceNew \<Rightarrow> ForceNew | _ \<Rightarrow> ForceNew),
       IsCurrentSessionFinal := True\<rparr>"

definition add_offending_validator ::
  "'w staking_config \<Rightarrow> account_id \<Rightarrow> bool \<Rightarrow> 'w staking_state \<Rightarrow> 'w staking_state" where
  "add_offending_validator T stash disable s =
     (let validators = session_validators T (StakingWorld s); offending = OffendingValidators s
      in case position (\<lambda>v. v = stash) validators of
           None \<Rightarrow> s
         | Some n \<Rightarrow>
             (let i = word_of_nat n :: u32
              in case binary_search (map fst offending) i of
                   NotFound k \<Rightarrow>
                     (let offending' = insert_at k (i, disable) offending;
                          threshold = perbill_mul (stk_perbill T) (offending_validators_threshold T)
                            (word_of_nat (length validators) :: u32);
                          s1 = (if unat threshold \<le> length offending' then ensure_new_era s else s);
                          s2 = (if disable then on_staking_world (disable_validator T i) s1 else s1)
                      in s2\<lparr>OffendingValidators := offending'\<rparr>)
                 | Found k \<Rightarrow>
                     if disable \<and> \<not> snd (offending ! k) then
                       (on_staking_world (disable_validator T i) s)
                         \<lparr>OffendingValidators := offending[k := (fst (offending ! k), True)]\<rparr>
                     else s))"

definition kick_out_if_recent :: "'w staking_config \<Rightarrow> slash_params \<Rightarrow> 'w staking_state \<Rightarrow> 'w staking_state" where
  "kick_out_if_recent T p s =
     (case fetch_spans (sp_stash p) (sp_window_start p) 0 0 (sp_reward_proportion p) s of
        (i, s1) \<Rightarrow>
          (let recent = (map_option span_idx (era_span (sp_slash_era p) i) = Some (ss_span_index (is_spans i)));
               i' = (if recent then end_span (sp_now p) i else i);
               s2 = (if recent then chill_stash (sp_stash p) s1 else s1);
               s3 = add_offending_validator T (sp_stash p) (sp_disable_strategy p = Always) s2
           in drop_spans i' s3))"

text \<open>One nominator of the loop in \<open>slash_nominators\<close>: the reward so far, and the slash of the nominator.\<close>

definition slash_nominator ::
  "'w staking_config \<Rightarrow> slash_params \<Rightarrow> perbill \<Rightarrow> individual_exposure \<Rightarrow> balance \<Rightarrow> 'w staking_state \<Rightarrow>
    (balance \<times> balance) \<times> 'w staking_state" where
  "slash_nominator T p prior_slash_p nominator reward_payout s =
     (let P = stk_perbill T;
          stash = ie_who nominator;
          difference = saturating_sub (perbill_mul P (sp_slash p) (ie_value nominator))
            (perbill_mul P prior_slash_p (ie_value nominator));
          era_slash = (case NominatorSlashInEra s (sp_slash_era p) stash of Some v \<Rightarrow> v | None \<Rightarrow> 0) + difference;
          s1 = s\<lparr>NominatorSlashInEra := (NominatorSlashInEra s)
                 (sp_slash_era p := (NominatorSlashInEra s (sp_slash_era p))(stash \<mapsto> era_slash))\<rparr>;
          (i, s2) = fetch_spans stash (sp_window_start p) reward_payout 0 (sp_reward_proportion p) s1;
          (target, i', s3) = compare_and_update_span_slash P (sp_slash_era p) era_slash i s2;
          i'' = (if target = Some (ss_span_index (is_spans i')) then end_span (sp_now p) i' else i')
      in ((is_paid_out i'', is_slash_of i''), drop_spans i'' s3))"

fun slash_nominators_loop ::
  "'w staking_config \<Rightarrow> slash_params \<Rightarrow> perbill \<Rightarrow> individual_exposure list \<Rightarrow> balance \<Rightarrow> 'w staking_state \<Rightarrow>
    (balance \<times> (account_id \<times> balance) list) \<times> 'w staking_state" where
  "slash_nominators_loop T p prior_slash_p [] reward_payout s = ((reward_payout, []), s)"
| "slash_nominators_loop T p prior_slash_p (n # ns) reward_payout s =
     (case slash_nominator T p prior_slash_p n reward_payout s of
        ((reward_payout', slashed), s1) \<Rightarrow>
          (case slash_nominators_loop T p prior_slash_p ns reward_payout' s1 of
             ((reward, others), s2) \<Rightarrow> ((reward, (ie_who n, slashed) # others), s2)))"

definition slash_nominators ::
  "'w staking_config \<Rightarrow> slash_params \<Rightarrow> perbill \<Rightarrow> 'w staking_state \<Rightarrow>
    (balance \<times> (account_id \<times> balance) list) \<times> 'w staking_state" where
  "slash_nominators T p prior_slash_p s = slash_nominators_loop T p prior_slash_p (exp_others (sp_exposure p)) 0 s"

text \<open>The block of \<open>compute_slash\<close> that applies the slash to the validator: the reward and the validator's slash.\<close>

definition slash_validator ::
  "'w staking_config \<Rightarrow> slash_params \<Rightarrow> balance \<Rightarrow> 'w staking_state \<Rightarrow> (balance \<times> balance) \<times> 'w staking_state" where
  "slash_validator T p own_slash s =
     (let (i, s1) = fetch_spans (sp_stash p) (sp_window_start p) 0 0 (sp_reward_proportion p) s;
          (target, i', s2) = compare_and_update_span_slash (stk_perbill T) (sp_slash_era p) own_slash i s1;
          current = (target = Some (ss_span_index (is_spans i')));
          i'' = (if current then end_span (sp_now p) i' else i');
          s3 = (if current then chill_stash (sp_stash p) s2 else s2)
      in ((is_paid_out i'', is_slash_of i''), drop_spans i'' s3))"

definition compute_slash ::
  "'w staking_config \<Rightarrow> slash_params \<Rightarrow> 'w staking_state \<Rightarrow> unapplied_slash option \<times> 'w staking_state" where
  "compute_slash T p s =
     (let P = stk_perbill T;
          own_slash = perbill_mul P (sp_slash p) (exp_own (sp_exposure p))
      in if perbill_mul P (sp_slash p) (exp_total (sp_exposure p)) = 0 then (None, kick_out_if_recent T p s)
         else
           (let prior_slash_p = (case ValidatorSlashInEra s (sp_slash_era p) (sp_stash p) of
                                   Some (q, _) \<Rightarrow> q | None \<Rightarrow> 0)
            in if \<not> prior_slash_p < sp_slash p then (None, s)
               else
                 (let s1 = s\<lparr>ValidatorSlashInEra := (ValidatorSlashInEra s)
                        (sp_slash_era p :=
                          (ValidatorSlashInEra s (sp_slash_era p))(sp_stash p \<mapsto> (sp_slash p, own_slash)))\<rparr>;
                      ((reward, val_slashed), s2) = slash_validator T p own_slash s1;
                      s3 = add_offending_validator T (sp_stash p) (sp_disable_strategy p \<noteq> Never) s2;
                      ((reward', others), s4) = slash_nominators T p prior_slash_p s3
                  in (Some \<lparr>us_validator = sp_stash p, us_own = val_slashed, us_others = others,
                            us_reporters = [], us_payout = reward + reward'\<rparr>, s4))))"

section \<open>Metadata\<close>

definition clear_era_metadata :: "era_index \<Rightarrow> 'w staking_state \<Rightarrow> 'w staking_state" where
  "clear_era_metadata era s =
     s\<lparr>ValidatorSlashInEra := (ValidatorSlashInEra s)(era := Map.empty),
       NominatorSlashInEra := (NominatorSlashInEra s)(era := Map.empty)\<rparr>"

definition clear_stash_metadata :: "account_id \<Rightarrow> u32 \<Rightarrow> ('w staking_state, unit) dispatch" where
  "clear_stash_metadata stash num_slashing_spans =
     bind (gets (\<lambda>s. SlashingSpans s stash)) (\<lambda>found.
     case found of
       None \<Rightarrow> ret ()
     | Some ss \<Rightarrow>
         bind (ensure (length (spans_iter ss) \<le> unat num_slashing_spans) (Staking_Error IncorrectSlashingSpans)) (\<lambda>_.
         modify (\<lambda>s. s\<lparr>SlashingSpans := (SlashingSpans s)(stash := None),
           SpanSlash := (\<lambda>(who, k). if who = stash \<and> k \<in> span_idx ` set (spans_iter ss) then None
                                    else SpanSlash s (who, k))\<rparr>)))"

section \<open>Applying a slash\<close>

definition update_ledger ::
  "'w staking_config \<Rightarrow> account_id \<Rightarrow> staking_ledger \<Rightarrow> 'w staking_state \<Rightarrow> 'w staking_state" where
  "update_ledger T controller l s =
     (on_staking_world (sc_set_lock (stk_currency T) STAKING_ID (sl_stash l) (sl_total l) UNIV) s)
       \<lparr>Ledger := (Ledger s)(controller \<mapsto> l)\<rparr>"

text \<open>The reward that is left to pay and the slashed imbalance are behind mutable references in the source.\<close>

definition do_slash ::
  "'w staking_config \<Rightarrow> account_id \<Rightarrow> balance \<Rightarrow> balance \<times> negative_imbalance \<Rightarrow> 'w staking_state \<Rightarrow>
    (balance \<times> negative_imbalance) \<times> 'w staking_state" where
  "do_slash T stash v acc s =
     (case Bonded s stash of
        None \<Rightarrow> (acc, s)
      | Some controller \<Rightarrow>
          (case Ledger s controller of
             None \<Rightarrow> (acc, s)
           | Some l \<Rightarrow>
               (case ledger_slash v (sc_minimum_balance (stk_currency T) (StakingWorld s)) l of
                  (v', l') \<Rightarrow>
                    if v' = 0 then (acc, s)
                    else (case sc_slash (stk_currency T) stash v' (StakingWorld s) of
                            ((imbalance, missing), w) \<Rightarrow>
                              ((if missing = 0 then fst acc else saturating_sub (fst acc) missing,
                                negative_merge (snd acc) imbalance),
                               staking_deposit_event (Slashed stash v')
                                 (update_ledger T controller l' (s\<lparr>StakingWorld := w\<rparr>)))))))"

fun do_slashes ::
  "'w staking_config \<Rightarrow> (account_id \<times> balance) list \<Rightarrow> balance \<times> negative_imbalance \<Rightarrow> 'w staking_state \<Rightarrow>
    (balance \<times> negative_imbalance) \<times> 'w staking_state" where
  "do_slashes T [] acc s = (acc, s)"
| "do_slashes T ((who, v) # rest) acc s =
     (case do_slash T who v acc s of (acc', s') \<Rightarrow> do_slashes T rest acc' s')"

fun pay_each :: "'w stake_currency \<Rightarrow> balance \<Rightarrow> account_id list \<Rightarrow> negative_imbalance \<Rightarrow> 'w \<Rightarrow> negative_imbalance \<times> 'w" where
  "pay_each C per_reporter [] reward w = (reward, w)"
| "pay_each C per_reporter (r # rs) reward w =
     (case negative_split reward per_reporter of
        (share, rest) \<Rightarrow> pay_each C per_reporter rs rest (sc_resolve_creating C r share w))"

definition pay_reporters ::
  "'w staking_config \<Rightarrow> balance \<Rightarrow> negative_imbalance \<Rightarrow> account_id list \<Rightarrow> 'w \<Rightarrow> 'w" where
  "pay_reporters T reward_payout slashed reporters w =
     (if reward_payout = 0 \<or> reporters = [] then slash_on_unbalanced T slashed w
      else
        (case negative_split slashed (min reward_payout (neg_amount slashed)) of
           (reward, value_slashed) \<Rightarrow>
             (case pay_each (stk_currency T) (neg_amount reward div ucast (word_of_nat (length reporters) :: u32)) reporters reward w of
                (rest, w') \<Rightarrow> slash_on_unbalanced T (negative_merge value_slashed rest) w')))"

definition apply_slash :: "'w staking_config \<Rightarrow> unapplied_slash \<Rightarrow> 'w staking_state \<Rightarrow> 'w staking_state" where
  "apply_slash T u s =
     (case sc_issue (stk_currency T) 0 (StakingWorld s) of
        (nothing, w) \<Rightarrow>
          (case do_slashes T ((us_validator u, us_own u) # us_others u) (us_payout u, nothing) (s\<lparr>StakingWorld := w\<rparr>) of
             ((reward, slashed), s') \<Rightarrow> on_staking_world (pay_reporters T reward slashed (us_reporters u)) s'))"

end
