(* ===== verification/Staking.thy ===== *)
theory Staking
  imports Slashing
begin

text \<open>
  The staking pallet (\<open>crml/staking/src/lib.rs\<close>): bonding and unbonding, validating and nominating, the eras and
  sessions, offences and their deferred slashes. A call that fails keeps what it wrote before the error, as in
  the source.
\<close>

section \<open>Bonding\<close>

definition staking_err :: "staking_error \<Rightarrow> dispatch_error" where
  [call_defs]: "staking_err e = Staking_Error e"

definition election_closed :: "('w staking_state, unit) dispatch" where
  "election_closed = bind (gets EraElectionStatus) (\<lambda>st. ensure (is_closed st) (staking_err CallNotAllowed))"

definition controller_ledger :: "account_id \<Rightarrow> ('w staking_state, staking_ledger) dispatch" where
  "controller_ledger controller = bind (gets (\<lambda>s. Ledger s controller)) (\<lambda>l. ok_or l (staking_err NotController))"

fun payee_of :: "reward_destination \<Rightarrow> account_id \<Rightarrow> account_id \<Rightarrow> account_id" where
  "payee_of Stash stash controller = stash"
| "payee_of Controller stash controller = controller"
| "payee_of (Account a) stash controller = a"

definition bond ::
  "'w staking_config \<Rightarrow> origin \<Rightarrow> account_id \<Rightarrow> balance \<Rightarrow> reward_destination \<Rightarrow> ('w staking_state, unit) dispatch" where
  "bond T orig controller v payee =
     bind (signed orig) (\<lambda>stash.
     bind (gets (\<lambda>s. Bonded s stash)) (\<lambda>bonded.
     bind (ensure (bonded = None) (staking_err staking_error.AlreadyBonded)) (\<lambda>_.
     bind (gets (\<lambda>s. Ledger s controller)) (\<lambda>paired.
     bind (ensure (paired = None) (staking_err AlreadyPaired)) (\<lambda>_.
     bind (gets MinimumBond) (\<lambda>minimum.
     bind (ensure (minimum \<le> v) (staking_err InsufficientBond)) (\<lambda>_.
     bind (modify (\<lambda>s. s\<lparr>Bonded := (Bonded s)(stash \<mapsto> controller)\<rparr>)) (\<lambda>_.
     bind (modify (on_staking_world (rewarder_set_payee T stash (payee_of payee stash controller)))) (\<lambda>_.
     bind (gets (\<lambda>s. min v (sc_free_balance (stk_currency T) stash (StakingWorld s)))) (\<lambda>amount.
     bind (modify (staking_deposit_event (Bonded_Event stash amount))) (\<lambda>_.
     modify (update_ledger T controller
       \<lparr>sl_stash = stash, sl_total = amount, sl_active = amount, sl_unlocking = []\<rparr>))))))))))))"

definition bond_extra :: "'w staking_config \<Rightarrow> origin \<Rightarrow> balance \<Rightarrow> ('w staking_state, unit) dispatch" where
  "bond_extra T orig max_additional =
     bind election_closed (\<lambda>_.
     bind (signed orig) (\<lambda>stash.
     bind (gets (\<lambda>s. Bonded s stash)) (\<lambda>bonded.
     bind (ok_or bonded (staking_err NotStash)) (\<lambda>controller.
     bind (controller_ledger controller) (\<lambda>l.
     bind (gets (\<lambda>s. sc_free_balance (stk_currency T) stash (StakingWorld s))) (\<lambda>stash_balance.
     case checked_sub stash_balance (sl_total l) of
       None \<Rightarrow> throw (staking_err InsufficientFreeBalance)
     | Some available \<Rightarrow>
         (let extra = min available max_additional
          in bind (gets MinimumBond) (\<lambda>minimum.
             bind (ensure (minimum \<le> sl_active l + extra) (staking_err InsufficientBond)) (\<lambda>_.
             bind (modify (staking_deposit_event (Bonded_Event stash extra))) (\<lambda>_.
             modify (update_ledger T controller
               (l\<lparr>sl_total := sl_total l + extra, sl_active := sl_active l + extra\<rparr>))))))))))))"

definition unbond :: "'w staking_config \<Rightarrow> origin \<Rightarrow> balance \<Rightarrow> ('w staking_state, unit) dispatch" where
  "unbond T orig v =
     bind election_closed (\<lambda>_.
     bind (signed orig) (\<lambda>controller.
     bind (controller_ledger controller) (\<lambda>l.
     bind (ensure (length (sl_unlocking l) < MAX_UNLOCKING_CHUNKS) (staking_err NoMoreChunks)) (\<lambda>_.
     if sl_active l = 0 \<or> v = 0 then ret ()
     else
       bind (gets (\<lambda>s. (case CurrentEra s of Some e \<Rightarrow> e | None \<Rightarrow> 0) + bonding_duration T)) (\<lambda>era.
       bind (gets MinimumBond) (\<lambda>minimum.
       let remaining = (case checked_sub (sl_active l) v of Some r \<Rightarrow> r | None \<Rightarrow> 0)
       in if remaining < minimum then
            bind (modify (staking_deposit_event (Unbonded (sl_stash l) (sl_active l)))) (\<lambda>_.
            bind (modify (chill_stash (sl_stash l))) (\<lambda>_.
            modify (update_ledger T controller
              (l\<lparr>sl_unlocking := sl_unlocking l @ [\<lparr>chunk_value = sl_active l, chunk_era = era\<rparr>], sl_active := 0\<rparr>))))
          else
            bind (modify (staking_deposit_event (Unbonded (sl_stash l) v))) (\<lambda>_.
            modify (update_ledger T controller
              (l\<lparr>sl_unlocking := sl_unlocking l @ [\<lparr>chunk_value = v, chunk_era = era\<rparr>],
                 sl_active := remaining\<rparr>)))))))))"

definition kill_stash :: "'w staking_config \<Rightarrow> account_id \<Rightarrow> ('w staking_state, unit) dispatch" where
  "kill_stash T stash =
     bind (gets (\<lambda>s. Bonded s stash)) (\<lambda>bonded.
     bind (ok_or bonded (staking_err NotStash)) (\<lambda>controller.
     bind (clear_stash_metadata stash 1000) (\<lambda>_.
     modify (\<lambda>s.
       (on_staking_world (rewarder_remove_payee T stash)
         (s\<lparr>Bonded := (Bonded s)(stash := None), Ledger := (Ledger s)(controller := None)\<rparr>))
           \<lparr>Validators := (Validators s)(stash := None), Nominators := (Nominators s)(stash := None)\<rparr>))))"

definition withdraw_unbonded :: "'w staking_config \<Rightarrow> origin \<Rightarrow> ('w staking_state, unit) dispatch" where
  "withdraw_unbonded T orig =
     bind election_closed (\<lambda>_.
     bind (signed orig) (\<lambda>controller.
     bind (controller_ledger controller) (\<lambda>old.
     bind (gets CurrentEra) (\<lambda>current.
     let l = (case current of Some era \<Rightarrow> consolidate_unlocked era old | None \<Rightarrow> old)
     in bind (if sl_unlocking l = [] \<and> sl_active l = 0 then
                bind (modify (on_staking_world (sc_remove_lock (stk_currency T) STAKING_ID (sl_stash l)))) (\<lambda>_.
                kill_stash T (sl_stash l))
              else modify (update_ledger T controller l)) (\<lambda>_.
        if sl_total l < sl_total old
        then modify (staking_deposit_event (Withdrawn (sl_stash old) (sl_total old - sl_total l)))
        else ret ())))))"

section \<open>Roles\<close>

definition staking_validate :: "'w staking_config \<Rightarrow> origin \<Rightarrow> validator_prefs \<Rightarrow> ('w staking_state, unit) dispatch" where
  "staking_validate T orig prefs =
     bind election_closed (\<lambda>_.
     bind (signed orig) (\<lambda>controller.
     bind (controller_ledger controller) (\<lambda>l.
     bind (gets MinimumBond) (\<lambda>minimum.
     bind (ensure (minimum \<le> sl_active l) (staking_err InsufficientBond)) (\<lambda>_.
     modify (\<lambda>s. s\<lparr>Nominators := (Nominators s)(sl_stash l := None),
       Validators := (Validators s)
         (sl_stash l \<mapsto> \<lparr>commission = min (commission prefs) (pb_one (stk_perbill T))\<rparr>)\<rparr>))))))"

definition nominate :: "origin \<Rightarrow> account_id list \<Rightarrow> ('w staking_state, unit) dispatch" where
  "nominate orig targets =
     bind election_closed (\<lambda>_.
     bind (signed orig) (\<lambda>controller.
     bind (controller_ledger controller) (\<lambda>l.
     bind (gets MinimumBond) (\<lambda>minimum.
     bind (ensure (minimum \<le> sl_active l) (staking_err InsufficientBond)) (\<lambda>_.
     bind (ensure (targets \<noteq> []) (staking_err EmptyTargets)) (\<lambda>_.
     bind (ensure (card (set targets) = length targets) (staking_err DuplicateNominee)) (\<lambda>_.
     modify (\<lambda>s. s\<lparr>Validators := (Validators s)(sl_stash l := None),
       Nominators := (Nominators s)
         (sl_stash l \<mapsto> \<lparr>nom_targets = take MAX_NOMINATIONS targets,
            nom_submitted_in = (case CurrentEra s of Some e \<Rightarrow> e | None \<Rightarrow> 0)\<rparr>)\<rparr>))))))))"

definition chill :: "origin \<Rightarrow> ('w staking_state, unit) dispatch" where
  "chill orig =
     bind election_closed (\<lambda>_.
     bind (signed orig) (\<lambda>controller.
     bind (controller_ledger controller) (\<lambda>l.
     modify (chill_stash (sl_stash l)))))"

definition set_payee :: "'w staking_config \<Rightarrow> origin \<Rightarrow> reward_destination \<Rightarrow> ('w staking_state, unit) dispatch" where
  "set_payee T orig payee =
     bind (signed orig) (\<lambda>controller.
     bind (controller_ledger controller) (\<lambda>l.
     modify (on_staking_world (rewarder_set_payee T (sl_stash l) (payee_of payee (sl_stash l) controller)))))"

definition set_controller :: "origin \<Rightarrow> account_id \<Rightarrow> ('w staking_state, unit) dispatch" where
  "set_controller orig controller =
     bind (signed orig) (\<lambda>stash.
     bind (gets (\<lambda>s. Bonded s stash)) (\<lambda>bonded.
     bind (ok_or bonded (staking_err NotStash)) (\<lambda>old_controller.
     bind (gets (\<lambda>s. Ledger s controller)) (\<lambda>paired.
     bind (ensure (paired = None) (staking_err AlreadyPaired)) (\<lambda>_.
     if controller = old_controller then ret ()
     else
       bind (modify (\<lambda>s. s\<lparr>Bonded := (Bonded s)(stash \<mapsto> controller)\<rparr>)) (\<lambda>_.
       modify (\<lambda>s. case Ledger s old_controller of
                     None \<Rightarrow> s
                   | Some l \<Rightarrow> s\<lparr>Ledger := (Ledger s)(old_controller := None, controller \<mapsto> l)\<rparr>)))))))"

section \<open>Settings\<close>

definition set_validator_count :: "origin \<Rightarrow> u32 \<Rightarrow> ('w staking_state, unit) dispatch" where
  "set_validator_count orig new = bind (rooted orig) (\<lambda>_. modify (\<lambda>s. s\<lparr>ValidatorCount := new\<rparr>))"

definition increase_validator_count :: "origin \<Rightarrow> u32 \<Rightarrow> ('w staking_state, unit) dispatch" where
  "increase_validator_count orig additional =
     bind (rooted orig) (\<lambda>_. modify (\<lambda>s. s\<lparr>ValidatorCount := ValidatorCount s + additional\<rparr>))"

definition force_no_eras :: "origin \<Rightarrow> ('w staking_state, unit) dispatch" where
  "force_no_eras orig = bind (rooted orig) (\<lambda>_. modify (\<lambda>s. s\<lparr>ForceEra := ForceNone\<rparr>))"

definition force_new_era :: "origin \<Rightarrow> ('w staking_state, unit) dispatch" where
  "force_new_era orig = bind (rooted orig) (\<lambda>_. modify ensure_new_era)"

definition force_new_era_always :: "origin \<Rightarrow> ('w staking_state, unit) dispatch" where
  "force_new_era_always orig = bind (rooted orig) (\<lambda>_. modify (\<lambda>s. s\<lparr>ForceEra := ForceAlways\<rparr>))"

definition set_minimum_bond :: "origin \<Rightarrow> balance \<Rightarrow> ('w staking_state, unit) dispatch" where
  "set_minimum_bond orig v =
     bind (rooted orig) (\<lambda>_. modify (\<lambda>s. staking_deposit_event (SetMinimumBond v) (s\<lparr>MinimumBond := v\<rparr>)))"

definition set_invulnerables :: "origin \<Rightarrow> account_id list \<Rightarrow> ('w staking_state, unit) dispatch" where
  "set_invulnerables orig validators =
     bind (rooted orig) (\<lambda>_.
     modify (\<lambda>s. staking_deposit_event (SetInvulnerables validators) (s\<lparr>Invulnerables := validators\<rparr>)))"

definition force_unstake :: "'w staking_config \<Rightarrow> origin \<Rightarrow> account_id \<Rightarrow> ('w staking_state, unit) dispatch" where
  "force_unstake T orig stash =
     bind (rooted orig) (\<lambda>_.
     bind (kill_stash T stash) (\<lambda>_.
     modify (on_staking_world (sc_remove_lock (stk_currency T) STAKING_ID stash))))"

definition is_sorted_and_unique :: "u32 list \<Rightarrow> bool" where
  "is_sorted_and_unique xs \<longleftrightarrow> (\<forall>k < length xs - 1. xs ! k < xs ! Suc k)"

text \<open>The loop of \<open>cancel_deferred_slash\<close>: each index is lowered by the number of slashes already removed.\<close>

fun remove_slashes :: "nat \<Rightarrow> u32 list \<Rightarrow> 'a list \<Rightarrow> 'a list" where
  "remove_slashes removed [] xs = xs"
| "remove_slashes removed (i # is) xs = remove_slashes (Suc removed) is (remove_at (unat i - removed) xs)"

definition cancel_deferred_slash :: "origin \<Rightarrow> era_index \<Rightarrow> u32 list \<Rightarrow> ('w staking_state, unit) dispatch" where
  "cancel_deferred_slash orig era slash_indices =
     bind (rooted orig) (\<lambda>_.
     bind (ensure (slash_indices \<noteq> []) (staking_err EmptyTargets)) (\<lambda>_.
     bind (ensure (is_sorted_and_unique slash_indices) (staking_err NotSortedAndUnique)) (\<lambda>_.
     bind (gets (\<lambda>s. storage_get [] (UnappliedSlashes s) era)) (\<lambda>unapplied.
     bind (ensure (unat (last slash_indices) < length unapplied) (staking_err InvalidSlashIndex)) (\<lambda>_.
     modify (\<lambda>s. s\<lparr>UnappliedSlashes := (UnappliedSlashes s)(era \<mapsto> remove_slashes 0 slash_indices unapplied)\<rparr>))))))"

definition rebond :: "'w staking_config \<Rightarrow> origin \<Rightarrow> balance \<Rightarrow> ('w staking_state, unit) dispatch" where
  "rebond T orig v =
     bind election_closed (\<lambda>_.
     bind (signed orig) (\<lambda>controller.
     bind (controller_ledger controller) (\<lambda>l.
     bind (ensure (sl_unlocking l \<noteq> []) (staking_err NoUnlockChunk)) (\<lambda>_.
     bind (gets MinimumBond) (\<lambda>minimum.
     bind (ensure (minimum \<le> saturating_add (sl_active l) v) (staking_err InsufficientBond)) (\<lambda>_.
     modify (update_ledger T controller (ledger_rebond v l))))))))"

definition clear_era_information :: "era_index \<Rightarrow> 'w staking_state \<Rightarrow> 'w staking_state" where
  "clear_era_information era s =
     s\<lparr>ErasStakers := (ErasStakers s)(era := Map.empty), ErasStakersClipped := (ErasStakersClipped s)(era := Map.empty),
       ErasValidatorPrefs := (ErasValidatorPrefs s)(era := Map.empty), ErasTotalStake := (ErasTotalStake s)(era := None),
       ErasStartSessionIndex := (ErasStartSessionIndex s)(era := None)\<rparr>"

text \<open>The eras \<open>from..to\<close>, without \<open>to\<close>.\<close>

definition era_range :: "era_index \<Rightarrow> era_index \<Rightarrow> era_index list" where
  "era_range from to = map word_of_nat [unat from..<unat to]"

definition set_history_depth :: "origin \<Rightarrow> era_index \<Rightarrow> ('w staking_state, unit) dispatch" where
  "set_history_depth orig new_history_depth =
     bind (rooted orig) (\<lambda>_.
     bind (ensure (1 < new_history_depth) (staking_err IncorrectHistoryDepth)) (\<lambda>_.
     bind (gets CurrentEra) (\<lambda>current.
     case current of
       None \<Rightarrow> ret ()
     | Some current_era \<Rightarrow>
         modify (\<lambda>s. (fold clear_era_information
           (era_range (saturating_sub current_era (HistoryDepth s)) (saturating_sub current_era new_history_depth)) s)
             \<lparr>HistoryDepth := new_history_depth\<rparr>))))"

definition reap_stash :: "'w staking_config \<Rightarrow> account_id \<Rightarrow> ('w staking_state, unit) dispatch" where
  "reap_stash T stash =
     bind (gets (\<lambda>s. sc_total_balance (stk_currency T) stash (StakingWorld s) \<le>
       sc_minimum_balance (stk_currency T) (StakingWorld s))) (\<lambda>at_minimum_or_dust.
     bind (ensure at_minimum_or_dust (staking_err FundedTarget)) (\<lambda>_.
     bind (kill_stash T stash) (\<lambda>_.
     modify (on_staking_world (sc_remove_lock (stk_currency T) STAKING_ID stash)))))"

end
