(* ===== verification/Staking_Eras.thy ===== *)
theory Staking_Eras
  imports Staking
begin

text \<open>
  Elections, sessions, eras and offences of the staking pallet (\<open>crml/staking/src/lib.rs\<close>). The election algorithm,
  the compact encoding of its solutions and their scores are library or generated code and come as a parameter.
\<close>

section \<open>Elections\<close>

type_synonym assignment = "account_id \<times> (account_id \<times> nat) list"
type_synonym staked_assignment = "account_id \<times> (account_id \<times> u128) list"
type_synonym supports = "(account_id \<times> (account_id \<times> u128) list) list"

record 'c npos =
  seq_phragmen :: "nat \<Rightarrow> account_id list \<Rightarrow> (account_id \<times> u64 \<times> account_id list) list \<Rightarrow>
    (account_id list \<times> assignment list) option"
  ratio_to_staked_normalized :: "assignment list \<Rightarrow> (account_id \<Rightarrow> u64) \<Rightarrow> staked_assignment list option"
  ratio_to_staked :: "assignment list \<Rightarrow> (account_id \<Rightarrow> u64) \<Rightarrow> staked_assignment list"
  to_supports :: "staked_assignment list \<Rightarrow> supports"
  evaluate :: "supports \<Rightarrow> election_score"
  is_score_better :: "election_score \<Rightarrow> election_score \<Rightarrow> perbill \<Rightarrow> bool"
  unique_targets :: "'c \<Rightarrow> 16 word list"
  into_assignment :: "'c \<Rightarrow> (u32 \<Rightarrow> account_id option) \<Rightarrow> (16 word \<Rightarrow> account_id option) \<Rightarrow> assignment list option"
  offchain_accuracy_one :: nat

definition slashable_balance_of :: "account_id \<Rightarrow> 'w staking_state \<Rightarrow> balance" where
  "slashable_balance_of stash s =
     (case Bonded s stash of
        None \<Rightarrow> 0
      | Some controller \<Rightarrow> (case Ledger s controller of None \<Rightarrow> 0 | Some l \<Rightarrow> sl_active l))"

definition slashable_balance_of_fn :: "'w staking_config \<Rightarrow> 'w staking_state \<Rightarrow> account_id \<Rightarrow> u64" where
  "slashable_balance_of_fn T s =
     (let issuance = sc_total_issuance (stk_currency T) (StakingWorld s)
      in (\<lambda>who. to_vote T (slashable_balance_of who s) issuance))"

definition create_stakers_snapshot ::
  "'w staking_config \<Rightarrow> 'w staking_state \<Rightarrow> (bool \<times> u64) \<times> 'w staking_state" where
  "create_stakers_snapshot T s =
     (let validators = key_order T (dom (Validators s));
          nominators = key_order T (dom (Nominators s));
          weight = reads_writes T (word_of_nat (length validators + length nominators)) 0
      in if MAX_VALIDATORS < length validators \<or> MAX_NOMINATORS < length nominators + length validators
         then ((False, weight), s)
         else ((True, weight + reads_writes T 0 2),
               s\<lparr>SnapshotValidators := Some validators, SnapshotNominators := Some (nominators @ validators)\<rparr>))"

definition kill_stakers_snapshot :: "'w staking_state \<Rightarrow> 'w staking_state" where
  "kill_stakers_snapshot s = s\<lparr>SnapshotValidators := None, SnapshotNominators := None\<rparr>"

text \<open>Nominations of stashes that were slashed since are ignored.\<close>

definition nominator_votes :: "nominations \<Rightarrow> 'w staking_state \<Rightarrow> account_id list" where
  "nominator_votes n s =
     filter (\<lambda>stash. case SlashingSpans s stash of
         None \<Rightarrow> True
       | Some ss \<Rightarrow> ss_last_nonzero_slash ss \<le> nom_submitted_in n) (nom_targets n)"

definition do_phragmen ::
  "'w staking_config \<Rightarrow> 'c npos \<Rightarrow> 'w staking_state \<Rightarrow> (account_id list \<times> assignment list) option" where
  "do_phragmen T N s =
     (let weight_of = slashable_balance_of_fn T s;
          all_validators = key_order T (dom (Validators s));
          self_votes = map (\<lambda>v. (v, weight_of v, [v])) all_validators;
          votes = map (\<lambda>n. (n, weight_of n, nominator_votes (the (Nominators s n)) s)) (key_order T (dom (Nominators s)))
      in if length all_validators < unat (max (MinimumValidatorCount s) 1) then None
         else seq_phragmen N (unat (ValidatorCount s)) all_validators (self_votes @ votes))"

text \<open>One validator of \<open>collect_exposures\<close>: own stake, the stakes of others and the total.\<close>

fun collect_voters ::
  "account_id \<Rightarrow> (account_id \<times> balance) list \<Rightarrow> exposure \<Rightarrow> exposure" where
  "collect_voters validator [] e = e"
| "collect_voters validator ((who, stake) # voters) e =
     collect_voters validator voters
       ((if who = validator then e\<lparr>exp_own := saturating_add (exp_own e) stake\<rparr>
         else e\<lparr>exp_others := exp_others e @ [\<lparr>ie_who = who, ie_value = stake\<rparr>]\<rparr>)
        \<lparr>exp_total := saturating_add (exp_total e) stake\<rparr>)"

definition collect_exposures ::
  "'w staking_config \<Rightarrow> supports \<Rightarrow> 'w staking_state \<Rightarrow> (account_id \<times> exposure) list" where
  "collect_exposures T supports s =
     (let issuance = sc_total_issuance (stk_currency T) (StakingWorld s)
      in map (\<lambda>(validator, voters).
           (validator, collect_voters validator (map (\<lambda>(who, weight). (who, to_currency T weight issuance)) voters)
              exposure_default)) supports)"

definition do_on_chain_phragmen ::
  "'w staking_config \<Rightarrow> 'c npos \<Rightarrow> 'w staking_state \<Rightarrow> election_result option" where
  "do_on_chain_phragmen T N s =
     (case do_phragmen T N s of
        None \<Rightarrow> None
      | Some (winners, assignments) \<Rightarrow>
          (case ratio_to_staked_normalized N assignments (slashable_balance_of_fn T s) of
             None \<Rightarrow> None
           | Some staked \<Rightarrow>
               Some \<lparr>elected_stashes = winners, er_exposures = collect_exposures T (to_supports N staked) s,
                     er_compute = OnChain\<rparr>))"

definition try_do_election ::
  "'w staking_config \<Rightarrow> 'c npos \<Rightarrow> 'w staking_state \<Rightarrow> election_result option \<times> 'w staking_state" where
  "try_do_election T N s =
     (let next = (case QueuedElected s of Some r \<Rightarrow> Some r | None \<Rightarrow> do_on_chain_phragmen T N s)
      in (next, s\<lparr>QueuedElected := None, QueuedScore := None\<rparr>))"

subsection \<open>Submitted solutions\<close>

definition pre_dispatch_checks ::
  "'w staking_config \<Rightarrow> 'c npos \<Rightarrow> election_score \<Rightarrow> era_index \<Rightarrow> 'w staking_state \<Rightarrow> dispatch_error + unit" where
  "pre_dispatch_checks T N score era s =
     result_bind (result_ensure (\<not> is_closed (EraElectionStatus s)) (staking_err OffchainElectionEarlySubmission)) (\<lambda>_.
     result_bind (case CurrentEra s of
                    None \<Rightarrow> Inr ()
                  | Some current \<Rightarrow> result_ensure (current = era) (staking_err OffchainElectionEarlySubmission)) (\<lambda>_.
     (case QueuedScore s of
        None \<Rightarrow> Inr ()
      | Some queued \<Rightarrow> result_ensure (is_score_better N score queued (min_solution_score_bump T))
          (staking_err OffchainElectionWeakSubmission))))"

fun check_targets :: "nominations \<Rightarrow> (account_id \<times> nat) list \<Rightarrow> 'w staking_state \<Rightarrow> dispatch_error + unit" where
  "check_targets n [] s = Inr ()"
| "check_targets n ((t, _) # rest) s =
     (if t \<notin> set (nom_targets n) then Inl (staking_err OffchainElectionBogusNomination)
      else if (case SlashingSpans s t of None \<Rightarrow> False | Some ss \<Rightarrow> nom_submitted_in n < ss_last_nonzero_slash ss)
      then Inl (staking_err OffchainElectionSlashedNomination)
      else check_targets n rest s)"

definition check_self_vote :: "nat \<Rightarrow> account_id \<Rightarrow> (account_id \<times> nat) list \<Rightarrow> dispatch_error + unit" where
  "check_self_vote one who distribution =
     (case distribution of
        [(t, p)] \<Rightarrow> result_ensure (t = who \<and> p = one) (staking_err OffchainElectionBogusSelfVote)
      | _ \<Rightarrow> Inl (staking_err OffchainElectionBogusSelfVote))"

fun check_assignments :: "nat \<Rightarrow> assignment list \<Rightarrow> 'w staking_state \<Rightarrow> dispatch_error + unit" where
  "check_assignments one [] s = Inr ()"
| "check_assignments one ((who, distribution) # rest) s =
     (if (Nominators s who \<noteq> None) = (Validators s who \<noteq> None)
      then Inl (staking_err OffchainElectionBogusNominator)
      else
        result_bind (case Nominators s who of
                       Some n \<Rightarrow> check_targets n distribution s
                     | None \<Rightarrow> check_self_vote one who distribution) (\<lambda>_.
        check_assignments one rest s))"

definition nth_option :: "'a list \<Rightarrow> nat \<Rightarrow> 'a option" where
  "nth_option xs i = (if i < length xs then Some (xs ! i) else None)"

fun winner_ids :: "account_id list \<Rightarrow> 16 word list \<Rightarrow> dispatch_error + account_id list" where
  "winner_ids snapshot [] = Inr []"
| "winner_ids snapshot (i # is) =
     result_bind (result_ok_or (nth_option snapshot (unat i)) (staking_err OffchainElectionBogusWinner)) (\<lambda>w.
     result_bind (winner_ids snapshot is) (\<lambda>ws. Inr (w # ws)))"

definition check_and_replace_solution ::
  "'w staking_config \<Rightarrow> 'c npos \<Rightarrow> 16 word list \<Rightarrow> 'c \<Rightarrow> election_compute \<Rightarrow> election_score \<Rightarrow> era_index \<Rightarrow>
    election_size \<Rightarrow> ('w staking_state, unit) dispatch" where
  "check_and_replace_solution T N winners compact compute claimed_score era sizes =
     bind (try_result (pre_dispatch_checks T N claimed_score era)) (\<lambda>_.
     bind (ensure (length (unique_targets N compact) = length winners) (staking_err OffchainElectionBogusWinnerCount)) (\<lambda>_.
     bind (gets SnapshotValidators) (\<lambda>found.
     bind (ok_or found (staking_err SnapshotUnavailable)) (\<lambda>snapshot_validators.
     let validators_len = word_of_nat (length snapshot_validators) :: u32
     in bind (ensure (validators_len = ucast (es_validators sizes)) (staking_err OffchainElectionBogusElectionSize)) (\<lambda>_.
     bind (gets ValidatorCount) (\<lambda>count.
     bind (ensure ((word_of_nat (length winners) :: u32) = min count validators_len)
       (staking_err OffchainElectionBogusWinnerCount)) (\<lambda>_.
     bind (gets SnapshotNominators) (\<lambda>found'.
     bind (ok_or found' (staking_err SnapshotUnavailable)) (\<lambda>snapshot_nominators.
     bind (ensure ((word_of_nat (length snapshot_nominators) :: u32) = es_nominators sizes)
       (staking_err OffchainElectionBogusElectionSize)) (\<lambda>_.
     bind (try_result (\<lambda>_. winner_ids snapshot_validators winners)) (\<lambda>winner_stashes.
     bind (ok_or (into_assignment N compact (\<lambda>i. nth_option snapshot_nominators (unat i))
         (\<lambda>i. nth_option snapshot_validators (unat i))) (staking_err OffchainElectionBogusCompact)) (\<lambda>assignments.
     bind (try_result (check_assignments (offchain_accuracy_one N) assignments)) (\<lambda>_.
     bind (gets (\<lambda>s. to_supports N (ratio_to_staked N assignments (slashable_balance_of_fn T s)))) (\<lambda>supports.
     bind (ensure (evaluate N supports = claimed_score) (staking_err OffchainElectionBogusScore)) (\<lambda>_.
     modify (\<lambda>s. staking_deposit_event (SolutionStored compute)
       (s\<lparr>QueuedElected := Some \<lparr>elected_stashes = winner_stashes, er_exposures = collect_exposures T supports s,
            er_compute = compute\<rparr>,
          QueuedScore := Some (evaluate N supports)\<rparr>)))))))))))))))))"

definition submit_election_solution ::
  "'w staking_config \<Rightarrow> 'c npos \<Rightarrow> origin \<Rightarrow> 16 word list \<Rightarrow> 'c \<Rightarrow> election_score \<Rightarrow> era_index \<Rightarrow> election_size \<Rightarrow>
    ('w staking_state, unit) dispatch" where
  "submit_election_solution T N orig winners compact score era sizes =
     bind (signed orig) (\<lambda>_. check_and_replace_solution T N winners compact ComputeSigned score era sizes)"

definition submit_election_solution_unsigned ::
  "'w staking_config \<Rightarrow> 'c npos \<Rightarrow> origin \<Rightarrow> 16 word list \<Rightarrow> 'c \<Rightarrow> election_score \<Rightarrow> era_index \<Rightarrow> election_size \<Rightarrow>
    ('w staking_state, unit) dispatch" where
  "submit_election_solution_unsigned T N orig winners compact score era sizes =
     bind (ensure (orig = Unsigned) BadOrigin) (\<lambda>_.
     \<lambda>s. case check_and_replace_solution T N winners compact ComputeUnsigned score era sizes s of
           (Inr u, s') \<Rightarrow> (Inr u, s')
         | (Inl _, s') \<Rightarrow> (Inl Panic, s'))"

section \<open>Eras\<close>

definition close_election_window :: "'w staking_state \<Rightarrow> 'w staking_state" where
  "close_election_window s =
     (kill_stakers_snapshot (s\<lparr>EraElectionStatus := Closed\<rparr>))\<lparr>IsCurrentSessionFinal := False\<rparr>"

definition clip_exposure :: "nat \<Rightarrow> exposure \<Rightarrow> exposure" where
  "clip_exposure n e =
     (if n < length (exp_others e)
      then e\<lparr>exp_others := take n (sort_key (\<lambda>x. - uint (ie_value x)) (exp_others e))\<rparr>
      else e)"

definition insert_exposure ::
  "'w staking_config \<Rightarrow> era_index \<Rightarrow> account_id \<times> exposure \<Rightarrow> balance \<times> 'w staking_state \<Rightarrow> balance \<times> 'w staking_state" where
  "insert_exposure T era x acc =
     (let (stash, e) = x; (stake, s) = acc
      in (saturating_add stake (exp_total e),
          s\<lparr>ErasStakers := (ErasStakers s)(era := (ErasStakers s era)(stash \<mapsto> e)),
            ErasStakersClipped := (ErasStakersClipped s)
              (era := (ErasStakersClipped s era)(stash \<mapsto> clip_exposure (unat (max_nominator_rewarded T)) e))\<rparr>))"

definition validator_prefs_default :: validator_prefs where
  "validator_prefs_default = \<lparr>commission = 0\<rparr>"

definition insert_prefs :: "era_index \<Rightarrow> account_id \<Rightarrow> 'w staking_state \<Rightarrow> 'w staking_state" where
  "insert_prefs era stash s =
     s\<lparr>ErasValidatorPrefs := (ErasValidatorPrefs s)
        (era := (ErasValidatorPrefs s era)(stash \<mapsto> storage_get validator_prefs_default (Validators s) stash))\<rparr>"

definition select_and_update_validators ::
  "'w staking_config \<Rightarrow> 'c npos \<Rightarrow> era_index \<Rightarrow> 'w staking_state \<Rightarrow> account_id list option \<times> 'w staking_state" where
  "select_and_update_validators T N current_era s =
     (case try_do_election T N s of
        (None, s1) \<Rightarrow> (None, s1)
      | (Some r, s1) \<Rightarrow>
          (case fold (insert_exposure T current_era) (er_exposures r) (0, close_election_window s1) of
             (total_stake, s2) \<Rightarrow>
               (let s3 = s2\<lparr>ErasTotalStake := (ErasTotalStake s2)(current_era \<mapsto> total_stake)\<rparr>;
                    s4 = fold (insert_prefs current_era) (elected_stashes r) s3
                in (Some (elected_stashes r), staking_deposit_event (StakingElection (er_compute r)) s4))))"

definition new_era ::
  "'w staking_config \<Rightarrow> 'c npos \<Rightarrow> session_index \<Rightarrow> 'w staking_state \<Rightarrow> account_id list option \<times> 'w staking_state" where
  "new_era T N start_session_index s =
     (let current_era = (case CurrentEra s of Some e \<Rightarrow> e + 1 | None \<Rightarrow> 0);
          s1 = s\<lparr>CurrentEra := Some current_era,
                 ErasStartSessionIndex := (ErasStartSessionIndex s)(current_era \<mapsto> start_session_index)\<rparr>;
          s2 = (case checked_sub current_era (HistoryDepth s1 + 1) of
                  Some old_era \<Rightarrow> clear_era_information old_era s1
                | None \<Rightarrow> s1)
      in select_and_update_validators T N current_era s2)"

definition will_era_be_forced :: "'w staking_state \<Rightarrow> bool" where
  "will_era_be_forced s \<longleftrightarrow> ForceEra s = ForceAlways \<or> ForceEra s = ForceNew"

text \<open>The flags of the sessions that \<open>new_session\<close> moves on before it decides.\<close>

definition mark_sessions :: "'w staking_state \<Rightarrow> 'w staking_state" where
  "mark_sessions s =
     (let s1 = (if will_era_be_forced s then s\<lparr>WasEndEraForced := True\<rparr> else s);
          s2 = (if IsActiveSessionFinal s1 then s1\<lparr>IsActiveSessionFinal := False\<rparr> else s1)
      in if IsCurrentSessionFinal s2 then s2\<lparr>IsCurrentSessionFinal := False, IsActiveSessionFinal := True\<rparr> else s2)"

definition new_session ::
  "'w staking_config \<Rightarrow> 'c npos \<Rightarrow> session_index \<Rightarrow> 'w staking_state \<Rightarrow> account_id list option \<times> 'w staking_state" where
  "new_session T N session_index s =
     (case CurrentEra s of
        None \<Rightarrow> new_era T N session_index s
      | Some current_era \<Rightarrow>
          (let start = (case ErasStartSessionIndex s current_era of Some i \<Rightarrow> i | None \<Rightarrow> 0);
               era_length = saturating_sub session_index start;
               s1 = mark_sessions s
           in case ForceEra s1 of
                ForceNew \<Rightarrow> new_era T N session_index (s1\<lparr>ForceEra := NotForcing\<rparr>)
              | ForceAlways \<Rightarrow> new_era T N session_index s1
              | NotForcing \<Rightarrow>
                  if sessions_per_era T \<le> era_length then new_era T N session_index s1
                  else (None, if era_length + 1 = sessions_per_era T then s1\<lparr>IsCurrentSessionFinal := True\<rparr> else s1)
              | ForceNone \<Rightarrow>
                  (None, if era_length + 1 = sessions_per_era T then s1\<lparr>IsCurrentSessionFinal := True\<rparr>
                         else if sessions_per_era T \<le> era_length then close_election_window s1
                         else s1)))"

definition apply_unapplied_slashes :: "'w staking_config \<Rightarrow> era_index \<Rightarrow> 'w staking_state \<Rightarrow> 'w staking_state" where
  "apply_unapplied_slashes T active_era s =
     (case EarliestUnappliedSlash s of
        None \<Rightarrow> s
      | Some earliest \<Rightarrow>
          (let keep_from = saturating_sub active_era (slash_defer_duration T);
               s' = fold (\<lambda>era s. fold (apply_slash T) (storage_get [] (UnappliedSlashes s) era)
                             (s\<lparr>UnappliedSlashes := (UnappliedSlashes s)(era := None)\<rparr>))
                      (era_range earliest keep_from) s
           in s'\<lparr>EarliestUnappliedSlash := Some (max earliest keep_from)\<rparr>))"

definition prune_bonded_eras ::
  "'w staking_config \<Rightarrow> era_index \<Rightarrow> session_index \<Rightarrow> 'w staking_state \<Rightarrow> 'w staking_state" where
  "prune_bonded_eras T active_era start_session s =
     (let bonded = BondedEras s @ [(active_era, start_session)]
      in if active_era \<le> bonding_duration T then s\<lparr>BondedEras := bonded\<rparr>
         else
           (let first_kept = active_era - bonding_duration T;
                pruned = takeWhile (\<lambda>(era, _). era < first_kept) bonded;
                kept = drop (length pruned) bonded;
                s1 = fold (\<lambda>(era, _). clear_era_metadata era) pruned s;
                s2 = (case kept of
                        [] \<Rightarrow> s1
                      | (_, first_session) # _ \<Rightarrow> on_staking_world (prune_historical_up_to T first_session) s1)
            in s2\<lparr>BondedEras := kept\<rparr>))"

definition start_era :: "'w staking_config \<Rightarrow> session_index \<Rightarrow> 'w staking_state \<Rightarrow> 'w staking_state" where
  "start_era T start_session s =
     (let active_era = (case ActiveEra s of Some info \<Rightarrow> era_idx info + 1 | None \<Rightarrow> 0);
          s1 = s\<lparr>ActiveEra := Some \<lparr>era_idx = active_era, era_start = None\<rparr>\<rparr>
      in apply_unapplied_slashes T active_era (prune_bonded_eras T active_era start_session s1))"

definition start_session :: "'w staking_config \<Rightarrow> session_index \<Rightarrow> 'w staking_state \<Rightarrow> 'w staking_state" where
  "start_session T start s =
     (let next_active_era = (case ActiveEra s of Some info \<Rightarrow> era_idx info + 1 | None \<Rightarrow> 0);
          s1 = (case ErasStartSessionIndex s next_active_era of
                  None \<Rightarrow> s
                | Some i \<Rightarrow> if i \<le> start then start_era T start s else s)
      in fold (\<lambda>(i, disabled) s. if disabled then on_staking_world (disable_validator T i) s else s)
           (OffendingValidators s1) s1)"

definition end_era :: "'w staking_config \<Rightarrow> active_era_info \<Rightarrow> 'w staking_state \<Rightarrow> 'w staking_state" where
  "end_era T active_era s =
     (let validators = key_order T (dom (ErasValidatorPrefs s (era_idx active_era)));
          start = (case era_start active_era of Some t \<Rightarrow> t | None \<Rightarrow> 0);
          duration = unix_now_millis T (StakingWorld s) - start
      in (on_staking_world (rewarder_on_end_era T validators (era_idx active_era) duration (WasEndEraForced s)) s)
           \<lparr>WasEndEraForced := False, OffendingValidators := []\<rparr>)"

definition end_session :: "'w staking_config \<Rightarrow> session_index \<Rightarrow> 'w staking_state \<Rightarrow> 'w staking_state" where
  "end_session T session_index s =
     (case ActiveEra s of
        None \<Rightarrow> s
      | Some active_era \<Rightarrow>
          (case ErasStartSessionIndex s (era_idx active_era + 1) of
             None \<Rightarrow> s
           | Some i \<Rightarrow> if i = session_index + 1 then end_era T active_era s else s))"

section \<open>Offences\<close>

text \<open>One offender of the loop in \<open>on_offence\<close>, with the weight so far.\<close>

definition handle_offender ::
  "'w staking_config \<Rightarrow> era_index \<Rightarrow> era_index \<Rightarrow> disable_strategy \<Rightarrow> offence_details \<times> perbill \<Rightarrow>
    u64 \<times> 'w staking_state \<Rightarrow> u64 \<times> 'w staking_state" where
  "handle_offender T slash_era active_era strategy x acc =
     (let (details, fraction) = x; (weight, s) = acc; (stash, e) = od_offender details
      in if stash \<in> set (Invulnerables s) then (weight, s)
         else
           (case compute_slash T
                   \<lparr>sp_stash = stash, sp_slash = fraction, sp_exposure = e, sp_slash_era = slash_era,
                    sp_window_start = saturating_sub active_era (bonding_duration T), sp_now = active_era,
                    sp_reward_proportion = SlashRewardFraction s, sp_disable_strategy = strategy\<rparr> s of
              (None, s1) \<Rightarrow> (weight + reads_writes T 4 5, s1)
            | (Some u, s1) \<Rightarrow>
                (let n = word_of_nat (length (us_others u)) :: u64;
                     r = word_of_nat (length (od_reporters details)) :: u64;
                     u' = u\<lparr>us_reporters := od_reporters details\<rparr>;
                     weight1 = weight + reads_writes T (3 + n * 3) (3 + n * 3)
                 in if slash_defer_duration T = 0 then
                      (weight1 + reads_writes T ((1 + n) * 6 + 2 * r) ((1 + n) * 5 + 2 * r), apply_slash T u' s1)
                    else
                      (weight1 + reads_writes T 1 1,
                       s1\<lparr>UnappliedSlashes := storage_mutate [] (\<lambda>us. us @ [u']) active_era (UnappliedSlashes s1)\<rparr>))))"

definition offence_era :: "era_index \<Rightarrow> session_index \<Rightarrow> session_index \<Rightarrow> (era_index \<times> session_index) list \<Rightarrow> era_index option" where
  "offence_era active_era active_era_start slash_session eras =
     (if active_era_start \<le> slash_session then Some active_era
      else map_option fst (find (\<lambda>(_, session). session \<le> slash_session) (rev eras)))"

definition on_offence ::
  "'w staking_config \<Rightarrow> offence_details list \<Rightarrow> perbill list \<Rightarrow> session_index \<Rightarrow> disable_strategy \<Rightarrow>
    'w staking_state \<Rightarrow> u64 \<times> 'w staking_state" where
  "on_offence T offenders slash_fraction slash_session strategy s =
     (if \<not> is_closed (EraElectionStatus s)
      then (0, s\<lparr>DeferredOffences := DeferredOffences s @ [(offenders, slash_fraction, slash_session)]\<rparr>)
      else
        case ActiveEra s of
          None \<Rightarrow> (reads_writes T 1 0, s)
        | Some info \<Rightarrow>
            (let active_era = era_idx info;
                 start = (case ErasStartSessionIndex s active_era of Some i \<Rightarrow> i | None \<Rightarrow> 0);
                 weight = reads_writes T 1 0 + reads_writes T 1 0 +
                   (if start \<le> slash_session then 0 else reads_writes T 1 0)
             in case offence_era active_era start slash_session (BondedEras s) of
                  None \<Rightarrow> (weight, s)
                | Some slash_era \<Rightarrow>
                    (let s1 = s\<lparr>EarliestUnappliedSlash := (case EarliestUnappliedSlash s of
                             None \<Rightarrow> Some active_era | Some e \<Rightarrow> Some e)\<rparr>
                     in fold (handle_offender T slash_era active_era strategy) (zip offenders slash_fraction)
                          (weight + reads_writes T 1 1 + reads_writes T 1 0, s1))))"

text \<open>
  \<open>offences_on_initialize\<close> reports deferred offences again until the weight limit is reached. The list is
  taken out of storage, changed and written back, so what a report writes to it meanwhile is lost; a report
  writes to it only while an election is open.
\<close>

fun report_deferred ::
  "'w staking_config \<Rightarrow> (offence_details list \<times> perbill list \<times> session_index) list \<Rightarrow> u64 \<Rightarrow> 'w staking_state \<Rightarrow>
    (offence_details list \<times> perbill list \<times> session_index) list \<times> 'w staking_state" where
  "report_deferred T [] consumed s = ([], s)"
| "report_deferred T ((offences, fractions, session) # rest) consumed s =
     (if weight_soft_limit T \<le> consumed then
        (case report_deferred T rest consumed s of (kept, s') \<Rightarrow> ((offences, fractions, session) # kept, s'))
      else
        (case on_offence T offences fractions session WhenSlashed s of
           (weight, s') \<Rightarrow> report_deferred T rest (consumed + weight) s'))"

definition offences_on_initialize :: "'w staking_config \<Rightarrow> 'w staking_state \<Rightarrow> 'w staking_state" where
  "offences_on_initialize T s =
     (if \<not> is_closed (EraElectionStatus s) then s
      else case report_deferred T (DeferredOffences s) 0 s of (kept, s') \<Rightarrow> s'\<lparr>DeferredOffences := kept\<rparr>)"

section \<open>Blocks\<close>

definition staking_on_initialize :: "'w staking_config \<Rightarrow> block_number \<Rightarrow> 'w staking_state \<Rightarrow> u64 \<times> 'w staking_state" where
  "staking_on_initialize T now s =
     (let due = is_closed (EraElectionStatus s) \<and> (IsCurrentSessionFinal s \<or> will_era_be_forced s);
          soon = (case next_new_session T now (StakingWorld s) of
                    None \<Rightarrow> False
                  | Some next \<Rightarrow>
                      (case checked_sub next now of
                         None \<Rightarrow> False
                       | Some remaining \<Rightarrow> remaining \<le> election_lookahead T \<and> remaining \<noteq> 0));
          (weight, s1) =
            (if due \<and> soon then
               (case create_stakers_snapshot T s of
                  ((True, w), s') \<Rightarrow>
                    (reads_writes T 0 0 + w + reads_writes T 0 1, s'\<lparr>EraElectionStatus := Open now\<rparr>)
                | ((False, w), s') \<Rightarrow> (reads_writes T 0 0 + w, s'))
             else (0, s))
      in (weight + reads_writes T 3 0 + reads_writes T 1 0, offences_on_initialize T s1))"

definition staking_on_finalize :: "'w staking_config \<Rightarrow> 'w staking_state \<Rightarrow> 'w staking_state" where
  "staking_on_finalize T s =
     (case ActiveEra s of
        None \<Rightarrow> s
      | Some info \<Rightarrow>
          if era_start info = None
          then s\<lparr>ActiveEra := Some (info\<lparr>era_start := Some (unix_now_millis T (StakingWorld s))\<rparr>)\<rparr>
          else s)"

text \<open>\<open>FilterHistoricalOffences\<close>: reports from before the bonding period are discarded.\<close>

definition report_offence ::
  "(account_id list \<Rightarrow> 'o \<Rightarrow> 'w staking_state \<Rightarrow> ('e + unit) \<times> 'w staking_state) \<Rightarrow> ('o \<Rightarrow> session_index) \<Rightarrow>
    account_id list \<Rightarrow> 'o \<Rightarrow> 'w staking_state \<Rightarrow> ('e + unit) \<times> 'w staking_state" where
  "report_offence report session_of reporters offence s =
     (if (case BondedEras s of [] \<Rightarrow> False | (_, start) # _ \<Rightarrow> start \<le> session_of offence)
      then report reporters offence s
      else (Inr (), staking_deposit_event (OldSlashingReportDiscarded (session_of offence)) s))"

definition accrued_payout :: "'w staking_config \<Rightarrow> account_id \<Rightarrow> 'w staking_state \<Rightarrow> balance" where
  "accrued_payout T stash s =
     (case ActiveEra s of
        None \<Rightarrow> 0
      | Some info \<Rightarrow>
          (case era_start info of
             None \<Rightarrow> 0
           | Some start \<Rightarrow>
               (let era = era_idx info;
                    prefs = ErasValidatorPrefs s era;
                    entries = map (\<lambda>v. (v, commission (the (prefs v)),
                        storage_get exposure_default (ErasStakersClipped s era) v)) (key_order T (dom prefs))
                in rewarder_individual_reward T stash (unix_now_millis T (StakingWorld s) - start) entries
                     (StakingWorld s))))"

definition total_staked :: "'w staking_state \<Rightarrow> balance" where
  "total_staked s = storage_get 0 (ErasTotalStake s) (case CurrentEra s of Some e \<Rightarrow> e | None \<Rightarrow> 0)"

definition active_balance :: "account_id \<Rightarrow> 'w staking_state \<Rightarrow> balance" where
  "active_balance controller s = (case Ledger s controller of Some l \<Rightarrow> sl_active l | None \<Rightarrow> 0)"

end
