(* ===== verification/Rewards.thy ===== *)
theory Rewards
  imports Staking_Types
begin

text \<open>
  The rewards pallet (\<open>crml/staking/src/rewards\<close>) and the payout runner of the runtime
  (\<open>ScheduledPayoutRunner\<close> in \<open>runtime/src/impls.rs\<close>): reward points, the split of an era's reward between
  validators and their nominators, payouts that are scheduled and run in idle blocks. The reward currency, the
  staking storage that the runner reads, weights and the arithmetic of \<open>Perbill\<close> and \<open>FixedU128\<close> come with the
  configuration.
\<close>

section \<open>Configuration and storage\<close>

type_synonym reward_point = u32
type_synonym fixed_u128 = u128

record 'w rewards_config =
  rew_perbill :: perbill_ops
  fx_saturating_from_rational :: "nat \<Rightarrow> nat \<Rightarrow> fixed_u128"
  fx_saturating_mul_int :: "fixed_u128 \<Rightarrow> u128 \<Rightarrow> u128"
  rc_total_issuance :: "'w \<Rightarrow> balance"
  rc_deposit_creating :: "account_id \<Rightarrow> balance \<Rightarrow> 'w \<Rightarrow> positive_imbalance \<times> 'w"
  rc_burn :: "balance \<Rightarrow> 'w \<Rightarrow> positive_imbalance \<times> 'w"
  rc_drop_positive :: "positive_imbalance \<Rightarrow> 'w \<Rightarrow> 'w"
  treasury_account :: account_id
  historical_payout_eras :: "16 word"
  fiscal_era_length :: u32
  rew_reads :: "u64 \<Rightarrow> u64"
  rew_writes :: "u64 \<Rightarrow> u64"
  process_reward_payouts_weight :: "u32 \<Rightarrow> u64"
  payout_order :: "account_id set \<Rightarrow> account_id list"
  eras_stakers_clipped :: "'w \<Rightarrow> era_index \<Rightarrow> account_id \<Rightarrow> exposure"
  eras_validator_prefs :: "'w \<Rightarrow> era_index \<Rightarrow> account_id \<Rightarrow> validator_prefs"

record era_reward_points =
  erp_total :: reward_point
  erp_individual :: "account_id \<rightharpoonup> reward_point"

definition era_reward_points_default :: era_reward_points where
  "era_reward_points_default = \<lparr>erp_total = 0, erp_individual = Map.empty\<rparr>"

record reward_parts =
  rp_inflation :: balance
  rp_transaction_fees :: balance
  rp_treasury_rate :: perbill
  rp_treasury_cut :: balance
  rp_stakers_cut :: balance
  rp_total :: balance

definition reward_parts_new :: "perbill_ops \<Rightarrow> balance \<Rightarrow> balance \<Rightarrow> perbill \<Rightarrow> reward_parts" where
  "reward_parts_new P inflation transaction_fees treasury_rate =
     (let whole = saturating_add transaction_fees inflation;
          treasury_cut = perbill_mul P treasury_rate transaction_fees
      in \<lparr>rp_inflation = inflation, rp_transaction_fees = transaction_fees, rp_treasury_rate = treasury_rate,
          rp_treasury_cut = treasury_cut, rp_stakers_cut = saturating_sub whole treasury_cut, rp_total = whole\<rparr>)"

datatype rewards_event =
    EraStakerPayout era_index account_id balance
  | EraPayout era_index balance balance
  | NewFiscalEra balance

record 'w rewards_state =
  RewardWorld :: 'w
  BaseInflationRate :: fixed_u128
  DevelopmentFundTake :: perbill
  TransactionFeePot :: balance
  TransactionFeePotHistory :: "balance list"
  Payee :: "account_id \<rightharpoonup> account_id"
  ScheduledPayoutAmounts :: "era_index \<Rightarrow> account_id \<rightharpoonup> balance"
  ScheduledPayoutErasAndCounts :: "(era_index \<times> u32) list"
  TargetInflationPerStakingEra :: balance
  FiscalEraEpoch :: era_index
  ForceFiscalEra :: bool
  CurrentEraRewardPoints :: era_reward_points
  RewardsStorageVersion :: u32
  RewardsEvents :: "rewards_event list"

definition rewards_deposit_event :: "rewards_event \<Rightarrow> 'w rewards_state \<Rightarrow> 'w rewards_state" where
  "rewards_deposit_event e s = s\<lparr>RewardsEvents := RewardsEvents s @ [e]\<rparr>"

section \<open>Settings\<close>

definition set_inflation_rate ::
  "'w rewards_config \<Rightarrow> origin \<Rightarrow> u64 \<Rightarrow> u64 \<Rightarrow> ('w rewards_state, unit) dispatch" where
  "set_inflation_rate T orig numerator denominator =
     bind (rooted orig) (\<lambda>_.
     bind (ensure (denominator \<noteq> 0) (Other_Error ''denominator cannot be zero'')) (\<lambda>_.
     modify (\<lambda>s. s\<lparr>BaseInflationRate := fx_saturating_from_rational T (unat numerator) (unat denominator)\<rparr>)))"

definition set_development_fund_take ::
  "'w rewards_config \<Rightarrow> origin \<Rightarrow> u32 \<Rightarrow> ('w rewards_state, unit) dispatch" where
  "set_development_fund_take T orig new_take_percent =
     bind (rooted orig) (\<lambda>_.
     modify (\<lambda>s. s\<lparr>DevelopmentFundTake := pb_from_percent (rew_perbill T) new_take_percent\<rparr>))"

definition force_new_fiscal_era :: "origin \<Rightarrow> ('w rewards_state, unit) dispatch" where
  "force_new_fiscal_era orig = bind (rooted orig) (\<lambda>_. modify (\<lambda>s. s\<lparr>ForceFiscalEra := True\<rparr>))"

section \<open>Payees and points\<close>

definition rewards_set_payee :: "account_id \<Rightarrow> account_id \<Rightarrow> 'w rewards_state \<Rightarrow> 'w rewards_state" where
  "rewards_set_payee stash p s = s\<lparr>Payee := (Payee s)(stash \<mapsto> p)\<rparr>"

definition rewards_remove_payee :: "account_id \<Rightarrow> 'w rewards_state \<Rightarrow> 'w rewards_state" where
  "rewards_remove_payee stash s = s\<lparr>Payee := (Payee s)(stash := None)\<rparr>"

definition payee :: "account_id \<Rightarrow> 'w rewards_state \<Rightarrow> account_id" where
  "payee stash s = (let p = storage_get 0 (Payee s) stash in if p = 0 then stash else p)"

definition add_points :: "account_id \<times> reward_point \<Rightarrow> era_reward_points \<Rightarrow> era_reward_points" where
  "add_points x e =
     (let (validator, points) = x
      in \<lparr>erp_total = erp_total e + points,
          erp_individual = storage_mutate 0 (\<lambda>p. p + points) validator (erp_individual e)\<rparr>)"

definition reward_by_ids :: "(account_id \<times> reward_point) list \<Rightarrow> 'w rewards_state \<Rightarrow> 'w rewards_state" where
  "reward_by_ids validators_points s =
     s\<lparr>CurrentEraRewardPoints := fold add_points validators_points (CurrentEraRewardPoints s)\<rparr>"

definition rewards_reward_notary :: "account_id \<Rightarrow> 'w rewards_state \<Rightarrow> 'w rewards_state" where
  "rewards_reward_notary notary = reward_by_ids [(notary, 8)]"

definition note_author :: "account_id \<Rightarrow> 'w rewards_state \<Rightarrow> 'w rewards_state" where
  "note_author author = reward_by_ids [(author, 20)]"

text \<open>\<open>block_author\<close> is the author of the present block, which the authorship pallet knows.\<close>

definition note_uncle :: "account_id \<Rightarrow> account_id \<Rightarrow> 'w rewards_state \<Rightarrow> 'w rewards_state" where
  "note_uncle block_author author = reward_by_ids [(block_author, 2), (author, 1)]"

section \<open>The reward of an era\<close>

definition FULL_ERA_DURATION :: u64 where "FULL_ERA_DURATION = 1000 * 3600 * 24"

definition calculate_total_reward :: "'w rewards_config \<Rightarrow> u64 \<Rightarrow> 'w rewards_state \<Rightarrow> reward_parts" where
  "calculate_total_reward T era_duration_ms s =
     (let P = rew_perbill T;
          inflation = perbill_mul P (pb_from_rational P (unat era_duration_ms) (unat FULL_ERA_DURATION))
            (TargetInflationPerStakingEra s)
      in reward_parts_new P inflation (TransactionFeePot s) (DevelopmentFundTake s))"

text \<open>What a validator is entitled to, with the shares of its nominators.\<close>

definition validator_payout :: "perbill_ops \<Rightarrow> balance \<Rightarrow> nat \<Rightarrow> era_reward_points \<Rightarrow> account_id \<Rightarrow> balance" where
  "validator_payout P stakers_cut n points validator =
     (if erp_total points = 0 then stakers_cut div ucast (word_of_nat n :: u32)
      else perbill_mul P
             (pb_from_rational P (unat (storage_get 0 (erp_individual points) validator)) (unat (erp_total points)))
             stakers_cut)"

definition calculate_per_validator_payouts ::
  "perbill_ops \<Rightarrow> balance \<Rightarrow> account_id list \<Rightarrow> era_reward_points \<Rightarrow> (account_id \<times> balance) list \<times> balance" where
  "calculate_per_validator_payouts P stakers_cut validators points =
     (let payouts = map (\<lambda>v. (v, validator_payout P stakers_cut (length validators) points v)) validators
      in (payouts, fold (\<lambda>(_, p) remainder. remainder - p) payouts stakers_cut))"

text \<open>
  The payouts to the nominators and the validator. The accounts are those of \<open>payee\<close>, except where the
  commission takes everything.
\<close>

definition calculate_npos_payouts ::
  "perbill_ops \<Rightarrow> account_id \<Rightarrow> perbill \<Rightarrow> exposure \<Rightarrow> balance \<Rightarrow> 'w rewards_state \<Rightarrow> (account_id \<times> balance) list" where
  "calculate_npos_payouts P validator commission_rate stake reward s =
     (let validator_cut = min (perbill_mul P commission_rate reward) reward;
          nominators_cut = saturating_sub reward validator_cut;
          aggregate = max (exp_total stake) 1;
          share = (\<lambda>v. perbill_mul P (pb_from_rational P (unat (v :: balance)) (unat aggregate)) nominators_cut)
      in if nominators_cut = 0 then [(validator, validator_cut)]
         else map (\<lambda>n. (payee (ie_who n) s, share (ie_value n))) (exp_others stake) @
              [(payee validator s, share (exp_own stake) + validator_cut)])"

definition calculate_payouts_filtered ::
  "'w rewards_config \<Rightarrow> (account_id \<times> perbill \<times> exposure) list \<Rightarrow> u64 \<Rightarrow> (account_id \<Rightarrow> exposure \<Rightarrow> bool) \<Rightarrow>
    'w rewards_state \<Rightarrow> balance \<times> balance \<times> (account_id \<times> balance) list" where
  "calculate_payouts_filtered T stake_map era_duration_ms ignored s =
     (let payout = calculate_total_reward T era_duration_ms s;
          P = rew_perbill T
      in if rp_total payout = 0 then (0, 0, [])
         else
           (rp_stakers_cut payout, rp_treasury_cut payout,
            concat (map (\<lambda>(validator, commission_rate, stake).
              if ignored validator stake then []
              else (let amount = validator_payout P (rp_stakers_cut payout) (length stake_map)
                          (CurrentEraRewardPoints s) validator
                    in if amount = 0 then [] else calculate_npos_payouts P validator commission_rate stake amount s))
              stake_map)))"

definition calculate_individual_reward ::
  "'w rewards_config \<Rightarrow> account_id \<Rightarrow> u64 \<Rightarrow> (account_id \<times> perbill \<times> exposure) list \<Rightarrow> 'w rewards_state \<Rightarrow> balance" where
  "calculate_individual_reward T stash era_duration_ms stake_map s =
     (let (_, _, payouts) = calculate_payouts_filtered T stake_map era_duration_ms
            (\<lambda>validator stake. stash \<noteq> validator \<and> stash \<notin> ie_who ` set (exp_others stake)) s
      in fold (\<lambda>(account, p) cut. if account = payee stash s then saturating_add cut p else cut) payouts 0)"

section \<open>Payouts\<close>

text \<open>The payments of \<open>process_reward_payout\<close>, with the imbalance they add up to.\<close>

fun pay_stakers ::
  "'w rewards_config \<Rightarrow> era_index \<Rightarrow> (account_id \<times> balance) list \<Rightarrow> positive_imbalance \<Rightarrow> 'w rewards_state \<Rightarrow>
    positive_imbalance \<times> 'w rewards_state" where
  "pay_stakers T era [] imbalance s = (imbalance, s)"
| "pay_stakers T era ((stash, amount) # rest) imbalance s =
     (case rc_deposit_creating T (payee stash s) amount (RewardWorld s) of
        (paid, w) \<Rightarrow>
          pay_stakers T era rest (positive_merge imbalance paid)
            (rewards_deposit_event (EraStakerPayout era stash amount) (s\<lparr>RewardWorld := w\<rparr>)))"

definition process_reward_payout ::
  "'w rewards_config \<Rightarrow> account_id \<Rightarrow> perbill \<Rightarrow> exposure \<Rightarrow> balance \<Rightarrow> era_index \<Rightarrow> 'w rewards_state \<Rightarrow>
    'w rewards_state" where
  "process_reward_payout T validator_stash validator_commission exposures total_payout era s =
     (if total_payout = 0 then s
      else
        (case rc_burn T 0 (RewardWorld s) of
           (nothing, w) \<Rightarrow>
             (case pay_stakers T era
                     (calculate_npos_payouts (rew_perbill T) validator_stash validator_commission exposures total_payout s)
                     nothing (s\<lparr>RewardWorld := w\<rparr>) of
                (imbalance, s1) \<Rightarrow>
                  (case rc_deposit_creating T (treasury_account T) (saturating_sub total_payout (pos_amount imbalance))
                          (RewardWorld s1) of
                     (rest, w1) \<Rightarrow> s1\<lparr>RewardWorld := rc_drop_positive T imbalance (rc_drop_positive T rest w1)\<rparr>))))"

definition run_payout ::
  "'w rewards_config \<Rightarrow> account_id \<Rightarrow> balance \<Rightarrow> era_index \<Rightarrow> 'w rewards_state \<Rightarrow> u64 \<times> 'w rewards_state" where
  "run_payout T validator_stash amount payout_era s =
     (let exposures = eras_stakers_clipped T (RewardWorld s) payout_era validator_stash;
          rate = commission (eras_validator_prefs T (RewardWorld s) payout_era validator_stash)
      in (saturating_add (rew_reads T 2) (process_reward_payouts_weight T (word_of_nat (length (exp_others exposures)))),
          process_reward_payout T validator_stash rate exposures amount payout_era s))"

definition estimate_run_payout_weight ::
  "'w rewards_config \<Rightarrow> account_id \<Rightarrow> era_index \<Rightarrow> 'w rewards_state \<Rightarrow> u64" where
  "estimate_run_payout_weight T validator_stash payout_era s =
     saturating_add
       (process_reward_payouts_weight T
          (word_of_nat (length (exp_others (eras_stakers_clipped T (RewardWorld s) payout_era validator_stash)))))
       (rew_reads T 2)"

text \<open>The loop of \<open>on_idle\<close>: the weight so far, the payouts left, and the payouts completed.\<close>

fun run_payouts ::
  "'w rewards_config \<Rightarrow> era_index \<Rightarrow> u64 \<Rightarrow> (account_id \<times> balance) list \<Rightarrow> u64 \<Rightarrow> u32 \<Rightarrow> 'w rewards_state \<Rightarrow>
    (u64 \<times> u32 \<times> account_id list) \<times> 'w rewards_state" where
  "run_payouts T era remaining [] consumed left s = ((consumed, left, []), s)"
| "run_payouts T era remaining ((stash, amount) # rest) consumed left s =
     (let consumed' = consumed + (rew_reads T 1 + rew_writes T 1);
          estimated = estimate_run_payout_weight T stash era s
      in if consumed' + estimated \<le> remaining then
           (case run_payout T stash amount era s of
              (weight, s1) \<Rightarrow>
                (case run_payouts T era remaining rest (consumed' + weight) (left - 1) s1 of
                   ((final, left', completed), s2) \<Rightarrow> ((final, left', stash # completed), s2)))
         else ((consumed', left, []), s))"

definition rewards_on_idle :: "'w rewards_config \<Rightarrow> u64 \<Rightarrow> 'w rewards_state \<Rightarrow> u64 \<times> 'w rewards_state" where
  "rewards_on_idle T remaining s =
     (let consumed = rew_reads T 1 + rew_writes T 1
      in if remaining < consumed then (consumed, s)
         else
           (case ScheduledPayoutErasAndCounts s of
              [] \<Rightarrow> (consumed, s)
            | (era, left) # later \<Rightarrow>
                (case run_payouts T era remaining
                        (map (\<lambda>v. (v, the (ScheduledPayoutAmounts s era v)))
                          (payout_order T (dom (ScheduledPayoutAmounts s era)))) consumed left s of
                   ((final, left', completed), s1) \<Rightarrow>
                     (final, s1\<lparr>ScheduledPayoutErasAndCounts := (if left' = 0 then later else (era, left') # later),
                                ScheduledPayoutAmounts := (ScheduledPayoutAmounts s1)
                                  (era := (ScheduledPayoutAmounts s1 era) |` (- set completed))\<rparr>))))"

section \<open>The end of an era\<close>

definition schedule_reward_payouts ::
  "'w rewards_config \<Rightarrow> account_id list \<Rightarrow> balance \<Rightarrow> era_index \<Rightarrow> 'w rewards_state \<Rightarrow> balance \<times> 'w rewards_state" where
  "schedule_reward_payouts T validators total_staker_payout era s =
     (case calculate_per_validator_payouts (rew_perbill T) total_staker_payout validators (CurrentEraRewardPoints s) of
        (payouts, remainder) \<Rightarrow>
          (remainder,
           s\<lparr>ScheduledPayoutAmounts := (ScheduledPayoutAmounts s)
               (era := fold (\<lambda>(stash, amount) m. m(stash \<mapsto> amount)) payouts (ScheduledPayoutAmounts s era)),
             ScheduledPayoutErasAndCounts := ScheduledPayoutErasAndCounts s @ [(era, word_of_nat (length validators))]\<rparr>))"

definition new_fiscal_era :: "'w rewards_config \<Rightarrow> 'w rewards_state \<Rightarrow> 'w rewards_state" where
  "new_fiscal_era T s =
     (let target = fx_saturating_mul_int T (BaseInflationRate s) (rc_total_issuance T (RewardWorld s));
          per_era = (case checked_div target (ucast (fiscal_era_length T)) of Some v \<Rightarrow> v | None \<Rightarrow> 0)
      in rewards_deposit_event (NewFiscalEra per_era) (s\<lparr>TargetInflationPerStakingEra := per_era\<rparr>))"

definition note_transaction_fees :: "balance \<Rightarrow> 'w rewards_state \<Rightarrow> 'w rewards_state" where
  "note_transaction_fees amount s = s\<lparr>TransactionFeePot := saturating_add (TransactionFeePot s) amount\<rparr>"

definition note_fee_payout :: "'w rewards_config \<Rightarrow> balance \<Rightarrow> 'w rewards_state \<Rightarrow> 'w rewards_state" where
  "note_fee_payout T amount s =
     s\<lparr>TransactionFeePotHistory := take (unat (historical_payout_eras T)) (amount # TransactionFeePotHistory s)\<rparr>"

definition rewards_on_end_era ::
  "'w rewards_config \<Rightarrow> account_id list \<Rightarrow> era_index \<Rightarrow> u64 \<Rightarrow> 'w rewards_state \<Rightarrow> 'w rewards_state" where
  "rewards_on_end_era T era_validator_stashes era era_duration_ms s =
     (let reward = calculate_total_reward T era_duration_ms s;
          s1 = (if ForceFiscalEra s then s\<lparr>FiscalEraEpoch := era\<rparr> else s);
          s2 = (if saturating_sub era (FiscalEraEpoch s1) mod fiscal_era_length T = 0 then new_fiscal_era T s1 else s1);
          (remainder, s3) = schedule_reward_payouts T era_validator_stashes (rp_stakers_cut reward) era s2;
          (paid, w) = rc_deposit_creating T (treasury_account T) (rp_treasury_cut reward + remainder) (RewardWorld s3);
          s4 = rewards_deposit_event (EraPayout era (rp_treasury_cut reward) (rp_stakers_cut reward))
                 (s3\<lparr>RewardWorld := rc_drop_positive T paid w\<rparr>)
      in (note_fee_payout T (rp_transaction_fees reward) s4)
           \<lparr>TransactionFeePot := 0, CurrentEraRewardPoints := era_reward_points_default, ForceFiscalEra := False\<rparr>)"

text \<open>
  \<open>DealWithFees\<close> of the runtime: of the fees and tips of a transaction, only the tips are noted.
\<close>

definition deal_with_fees :: "balance list \<Rightarrow> 'w rewards_state \<Rightarrow> 'w rewards_state" where
  "deal_with_fees fees_then_tips s =
     (case fees_then_tips of _ # tips # _ \<Rightarrow> note_transaction_fees tips s | _ \<Rightarrow> s)"

end
