(* ===== verification/Spec2Isabelle.thy ===== *)
theory Spec2Isabelle
  imports Cennzx_Props Gov_Props Nft_Props Eth_Offchain Eth_Props Peg_Props Oracle_Props Staking_Eras Rewards
begin

text \<open>
  Verification of the CENNZnet runtime modules (\<open>src/crml\<close>).

  The runtime is a set of pallets over one key-value storage. The generic-asset pallet keeps the
  balances of all fungible assets; the other pallets reach it through the \<open>MultiCurrency\<close> trait.

  \<^item> \<open>Prelude\<close>: integer types and their checked and saturating operations, storage maps, and calls,
    which return an error or a value together with the storage.
  \<^item> \<open>Errors\<close>: the errors of the pallets and the dispatch error they are turned into.
  \<^item> \<open>GA_Types\<close>, \<open>GenericAsset\<close>: types.rs, imbalances.rs and lib.rs of the generic-asset pallet.
  \<^item> \<open>GA_Accounting\<close>, \<open>GA_Reserve\<close>: what the operations do to the sum of all balances.
  \<^item> \<open>Currency_Spec\<close>, \<open>GA_Currency\<close>: the \<open>MultiCurrency\<close> interface as a locale, the currency traits of
    the pallet, and the interpretation of the locale.
  \<^item> \<open>GA_Chain\<close>, \<open>GA_Props\<close>: the states a chain reaches, and the properties of the pallet.
\<close>

end
